(* ===== verification/Prelude.thy ===== *)
theory Prelude
  imports Main "HOL-Library.Word"
begin

text \<open>
  Shared vocabulary of the development: the machine integers of the crate at their own width,
  results of fallible Rust code (a value, an error, or a panic), stateful computations whose state
  survives an error (as a mutated \<open>&mut\<close> argument does), the checked and saturating integer
  operations the crate calls, and the byte/word conversions. Lemmas used by several components are
  proved here and collected in \<open>exec_simps\<close> and \<open>sat_simps\<close>.
\<close>

named_theorems exec_simps
named_theorems sat_simps

section \<open>Integers, addresses, bytes\<close>

type_synonym u8 = "8 word"
type_synonym u64 = "64 word"
type_synonym u128 = "128 word"
type_synonym u256 = "256 word"
type_synonym usize = "64 word"
type_synonym i64 = "64 word"
type_synonym i32 = "32 word"
type_synonym address = "160 word"
type_synonym bytes = "8 word list"

section \<open>Results: a value, an error, a panic\<close>

datatype ('e, 'a) outcome = Ok 'a | Err 'e | Panic

fun obind :: "('e, 'a) outcome \<Rightarrow> ('a \<Rightarrow> ('e, 'b) outcome) \<Rightarrow> ('e, 'b) outcome" where
  "obind (Ok a) f = f a"
| "obind (Err e) f = Err e"
| "obind Panic f = Panic"

fun map_err :: "('e \<Rightarrow> 'd) \<Rightarrow> ('e, 'a) outcome \<Rightarrow> ('d, 'a) outcome" where
  "map_err f (Ok a) = Ok a"
| "map_err f (Err e) = Err (f e)"
| "map_err f Panic = Panic"

fun ok_or :: "'a option \<Rightarrow> 'e \<Rightarrow> ('e, 'a) outcome" where
  "ok_or (Some a) e = Ok a"
| "ok_or None e = Err e"

fun unwrap_or_panic :: "('e, 'a) outcome \<Rightarrow> ('d, 'a) outcome" where
  "unwrap_or_panic (Ok a) = Ok a"
| "unwrap_or_panic (Err e) = Panic"
| "unwrap_or_panic Panic = Panic"

fun or_panic :: "'a option \<Rightarrow> ('e, 'a) outcome" where
  "or_panic (Some a) = Ok a"
| "or_panic None = Panic"

definition guard_err :: "bool \<Rightarrow> 'e \<Rightarrow> ('e, unit) outcome" where
  "guard_err b e = (if b then Err e else Ok ())"

lemma obind_eq_Ok [exec_simps]: "obind m f = Ok b \<longleftrightarrow> (\<exists>a. m = Ok a \<and> f a = Ok b)"
  by (cases m) auto

lemma obind_eq_Err [exec_simps]:
  "obind m f = Err e \<longleftrightarrow> m = Err e \<or> (\<exists>a. m = Ok a \<and> f a = Err e)"
  by (cases m) auto

lemma obind_eq_Panic [exec_simps]:
  "obind m f = Panic \<longleftrightarrow> m = Panic \<or> (\<exists>a. m = Ok a \<and> f a = Panic)"
  by (cases m) auto

lemma obind_assoc: "obind (obind m f) g = obind m (\<lambda>a. obind (f a) g)"
  by (cases m) auto

lemma ok_or_eq_Ok [exec_simps]: "ok_or x e = Ok a \<longleftrightarrow> x = Some a"
  by (cases x) auto

lemma ok_or_eq_Err [exec_simps]: "ok_or x e = Err d \<longleftrightarrow> x = None \<and> d = e"
  by (cases x) auto

lemma ok_or_not_Panic [simp]: "ok_or x e \<noteq> Panic"
  by (cases x) auto

lemma map_err_eq_Ok [exec_simps]: "map_err f m = Ok a \<longleftrightarrow> m = Ok a"
  by (cases m) auto

lemma map_err_eq_Err [exec_simps]: "map_err f m = Err d \<longleftrightarrow> (\<exists>e. m = Err e \<and> d = f e)"
  by (cases m) auto

lemma map_err_eq_Panic [exec_simps]: "map_err f m = Panic \<longleftrightarrow> m = Panic"
  by (cases m) auto

lemma guard_err_eq_Ok [exec_simps]: "guard_err b e = Ok u \<longleftrightarrow> \<not> b"
  by (simp add: guard_err_def)

lemma guard_err_eq_Err [exec_simps]: "guard_err b e = Err d \<longleftrightarrow> b \<and> d = e"
  by (auto simp: guard_err_def)

lemma guard_err_not_Panic [simp]: "guard_err b e \<noteq> Panic"
  by (simp add: guard_err_def)

section \<open>Stateful computations whose state survives an error\<close>

type_synonym ('s, 'e, 'a) exec = "'s \<Rightarrow> ('e, 'a) outcome \<times> 's"

definition ret :: "'a \<Rightarrow> ('s, 'e, 'a) exec" where
  "ret a s = (Ok a, s)"

definition raise :: "'e \<Rightarrow> ('s, 'e, 'a) exec" where
  "raise e s = (Err e, s)"

definition bind :: "('s, 'e, 'a) exec \<Rightarrow> ('a \<Rightarrow> ('s, 'e, 'b) exec) \<Rightarrow> ('s, 'e, 'b) exec" where
  "bind m f s = (case m s of (Ok a, t) \<Rightarrow> f a t | (Err e, t) \<Rightarrow> (Err e, t) | (Panic, t) \<Rightarrow> (Panic, t))"

definition lift :: "('s \<Rightarrow> ('e, 'a) outcome) \<Rightarrow> ('s, 'e, 'a) exec" where
  "lift f s = (f s, s)"

definition modify :: "('s \<Rightarrow> 's) \<Rightarrow> ('s, 'e, unit) exec" where
  "modify f s = (Ok (), f s)"

definition gets :: "('s \<Rightarrow> 'a) \<Rightarrow> ('s, 'e, 'a) exec" where
  "gets f s = (Ok (f s), s)"

lemma ret_simp [simp]: "ret a s = (Ok a, s)"
  by (simp add: ret_def)

lemma raise_simp [simp]: "raise e s = (Err e, s)"
  by (simp add: raise_def)

lemma modify_simp [simp]: "modify f s = (Ok (), f s)"
  by (simp add: modify_def)

lemma gets_simp [simp]: "gets f s = (Ok (f s), s)"
  by (simp add: gets_def)

lemma lift_simp [simp]: "lift f s = (f s, s)"
  by (simp add: lift_def)

lemma bind_Ok [exec_simps]:
  "bind m f s = (Ok b, u) \<longleftrightarrow> (\<exists>a t. m s = (Ok a, t) \<and> f a t = (Ok b, u))"
  by (auto simp: bind_def split: prod.splits outcome.splits)

lemma bind_Err [exec_simps]:
  "bind m f s = (Err e, u) \<longleftrightarrow>
     m s = (Err e, u) \<or> (\<exists>a t. m s = (Ok a, t) \<and> f a t = (Err e, u))"
  by (auto simp: bind_def split: prod.splits outcome.splits)

lemma bind_Panic [exec_simps]:
  "bind m f s = (Panic, u) \<longleftrightarrow>
     m s = (Panic, u) \<or> (\<exists>a t. m s = (Ok a, t) \<and> f a t = (Panic, u))"
  by (auto simp: bind_def split: prod.splits outcome.splits)

lemma bind_eval_Ok: "m s = (Ok a, t) \<Longrightarrow> bind m f s = f a t"
  by (simp add: bind_def)

lemma bind_eval_Err: "m s = (Err e, t) \<Longrightarrow> bind m f s = (Err e, t)"
  by (simp add: bind_def)

lemma bind_eval_Panic: "m s = (Panic, t) \<Longrightarrow> bind m f s = (Panic, t)"
  by (simp add: bind_def)

lemma ret_Pair: "ret a = Pair (Ok a)"
  by (rule ext) simp

lemma bind_Pair_Ok [simp]: "bind (Pair (Ok a)) f = f a"
  by (rule ext) (simp add: bind_def)

lemma bind_ret [simp]: "bind (ret a) f = f a"
  by (simp add: ret_Pair)

lemma bind_assoc: "bind (bind m f) g = bind m (\<lambda>a. bind (f a) g)"
  by (rule ext) (auto simp: bind_def split: prod.splits outcome.splits)

text \<open>A frame rule: what every part of a computation leaves alone, the whole leaves alone.\<close>

definition preserves :: "('s \<Rightarrow> 'f) \<Rightarrow> ('s, 'e, 'a) exec \<Rightarrow> bool" where
  "preserves v m \<longleftrightarrow> (\<forall>s. v (snd (m s)) = v s)"

lemma preserves_ret [intro, simp]: "preserves v (ret a)"
  by (simp add: preserves_def)

lemma preserves_Pair [intro, simp]: "preserves v (Pair r)"
  by (simp add: preserves_def)

lemma preserves_raise [intro, simp]: "preserves v (raise e)"
  by (simp add: preserves_def)

lemma preserves_lift [intro, simp]: "preserves v (lift f)"
  by (simp add: preserves_def)

lemma preserves_gets [intro, simp]: "preserves v (gets f)"
  by (simp add: preserves_def)

lemma preserves_bind [intro]:
  assumes "preserves v m" and "\<And>a. preserves v (f a)"
  shows "preserves v (bind m f)"
  unfolding preserves_def
proof
  fix s
  show "v (snd (bind m f s)) = v s"
  proof (cases "m s")
    case (Pair r t)
    with assms(1) have "v t = v s" by (metis preserves_def snd_conv)
    with assms(2) Pair show ?thesis
      by (cases r) (auto simp: bind_def preserves_def)
  qed
qed

lemma preservesD: "preserves v m \<Longrightarrow> m s = (r, t) \<Longrightarrow> v t = v s"
  by (metis preserves_def snd_conv)

section \<open>Checked and saturating arithmetic\<close>

definition checked_add :: "'w::len word \<Rightarrow> 'w word \<Rightarrow> 'w word option" where
  "checked_add a b = (if unat a + unat b < 2 ^ LENGTH('w) then Some (a + b) else None)"

definition checked_sub :: "'w::len word \<Rightarrow> 'w word \<Rightarrow> 'w word option" where
  "checked_sub a b = (if b \<le> a then Some (a - b) else None)"

definition saturating_add :: "'w::len word \<Rightarrow> 'w word \<Rightarrow> 'w word" where
  "saturating_add a b = (if unat a + unat b < 2 ^ LENGTH('w) then a + b else - 1)"

definition saturating_mul :: "'w::len word \<Rightarrow> 'w word \<Rightarrow> 'w word" where
  "saturating_mul a b = (if unat a * unat b < 2 ^ LENGTH('w) then a * b else - 1)"

text \<open>\<open>wrapping_div\<close> of an unsigned integer never wraps; it panics on a zero divisor.\<close>

definition wrapping_div :: "'w::len word \<Rightarrow> 'w word \<Rightarrow> ('e, 'w word) outcome" where
  "wrapping_div a b = (if b = 0 then Panic else Ok (a div b))"

definition wrapping_rem :: "'w::len word \<Rightarrow> 'w word \<Rightarrow> ('e, 'w word) outcome" where
  "wrapping_rem a b = (if b = 0 then Panic else Ok (a mod b))"

text \<open>
  \<open>+\<close> on \<open>i32\<close>, and \<open>Iterator::count\<close>, which counts into a \<open>usize\<close>: no value where the exact
  result does not fit.
\<close>

definition add_i32 :: "i32 \<Rightarrow> i32 \<Rightarrow> i32 option" where
  "add_i32 a b =
     (if - (2 ^ 31) \<le> sint a + sint b \<and> sint a + sint b < 2 ^ 31 then Some (a + b) else None)"

definition iter_count :: "'a list \<Rightarrow> usize option" where
  "iter_count xs = (if length xs < 2 ^ 64 then Some (of_nat (length xs)) else None)"

lemma checked_add_Some: "checked_add a b = Some c \<Longrightarrow> unat c = unat a + unat b"
  by (auto simp: checked_add_def unat_word_ariths split: if_splits)

lemma checked_add_None:
  fixes a :: "'w::len word"
  shows "checked_add a b = None \<longleftrightarrow> 2 ^ LENGTH('w) \<le> unat a + unat b"
  by (simp add: checked_add_def not_less)

lemma checked_sub_Some: "checked_sub a b = Some c \<Longrightarrow> unat c = unat a - unat b \<and> unat b \<le> unat a"
  by (auto simp: checked_sub_def word_le_nat_alt unat_sub split: if_splits)

definition clip :: "nat \<Rightarrow> nat \<Rightarrow> nat" where
  "clip n x = min (2 ^ n - 1) x"

lemma unat_saturating_add [sat_simps]:
  fixes a b :: "'w::len word"
  shows "unat (saturating_add a b) = clip LENGTH('w) (unat a + unat b)"
  by (auto simp: saturating_add_def clip_def unat_word_ariths unsigned_minus_1_eq_mask mask_eq_exp_minus_1)

lemma unat_saturating_mul [sat_simps]:
  fixes a b :: "'w::len word"
  shows "unat (saturating_mul a b) = clip LENGTH('w) (unat a * unat b)"
  by (auto simp: saturating_mul_def clip_def unat_word_ariths unsigned_minus_1_eq_mask mask_eq_exp_minus_1)

lemma clip_le: "clip n x \<le> x"
  by (simp add: clip_def)

lemma clip_less: "x < 2 ^ n \<Longrightarrow> clip n x = x"
  by (simp add: clip_def)

lemma clip_ge: "2 ^ n \<le> x \<Longrightarrow> clip n x = 2 ^ n - 1"
  by (simp add: clip_def)

lemma clip_mono: "x \<le> y \<Longrightarrow> clip n x \<le> clip n y"
  by (auto simp: clip_def)

lemma clip_add_left [sat_simps]: "clip n (clip n x + y) = clip n (x + y)"
  by (auto simp: clip_def)

lemma clip_add_right [sat_simps]: "clip n (x + clip n y) = clip n (x + y)"
  by (auto simp: clip_def)

lemma clip_mult_left [sat_simps]: "clip n (clip n x * y) = clip n (x * y)"
proof (cases "y = 0 \<or> x \<le> 2 ^ n - 1")
  case True
  then show ?thesis by (auto simp: clip_def)
next
  case False
  then have y: "1 \<le> y" and x: "2 ^ n - 1 \<le> x" by auto
  then have "2 ^ n - 1 \<le> x * y" and "2 ^ n - 1 \<le> (2 ^ n - 1) * y"
    using mult_le_mono [OF x y] mult_le_mono2 [OF y, of "2 ^ n - 1"] by simp_all
  with x show ?thesis by (simp add: clip_def)
qed

lemma clip_mult_right [sat_simps]: "clip n (x * clip n y) = clip n (x * y)"
  using clip_mult_left [of n y x] by (simp add: mult.commute)

section \<open>Bytes and words\<close>

lemma unat_u64_u256 [simp]: "unat (ucast (n :: 64 word) :: 256 word) = unat n"
proof -
  have "unat n < 2 ^ 256" using unsigned_less [of n, where ?'a = nat] by simp
  then show ?thesis by (simp add: unsigned_ucast_eq take_bit_nat_eq_self)
qed

lemma unat_u128_u256 [simp]: "unat (ucast (p :: 128 word) :: 256 word) = unat p"
proof -
  have "unat p < 2 ^ 256" using unsigned_less [of p, where ?'a = nat] by simp
  then show ?thesis by (simp add: unsigned_ucast_eq take_bit_nat_eq_self)
qed

definition from_be_bytes :: "u8 list \<Rightarrow> 'w::len word" where
  "from_be_bytes bs = foldl (\<lambda>acc b. acc * 256 + ucast b) 0 bs"

definition to_be_bytes :: "nat \<Rightarrow> 'w::len word \<Rightarrow> u8 list" where
  "to_be_bytes n w = map (\<lambda>i. ucast (drop_bit (8 * i) w)) (rev [0..<n])"

text \<open>Writing a word big-endian and reading it back.\<close>

lemma to_be_bytes_0 [simp]: "to_be_bytes 0 w = []"
  by (simp add: to_be_bytes_def)

lemma to_be_bytes_Suc:
  "to_be_bytes (Suc n) w = ucast (drop_bit (8 * n) w) # to_be_bytes n w"
  by (simp add: to_be_bytes_def)

lemma length_to_be_bytes [simp]: "length (to_be_bytes n w) = n"
  by (simp add: to_be_bytes_def)

lemma foldl_be:
  "foldl (\<lambda>acc b. acc * 256 + ucast b) a bs =
     (a :: 'w::len word) * 256 ^ length bs + foldl (\<lambda>acc (b :: u8). acc * 256 + ucast b) 0 bs"
proof (induction bs arbitrary: a)
  case (Cons b bs)
  let ?f = "\<lambda>acc b. acc * 256 + ucast b :: 'w word"
  have "foldl ?f a (b # bs) = (a * 256 + ucast b) * 256 ^ length bs + foldl ?f 0 bs"
    using Cons.IH [of "a * 256 + ucast b"] by simp
  moreover have "foldl ?f 0 (b # bs) = ucast b * 256 ^ length bs + foldl ?f 0 bs"
    using Cons.IH [of "ucast b"] by simp
  ultimately show ?case by (simp add: distrib_right mult.assoc)
qed simp

lemma from_be_bytes_Cons:
  "from_be_bytes (b # bs) = (ucast b :: 'w::len word) * 256 ^ length bs + from_be_bytes bs"
  using foldl_be [of "ucast b" bs] by (simp add: from_be_bytes_def)

lemma from_to_be_bytes: "from_be_bytes (to_be_bytes n w) = take_bit (8 * n) (w :: 'w::len word)"
proof (induction n)
  case 0
  show ?case by (simp add: from_be_bytes_def)
next
  case (Suc n)
  have "(256 :: 'w word) ^ n = 2 ^ (8 * n)" by (simp add: power_mult)
  moreover have "(ucast (ucast (drop_bit (8 * n) w) :: u8) :: 'w word) = take_bit 8 (drop_bit (8 * n) w)"
    by (rule bit_word_eqI) (auto simp: bit_simps)
  moreover have "take_bit (8 * n + 8) w = take_bit (8 * n) w + push_bit (8 * n) (take_bit 8 (drop_bit (8 * n) w))"
    by (subst bits_ident [of "8 * n" "take_bit (8 * n + 8) w", symmetric])
      (simp add: drop_bit_take_bit take_bit_take_bit push_bit_eq_mult)
  ultimately show ?case
    by (simp add: to_be_bytes_Suc from_be_bytes_Cons Suc.IH push_bit_eq_mult algebra_simps)
qed

lemma to_be_bytes_inverse:
  "LENGTH('w::len) = 8 * n \<Longrightarrow> from_be_bytes (to_be_bytes n w) = (w :: 'w word)"
  by (simp add: from_to_be_bytes) (metis take_bit_length_eq)

lemma to_be_bytes_inject:
  "LENGTH('w::len) = 8 * n \<Longrightarrow> to_be_bytes n v = to_be_bytes n w \<longleftrightarrow> v = (w :: 'w word)"
  by (metis to_be_bytes_inverse)

text \<open>Slicing \<open>data[i..j]\<close>: out of range (or \<open>j < i\<close>) is a panic.\<close>

definition slice_range :: "nat \<Rightarrow> nat \<Rightarrow> 'a list \<Rightarrow> ('e, 'a list) outcome" where
  "slice_range i j xs = (if i \<le> j \<and> j \<le> length xs then Ok (take (j - i) (drop i xs)) else Panic)"

text \<open>Decimal printing, as \<open>core::fmt::Display\<close> of the unsigned integers does it.\<close>

fun dec :: "nat \<Rightarrow> string" where
  "dec n = (if n < 10 then [char_of (48 + n)] else dec (n div 10) @ [char_of (48 + n mod 10)])"

declare dec.simps [simp del]

end
