(* ===== verification/Hardfork.thy ===== *)
theory Hardfork
  imports Prelude
begin

text \<open>
  The hard forks of the chain (\<open>src/spec.rs\<close>): the enum \<open>ScrollSpecId\<close> with its discriminants, its
  derived order, the activation test \<open>is_enabled_in\<close>, the mapping to the Ethereum specification and
  the conversions to and from names. The locale \<open>fork_order\<close> is the interface every fork-gated
  component relies on; \<open>fork_upgrade\<close> extends it with a table that only grows from fork to fork.
\<close>

section \<open>The enum and its discriminants\<close>

datatype ScrollSpecId =
  SHANGHAI | BERNOULLI | CURIE | DARWIN | EUCLID | FEYNMAN | GALILEO | TSUKI | TSUKI_V2

fun as_u8 :: "ScrollSpecId \<Rightarrow> u8" where
  "as_u8 SHANGHAI = 1"
| "as_u8 BERNOULLI = 2"
| "as_u8 CURIE = 3"
| "as_u8 DARWIN = 4"
| "as_u8 EUCLID = 5"
| "as_u8 FEYNMAN = 6"
| "as_u8 GALILEO = 7"
| "as_u8 TSUKI = 8"
| "as_u8 TSUKI_V2 = 9"

definition default_spec :: ScrollSpecId where
  "default_spec = TSUKI_V2"

text \<open>\<open>try_from_u8\<close> is the derived \<open>n\<close>: the variant whose discriminant is the argument.\<close>

definition try_from_u8 :: "u8 \<Rightarrow> ScrollSpecId option" where
  "try_from_u8 b =
     find (\<lambda>s. as_u8 s = b)
       [SHANGHAI, BERNOULLI, CURIE, DARWIN, EUCLID, FEYNMAN, GALILEO, TSUKI, TSUKI_V2]"

definition enabled :: "ScrollSpecId \<Rightarrow> ScrollSpecId \<Rightarrow> bool" where
  "enabled our other \<longleftrightarrow> as_u8 other \<le> as_u8 our"

definition is_enabled_in :: "ScrollSpecId \<Rightarrow> ScrollSpecId \<Rightarrow> bool" where
  "is_enabled_in self other = enabled self other"

text \<open>The derived \<open>PartialOrd\<close>/\<open>Ord\<close> of a fieldless enum compares discriminants.\<close>

instantiation ScrollSpecId :: linorder
begin

definition less_eq_ScrollSpecId :: "ScrollSpecId \<Rightarrow> ScrollSpecId \<Rightarrow> bool" where
  "less_eq_ScrollSpecId a b \<longleftrightarrow> as_u8 a \<le> as_u8 b"

definition less_ScrollSpecId :: "ScrollSpecId \<Rightarrow> ScrollSpecId \<Rightarrow> bool" where
  "less_ScrollSpecId a b \<longleftrightarrow> as_u8 a < as_u8 b"

instance
proof
  fix a b :: ScrollSpecId
  show "a \<le> b \<Longrightarrow> b \<le> a \<Longrightarrow> a = b"
    by (cases a; cases b) (simp_all add: less_eq_ScrollSpecId_def word_le_nat_alt)
qed (auto simp: less_eq_ScrollSpecId_def less_ScrollSpecId_def)

end

lemma as_u8_inj: "as_u8 a = as_u8 b \<Longrightarrow> a = b"
  by (cases a; cases b) simp_all

lemma is_enabled_in_le: "is_enabled_in self other \<longleftrightarrow> other \<le> self"
  by (simp add: is_enabled_in_def enabled_def less_eq_ScrollSpecId_def)

text \<open>\<open>spec_gates\<close> evaluates activation tests between concrete forks.\<close>

lemma spec_le_rank: "(a::ScrollSpecId) \<le> b \<longleftrightarrow> unat (as_u8 a) \<le> unat (as_u8 b)"
  by (simp add: less_eq_ScrollSpecId_def word_le_nat_alt)

lemma spec_less_rank: "(a::ScrollSpecId) < b \<longleftrightarrow> unat (as_u8 a) < unat (as_u8 b)"
  by (simp add: less_ScrollSpecId_def word_less_nat_alt)

lemmas spec_gates = is_enabled_in_le spec_le_rank spec_less_rank

section \<open>The interface of fork-gated code\<close>

locale fork_order =
  fixes active :: "'f \<Rightarrow> 'f \<Rightarrow> bool"
  assumes active_refl: "active f f"
    and active_trans: "active a b \<Longrightarrow> active b c \<Longrightarrow> active a c"
    and active_total: "active a b \<or> active b a"
    and active_antisym: "active a b \<Longrightarrow> active b a \<Longrightarrow> a = b"
begin

lemma stays_active: "active later earlier \<Longrightarrow> active earlier feature \<Longrightarrow> active later feature"
  by (rule active_trans)

lemma inactive_before: "active later earlier \<Longrightarrow> \<not> active later feature \<Longrightarrow> \<not> active earlier feature"
  using stays_active by blast

lemma inactive_is_earlier: "\<not> active s feature \<Longrightarrow> active feature s"
  using active_total by blast

text \<open>The chains \<open>if !enabled(f) \<dots> else if !enabled(g) \<dots>\<close> meet the later gate only after the earlier.\<close>

lemma gate_order: "active g f \<Longrightarrow> \<not> active s f \<Longrightarrow> \<not> active s g"
  using active_trans by blast

end

locale fork_upgrade = fork_order +
  fixes installed :: "'f \<Rightarrow> 'k set"
  assumes installed_grows: "active later earlier \<Longrightarrow> installed earlier \<subseteq> installed later"
begin

lemma never_uninstalled: "active later earlier \<Longrightarrow> k \<in> installed earlier \<Longrightarrow> k \<in> installed later"
  using installed_grows by blast

lemma introduced_between:
  "k \<in> installed later \<Longrightarrow> k \<notin> installed earlier \<Longrightarrow> \<not> active earlier later"
  using installed_grows by blast

end

interpretation scroll_forks: fork_order is_enabled_in
  by unfold_locales (auto simp: is_enabled_in_le)

section \<open>The Ethereum specification a fork is built on\<close>

text \<open>
  \<open>SpecId\<close> is an enum of \<open>revm_primitives\<close>; only the variants the crate names occur here. Its
  activation test is a parameter \<open>eth_enabled\<close> of the code that uses it; what is relied on is that
  Shanghai comes after Berlin, London and the Merge and before Cancun.
\<close>

datatype SpecId = Eth_BERLIN | Eth_LONDON | Eth_MERGE | Eth_SHANGHAI | Eth_CANCUN

fun into_eth_spec_id :: "ScrollSpecId \<Rightarrow> SpecId" where
  "into_eth_spec_id SHANGHAI = Eth_SHANGHAI"
| "into_eth_spec_id BERNOULLI = Eth_SHANGHAI"
| "into_eth_spec_id CURIE = Eth_SHANGHAI"
| "into_eth_spec_id DARWIN = Eth_SHANGHAI"
| "into_eth_spec_id EUCLID = Eth_SHANGHAI"
| "into_eth_spec_id FEYNMAN = Eth_SHANGHAI"
| "into_eth_spec_id GALILEO = Eth_SHANGHAI"
| "into_eth_spec_id TSUKI = Eth_SHANGHAI"
| "into_eth_spec_id TSUKI_V2 = Eth_SHANGHAI"

definition spec_into_SpecId :: "ScrollSpecId \<Rightarrow> SpecId" where
  "spec_into_SpecId spec_id = into_eth_spec_id spec_id"

lemma spec_into_SpecId [simp]: "spec_into_SpecId s = Eth_SHANGHAI"
  by (cases s) (simp_all add: spec_into_SpecId_def)

definition eth_history :: "(SpecId \<Rightarrow> SpecId \<Rightarrow> bool) \<Rightarrow> bool" where
  "eth_history eth_enabled \<longleftrightarrow>
     eth_enabled Eth_SHANGHAI Eth_BERLIN \<and> eth_enabled Eth_SHANGHAI Eth_LONDON \<and>
     eth_enabled Eth_SHANGHAI Eth_MERGE \<and> eth_enabled Eth_SHANGHAI Eth_SHANGHAI \<and>
     \<not> eth_enabled Eth_SHANGHAI Eth_CANCUN"

section \<open>Names\<close>

text \<open>
  The name of Shanghai is re-exported from \<open>revm_primitives\<close>: it is the parameter \<open>sh\<close>. The code
  relies on it being different from the eight names of its own.
\<close>

definition name_BERNOULLI :: string where
  "name_BERNOULLI = ''bernoulli''"

definition name_CURIE :: string where
  "name_CURIE = ''curie''"

definition name_DARWIN :: string where
  "name_DARWIN = ''darwin''"

definition name_EUCLID :: string where
  "name_EUCLID = ''euclid''"

definition name_FEYNMAN :: string where
  "name_FEYNMAN = ''feynman''"

definition name_GALILEO :: string where
  "name_GALILEO = ''galileo''"

definition name_TSUKI :: string where
  "name_TSUKI = ''tsuki''"

definition name_TSUKI_V2 :: string where
  "name_TSUKI_V2 = ''tsukiV2''"

lemmas name_defs = name_BERNOULLI_def name_CURIE_def name_DARWIN_def name_EUCLID_def
  name_FEYNMAN_def name_GALILEO_def name_TSUKI_def name_TSUKI_V2_def

datatype UnknownHardfork = UnknownHardfork

definition spec_from_str :: "string \<Rightarrow> string \<Rightarrow> (UnknownHardfork, ScrollSpecId) outcome" where
  "spec_from_str sh name =
     (if name = sh then Ok SHANGHAI
      else if name = name_BERNOULLI then Ok BERNOULLI
      else if name = name_CURIE then Ok CURIE
      else if name = name_DARWIN then Ok DARWIN
      else if name = name_EUCLID then Ok EUCLID
      else if name = name_FEYNMAN then Ok FEYNMAN
      else if name = name_GALILEO then Ok GALILEO
      else if name = name_TSUKI then Ok TSUKI
      else if name = name_TSUKI_V2 then Ok TSUKI_V2
      else Err UnknownHardfork)"

fun spec_name :: "string \<Rightarrow> ScrollSpecId \<Rightarrow> string" where
  "spec_name sh SHANGHAI = sh"
| "spec_name sh BERNOULLI = name_BERNOULLI"
| "spec_name sh CURIE = name_CURIE"
| "spec_name sh DARWIN = name_DARWIN"
| "spec_name sh EUCLID = name_EUCLID"
| "spec_name sh FEYNMAN = name_FEYNMAN"
| "spec_name sh GALILEO = name_GALILEO"
| "spec_name sh TSUKI = name_TSUKI"
| "spec_name sh TSUKI_V2 = name_TSUKI_V2"

definition own_names :: "string list" where
  "own_names = [name_BERNOULLI, name_CURIE, name_DARWIN, name_EUCLID, name_FEYNMAN,
     name_GALILEO, name_TSUKI, name_TSUKI_V2]"

section \<open>Round trips\<close>

lemma try_from_u8_as_u8: "try_from_u8 (as_u8 s) = Some s"
  by (cases s) (simp_all add: try_from_u8_def)

lemma try_from_u8_Some: "try_from_u8 b = Some s \<Longrightarrow> as_u8 s = b"
  by (auto simp: try_from_u8_def split: if_splits)

text \<open>
  Discriminants: \<open>try_from_u8\<close> and \<open>as u8\<close> are inverse to each other: a byte is accepted exactly
  when it is the discriminant of a fork, and then it is that fork's discriminant.
\<close>

theorem spec_u8_roundtrip: "try_from_u8 b = Some s \<longleftrightarrow> b = as_u8 s"
  using try_from_u8_as_u8 try_from_u8_Some by blast

text \<open>
  Names: with a Shanghai name different from the crate's own, parsing accepts exactly the nine
  canonical spellings: \<open>from_str name\<close> is the fork \<open>s\<close> if and only if \<open>name\<close> is what \<open>s\<close> prints as.
\<close>

theorem spec_name_roundtrip:
  assumes "sh \<notin> set own_names"
  shows "spec_from_str sh name = Ok s \<longleftrightarrow> name = spec_name sh s"
  using assms
  by (cases s) (auto simp: spec_from_str_def own_names_def name_defs)

theorem spec_name_roundtrip_witness:
  "spec_from_str ''Shanghai'' ''tsukiV2'' = Ok TSUKI_V2 \<longleftrightarrow>
     ''tsukiV2'' = spec_name ''Shanghai'' TSUKI_V2"
  by (rule spec_name_roundtrip) (simp add: own_names_def name_defs)

end
