(* ===== verification/Config.thy ===== *)
theory Config
  imports Hardfork
begin

text \<open>
  Gas parameters per fork (\<open>src/gas.rs\<close>) and the configuration of an EVM for a fork
  (\<open>src/builder.rs\<close>). The gas table and its identifiers are \<open>revm\<close>'s: their operations are the
  record \<open>gas_table_ops\<close>, the EIP constants its fields, and \<open>gas_table\<close> the law of an override.
\<close>

section \<open>The gas table\<close>

record ('g, 'i) gas_table_ops =
  gp_new_spec :: "SpecId \<Rightarrow> 'g"
  gp_override_gas :: "'g \<Rightarrow> ('i \<times> u64) list \<Rightarrow> 'g"
  gp_get :: "'g \<Rightarrow> 'i \<Rightarrow> u64"
  tx_eip7702_per_empty_account_cost :: 'i
  tx_eip7702_auth_refund :: 'i
  tx_floor_cost_per_token :: 'i
  tx_floor_cost_base_gas :: 'i
  PER_EMPTY_ACCOUNT_COST :: u64
  PER_AUTH_BASE_COST :: u64
  TOTAL_COST_FLOOR_PER_TOKEN :: u64

locale gas_table =
  fixes G :: "('g, 'i) gas_table_ops"
  assumes override_get:
      "gp_get G (gp_override_gas G p kvs) i =
         (case map_of (rev kvs) i of Some v \<Rightarrow> v | None \<Rightarrow> gp_get G p i)"
    and ids_distinct:
      "distinct [tx_eip7702_per_empty_account_cost G, tx_eip7702_auth_refund G,
         tx_floor_cost_per_token G, tx_floor_cost_base_gas G]"

definition new_scroll_spec :: "('g, 'i) gas_table_ops \<Rightarrow> ScrollSpecId \<Rightarrow> 'g" where
  "new_scroll_spec G spec =
     (let params = gp_new_spec G (spec_into_SpecId spec);
          params =
            (if is_enabled_in spec EUCLID then
               gp_override_gas G params
                 [(tx_eip7702_per_empty_account_cost G, PER_EMPTY_ACCOUNT_COST G),
                  (tx_eip7702_auth_refund G, PER_EMPTY_ACCOUNT_COST G - PER_AUTH_BASE_COST G)]
             else params);
          params =
            (if is_enabled_in spec FEYNMAN then
               gp_override_gas G params
                 [(tx_floor_cost_per_token G, TOTAL_COST_FLOOR_PER_TOKEN G),
                  (tx_floor_cost_base_gas G, 21000)]
             else params)
      in params)"

section \<open>The configuration\<close>

text \<open>
  \<open>CfgEnv\<close>: its settings by the names of the methods that read them. \<open>tx_gas_limit_cap\<close> is the
  optional field that \<open>set_scroll_spec\<close> fills.
\<close>

record 'g cfg_env =
  cfg_spec :: ScrollSpecId
  gas_params :: 'g
  tx_gas_limit_cap :: "u64 option"
  cfg_chain_id :: u64
  tx_chain_id_check :: bool
  is_base_fee_check_disabled :: bool
  is_priority_fee_check_disabled :: bool
  is_block_gas_limit_disabled :: bool
  is_eip3607_disabled :: bool
  is_eip7623_disabled :: bool

record ('g, 'i) cfg_ops = "('g, 'i) gas_table_ops" +
  cfg_new_with_spec :: "ScrollSpecId \<Rightarrow> 'g cfg_env"
  TX_GAS_LIMIT_CAP :: u64

definition set_scroll_spec ::
  "('g, 'i) cfg_ops \<Rightarrow> ScrollSpecId \<Rightarrow> 'g cfg_env \<Rightarrow> 'g cfg_env" where
  "set_scroll_spec C spec self =
     (let self = self\<lparr>cfg_spec := spec\<rparr>;
          self = self\<lparr>gas_params := new_scroll_spec (gas_table_ops.truncate C) spec\<rparr>
      in if is_enabled_in spec TSUKI \<and> tx_gas_limit_cap self = None then
           self\<lparr>tx_gas_limit_cap := Some (TX_GAS_LIMIT_CAP C)\<rparr>
         else self)"

definition new_scroll :: "('g, 'i) cfg_ops \<Rightarrow> ScrollSpecId \<Rightarrow> 'g cfg_env" where
  "new_scroll C spec = (let cfg = cfg_new_with_spec C spec in set_scroll_spec C spec cfg)"

section \<open>Gas parameters per fork\<close>

text \<open>The value every identifier has at a fork: the specification of \<open>new_scroll_spec\<close>.\<close>

definition scroll_gas :: "('g, 'i) gas_table_ops \<Rightarrow> ScrollSpecId \<Rightarrow> 'i \<Rightarrow> u64" where
  "scroll_gas G spec i =
     (if EUCLID \<le> spec \<and> i = tx_eip7702_per_empty_account_cost G then PER_EMPTY_ACCOUNT_COST G
      else if EUCLID \<le> spec \<and> i = tx_eip7702_auth_refund G
        then PER_EMPTY_ACCOUNT_COST G - PER_AUTH_BASE_COST G
      else if FEYNMAN \<le> spec \<and> i = tx_floor_cost_per_token G then TOTAL_COST_FLOOR_PER_TOKEN G
      else if FEYNMAN \<le> spec \<and> i = tx_floor_cost_base_gas G then 21000
      else gp_get G (gp_new_spec G Eth_SHANGHAI) i)"

context gas_table begin

lemma new_scroll_spec_get: "gp_get G (new_scroll_spec G spec) i = scroll_gas G spec i"
proof -
  consider "\<not> EUCLID \<le> spec" "\<not> FEYNMAN \<le> spec" | "EUCLID \<le> spec" "\<not> FEYNMAN \<le> spec"
    | "EUCLID \<le> spec" "FEYNMAN \<le> spec"
    by (cases spec) (auto simp: spec_gates)
  then show ?thesis
    by cases
      (use ids_distinct in \<open>auto simp: new_scroll_spec_def scroll_gas_def is_enabled_in_le
         override_get Let_def\<close>)
qed

end

text \<open>
  Gas parameters per fork: Euclid and later price an authorization and its refund as EIP-7702
  does, Feynman and later the calldata floor as EIP-7623 does, and every other parameter (and these
  before their fork) is the Ethereum Shanghai one.
\<close>

theorem gas_params_per_fork:
  assumes "gas_table G"
  shows "gp_get G (new_scroll_spec G spec) i = scroll_gas G spec i"
  using gas_table.new_scroll_spec_get [OF assms] .

section \<open>Reconfiguration\<close>

lemma set_scroll_spec_simps [simp]:
  "cfg_spec (set_scroll_spec C s cfg) = s"
  "gas_params (set_scroll_spec C s cfg) = new_scroll_spec (gas_table_ops.truncate C) s"
  "tx_gas_limit_cap (set_scroll_spec C s cfg) =
     (if TSUKI \<le> s \<and> tx_gas_limit_cap cfg = None then Some (TX_GAS_LIMIT_CAP C)
      else tx_gas_limit_cap cfg)"
  "cfg_chain_id (set_scroll_spec C s cfg) = cfg_chain_id cfg"
  by (simp_all add: set_scroll_spec_def Let_def is_enabled_in_le)

text \<open>A configuration is consistent when its gas parameters are those of its fork.\<close>

definition cfg_consistent :: "('g, 'i) cfg_ops \<Rightarrow> 'g cfg_env \<Rightarrow> bool" where
  "cfg_consistent C cfg \<longleftrightarrow>
     gas_params cfg = new_scroll_spec (gas_table_ops.truncate C) (cfg_spec cfg) \<and>
     (TSUKI \<le> cfg_spec cfg \<longrightarrow> tx_gas_limit_cap cfg \<noteq> None)"

inductive reconfigured :: "('g, 'i) cfg_ops \<Rightarrow> 'g cfg_env \<Rightarrow> ScrollSpecId list \<Rightarrow> 'g cfg_env \<Rightarrow> bool"
  for C :: "('g, 'i) cfg_ops" and cfg0 :: "'g cfg_env" where
  start: "reconfigured C cfg0 [] cfg0"
| set_spec: "reconfigured C cfg0 ss cfg \<Longrightarrow> reconfigured C cfg0 (ss @ [s]) (set_scroll_spec C s cfg)"

lemma reconfigured_cap:
  "reconfigured C cfg0 ss cfg \<Longrightarrow>
     tx_gas_limit_cap cfg =
       (if tx_gas_limit_cap cfg0 = None \<and> (\<exists>s \<in> set ss. TSUKI \<le> s) then Some (TX_GAS_LIMIT_CAP C)
        else tx_gas_limit_cap cfg0)"
  by (induction rule: reconfigured.induct) auto

lemma reconfigured_consistent:
  "reconfigured C cfg0 ss cfg \<Longrightarrow> ss \<noteq> [] \<Longrightarrow> cfg_consistent C cfg \<and> cfg_spec cfg = last ss"
  by (induction rule: reconfigured.induct) (auto simp: cfg_consistent_def)

text \<open>
  C33 Reconfiguration: after any non-empty sequence of fork changes the configuration's fork is the
  last one, its gas parameters are exactly that fork's, from Tsuki on a transaction gas cap is set;
  and a cap, once set (explicitly or by Tsuki), is never changed or removed by a fork change.
\<close>

theorem reconfiguration:
  assumes "reconfigured C cfg0 ss cfg" and "ss \<noteq> []"
  shows "cfg_consistent C cfg \<and> cfg_spec cfg = last ss \<and>
    tx_gas_limit_cap cfg =
      (case tx_gas_limit_cap cfg0 of
         Some cap \<Rightarrow> Some cap
       | None \<Rightarrow> if \<exists>s \<in> set ss. TSUKI \<le> s then Some (TX_GAS_LIMIT_CAP C) else None)"
  using reconfigured_consistent [OF assms] reconfigured_cap [OF assms(1)]
  by (auto split: option.splits)

section \<open>A reference gas table\<close>

text \<open>Gas parameters as a function from identifiers; an override replaces the listed entries.\<close>

definition table_ops :: "(nat \<Rightarrow> u64, nat) gas_table_ops" where
  "table_ops =
     \<lparr>gp_new_spec = (\<lambda>_ _. 0),
      gp_override_gas = (\<lambda>p kvs i. case map_of (rev kvs) i of Some v \<Rightarrow> v | None \<Rightarrow> p i),
      gp_get = (\<lambda>p i. p i),
      tx_eip7702_per_empty_account_cost = 0, tx_eip7702_auth_refund = 1,
      tx_floor_cost_per_token = 2, tx_floor_cost_base_gas = 3,
      PER_EMPTY_ACCOUNT_COST = 25000, PER_AUTH_BASE_COST = 12500,
      TOTAL_COST_FLOOR_PER_TOKEN = 10\<rparr>"

interpretation table: gas_table table_ops
  by unfold_locales (auto simp: table_ops_def split: option.split)

definition table_cfg_ops :: "(nat \<Rightarrow> u64, nat) cfg_ops" where
  "table_cfg_ops = gas_table_ops.extend table_ops
     \<lparr>cfg_new_with_spec = (\<lambda>s.
        \<lparr>cfg_spec = s, gas_params = (\<lambda>_. 0), tx_gas_limit_cap = None, cfg_chain_id = 1,
         tx_chain_id_check = True, is_base_fee_check_disabled = False,
         is_priority_fee_check_disabled = False, is_block_gas_limit_disabled = False,
         is_eip3607_disabled = False, is_eip7623_disabled = False\<rparr>),
      TX_GAS_LIMIT_CAP = 16777216\<rparr>"

theorem gas_params_per_fork_witness:
  "gp_get table_ops (new_scroll_spec table_ops EUCLID) 1 = 12500 \<and>
   gp_get table_ops (new_scroll_spec table_ops DARWIN) 1 = 0 \<and>
   gp_get table_ops (new_scroll_spec table_ops EUCLID) 3 = 0 \<and>
   gp_get table_ops (new_scroll_spec table_ops GALILEO) 3 = 21000"
  unfolding gas_params_per_fork [OF table.gas_table_axioms]
  by (simp add: scroll_gas_def spec_gates table_ops_def)

theorem reconfiguration_witness:
  "tx_gas_limit_cap (set_scroll_spec table_cfg_ops EUCLID
     (set_scroll_spec table_cfg_ops TSUKI (cfg_new_with_spec table_cfg_ops CURIE))) = Some 16777216"
proof -
  have "reconfigured table_cfg_ops (cfg_new_with_spec table_cfg_ops CURIE) ([] @ [TSUKI] @ [EUCLID])
      (set_scroll_spec table_cfg_ops EUCLID
        (set_scroll_spec table_cfg_ops TSUKI (cfg_new_with_spec table_cfg_ops CURIE)))"
    unfolding append_assoc [symmetric]
    by (intro reconfigured.start reconfigured.set_spec)
  from reconfiguration [OF this] show ?thesis
    by (simp add: table_cfg_ops_def gas_table_ops.extend_def)
qed

end
