(* ===== verification/Transaction.thy ===== *)
theory Transaction
  imports Prelude
begin

text \<open>
  Transactions (\<open>src/transaction.rs\<close>). A \<open>ScrollTransaction\<close> wraps a base transaction (any
  implementation of \<open>revm\<close>'s \<open>Transaction\<close> trait, here the record of what its required methods
  return) and adds what the L1 fee needs. \<open>tx_ops\<close> holds the provided methods of the trait, which
  are code of \<open>revm\<close>.
\<close>

section \<open>The base transaction\<close>

datatype TxKind = Call address | Create

fun is_call :: "TxKind \<Rightarrow> bool" where
  "is_call (Call a) = True"
| "is_call Create = False"

fun is_create :: "TxKind \<Rightarrow> bool" where
  "is_create (Call a) = False"
| "is_create Create = True"

record access_list_item =
  item_address :: address
  storage_slots :: "u256 list"

record base_tx =
  base_tx_type :: u8
  base_caller :: address
  base_gas_limit :: u64
  base_value :: u256
  base_input :: bytes
  base_nonce :: u64
  base_kind :: TxKind
  base_chain_id :: "u64 option"
  base_gas_price :: u128
  base_access_list :: "access_list_item list option"
  base_blob_versioned_hashes :: "u256 list"
  base_max_fee_per_blob_gas :: u128
  base_authorization_list :: "bytes list"
  base_max_priority_fee_per_gas :: "u128 option"

section \<open>The Scroll transaction\<close>

record ScrollTransaction =
  base :: base_tx
  tx_rlp_bytes :: "bytes option"
  tx_compression_ratio :: "u256 option"
  tx_compressed_size :: "usize option"

definition L1_MESSAGE_TYPE :: u8 where
  "L1_MESSAGE_TYPE = 0x7E"

definition SYSTEM_ADDRESS :: address where
  "SYSTEM_ADDRESS = 0xfffffffffffffffffffffffffffffffffffffffe"

definition ScrollTransaction_new ::
  "base_tx \<Rightarrow> bytes option \<Rightarrow> u256 option \<Rightarrow> usize option \<Rightarrow> ScrollTransaction" where
  "ScrollTransaction_new b rlp ratio csize =
     \<lparr>base = b, tx_rlp_bytes = rlp, tx_compression_ratio = ratio, tx_compressed_size = csize\<rparr>"

text \<open>The default transaction; \<open>TxEnv::default()\<close> is \<open>revm\<close>'s and an argument.\<close>

definition ScrollTransaction_default :: "base_tx \<Rightarrow> ScrollTransaction" where
  "ScrollTransaction_default default_base =
     \<lparr>base = default_base, tx_rlp_bytes = None, tx_compression_ratio = None,
      tx_compressed_size = None\<rparr>"

section \<open>The methods of the transaction\<close>

definition tx_type :: "ScrollTransaction \<Rightarrow> u8" where
  "tx_type self = base_tx_type (base self)"

definition caller :: "ScrollTransaction \<Rightarrow> address" where
  "caller self = base_caller (base self)"

definition gas_limit :: "ScrollTransaction \<Rightarrow> u64" where
  "gas_limit self = base_gas_limit (base self)"

definition tx_value :: "ScrollTransaction \<Rightarrow> u256" where
  "tx_value self = base_value (base self)"

definition tx_input :: "ScrollTransaction \<Rightarrow> bytes" where
  "tx_input self = base_input (base self)"

definition tx_nonce :: "ScrollTransaction \<Rightarrow> u64" where
  "tx_nonce self = base_nonce (base self)"

definition kind :: "ScrollTransaction \<Rightarrow> TxKind" where
  "kind self = base_kind (base self)"

definition tx_chain_id :: "ScrollTransaction \<Rightarrow> u64 option" where
  "tx_chain_id self = base_chain_id (base self)"

definition gas_price :: "ScrollTransaction \<Rightarrow> u128" where
  "gas_price self = base_gas_price (base self)"

definition access_list :: "ScrollTransaction \<Rightarrow> access_list_item list option" where
  "access_list self = base_access_list (base self)"

definition blob_versioned_hashes :: "ScrollTransaction \<Rightarrow> u256 list" where
  "blob_versioned_hashes self = base_blob_versioned_hashes (base self)"

definition max_fee_per_blob_gas :: "ScrollTransaction \<Rightarrow> u128" where
  "max_fee_per_blob_gas self = base_max_fee_per_blob_gas (base self)"

definition authorization_list_len :: "ScrollTransaction \<Rightarrow> usize" where
  "authorization_list_len self = of_nat (length (base_authorization_list (base self)))"

definition authorization_list :: "ScrollTransaction \<Rightarrow> bytes list" where
  "authorization_list self = base_authorization_list (base self)"

definition max_priority_fee_per_gas :: "ScrollTransaction \<Rightarrow> u128 option" where
  "max_priority_fee_per_gas self = base_max_priority_fee_per_gas (base self)"

definition is_l1_msg :: "ScrollTransaction \<Rightarrow> bool" where
  "is_l1_msg self \<longleftrightarrow> tx_type self = L1_MESSAGE_TYPE"

definition is_system_tx :: "ScrollTransaction \<Rightarrow> bool" where
  "is_system_tx self \<longleftrightarrow> caller self = SYSTEM_ADDRESS"

definition rlp_bytes :: "ScrollTransaction \<Rightarrow> bytes option" where
  "rlp_bytes self = tx_rlp_bytes self"

definition compression_ratio :: "ScrollTransaction \<Rightarrow> u256 option" where
  "compression_ratio self = tx_compression_ratio self"

definition compressed_size :: "ScrollTransaction \<Rightarrow> usize option" where
  "compressed_size self = tx_compressed_size self"

text \<open>\<open>TX::new_system_tx_with_caller\<close> of the base transaction is an argument.\<close>

definition new_system_tx_with_caller ::
  "(address \<Rightarrow> address \<Rightarrow> bytes \<Rightarrow> base_tx) \<Rightarrow> address \<Rightarrow> address \<Rightarrow> bytes \<Rightarrow> ScrollTransaction" where
  "new_system_tx_with_caller new_base from system_contract_address data =
     ScrollTransaction_new (new_base from system_contract_address data) None None None"

text \<open>A transaction pays the L1 fee unless it is an L1 message or a system transaction.\<close>

abbreviation fee_charged :: "ScrollTransaction \<Rightarrow> bool" where
  "fee_charged t \<equiv> \<not> is_l1_msg t \<and> \<not> is_system_tx t"

lemma system_call_tx:
  assumes "base_caller (new_base SYSTEM_ADDRESS a d) = SYSTEM_ADDRESS"
  shows "is_system_tx (new_system_tx_with_caller new_base SYSTEM_ADDRESS a d)"
    and "rlp_bytes (new_system_tx_with_caller new_base SYSTEM_ADDRESS a d) = None"
  using assms
  by (simp_all add: is_system_tx_def new_system_tx_with_caller_def ScrollTransaction_new_def
      caller_def rlp_bytes_def)

section \<open>Provided methods of the base trait\<close>

text \<open>Errors of transaction validation: the variants this crate raises, and the others of \<open>revm\<close>.\<close>

datatype InvalidTransaction =
  InvalidChainId
| MissingChainId
| TxGasLimitGreaterThanCap u64 u64
| Eip2930NotSupported
| Eip1559NotSupported
| Eip4844NotSupported
| Eip7702NotSupported
| EmptyAuthorizationList
| InvalidStr string
| CallerGasLimitMoreThanBlock
| CreateInitCodeSizeLimit
| CallGasCostMoreThanGasLimit u64 u64
| GasFloorMoreThanGasLimit u64 u64
| LackOfFundForMaxFee u256 u256
| OverflowPaymentInTransaction
| RejectCallerWithCode
| NonceTooHigh u64 u64
| NonceTooLow u64 u64
| OtherInvalid string

record tx_ops =
  max_fee_per_gas :: "ScrollTransaction \<Rightarrow> u128"
  effective_gas_price :: "ScrollTransaction \<Rightarrow> u128 \<Rightarrow> u128"
  max_balance_spending :: "ScrollTransaction \<Rightarrow> (InvalidTransaction, u256) outcome"

end
