(* ===== verification/Journal.thy ===== *)
theory Journal
  imports Prelude
begin

text \<open>
  The journal of the EVM context is code of \<open>revm\<close> (\<open>JournalTr\<close>, \<open>JournalExt\<close>,
  \<open>JournaledAccountTr\<close>). The crate's definitions take its operations as one record argument,
  \<open>journal_ops\<close>: the journal state has the abstract type \<open>'j\<close>, a database error the abstract
  type \<open>'e\<close>. The locale \<open>journal\<close> states the documented behaviour the crate relies on, as a
  contract over two views of the state: the balance and the nonce every address currently has
  (journaled if it is loaded, from the database otherwise).
\<close>

section \<open>Data the crate reads from journaled accounts\<close>

record storage_slot =
  present_value :: u256

record account_view =
  account_storage :: "u256 \<Rightarrow> storage_slot option"

record bytecode =
  code_is_empty :: bool
  code_is_eip7702 :: bool

section \<open>The operations\<close>

text \<open>
  \<open>load_account_mut\<close> and \<open>load_account_with_code_mut\<close> return a mutable handle in Rust; here they
  only load, and the handle's methods are operations on the journal at the loaded address.
\<close>

record ('j, 'e) journal_ops =
  evm_state :: "'j \<Rightarrow> address \<Rightarrow> account_view option"
  db_storage :: "address \<Rightarrow> u256 \<Rightarrow> ('j, 'e, u256) exec"
  load_account_mut :: "address \<Rightarrow> ('j, 'e, unit) exec"
  load_account_with_code_mut :: "address \<Rightarrow> ('j, 'e, unit) exec"
  acc_balance :: "'j \<Rightarrow> address \<Rightarrow> u256"
  acc_nonce :: "'j \<Rightarrow> address \<Rightarrow> u64"
  acc_code :: "'j \<Rightarrow> address \<Rightarrow> bytecode option"
  decr_balance :: "address \<Rightarrow> u256 \<Rightarrow> 'j \<Rightarrow> bool \<times> 'j"
  bump_nonce :: "address \<Rightarrow> 'j \<Rightarrow> bool \<times> 'j"
  touch :: "address \<Rightarrow> 'j \<Rightarrow> 'j"
  balance_incr :: "address \<Rightarrow> u256 \<Rightarrow> ('j, 'e, unit) exec"

section \<open>What the crate relies on\<close>

locale journal =
  fixes J :: "('j, 'e) journal_ops"
  assumes db_storage_state: "preserves (evm_state J) (db_storage J a k)"
    and db_storage_balance: "preserves (acc_balance J) (db_storage J a k)"
    and db_storage_nonce: "preserves (acc_nonce J) (db_storage J a k)"
    and load_balance: "preserves (acc_balance J) (load_account_mut J a)"
    and load_nonce: "preserves (acc_nonce J) (load_account_mut J a)"
    and load_code_balance: "preserves (acc_balance J) (load_account_with_code_mut J a)"
    and load_code_nonce: "preserves (acc_nonce J) (load_account_with_code_mut J a)"
    and decr_balance_enough:
      "v \<le> acc_balance J j a \<Longrightarrow>
         acc_balance J (snd (decr_balance J a v j)) =
           (acc_balance J j)(a := acc_balance J j a - v)"
    and decr_balance_short:
      "\<not> v \<le> acc_balance J j a \<Longrightarrow>
         acc_balance J (snd (decr_balance J a v j)) = acc_balance J j"
    and decr_balance_nonce: "acc_nonce J (snd (decr_balance J a v j)) = acc_nonce J j"
    and bump_nonce_balance: "acc_balance J (snd (bump_nonce J a j)) = acc_balance J j"
    and bump_nonce_other: "b \<noteq> a \<Longrightarrow> acc_nonce J (snd (bump_nonce J a j)) b = acc_nonce J j b"
    and bump_nonce_room:
      "acc_nonce J j a \<noteq> - 1 \<Longrightarrow> acc_nonce J (snd (bump_nonce J a j)) a = acc_nonce J j a + 1"
    and touch_balance: "acc_balance J (touch J a j) = acc_balance J j"
    and touch_nonce: "acc_nonce J (touch J a j) = acc_nonce J j"
    and balance_incr_room:
      "balance_incr J a v j = (Ok (), j') \<Longrightarrow>
         unat (acc_balance J j a) + unat v < 2 ^ 256 \<Longrightarrow>
         acc_balance J j' = (acc_balance J j)(a := acc_balance J j a + v)"
begin

lemmas load_views =
  load_balance [THEN preservesD] load_nonce [THEN preservesD]
  load_code_balance [THEN preservesD] load_code_nonce [THEN preservesD]

lemma decr_balance_unat:
  "v \<le> acc_balance J j a \<Longrightarrow>
     unat (acc_balance J (snd (decr_balance J a v j)) a) = unat (acc_balance J j a) - unat v"
  by (simp add: decr_balance_enough unat_sub)

lemma decr_balance_other:
  "b \<noteq> a \<Longrightarrow> acc_balance J (snd (decr_balance J a v j)) b = acc_balance J j b"
  by (cases "v \<le> acc_balance J j a") (simp_all add: decr_balance_enough decr_balance_short)

end

end
