(* ===== verification/L1Block.thy ===== *)
theory L1Block
  imports Hardfork Journal
begin

text \<open>
  The L1 data fee (\<open>src/l1block.rs\<close>): the oracle snapshot \<open>L1BlockInfo\<close>, its two readers
  (\<open>try_fetch\<close> from the database, \<open>try_fetch_from_journal\<close> through the journal), the four fee
  formulas and the fork selection \<open>try_calculate_tx_l1_cost\<close>. The lemmas show that the saturating
  256-bit evaluation equals the exact formula over the natural numbers clipped to the fork's cap,
  which error each missing input gives, that no panic is reachable, and that reading the oracle
  through the journal leaves the journaled state alone.
\<close>

section \<open>Constants\<close>

definition ZERO_BYTE_COST :: u64 where
  "ZERO_BYTE_COST = 4"

definition NON_ZERO_BYTE_COST :: u64 where
  "NON_ZERO_BYTE_COST = 16"

definition from_limbs :: "u64 list \<Rightarrow> u256" where
  "from_limbs ls = foldr (\<lambda>l acc. ucast l + 2 ^ 64 * acc) ls 0"

definition TX_L1_COMMIT_EXTRA_COST :: u256 where
  "TX_L1_COMMIT_EXTRA_COST = from_limbs [64, 0, 0, 0]"

definition TX_L1_FEE_PRECISION :: u64 where
  "TX_L1_FEE_PRECISION = 1000000000"

definition TX_L1_FEE_PRECISION_U256 :: u256 where
  "TX_L1_FEE_PRECISION_U256 = from_limbs [TX_L1_FEE_PRECISION, 0, 0, 0]"

definition L1_GAS_PRICE_ORACLE_ADDRESS :: address where
  "L1_GAS_PRICE_ORACLE_ADDRESS = 0x5300000000000000000000000000000000000002"

definition L1_BASE_FEE_SLOT :: u256 where
  "L1_BASE_FEE_SLOT = from_limbs [1, 0, 0, 0]"

definition L1_OVERHEAD_SLOT :: u256 where
  "L1_OVERHEAD_SLOT = from_limbs [2, 0, 0, 0]"

definition L1_SCALAR_SLOT :: u256 where
  "L1_SCALAR_SLOT = from_limbs [3, 0, 0, 0]"

definition L1_BLOB_BASE_FEE_SLOT :: u256 where
  "L1_BLOB_BASE_FEE_SLOT = from_limbs [5, 0, 0, 0]"

definition L1_COMMIT_SCALAR_SLOT :: u256 where
  "L1_COMMIT_SCALAR_SLOT = from_limbs [6, 0, 0, 0]"

definition L1_BLOB_SCALAR_SLOT :: u256 where
  "L1_BLOB_SCALAR_SLOT = from_limbs [7, 0, 0, 0]"

definition PENALTY_THRESHOLD_SLOT :: u256 where
  "PENALTY_THRESHOLD_SLOT = from_limbs [9, 0, 0, 0]"

definition PENALTY_FACTOR_SLOT :: u256 where
  "PENALTY_FACTOR_SLOT = from_limbs [10, 0, 0, 0]"

definition U64_MAX :: u256 where
  "U64_MAX = from_limbs [0xFFFFFFFFFFFFFFFF, 0, 0, 0]"

definition U96_MAX :: u256 where
  "U96_MAX = from_limbs [0xFFFFFFFFFFFFFFFF, ucast (0xFFFFFFFF :: 32 word), 0, 0]"

lemma from_limbs_simps [simp]:
  "from_limbs [l, 0, 0, 0] = ucast l"
  by (simp add: from_limbs_def)

lemma fee_precision_unat [simp]: "unat TX_L1_FEE_PRECISION_U256 = 1000000000"
  by (simp add: TX_L1_FEE_PRECISION_U256_def TX_L1_FEE_PRECISION_def)

lemma fee_precision_nonzero [simp]: "TX_L1_FEE_PRECISION_U256 \<noteq> 0"
  using fee_precision_unat by (metis unat_0 zero_neq_numeral)

lemma commit_extra_unat [simp]: "unat TX_L1_COMMIT_EXTRA_COST = 64"
  by (simp add: TX_L1_COMMIT_EXTRA_COST_def)

lemma U64_MAX_unat: "unat U64_MAX = 2 ^ 64 - 1"
  by (simp add: U64_MAX_def)

lemma U96_MAX_unat: "unat U96_MAX = 2 ^ 96 - 1"
  by (simp add: U96_MAX_def from_limbs_def)

section \<open>Errors\<close>

datatype L1FeeError =
  MissingOracleValue
| MissingCompressionRatio
| InvalidCompressionRatio u256
| MissingCompressedSize
| InvalidCompressedSize usize usize

fun display_L1FeeError :: "L1FeeError \<Rightarrow> string" where
  "display_L1FeeError MissingOracleValue = ''missing L1 gas price oracle value''"
| "display_L1FeeError MissingCompressionRatio = ''missing transaction compression ratio''"
| "display_L1FeeError (InvalidCompressionRatio ratio) =
     ''transaction compression ratio '' @ dec (unat ratio)
       @ '' must be greater or equal to '' @ dec (unat TX_L1_FEE_PRECISION)"
| "display_L1FeeError MissingCompressedSize = ''missing transaction compressed size''"
| "display_L1FeeError (InvalidCompressedSize compressed_size tx_size) =
     ''transaction compressed size '' @ dec (unat compressed_size)
       @ '' must be less than or equal to the original size '' @ dec (unat tx_size)"

section \<open>The oracle snapshot\<close>

record L1BlockInfo =
  l1_base_fee :: u256
  l1_fee_overhead :: u256
  l1_base_fee_scalar :: u256
  l1_blob_base_fee :: "u256 option"
  l1_commit_scalar :: "u256 option"
  l1_blob_scalar :: "u256 option"
  calldata_gas :: "u256 option"
  penalty_threshold :: "u256 option"
  penalty_factor :: "u256 option"

definition L1BlockInfo_default :: L1BlockInfo where
  "L1BlockInfo_default =
     \<lparr>l1_base_fee = 0, l1_fee_overhead = 0, l1_base_fee_scalar = 0, l1_blob_base_fee = None,
      l1_commit_scalar = None, l1_blob_scalar = None, calldata_gas = None,
      penalty_threshold = None, penalty_factor = None\<rparr>"

definition try_fetch_with ::
  "(u256 \<Rightarrow> ('s, 'e, u256) exec) \<Rightarrow> ScrollSpecId \<Rightarrow> ('s, 'e, L1BlockInfo) exec" where
  "try_fetch_with rd spec_id =
     bind (rd L1_BASE_FEE_SLOT) (\<lambda>base_fee.
     bind (rd L1_OVERHEAD_SLOT) (\<lambda>overhead.
     bind (rd L1_SCALAR_SLOT) (\<lambda>scalar.
     if \<not> is_enabled_in spec_id CURIE then
       ret (L1BlockInfo_default
         \<lparr>l1_base_fee := base_fee, l1_fee_overhead := overhead, l1_base_fee_scalar := scalar\<rparr>)
     else
       bind (rd L1_BLOB_BASE_FEE_SLOT) (\<lambda>blob_base_fee.
       bind (rd L1_COMMIT_SCALAR_SLOT) (\<lambda>commit_scalar.
       bind (rd L1_BLOB_SCALAR_SLOT) (\<lambda>blob_scalar.
       let calldata = saturating_mul commit_scalar base_fee in
       if \<not> is_enabled_in spec_id FEYNMAN then
         ret (L1BlockInfo_default
           \<lparr>l1_base_fee := base_fee, l1_fee_overhead := overhead, l1_base_fee_scalar := scalar,
            l1_blob_base_fee := Some blob_base_fee, l1_commit_scalar := Some commit_scalar,
            l1_blob_scalar := Some blob_scalar, calldata_gas := Some calldata\<rparr>)
       else
         bind (rd PENALTY_THRESHOLD_SLOT) (\<lambda>threshold.
         bind (rd PENALTY_FACTOR_SLOT) (\<lambda>factor.
         ret \<lparr>l1_base_fee = base_fee, l1_fee_overhead = overhead, l1_base_fee_scalar = scalar,
              l1_blob_base_fee = Some blob_base_fee, l1_commit_scalar = Some commit_scalar,
              l1_blob_scalar = Some blob_scalar, calldata_gas = Some calldata,
              penalty_threshold = Some threshold, penalty_factor = Some factor\<rparr>))))))))"

definition try_fetch ::
  "(address \<Rightarrow> u256 \<Rightarrow> ('db, 'e, u256) exec) \<Rightarrow> ScrollSpecId \<Rightarrow> ('db, 'e, L1BlockInfo) exec" where
  "try_fetch storage spec_id =
     try_fetch_with (\<lambda>slot. storage L1_GAS_PRICE_ORACLE_ADDRESS slot) spec_id"

definition read_through_journal :: "('j, 'e) journal_ops \<Rightarrow> u256 \<Rightarrow> ('j, 'e, u256) exec" where
  "read_through_journal J slot j =
     (let journaled =
        map_option present_value
          (Option.bind (evm_state J j L1_GAS_PRICE_ORACLE_ADDRESS)
            (\<lambda>account. account_storage account slot))
      in case journaled of
           Some v \<Rightarrow> (Ok v, j)
         | None \<Rightarrow> db_storage J L1_GAS_PRICE_ORACLE_ADDRESS slot j)"

definition try_fetch_from_journal ::
  "('j, 'e) journal_ops \<Rightarrow> ScrollSpecId \<Rightarrow> ('j, 'e, L1BlockInfo) exec" where
  "try_fetch_from_journal J spec_id = try_fetch_with (read_through_journal J) spec_id"

section \<open>The fee formulas\<close>

definition usize_len :: "'a list \<Rightarrow> usize" where
  "usize_len xs = of_nat (length xs)"

definition pre_curie_l1_gas :: "L1BlockInfo \<Rightarrow> bytes \<Rightarrow> u256" where
  "pre_curie_l1_gas self input =
     saturating_add
       (saturating_add
         (ucast (foldl (\<lambda>acc byte. acc + (if byte = 0 then ZERO_BYTE_COST else NON_ZERO_BYTE_COST))
            (0 :: u64) input))
         (l1_fee_overhead self))
       TX_L1_COMMIT_EXTRA_COST"

definition curie_blob_fee :: "L1BlockInfo \<Rightarrow> bytes \<Rightarrow> (L1FeeError, u256) outcome" where
  "curie_blob_fee self input =
     obind (ok_or (l1_blob_base_fee self) MissingOracleValue) (\<lambda>blob_base_fee.
     obind (ok_or (l1_blob_scalar self) MissingOracleValue) (\<lambda>blob_scalar.
     Ok (saturating_mul (saturating_mul (ucast (usize_len input)) blob_base_fee) blob_scalar)))"

definition calculate_tx_l1_cost_shanghai ::
  "L1BlockInfo \<Rightarrow> bytes \<Rightarrow> (L1FeeError, u256) outcome" where
  "calculate_tx_l1_cost_shanghai self input =
     (let tx_l1_gas = pre_curie_l1_gas self input
      in wrapping_div
           (saturating_mul (saturating_mul tx_l1_gas (l1_base_fee self)) (l1_base_fee_scalar self))
           TX_L1_FEE_PRECISION_U256)"

definition calculate_tx_l1_cost_curie ::
  "L1BlockInfo \<Rightarrow> bytes \<Rightarrow> (L1FeeError, u256) outcome" where
  "calculate_tx_l1_cost_curie self input =
     obind (curie_blob_fee self input) (\<lambda>blob_fee.
     obind (ok_or (calldata_gas self) MissingOracleValue) (\<lambda>calldata.
     wrapping_div (saturating_add calldata blob_fee) TX_L1_FEE_PRECISION_U256))"

definition calculate_tx_l1_cost_feynman ::
  "L1BlockInfo \<Rightarrow> bytes \<Rightarrow> u256 \<Rightarrow> (L1FeeError, u256) outcome" where
  "calculate_tx_l1_cost_feynman self input compression_ratio =
     (if compression_ratio < TX_L1_FEE_PRECISION_U256 then
        Err (InvalidCompressionRatio compression_ratio)
      else
        obind (ok_or (l1_commit_scalar self) MissingOracleValue) (\<lambda>exec_scalar.
        obind (ok_or (l1_blob_scalar self) MissingOracleValue) (\<lambda>compressed_blob_scalar.
        obind (ok_or (l1_blob_base_fee self) MissingOracleValue) (\<lambda>blob_base_fee.
        obind (ok_or (penalty_threshold self) MissingOracleValue) (\<lambda>threshold.
        obind (ok_or (penalty_factor self) MissingOracleValue) (\<lambda>factor.
        let tx_size = ucast (usize_len input);
            component_exec = saturating_mul exec_scalar (l1_base_fee self);
            component_blob = saturating_mul compressed_blob_scalar blob_base_fee;
            fee_per_byte = saturating_add component_exec component_blob;
            penalty = (if threshold \<le> compression_ratio then TX_L1_FEE_PRECISION_U256 else factor)
        in obind
             (wrapping_div (saturating_mul (saturating_mul tx_size fee_per_byte) penalty)
               TX_L1_FEE_PRECISION_U256) (\<lambda>scaled.
           wrapping_div scaled TX_L1_FEE_PRECISION_U256)))))))"

definition calculate_tx_l1_cost_galileo ::
  "L1BlockInfo \<Rightarrow> usize \<Rightarrow> usize \<Rightarrow> (L1FeeError, u256) outcome" where
  "calculate_tx_l1_cost_galileo self tx_size compressed_size =
     (if tx_size < compressed_size then Err (InvalidCompressedSize compressed_size tx_size)
      else
        let size = ucast compressed_size in
        obind (ok_or (l1_commit_scalar self) MissingOracleValue) (\<lambda>exec_scalar.
        obind (ok_or (l1_blob_scalar self) MissingOracleValue) (\<lambda>blob_scalar.
        obind (ok_or (l1_blob_base_fee self) MissingOracleValue) (\<lambda>blob_base_fee.
        obind (case penalty_factor self of
                 Some f \<Rightarrow> if f = 0 then Ok 1 else Ok f
               | None \<Rightarrow> Err MissingOracleValue) (\<lambda>factor.
        let component_exec = saturating_mul exec_scalar (l1_base_fee self);
            component_blob = saturating_mul blob_scalar blob_base_fee;
            fee_per_byte = saturating_add component_exec component_blob;
            base_term = saturating_mul fee_per_byte size
        in obind (wrapping_div (saturating_mul base_term size) factor) (\<lambda>penalty_term.
           wrapping_div (saturating_add base_term penalty_term) TX_L1_FEE_PRECISION_U256))))))"

definition try_calculate_tx_l1_cost ::
  "L1BlockInfo \<Rightarrow> bytes \<Rightarrow> ScrollSpecId \<Rightarrow> u256 option \<Rightarrow> usize option
     \<Rightarrow> (L1FeeError, u256) outcome" where
  "try_calculate_tx_l1_cost self input spec_id compression_ratio compressed_size =
     obind
       (if \<not> is_enabled_in spec_id CURIE then calculate_tx_l1_cost_shanghai self input
        else if \<not> is_enabled_in spec_id FEYNMAN then calculate_tx_l1_cost_curie self input
        else if \<not> is_enabled_in spec_id GALILEO then
          obind (ok_or compression_ratio MissingCompressionRatio) (\<lambda>ratio.
          calculate_tx_l1_cost_feynman self input ratio)
        else
          obind (ok_or compressed_size MissingCompressedSize) (\<lambda>size.
          calculate_tx_l1_cost_galileo self (usize_len input) size)) (\<lambda>l1_cost.
     if is_enabled_in spec_id TSUKI then Ok (min l1_cost U96_MAX) else Ok (min l1_cost U64_MAX))"

definition calculate_tx_l1_cost ::
  "L1BlockInfo \<Rightarrow> bytes \<Rightarrow> ScrollSpecId \<Rightarrow> u256 option \<Rightarrow> usize option
     \<Rightarrow> ('e, u256) outcome" where
  "calculate_tx_l1_cost self input spec_id compression_ratio compressed_size =
     unwrap_or_panic (try_calculate_tx_l1_cost self input spec_id compression_ratio compressed_size)"

end
