(* ===== verification/L1FeeSpec.thy ===== *)
theory L1FeeSpec
  imports L1Block
begin

text \<open>
  What the L1 fee promises: the exact formula of every fork over the natural numbers, the cap on the
  result, and the theorem that the crate's saturating 256-bit evaluation computes exactly
  \<open>min cap (formula)\<close>: saturation is never observable. From it follow the bounds and the
  monotonicity of the fee. The error cases, the absence of panics and the reads of the oracle are
  characterised as well.
\<close>

section \<open>Specification\<close>

fun val :: "u256 option \<Rightarrow> nat" where
  "val None = 0"
| "val (Some w) = unat w"

definition calldata_cost :: "bytes \<Rightarrow> nat" where
  "calldata_cost input = sum_list (map (\<lambda>b. if b = 0 then 4 else 16) input)"

definition fee_per_byte_spec :: "L1BlockInfo \<Rightarrow> nat" where
  "fee_per_byte_spec info =
     val (l1_commit_scalar info) * unat (l1_base_fee info)
     + val (l1_blob_scalar info) * val (l1_blob_base_fee info)"

definition exact_shanghai :: "L1BlockInfo \<Rightarrow> bytes \<Rightarrow> nat" where
  "exact_shanghai info input =
     (calldata_cost input + unat (l1_fee_overhead info) + 64)
       * unat (l1_base_fee info) * unat (l1_base_fee_scalar info) div 1000000000"

definition exact_curie :: "L1BlockInfo \<Rightarrow> nat \<Rightarrow> nat" where
  "exact_curie info n =
     (val (calldata_gas info) + n * val (l1_blob_base_fee info) * val (l1_blob_scalar info))
       div 1000000000"

definition exact_feynman :: "L1BlockInfo \<Rightarrow> nat \<Rightarrow> nat \<Rightarrow> nat" where
  "exact_feynman info n ratio =
     n * fee_per_byte_spec info
       * (if val (penalty_threshold info) \<le> ratio then 1000000000 else val (penalty_factor info))
       div 1000000000 div 1000000000"

definition exact_galileo :: "L1BlockInfo \<Rightarrow> nat \<Rightarrow> nat" where
  "exact_galileo info n =
     (let base = fee_per_byte_spec info * n
      in (base + base * n div max 1 (val (penalty_factor info))) div 1000000000)"

definition exact_fee ::
  "L1BlockInfo \<Rightarrow> bytes \<Rightarrow> ScrollSpecId \<Rightarrow> u256 option \<Rightarrow> usize option \<Rightarrow> nat" where
  "exact_fee info input spec ratio csize =
     (if \<not> is_enabled_in spec CURIE then exact_shanghai info input
      else if \<not> is_enabled_in spec FEYNMAN then exact_curie info (length input)
      else if \<not> is_enabled_in spec GALILEO then exact_feynman info (length input) (val ratio)
      else exact_galileo info (case csize of None \<Rightarrow> 0 | Some n \<Rightarrow> unat n))"

definition fee_cap :: "ScrollSpecId \<Rightarrow> nat" where
  "fee_cap spec = (if is_enabled_in spec TSUKI then 2 ^ 96 - 1 else 2 ^ 64 - 1)"

lemma fee_cap_le: "fee_cap spec \<le> 2 ^ 96 - 1"
  by (simp add: fee_cap_def)

section \<open>Saturation under a cap\<close>

lemma min_clip_div:
  assumes "cap \<le> (2 ^ n - 1) div d"
  shows "min cap (clip n x div d) = min cap (x div d)"
proof (cases "x \<le> 2 ^ n - 1")
  case True
  then show ?thesis by (simp add: clip_def)
next
  case False
  then have "(2 ^ n - 1) div d \<le> x div d" by (intro div_le_mono) simp
  with assms False show ?thesis by (simp add: clip_def)
qed

lemma unat_min_word: "unat (min a b) = min (unat a) (unat b)"
  by (simp add: min_def word_le_nat_alt)

lemma cap_le_div:
  "fee_cap spec \<le> (2 ^ 256 - 1) div 1000000000"
  "fee_cap spec \<le> (2 ^ 256 - 1) div 1000000000 div 1000000000"
  by (simp_all add: fee_cap_def)

lemma unat_usize_len: "length xs < 2 ^ 64 \<Longrightarrow> unat (usize_len xs) = length xs"
  by (simp add: usize_len_def unsigned_of_nat take_bit_nat_eq_self)

section \<open>The four formulas\<close>

lemma calldata_cost_bound: "calldata_cost input \<le> 16 * length input"
  by (induction input) (auto simp: calldata_cost_def)

lemma fold_byte_cost:
  assumes "unat acc + calldata_cost input < 2 ^ 64"
  shows "unat (foldl (\<lambda>acc byte. acc + (if byte = 0 then ZERO_BYTE_COST else NON_ZERO_BYTE_COST))
           (acc :: u64) input) = unat acc + calldata_cost input"
  using assms
proof (induction input arbitrary: acc)
  case Nil
  then show ?case by (simp add: calldata_cost_def)
next
  case (Cons b bs)
  let ?acc = "acc + (if b = 0 then ZERO_BYTE_COST else NON_ZERO_BYTE_COST)"
  have c: "calldata_cost (b # bs) = (if b = 0 then 4 else 16) + calldata_cost bs"
    by (simp add: calldata_cost_def)
  have acc: "unat ?acc = unat acc + (if b = 0 then 4 else 16)"
    using Cons.prems c
    by (simp add: unat_word_ariths ZERO_BYTE_COST_def NON_ZERO_BYTE_COST_def split: if_splits)
  with Cons.prems c have "unat ?acc + calldata_cost bs < 2 ^ 64" by simp
  from Cons.IH [OF this] acc c show ?case by simp
qed

lemma pre_curie_l1_gas_exact:
  assumes "length input < 2 ^ 60"
  shows "unat (pre_curie_l1_gas info input) =
    clip 256 (calldata_cost input + unat (l1_fee_overhead info) + 64)"
proof -
  have "calldata_cost input < 2 ^ 64"
    using calldata_cost_bound [of input] assms by simp
  then show ?thesis
    using fold_byte_cost [of 0 input]
    by (simp add: pre_curie_l1_gas_def sat_simps)
qed

lemma shanghai_exact:
  assumes "length input < 2 ^ 60" and "calculate_tx_l1_cost_shanghai info input = Ok c"
  shows "min (fee_cap spec) (unat c) = min (fee_cap spec) (exact_shanghai info input)"
proof -
  have "unat c = clip 256 ((calldata_cost input + unat (l1_fee_overhead info) + 64)
      * unat (l1_base_fee info) * unat (l1_base_fee_scalar info)) div 1000000000"
    using assms
    by (auto simp: calculate_tx_l1_cost_shanghai_def wrapping_div_def Let_def unat_div
        pre_curie_l1_gas_exact sat_simps)
  then show ?thesis
    by (simp only: exact_shanghai_def min_clip_div [OF cap_le_div(1)])
qed

lemma curie_exact:
  assumes "length input < 2 ^ 64" and "calculate_tx_l1_cost_curie info input = Ok c"
  shows "min (fee_cap spec) (unat c) = min (fee_cap spec) (exact_curie info (length input))"
proof -
  have "unat c = clip 256 (val (calldata_gas info)
      + length input * val (l1_blob_base_fee info) * val (l1_blob_scalar info)) div 1000000000"
    using assms
    by (auto simp: calculate_tx_l1_cost_curie_def curie_blob_fee_def exec_simps wrapping_div_def
        unat_div unat_usize_len sat_simps)
  then show ?thesis
    by (simp only: exact_curie_def min_clip_div [OF cap_le_div(1)])
qed

lemma feynman_exact:
  assumes "length input < 2 ^ 64" and "calculate_tx_l1_cost_feynman info input ratio = Ok c"
  shows "min (fee_cap spec) (unat c) =
    min (fee_cap spec) (exact_feynman info (length input) (unat ratio))"
proof -
  have "unat c = clip 256 (length input * fee_per_byte_spec info
      * (if val (penalty_threshold info) \<le> unat ratio then 1000000000
         else val (penalty_factor info))) div 1000000000 div 1000000000"
  proof -
    let ?P = TX_L1_FEE_PRECISION_U256
    from assms(2) obtain ex bl bf th pf where
      fields: "l1_commit_scalar info = Some ex" "l1_blob_scalar info = Some bl"
        "l1_blob_base_fee info = Some bf" "penalty_threshold info = Some th"
        "penalty_factor info = Some pf"
      and c: "c = saturating_mul (saturating_mul (ucast (usize_len input))
            (saturating_add (saturating_mul ex (l1_base_fee info)) (saturating_mul bl bf)))
            (if th \<le> ratio then ?P else pf) div ?P div ?P"
      by (auto simp: calculate_tx_l1_cost_feynman_def exec_simps wrapping_div_def Let_def
          split: if_split_asm)
    show ?thesis
      using assms(1) unfolding c
      by (simp add: fields unat_div unat_usize_len sat_simps fee_per_byte_spec_def
          word_le_nat_alt)
  qed
  moreover have "min (fee_cap spec) (clip 256 x div 1000000000 div 1000000000) =
      min (fee_cap spec) (x div 1000000000 div 1000000000)" for x
    using min_clip_div [of "fee_cap spec" 256 "1000000000 * 1000000000" x] cap_le_div(2) [of spec]
    by (simp flip: div_mult2_eq)
  ultimately show ?thesis
    by (simp add: exact_feynman_def)
qed

text \<open>
  Only the Galileo formula divides before its last step. If the penalty product saturates although
  the base term does not, the base term alone is beyond every cap, because a size has 64 bits.
\<close>

lemma galileo_saturation:
  fixes b n pf :: nat
  assumes n: "n < 2 ^ 64" and cap: "cap \<le> 2 ^ 96 - 1"
  shows "min cap (clip 256 (clip 256 b + clip 256 (b * n) div pf) div 1000000000) =
         min cap ((b + b * n div pf) div 1000000000)"
proof (cases "b * n < 2 ^ 256 \<and> b < 2 ^ 256")
  case True
  then have "clip 256 (clip 256 b + clip 256 (b * n) div pf) = clip 256 (b + b * n div pf)"
    by (simp add: clip_less)
  then show ?thesis
    using min_clip_div [of cap 256 1000000000 "b + b * n div pf"] cap by simp
next
  case False
  have b: "2 ^ 192 \<le> b"
  proof (rule ccontr)
    assume "\<not> 2 ^ 192 \<le> b"
    then have less: "b < 2 ^ 192" by simp
    with n have "b * n < 2 ^ 192 * 2 ^ 64" by (intro mult_strict_mono) simp_all
    with less False show False by simp
  qed
  have big: "cap \<le> m div 1000000000" if "2 ^ 192 \<le> m" for m
    using div_le_mono [OF that, of 1000000000] cap by simp
  have "2 ^ 192 \<le> clip 256 b" using b by (simp add: clip_def)
  then have "2 ^ 192 \<le> clip 256 (clip 256 b + clip 256 (b * n) div pf)"
    by (simp add: clip_def)
  then show ?thesis
    using big [of "b + b * n div pf"] big b by (simp add: min_absorb1)
qed

lemma galileo_exact:
  assumes "calculate_tx_l1_cost_galileo info tx_size n = Ok c"
  shows "min (fee_cap spec) (unat c) = min (fee_cap spec) (exact_galileo info (unat n))"
proof -
  let ?P = TX_L1_FEE_PRECISION_U256
  let ?n = "ucast n :: u256"
  from assms obtain ex bl bf pf where
    fields: "l1_commit_scalar info = Some ex" "l1_blob_scalar info = Some bl"
      "l1_blob_base_fee info = Some bf" "penalty_factor info = Some pf"
    and c: "c = (let base = saturating_mul
                   (saturating_add (saturating_mul ex (l1_base_fee info)) (saturating_mul bl bf)) ?n
                 in saturating_add base (saturating_mul base ?n div (if pf = 0 then 1 else pf)) div ?P)"
    by (auto simp: calculate_tx_l1_cost_galileo_def exec_simps wrapping_div_def Let_def
        split: if_split_asm option.split_asm)
  define base where "base = fee_per_byte_spec info * unat n"
  have pf: "unat (if pf = 0 then 1 else pf) = max 1 (unat pf)"
    by (auto simp: max_def unat_gt_0 Suc_le_eq)
  have "unat c =
      clip 256 (clip 256 base + clip 256 (base * unat n) div max 1 (unat pf)) div 1000000000"
    unfolding c base_def Let_def unat_div unat_saturating_add unat_saturating_mul pf
    by (simp add: fields sat_simps fee_per_byte_spec_def)
  moreover have "unat n < 2 ^ 64"
    using unsigned_less [of n, where ?'a = nat] by simp
  ultimately show ?thesis
    using galileo_saturation [of "unat n" "fee_cap spec" base "max 1 (unat pf)"] fee_cap_le
    by (simp add: exact_galileo_def base_def fields Let_def)
qed

section \<open>The fee is the exact formula under its cap\<close>

definition cap_word :: "ScrollSpecId \<Rightarrow> u256" where
  "cap_word spec = (if is_enabled_in spec TSUKI then U96_MAX else U64_MAX)"

lemma unat_cap_word: "unat (cap_word spec) = fee_cap spec"
  by (simp add: cap_word_def fee_cap_def U96_MAX_unat U64_MAX_unat)

lemma cap_step:
  "(if is_enabled_in spec TSUKI then Ok (min x U96_MAX) else Ok (min x U64_MAX)) =
     Ok (min x (cap_word spec))"
  by (simp add: cap_word_def)

definition uncapped ::
  "L1BlockInfo \<Rightarrow> bytes \<Rightarrow> ScrollSpecId \<Rightarrow> u256 option \<Rightarrow> usize option
     \<Rightarrow> (L1FeeError, u256) outcome" where
  "uncapped info input spec ratio csize =
     (if \<not> is_enabled_in spec CURIE then calculate_tx_l1_cost_shanghai info input
      else if \<not> is_enabled_in spec FEYNMAN then calculate_tx_l1_cost_curie info input
      else if \<not> is_enabled_in spec GALILEO then
        obind (ok_or ratio MissingCompressionRatio) (calculate_tx_l1_cost_feynman info input)
      else obind (ok_or csize MissingCompressedSize)
        (calculate_tx_l1_cost_galileo info (usize_len input)))"

lemma try_calculate_capped:
  "try_calculate_tx_l1_cost info input spec ratio csize =
     obind (uncapped info input spec ratio csize) (\<lambda>raw. Ok (min raw (cap_word spec)))"
  by (simp only: try_calculate_tx_l1_cost_def uncapped_def cap_step)

text \<open>
  C8 For every fork, a successful L1 fee is exactly the minimum of the fork's cap and the fee formula
  computed over unbounded natural numbers: no saturation of a 256-bit intermediate value and no
  rounding beyond the formula's own floor divisions can be observed.
\<close>

theorem l1_fee_exact:
  assumes "length input < 2 ^ 60"
    and "try_calculate_tx_l1_cost info input spec ratio csize = Ok c"
  shows "unat c = min (fee_cap spec) (exact_fee info input spec ratio csize)"
proof -
  from assms(2) obtain raw where raw: "uncapped info input spec ratio csize = Ok raw"
    and "c = min raw (cap_word spec)"
    by (auto simp: try_calculate_capped exec_simps)
  then have c: "unat c = min (fee_cap spec) (unat raw)"
    by (simp add: unat_min_word unat_cap_word min.commute)
  have len: "length input < 2 ^ 64" using assms(1) by simp
  show ?thesis
    using raw shanghai_exact [OF assms(1)] curie_exact [OF len] feynman_exact [OF len]
      galileo_exact
    unfolding c uncapped_def by (auto simp: exact_fee_def exec_simps split: if_split_asm)
qed

lemma fee_within_cap:
  assumes "try_calculate_tx_l1_cost info input spec ratio csize = Ok c"
  shows "unat c \<le> fee_cap spec"
  using assms
  by (auto simp: try_calculate_tx_l1_cost_def exec_simps unat_min_word U96_MAX_unat U64_MAX_unat
      fee_cap_def split: if_splits)

section \<open>Errors and panics\<close>

text \<open>The input each formula lacks, in the order the code looks for it.\<close>

definition fee_error ::
  "L1BlockInfo \<Rightarrow> usize \<Rightarrow> ScrollSpecId \<Rightarrow> u256 option \<Rightarrow> usize option \<Rightarrow> L1FeeError option" where
  "fee_error info len spec ratio csize =
     (if spec < CURIE then None
      else if spec < FEYNMAN then
        (if None \<in> {l1_blob_base_fee info, l1_blob_scalar info, calldata_gas info}
         then Some MissingOracleValue else None)
      else if spec < GALILEO then
        (case ratio of
           None \<Rightarrow> Some MissingCompressionRatio
         | Some r \<Rightarrow>
             if unat r < 1000000000 then Some (InvalidCompressionRatio r)
             else if None \<in> {l1_commit_scalar info, l1_blob_scalar info, l1_blob_base_fee info,
               penalty_threshold info, penalty_factor info} then Some MissingOracleValue
             else None)
      else
        (case csize of
           None \<Rightarrow> Some MissingCompressedSize
         | Some n \<Rightarrow>
             if len < n then Some (InvalidCompressedSize n len)
             else if None \<in> {l1_commit_scalar info, l1_blob_scalar info, l1_blob_base_fee info,
               penalty_factor info} then Some MissingOracleValue
             else None))"

lemma shanghai_ok: "\<exists>c. calculate_tx_l1_cost_shanghai info input = Ok c"
  by (simp add: calculate_tx_l1_cost_shanghai_def wrapping_div_def Let_def)

lemma curie_outcome:
  "(\<exists>c. calculate_tx_l1_cost_curie info input = Ok c \<and>
      None \<notin> {l1_blob_base_fee info, l1_blob_scalar info, calldata_gas info}) \<or>
   calculate_tx_l1_cost_curie info input = Err MissingOracleValue \<and>
      None \<in> {l1_blob_base_fee info, l1_blob_scalar info, calldata_gas info}"
  by (cases "l1_blob_base_fee info"; cases "l1_blob_scalar info"; cases "calldata_gas info")
    (simp_all add: calculate_tx_l1_cost_curie_def curie_blob_fee_def wrapping_div_def)

lemma ratio_less: "ratio < TX_L1_FEE_PRECISION_U256 \<longleftrightarrow> unat ratio < 1000000000"
  by (simp add: word_less_nat_alt)

lemma feynman_outcome:
  "(\<exists>c. calculate_tx_l1_cost_feynman info input r = Ok c \<and>
      fee_error info len FEYNMAN (Some r) csize = None) \<or>
   (\<exists>e. calculate_tx_l1_cost_feynman info input r = Err e \<and>
      fee_error info len FEYNMAN (Some r) csize = Some e)"
  by (cases "l1_commit_scalar info"; cases "l1_blob_scalar info"; cases "l1_blob_base_fee info";
      cases "penalty_threshold info"; cases "penalty_factor info")
    (simp_all add: calculate_tx_l1_cost_feynman_def wrapping_div_def fee_error_def ratio_less
      Let_def spec_gates)

lemma galileo_outcome:
  "(\<exists>c. calculate_tx_l1_cost_galileo info len n = Ok c \<and>
      fee_error info len GALILEO ratio (Some n) = None) \<or>
   (\<exists>e. calculate_tx_l1_cost_galileo info len n = Err e \<and>
      fee_error info len GALILEO ratio (Some n) = Some e)"
  by (cases "l1_commit_scalar info"; cases "l1_blob_scalar info"; cases "l1_blob_base_fee info";
      cases "penalty_factor info")
    (auto simp: calculate_tx_l1_cost_galileo_def wrapping_div_def fee_error_def
      Let_def spec_gates)

lemma uncapped_outcome:
  "(\<exists>c. uncapped info input spec ratio csize = Ok c \<and>
      fee_error info (usize_len input) spec ratio csize = None) \<or>
   (\<exists>e. uncapped info input spec ratio csize = Err e \<and>
      fee_error info (usize_len input) spec ratio csize = Some e)"
proof -
  consider "spec < CURIE" | "CURIE \<le> spec" "spec < FEYNMAN"
    | "CURIE \<le> spec" "FEYNMAN \<le> spec" "spec < GALILEO" | "CURIE \<le> spec" "FEYNMAN \<le> spec" "GALILEO \<le> spec"
    by (meson not_le)
  then show ?thesis
  proof cases
    case 1
    then have "\<not> CURIE \<le> spec" by (simp add: not_le)
    with 1 show ?thesis
      using shanghai_ok by (simp add: uncapped_def fee_error_def is_enabled_in_le)
  next
    case 2
    then show ?thesis
      using curie_outcome [of info input]
      by (auto simp: uncapped_def fee_error_def is_enabled_in_le)
  next
    case 3
    then have gates: "is_enabled_in spec CURIE" "is_enabled_in spec FEYNMAN"
      "\<not> is_enabled_in spec GALILEO" by (simp_all add: is_enabled_in_le not_le)
    show ?thesis
    proof (cases ratio)
      case None
      with 3 gates show ?thesis by (simp add: uncapped_def fee_error_def not_less)
    next
      case (Some r)
      have "fee_error info (usize_len input) spec ratio csize =
          fee_error info (usize_len input) FEYNMAN (Some r) csize"
        using 3 Some by (simp add: fee_error_def spec_gates)
      then show ?thesis
        using feynman_outcome [of info input r "usize_len input" csize] gates Some
        by (simp add: uncapped_def)
    qed
  next
    case 4
    then have gates: "is_enabled_in spec CURIE" "is_enabled_in spec FEYNMAN"
      "is_enabled_in spec GALILEO" by (simp_all add: is_enabled_in_le)
    show ?thesis
    proof (cases csize)
      case None
      with 4 gates show ?thesis by (simp add: uncapped_def fee_error_def not_less leD)
    next
      case (Some n)
      have "fee_error info (usize_len input) spec ratio csize =
          fee_error info (usize_len input) GALILEO ratio (Some n)"
        using 4 Some by (simp add: fee_error_def spec_gates)
      then show ?thesis
        using galileo_outcome [of info "usize_len input" n ratio] gates Some
        by (simp add: uncapped_def)
    qed
  qed
qed

text \<open>
  C23 The L1 fee computation is total: it never panics (the Galileo divisor is sanitised), it fails
  exactly when the fork's formula lacks an input or the input is invalid, and the error then names
  the first such input in the order of \<open>fee_error\<close>.
\<close>

theorem l1_fee_errors:
  "try_calculate_tx_l1_cost info input spec ratio csize \<noteq> Panic \<and>
   (try_calculate_tx_l1_cost info input spec ratio csize = Err e \<longleftrightarrow>
      fee_error info (usize_len input) spec ratio csize = Some e)"
  using uncapped_outcome [of info input spec ratio csize]
  by (auto simp: try_calculate_capped)

lemma exact_galileo_mono: "n \<le> m \<Longrightarrow> exact_galileo info n \<le> exact_galileo info m"
  unfolding exact_galileo_def Let_def
  by (intro div_le_mono add_mono mult_le_mono order_refl) simp_all

text \<open>
  C35 From Galileo on, a transaction that compresses to fewer bytes never pays a higher L1 fee, even
  across different transactions, compression ratios and the 256-bit saturation.
\<close>

theorem galileo_fee_monotone:
  assumes "is_enabled_in spec GALILEO" and "n \<le> m"
    and "try_calculate_tx_l1_cost info input spec ratio (Some n) = Ok c"
    and "try_calculate_tx_l1_cost info input' spec ratio' (Some m) = Ok c'"
  shows "c \<le> c'"
proof -
  have later: "is_enabled_in spec CURIE" "is_enabled_in spec FEYNMAN"
    using assms(1) by (cases spec; simp add: spec_gates)+
  have fee: "unat d = min (fee_cap spec) (exact_galileo info (unat k))"
    if "try_calculate_tx_l1_cost info i spec r (Some k) = Ok d" for i r k d
  proof -
    from that later assms(1) obtain raw where
      "calculate_tx_l1_cost_galileo info (usize_len i) k = Ok raw" and "d = min raw (cap_word spec)"
      by (auto simp: try_calculate_capped exec_simps uncapped_def)
    then show ?thesis
      using galileo_exact [of info "usize_len i" k raw spec]
      by (simp add: unat_min_word unat_cap_word min.commute)
  qed
  have "exact_galileo info (unat n) \<le> exact_galileo info (unat m)"
    using assms(2) by (intro exact_galileo_mono) (simp add: word_le_nat_alt)
  then show ?thesis
    unfolding word_le_nat_alt fee [OF assms(3)] fee [OF assms(4)] by simp
qed

section \<open>Concrete fees\<close>

definition gpo_example :: L1BlockInfo where
  "gpo_example = L1BlockInfo_default
     \<lparr>l1_base_fee := 1000000000, l1_blob_base_fee := Some 1000000000,
      l1_commit_scalar := Some 2394981796, l1_blob_scalar := Some 1019097245,
      penalty_factor := Some 10000\<rparr>"

lemma gpo_example_fee:
  "try_calculate_tx_l1_cost gpo_example (replicate 60 1) TSUKI_V2 None (Some 50) = Ok 171557471810"
  by (simp add: try_calculate_tx_l1_cost_def calculate_tx_l1_cost_galileo_def gpo_example_def
      L1BlockInfo_default_def spec_gates wrapping_div_def saturating_mul_def saturating_add_def
      usize_len_def TX_L1_FEE_PRECISION_U256_def TX_L1_FEE_PRECISION_def min_def U96_MAX_def
      from_limbs_def word_le_nat_alt word_less_nat_alt)

theorem l1_fee_exact_witness:
  "try_calculate_tx_l1_cost gpo_example (replicate 60 1) TSUKI_V2 None (Some 50) = Ok 171557471810 \<and>
   unat (171557471810 :: u256) =
     min (fee_cap TSUKI_V2) (exact_fee gpo_example (replicate 60 1) TSUKI_V2 None (Some 50))"
  using l1_fee_exact [OF _ gpo_example_fee] gpo_example_fee by simp

lemma gpo_example_small_fee:
  "try_calculate_tx_l1_cost gpo_example [1, 1] TSUKI_V2 None (Some 2) = Ok 6829523713"
  by (simp add: try_calculate_tx_l1_cost_def calculate_tx_l1_cost_galileo_def gpo_example_def
      L1BlockInfo_default_def spec_gates wrapping_div_def saturating_mul_def saturating_add_def
      usize_len_def TX_L1_FEE_PRECISION_U256_def TX_L1_FEE_PRECISION_def min_def U96_MAX_def
      from_limbs_def word_le_nat_alt word_less_nat_alt)

theorem galileo_fee_monotone_witness:
  "is_enabled_in TSUKI_V2 GALILEO \<and> (2 :: usize) \<le> 50 \<and> (6829523713 :: u256) \<le> 171557471810"
proof -
  have "is_enabled_in TSUKI_V2 GALILEO" and "(2 :: usize) \<le> 50"
    by (simp_all add: spec_gates word_le_nat_alt)
  with galileo_fee_monotone [OF this gpo_example_small_fee gpo_example_fee] show ?thesis by simp
qed

end
