(* ===== verification/MemJournal.thy ===== *)
theory MemJournal
  imports Journal
begin

text \<open>
  An in-memory journal over an in-memory database, with the documented behaviour of the operations
  the crate uses: accounts are copied from the database when they are loaded, with no storage slot
  cached; balances and nonces are read and written in the loaded copy. It discharges the contract
  \<open>journal\<close> and is the journal of the concrete runs in this development.
\<close>

record mem_account =
  m_balance :: u256
  m_nonce :: u64
  m_code :: "bytecode option"
  m_storage :: "u256 \<Rightarrow> storage_slot option"

record mem_journal =
  m_state :: "address \<Rightarrow> mem_account option"
  m_disk :: "address \<Rightarrow> mem_account"

definition empty_account :: mem_account where
  "empty_account = \<lparr>m_balance = 0, m_nonce = 0, m_code = None, m_storage = (\<lambda>_. None)\<rparr>"

definition mem_empty :: mem_journal where
  "mem_empty = \<lparr>m_state = (\<lambda>_. None), m_disk = (\<lambda>_. empty_account)\<rparr>"

definition m_acc :: "mem_journal \<Rightarrow> address \<Rightarrow> mem_account" where
  "m_acc j a =
     (case m_state j a of Some x \<Rightarrow> x | None \<Rightarrow> (m_disk j a)\<lparr>m_storage := (\<lambda>_. None)\<rparr>)"

definition m_put :: "address \<Rightarrow> mem_account \<Rightarrow> mem_journal \<Rightarrow> mem_journal" where
  "m_put a x j = j\<lparr>m_state := (m_state j)(a := Some x)\<rparr>"

definition m_load :: "address \<Rightarrow> (mem_journal, 'e, unit) exec" where
  "m_load a j = (Ok (), m_put a (m_acc j a) j)"

definition m_db_storage :: "address \<Rightarrow> u256 \<Rightarrow> (mem_journal, 'e, u256) exec" where
  "m_db_storage a k j =
     (Ok (case m_storage (m_disk j a) k of Some s \<Rightarrow> present_value s | None \<Rightarrow> 0), j)"

definition m_decr :: "address \<Rightarrow> u256 \<Rightarrow> mem_journal \<Rightarrow> bool \<times> mem_journal" where
  "m_decr a v j =
     (case checked_sub (m_balance (m_acc j a)) v of
        None \<Rightarrow> (False, j)
      | Some b \<Rightarrow> (True, m_put a ((m_acc j a)\<lparr>m_balance := b\<rparr>) j))"

definition m_bump :: "address \<Rightarrow> mem_journal \<Rightarrow> bool \<times> mem_journal" where
  "m_bump a j =
     (case checked_add (m_nonce (m_acc j a)) 1 of
        None \<Rightarrow> (False, j)
      | Some n \<Rightarrow> (True, m_put a ((m_acc j a)\<lparr>m_nonce := n\<rparr>) j))"

definition m_touch :: "address \<Rightarrow> mem_journal \<Rightarrow> mem_journal" where
  "m_touch a j = m_put a (m_acc j a) j"

definition m_incr :: "address \<Rightarrow> u256 \<Rightarrow> (mem_journal, 'e, unit) exec" where
  "m_incr a v j =
     (Ok (), m_put a
       (case checked_add (m_balance (m_acc j a)) v of
          None \<Rightarrow> m_acc j a
        | Some b \<Rightarrow> (m_acc j a)\<lparr>m_balance := b\<rparr>) j)"

definition mem_ops :: "(mem_journal, string) journal_ops" where
  "mem_ops =
     \<lparr>evm_state = (\<lambda>j a. map_option (\<lambda>x. \<lparr>account_storage = m_storage x\<rparr>) (m_state j a)),
      db_storage = m_db_storage,
      load_account_mut = m_load,
      load_account_with_code_mut = m_load,
      acc_balance = (\<lambda>j a. m_balance (m_acc j a)),
      acc_nonce = (\<lambda>j a. m_nonce (m_acc j a)),
      acc_code = (\<lambda>j a. m_code (m_acc j a)),
      decr_balance = m_decr,
      bump_nonce = m_bump,
      touch = m_touch,
      balance_incr = m_incr\<rparr>"

lemma m_acc_put [simp]: "m_acc (m_put a x j) b = (if b = a then x else m_acc j b)"
  by (simp add: m_acc_def m_put_def split: option.splits)

lemma m_put_put [simp]: "m_put a x (m_put a y j) = m_put a x j"
  by (simp add: m_put_def)

lemma mem_ops_simps [simp]:
  "db_storage mem_ops = m_db_storage"
  "load_account_mut mem_ops = m_load"
  "load_account_with_code_mut mem_ops = m_load"
  "acc_balance mem_ops j a = m_balance (m_acc j a)"
  "acc_nonce mem_ops j a = m_nonce (m_acc j a)"
  "acc_code mem_ops j a = m_code (m_acc j a)"
  "decr_balance mem_ops = m_decr"
  "bump_nonce mem_ops = m_bump"
  "touch mem_ops = m_touch"
  "balance_incr mem_ops = m_incr"
  "evm_state mem_ops j a = map_option (\<lambda>x. \<lparr>account_storage = m_storage x\<rparr>) (m_state j a)"
  by (simp_all add: mem_ops_def)

lemma nonce_room: "(n :: u64) \<noteq> - 1 \<Longrightarrow> checked_add n 1 = Some (n + 1)"
proof -
  assume "n \<noteq> - 1"
  moreover have "unat (- 1 :: u64) = 2 ^ 64 - 1"
    by (simp add: unsigned_minus_1_eq_mask mask_eq_exp_minus_1)
  ultimately have "unat n \<noteq> 2 ^ 64 - 1"
    by (metis word_unat_eq_iff)
  moreover have "unat n < 2 ^ 64" using unsigned_less [of n, where ?'a = nat] by simp
  ultimately show ?thesis by (simp add: checked_add_def)
qed

interpretation mem: journal mem_ops
proof unfold_locales
  fix a v and j j' :: mem_journal
  assume "balance_incr mem_ops a v j = (Ok (), j')"
    and "unat (acc_balance mem_ops j a) + unat v < 2 ^ 256"
  then show "acc_balance mem_ops j' = (acc_balance mem_ops j)(a := acc_balance mem_ops j a + v)"
    by (auto simp: m_incr_def checked_add_def)
qed (auto simp: preserves_def m_db_storage_def m_load_def m_decr_def m_bump_def m_touch_def
    checked_sub_def nonce_room split: option.splits)

end
