(* ===== verification/L1Fetch.thy ===== *)
theory L1Fetch
  imports L1FeeSpec MemJournal
begin

text \<open>
  Reading the oracle. \<open>oracle_slots\<close> lists the slots a fork needs, \<open>snapshot_of\<close> assembles the
  values; \<open>try_fetch_with\<close> is shown to be exactly "read these slots in this order, stop at the first
  error, assemble". The locale \<open>oracle_reader\<close> is what the fetch needs of its reading closure; the
  journal's reader satisfies it (a \<open>sublocale\<close>), so fetching leaves the journaled state alone.
\<close>

section \<open>Specification of a fetch\<close>

fun read_all :: "(u256 \<Rightarrow> ('s, 'e, u256) exec) \<Rightarrow> u256 list \<Rightarrow> ('s, 'e, u256 list) exec" where
  "read_all rd [] = ret []"
| "read_all rd (k # ks) = bind (rd k) (\<lambda>v. bind (read_all rd ks) (\<lambda>vs. ret (v # vs)))"

definition oracle_slots :: "ScrollSpecId \<Rightarrow> u256 list" where
  "oracle_slots spec = [1, 2, 3] @ (if CURIE \<le> spec then [5, 6, 7] else [])
     @ (if FEYNMAN \<le> spec then [9, 10] else [])"

definition snapshot_of :: "u256 list \<Rightarrow> L1BlockInfo" where
  "snapshot_of vs =
     (let later = (\<lambda>i. if i < length vs then Some (vs ! i) else None)
      in \<lparr>l1_base_fee = vs ! 0, l1_fee_overhead = vs ! 1, l1_base_fee_scalar = vs ! 2,
          l1_blob_base_fee = later 3, l1_commit_scalar = later 4, l1_blob_scalar = later 5,
          calldata_gas = map_option (\<lambda>c. saturating_mul c (vs ! 0)) (later 4),
          penalty_threshold = later 6, penalty_factor = later 7\<rparr>)"

lemmas slot_defs = L1_BASE_FEE_SLOT_def L1_OVERHEAD_SLOT_def L1_SCALAR_SLOT_def
  L1_BLOB_BASE_FEE_SLOT_def L1_COMMIT_SCALAR_SLOT_def L1_BLOB_SCALAR_SLOT_def
  PENALTY_THRESHOLD_SLOT_def PENALTY_FACTOR_SLOT_def

lemma try_fetch_slots:
  "try_fetch_with rd spec = bind (read_all rd (oracle_slots spec)) (\<lambda>vs. ret (snapshot_of vs))"
proof -
  consider "\<not> CURIE \<le> spec" "\<not> FEYNMAN \<le> spec" | "CURIE \<le> spec" "\<not> FEYNMAN \<le> spec"
    | "CURIE \<le> spec" "FEYNMAN \<le> spec"
    by (cases spec) (auto simp: spec_gates)
  then show ?thesis
    by cases
      (simp_all add: try_fetch_with_def oracle_slots_def bind_assoc snapshot_of_def slot_defs
        is_enabled_in_le L1BlockInfo_default_def Let_def ret_Pair)
qed

text \<open>
  C25 Fetching the oracle is reading the fork's slots in order, stopping at the first failing read
  with its error and its state, and assembling the values; later forks only add slots at the end.
\<close>

theorem fetch_reads_slots:
  "try_fetch_with rd spec = bind (read_all rd (oracle_slots spec)) (\<lambda>vs. ret (snapshot_of vs))"
  by (rule try_fetch_slots)

section \<open>What the fetch needs of its reader\<close>

locale oracle_reader =
  fixes rd :: "u256 \<Rightarrow> ('s, 'e, u256) exec"
    and view :: "'s \<Rightarrow> 'v"
  assumes reader_frame: "preserves view (rd k)"
begin

lemma read_all_frame: "preserves view (read_all rd ks)"
  by (induction ks) (auto intro!: reader_frame)

lemma fetch_frame: "preserves view (try_fetch_with rd spec)"
  unfolding try_fetch_slots by (auto intro: read_all_frame)

end


section \<open>Reading through the journal\<close>

sublocale journal \<subseteq> through_journal: oracle_reader "read_through_journal J" "evm_state J"
proof
  show "preserves (evm_state J) (read_through_journal J k)" for k
    using db_storage_state [of L1_GAS_PRICE_ORACLE_ADDRESS k]
    by (auto simp: preserves_def read_through_journal_def split: option.splits)
qed

sublocale journal \<subseteq> balances: oracle_reader "read_through_journal J" "acc_balance J"
proof
  show "preserves (acc_balance J) (read_through_journal J k)" for k
    using db_storage_balance [of L1_GAS_PRICE_ORACLE_ADDRESS k]
    by (auto simp: preserves_def read_through_journal_def split: option.splits)
qed

sublocale journal \<subseteq> nonces: oracle_reader "read_through_journal J" "acc_nonce J"
proof
  show "preserves (acc_nonce J) (read_through_journal J k)" for k
    using db_storage_nonce [of L1_GAS_PRICE_ORACLE_ADDRESS k]
    by (auto simp: preserves_def read_through_journal_def split: option.splits)
qed

context journal begin

lemma journal_fetch_frame:
  assumes "try_fetch_from_journal J spec j = (r, j')"
  shows "evm_state J j' = evm_state J j" "acc_balance J j' = acc_balance J j"
    "acc_nonce J j' = acc_nonce J j"
  using assms through_journal.fetch_frame [of spec] balances.fetch_frame [of spec]
    nonces.fetch_frame [of spec]
  unfolding try_fetch_from_journal_def by (auto dest: preservesD)

end

text \<open>
  C26 Reading the oracle through the journal, whether it succeeds or fails, leaves every journaled
  account and slot (so their warmth), every balance and every nonce as they were.
\<close>

theorem journal_fetch_is_invisible:
  assumes "journal J" and "try_fetch_from_journal J spec j = (r, j')"
  shows "evm_state J j' = evm_state J j \<and> acc_balance J j' = acc_balance J j \<and>
    acc_nonce J j' = acc_nonce J j"
  using journal.journal_fetch_frame [OF assms] by blast

definition journaled :: "('j, 'e) journal_ops \<Rightarrow> 'j \<Rightarrow> u256 \<Rightarrow> u256 option" where
  "journaled J j slot =
     map_option present_value
       (Option.bind (evm_state J j L1_GAS_PRICE_ORACLE_ADDRESS) (\<lambda>a. account_storage a slot))"

lemma read_journaled: "journaled J j k = Some v \<Longrightarrow> read_through_journal J k j = (Ok v, j)"
  by (auto simp: read_through_journal_def journaled_def Let_def)

lemma read_unjournaled:
  "journaled J j k = None \<Longrightarrow>
     read_through_journal J k j = db_storage J L1_GAS_PRICE_ORACLE_ADDRESS k j"
  by (simp add: read_through_journal_def journaled_def Let_def)

lemma read_all_journaled:
  "(\<And>k. k \<in> set ks \<Longrightarrow> journaled J j k = Some (v k)) \<Longrightarrow>
     read_all (read_through_journal J) ks j = (Ok (map v ks), j)"
  by (induction ks) (simp_all add: bind_def read_journaled)

text \<open>
  Oracle updates that are only in the journal are seen: when the slots a fork needs are journaled,
  the snapshot is assembled from the journaled values and the database is not read at all.
\<close>

theorem fetch_sees_uncommitted:
  assumes "\<And>k. k \<in> set (oracle_slots spec) \<Longrightarrow> journaled J j k = Some (v k)"
  shows "try_fetch_from_journal J spec j = (Ok (snapshot_of (map v (oracle_slots spec))), j)"
  by (simp add: try_fetch_from_journal_def try_fetch_slots bind_def
      read_all_journaled [OF assms])

section \<open>A fetched snapshot suffices\<close>

lemma read_all_length: "read_all rd ks s = (Ok vs, t) \<Longrightarrow> length vs = length ks"
  by (induction ks arbitrary: s t vs) (auto simp: exec_simps)

lemma fetched_fields:
  assumes "try_fetch_with rd spec s = (Ok info, t)"
  shows "CURIE \<le> spec \<Longrightarrow> None \<notin> {l1_blob_base_fee info, l1_commit_scalar info,
      l1_blob_scalar info, calldata_gas info}"
    and "FEYNMAN \<le> spec \<Longrightarrow> None \<notin> {penalty_threshold info, penalty_factor info}"
proof -
  from assms obtain vs where "read_all rd (oracle_slots spec) s = (Ok vs, t)"
    and info: "info = snapshot_of vs"
    by (auto simp: try_fetch_slots exec_simps)
  then have len: "length vs = length (oracle_slots spec)" by (simp add: read_all_length)
  show "CURIE \<le> spec \<Longrightarrow> None \<notin> {l1_blob_base_fee info, l1_commit_scalar info,
      l1_blob_scalar info, calldata_gas info}"
    using len by (auto simp: info snapshot_of_def oracle_slots_def Let_def)
  show "FEYNMAN \<le> spec \<Longrightarrow> None \<notin> {penalty_threshold info, penalty_factor info}"
    using len by (cases spec) (auto simp: info snapshot_of_def oracle_slots_def Let_def spec_gates)
qed

text \<open>
  C34 A snapshot fetched for a fork is enough to price every transaction at that fork: with a
  compression ratio of at least 1 and a compressed size within the transaction's length, the fee
  computation on it succeeds.
\<close>

theorem fetched_snapshot_prices:
  assumes "try_fetch_with rd spec s = (Ok info, t)"
    and "1000000000 \<le> unat ratio" and "n \<le> usize_len input"
  shows "\<exists>c. try_calculate_tx_l1_cost info input spec (Some ratio) (Some n) = Ok c"
proof -
  have "fee_error info (usize_len input) spec (Some ratio) (Some n) = None"
    using fetched_fields [OF assms(1)] assms(2,3)
    by (cases spec) (auto simp: fee_error_def spec_gates)
  then show ?thesis
    using uncapped_outcome [of info input spec "Some ratio" "Some n"]
    by (auto simp: try_calculate_capped)
qed

section \<open>Concrete runs\<close>

definition oracle_journal :: mem_journal where
  "oracle_journal = mem_empty
     \<lparr>m_state := (\<lambda>a. if a = L1_GAS_PRICE_ORACLE_ADDRESS
        then Some (empty_account\<lparr>m_storage := (\<lambda>k. Some \<lparr>present_value = 100 + k\<rparr>)\<rparr>) else None)\<rparr>"

theorem journal_fetch_is_invisible_witness:
  "evm_state mem_ops (snd (try_fetch_from_journal mem_ops TSUKI_V2 mem_empty)) =
     evm_state mem_ops mem_empty \<and>
   fst (try_fetch_from_journal mem_ops TSUKI_V2 mem_empty) = Ok (snapshot_of [0, 0, 0, 0, 0, 0, 0, 0])"
proof -
  have "evm_state mem_ops (snd (try_fetch_from_journal mem_ops TSUKI_V2 mem_empty)) =
      evm_state mem_ops mem_empty"
    using journal_fetch_is_invisible [OF mem.journal_axioms] by (metis prod.collapse)
  moreover have "fst (try_fetch_from_journal mem_ops TSUKI_V2 mem_empty) =
      Ok (snapshot_of [0, 0, 0, 0, 0, 0, 0, 0])"
    by (simp add: try_fetch_from_journal_def try_fetch_slots oracle_slots_def spec_gates
        read_through_journal_def m_db_storage_def mem_empty_def empty_account_def bind_def)
  ultimately show ?thesis by blast
qed

theorem fetch_sees_uncommitted_witness:
  "try_fetch_from_journal mem_ops CURIE oracle_journal =
     (Ok (snapshot_of [101, 102, 103, 105, 106, 107]), oracle_journal)"
proof -
  have "journaled mem_ops oracle_journal k = Some (100 + k)" for k
    by (simp add: journaled_def oracle_journal_def)
  from fetch_sees_uncommitted [of CURIE, OF this] show ?thesis
    by (simp add: oracle_slots_def spec_gates)
qed

theorem fetched_snapshot_prices_witness:
  "\<exists>c. try_calculate_tx_l1_cost (snapshot_of [101, 102, 103, 105, 106, 107]) [1, 2, 3] CURIE
     (Some 1000000000) (Some 2) = Ok c"
  by (rule fetched_snapshot_prices
      [OF fetch_sees_uncommitted_witness [unfolded try_fetch_from_journal_def]])
    (simp_all add: usize_len_def word_le_nat_alt)

end
