(* ===== verification/EvmContext.thy ===== *)
theory EvmContext
  imports Config Transaction L1Fetch
begin

text \<open>
  The context an execution works on (\<open>src/chain.rs\<close> and the bounds of \<open>ScrollContextTr\<close> in
  \<open>src/exec.rs\<close>): transaction, configuration, block, chain data, journal. The errors of the handler,
  the gas meter of a frame, and \<open>handler_ops\<close>: the functions of \<open>revm\<close> the handler calls. The
  locales \<open>gas_meter\<close>, \<open>tx_types\<close> and \<open>mainnet_handler\<close> state what is relied on of these.
\<close>

section \<open>The context\<close>

record ScrollChainContext =
  l1_block_info :: L1BlockInfo

definition ScrollChainContext_new :: "L1BlockInfo \<Rightarrow> ScrollChainContext" where
  "ScrollChainContext_new info = \<lparr>l1_block_info = info\<rparr>"

definition ScrollChainContext_mainnet :: ScrollChainContext where
  "ScrollChainContext_mainnet = \<lparr>l1_block_info = L1BlockInfo_default\<rparr>"

record block_env =
  block_number :: u256
  beneficiary :: address
  block_gas_limit :: u64
  basefee :: u64
  prevrandao :: "u256 option"
  blob_excess_gas_and_price :: "(u64 \<times> u128) option"
  blob_gasprice :: "u128 option"

record ('g, 'j) ctx =
  tx :: ScrollTransaction
  cfg :: "'g cfg_env"
  block :: block_env
  chain :: ScrollChainContext
  journal :: 'j

section \<open>Errors\<close>

datatype InvalidHeader = PrevrandaoNotSet | ExcessBlobGasNotSet

datatype 'd evm_error =
  TransactionError InvalidTransaction
| HeaderError InvalidHeader
| DatabaseError 'd
| CustomError string

definition on_journal ::
  "('j, 'd, 'a) exec \<Rightarrow> (('g, 'j) ctx, 'd evm_error, 'a) exec" where
  "on_journal m c = (case m (journal c) of (r, j) \<Rightarrow> (map_err DatabaseError r, c\<lparr>journal := j\<rparr>))"

section \<open>Transaction types\<close>

datatype TransactionType = Legacy | Eip2930 | Eip1559 | Eip4844 | Eip7702 | CustomType

definition tx_types :: "(u8 \<Rightarrow> TransactionType) \<Rightarrow> bool" where
  "tx_types of_byte \<longleftrightarrow>
     of_byte 0 = Legacy \<and> of_byte 1 = Eip2930 \<and> of_byte 2 = Eip1559 \<and> of_byte 3 = Eip4844 \<and>
     of_byte 4 = Eip7702 \<and> (\<forall>b. 4 < b \<longrightarrow> of_byte b = CustomType)"

section \<open>The gas meter\<close>

record 'gas gas_meter_ops =
  gas_new_spent :: "u64 \<Rightarrow> 'gas"
  erase_cost :: "u64 \<Rightarrow> 'gas \<Rightarrow> 'gas"
  record_refund :: "i64 \<Rightarrow> 'gas \<Rightarrow> 'gas"
  gas_total :: "'gas \<Rightarrow> u64"
  remaining :: "'gas \<Rightarrow> u64"
  refunded :: "'gas \<Rightarrow> i64"
  gas_used :: "'gas \<Rightarrow> u64"

locale gas_meter =
  fixes M :: "'gas gas_meter_ops"
  assumes new_spent: "gas_total M (gas_new_spent M l) = l" "remaining M (gas_new_spent M l) = 0"
      "refunded M (gas_new_spent M l) = 0"
    and erase: "gas_total M (erase_cost M r g) = gas_total M g"
      "remaining M (erase_cost M r g) = remaining M g + r"
      "refunded M (erase_cost M r g) = refunded M g"
    and refund: "gas_total M (record_refund M f g) = gas_total M g"
      "remaining M (record_refund M f g) = remaining M g"
      "refunded M (record_refund M f g) = refunded M g + f"

record ('ir, 'gas) frame_result =
  fr_result :: 'ir
  fr_gas :: 'gas

record init_gas =
  initial_gas :: u64
  floor_gas :: u64

section \<open>The functions of the EVM library the handler calls\<close>

text \<open>
  The mutable \<open>exec_result\<close> argument of a handler is threaded as a frame result that is taken and
  returned.
\<close>

record ('g, 'j, 'd, 'ir, 'gas, 'rg, 'res) handler_ops =
  jrn :: "('j, 'd) journal_ops"
  txo :: tx_ops
  gmo :: "'gas gas_meter_ops"
  ir_is_ok :: "'ir \<Rightarrow> bool"
  ir_is_ok_or_revert :: "'ir \<Rightarrow> bool"
  set_floor_gas :: "u64 \<Rightarrow> 'rg \<Rightarrow> 'rg"
  tx_type_of :: "u8 \<Rightarrow> TransactionType"
  eth_enabled :: "SpecId \<Rightarrow> SpecId \<Rightarrow> bool"
  effective_gas_limit_cap :: "'g cfg_env \<Rightarrow> u64"
  max_initcode_size :: "'g cfg_env \<Rightarrow> usize"
  max_blobs_per_tx :: "'g cfg_env \<Rightarrow> u64 option"
  initial_tx_gas :: "'g \<Rightarrow> bytes \<Rightarrow> bool \<Rightarrow> u64 \<Rightarrow> u64 \<Rightarrow> u64 \<Rightarrow> init_gas"
  validate_legacy_gas_price :: "u128 \<Rightarrow> u128 option \<Rightarrow> (InvalidTransaction, unit) outcome"
  validate_priority_fee_tx ::
    "u128 \<Rightarrow> u128 \<Rightarrow> u128 option \<Rightarrow> bool \<Rightarrow> (InvalidTransaction, unit) outcome"
  validate_eip4844_tx ::
    "u256 list \<Rightarrow> u128 \<Rightarrow> u128 \<Rightarrow> u64 option \<Rightarrow> (InvalidTransaction, unit) outcome"
  mn_validate_against_state_and_deduct_caller :: "(('g, 'j) ctx, 'd evm_error, unit) exec"
  load_accounts :: "(('g, 'j) ctx, 'd evm_error, unit) exec"
  apply_eip7702_auth_list :: "(('g, 'j) ctx, 'd evm_error, u64) exec"
  mn_eip7623_check_gas_floor ::
    "('ir, 'gas) frame_result \<Rightarrow> init_gas \<Rightarrow> ('g, 'j) ctx \<Rightarrow> ('ir, 'gas) frame_result \<times> ('g, 'j) ctx"
  mn_refund :: "SpecId \<Rightarrow> 'gas \<Rightarrow> i64 \<Rightarrow> 'gas"
  mn_reimburse_caller ::
    "('ir, 'gas) frame_result \<Rightarrow> (('g, 'j) ctx, 'd evm_error, ('ir, 'gas) frame_result) exec"
  mn_execution_result ::
    "('ir, 'gas) frame_result \<Rightarrow> 'rg \<Rightarrow> (('g, 'j) ctx, 'd evm_error, 'res) exec"

section \<open>What the handler relies on\<close>

text \<open>What an execution step may not change, and the balances it sees.\<close>

definition env_of :: "('g, 'j) ctx \<Rightarrow> ScrollTransaction \<times> 'g cfg_env \<times> block_env \<times> ScrollChainContext" where
  "env_of c = (tx c, cfg c, block c, chain c)"

definition balances :: "('g, 'j, 'd, 'ir, 'gas, 'rg, 'res) handler_ops \<Rightarrow> ('g, 'j) ctx \<Rightarrow> address \<Rightarrow> u256" where
  "balances H c = acc_balance (jrn H) (journal c)"

text \<open>
  The mainnet deduction, with the balance check on: it succeeds only if the caller can pay the
  maximum the transaction may spend (\<open>max_balance_spending\<close>: gas limit times maximal fee, plus value),
  and then takes \<open>gas_charge\<close> (gas limit times effective price), which with the value is within that
  maximum, from the caller alone; when it fails no balance has changed.
\<close>

locale mainnet_handler = journal "jrn H"
  for H :: "('g, 'j, 'd, 'ir, 'gas, 'rg, 'res) handler_ops" +
  fixes gas_charge :: "ScrollTransaction \<Rightarrow> block_env \<Rightarrow> u256"
  assumes deduct_env: "preserves env_of (mn_validate_against_state_and_deduct_caller H)"
    and deduct_ok:
      "mn_validate_against_state_and_deduct_caller H c = (Ok (), c') \<Longrightarrow>
         (\<exists>m. max_balance_spending (txo H) (tx c) = Ok m \<and> m \<le> balances H c (caller (tx c)) \<and>
            unat (gas_charge (tx c) (block c)) + unat (tx_value (tx c)) \<le> unat m) \<and>
         balances H c' = (balances H c)
           (caller (tx c) := balances H c (caller (tx c)) - gas_charge (tx c) (block c))"
    and deduct_err:
      "mn_validate_against_state_and_deduct_caller H c = (Err e, c') \<Longrightarrow> balances H c' = balances H c"
    and load_env: "preserves env_of (load_accounts H)"
    and load_accounts_balances: "preserves (balances H) (load_accounts H)"
    and auth_env: "preserves env_of (apply_eip7702_auth_list H)"
    and auth_balances: "preserves (balances H) (apply_eip7702_auth_list H)"

lemma on_journal_env: "preserves env_of (on_journal m)"
  by (simp add: preserves_def on_journal_def env_of_def split: prod.split)

lemma on_journal_eq_Ok [exec_simps]:
  "on_journal m c = (Ok a, c') \<longleftrightarrow> (\<exists>j. m (journal c) = (Ok a, j) \<and> c' = c\<lparr>journal := j\<rparr>)"
  by (auto simp: on_journal_def exec_simps split: prod.splits)

lemma on_journal_eq_Err [exec_simps]:
  "on_journal m c = (Err e, c') \<longleftrightarrow>
     (\<exists>d j. m (journal c) = (Err d, j) \<and> e = DatabaseError d \<and> c' = c\<lparr>journal := j\<rparr>)"
  by (auto simp: on_journal_def exec_simps split: prod.splits)

lemma env_of_journal [simp]: "env_of (c\<lparr>journal := j\<rparr>) = env_of c"
  by (simp add: env_of_def)

end
