(* ===== verification/Handler.thy ===== *)
theory Handler
  imports EvmContext
begin

text \<open>
  The Scroll handler (\<open>src/handler.rs\<close>), one definition per method of \<open>ScrollHandler\<close>, in the order
  of the file; \<open>validate_env\<close> and \<open>validate_against_state_and_deduct_caller\<close> are split at their
  stages. A method on \<open>&mut evm\<close> is an \<open>exec\<close> over the context; one that only reads is an outcome.
\<close>

section \<open>\<open>validate_env\<close>\<close>

definition validate_priority_fee_for_tx ::
  "('g, 'j, 'd, 'ir, 'gas, 'rg, 'res) handler_ops \<Rightarrow> ScrollTransaction \<Rightarrow> u128 option \<Rightarrow> bool
     \<Rightarrow> (InvalidTransaction, unit) outcome" where
  "validate_priority_fee_for_tx H t base_fee disable_priority_fee_check =
     validate_priority_fee_tx H (max_fee_per_gas (txo H) t)
       (case max_priority_fee_per_gas t of Some f \<Rightarrow> f | None \<Rightarrow> 0) base_fee
       disable_priority_fee_check"

definition validate_header ::
  "('g, 'j, 'd, 'ir, 'gas, 'rg, 'res) handler_ops \<Rightarrow> ('g, 'j) ctx \<Rightarrow> ('d evm_error, unit) outcome" where
  "validate_header H c =
     (let spec_id = spec_into_SpecId (cfg_spec (cfg c)) in
      obind (guard_err (eth_enabled H spec_id Eth_MERGE \<and> prevrandao (block c) = None)
        (HeaderError PrevrandaoNotSet)) (\<lambda>_.
      guard_err (eth_enabled H spec_id Eth_CANCUN \<and> blob_excess_gas_and_price (block c) = None)
        (HeaderError ExcessBlobGasNotSet)))"

definition validate_chain_id ::
  "('g, 'j, 'd, 'ir, 'gas, 'rg, 'res) handler_ops \<Rightarrow> ('g, 'j) ctx \<Rightarrow> (InvalidTransaction, unit) outcome" where
  "validate_chain_id H c =
     (let ty = tx_type_of H (tx_type (tx c)) in
      if tx_chain_id_check (cfg c) then
        (case tx_chain_id (tx c) of
           Some chain_id \<Rightarrow> guard_err (chain_id \<noteq> cfg_chain_id (cfg c)) InvalidChainId
         | None \<Rightarrow> guard_err (ty \<noteq> Legacy \<and> ty \<noteq> CustomType) MissingChainId)
      else Ok ())"

definition validate_gas_cap ::
  "('g, 'j, 'd, 'ir, 'gas, 'rg, 'res) handler_ops \<Rightarrow> ('g, 'j) ctx \<Rightarrow> (InvalidTransaction, unit) outcome" where
  "validate_gas_cap H c =
     (if \<not> is_l1_msg (tx c) then
        let cap = effective_gas_limit_cap H (cfg c) in
        guard_err (cap < gas_limit (tx c)) (TxGasLimitGreaterThanCap (gas_limit (tx c)) cap)
      else Ok ())"

definition validate_tx_type ::
  "('g, 'j, 'd, 'ir, 'gas, 'rg, 'res) handler_ops \<Rightarrow> ('g, 'j) ctx \<Rightarrow> (InvalidTransaction, unit) outcome" where
  "validate_tx_type H c =
     (let t = tx c;
          spec_id = spec_into_SpecId (cfg_spec (cfg c));
          base_fee = (if is_base_fee_check_disabled (cfg c) then None
                      else Some (ucast (basefee (block c))));
          disable_priority_fee_check = is_priority_fee_check_disabled (cfg c)
      in case tx_type_of H (tx_type t) of
           Legacy \<Rightarrow> validate_legacy_gas_price H (gas_price t) base_fee
         | Eip2930 \<Rightarrow>
             obind (guard_err (\<not> eth_enabled H spec_id Eth_BERLIN) Eip2930NotSupported) (\<lambda>_.
             validate_legacy_gas_price H (gas_price t) base_fee)
         | Eip1559 \<Rightarrow>
             obind (guard_err (\<not> eth_enabled H spec_id Eth_LONDON) Eip1559NotSupported) (\<lambda>_.
             validate_priority_fee_for_tx H t base_fee disable_priority_fee_check)
         | Eip4844 \<Rightarrow>
             obind (guard_err (\<not> eth_enabled H spec_id Eth_CANCUN) Eip4844NotSupported) (\<lambda>_.
             obind (validate_priority_fee_for_tx H t base_fee disable_priority_fee_check) (\<lambda>_.
             validate_eip4844_tx H (blob_versioned_hashes t) (max_fee_per_blob_gas t)
               (case blob_gasprice (block c) of Some p \<Rightarrow> p | None \<Rightarrow> 0)
               (max_blobs_per_tx H (cfg c))))
         | Eip7702 \<Rightarrow>
             obind (guard_err (\<not> is_enabled_in (cfg_spec (cfg c)) EUCLID) Eip7702NotSupported) (\<lambda>_.
             obind (validate_priority_fee_for_tx H t base_fee disable_priority_fee_check) (\<lambda>_.
             guard_err (authorization_list_len t = 0) EmptyAuthorizationList))
         | CustomType \<Rightarrow>
             guard_err (\<not> is_l1_msg t) (InvalidStr ''unsupported transaction type''))"

definition validate_limits ::
  "('g, 'j, 'd, 'ir, 'gas, 'rg, 'res) handler_ops \<Rightarrow> ('g, 'j) ctx \<Rightarrow> (InvalidTransaction, unit) outcome" where
  "validate_limits H c =
     (let spec_id = spec_into_SpecId (cfg_spec (cfg c)) in
      obind (guard_err (\<not> is_block_gas_limit_disabled (cfg c)
          \<and> block_gas_limit (block c) < gas_limit (tx c)) CallerGasLimitMoreThanBlock) (\<lambda>_.
      guard_err (eth_enabled H spec_id Eth_SHANGHAI \<and> is_create (kind (tx c))
          \<and> max_initcode_size H (cfg c) < usize_len (tx_input (tx c))) CreateInitCodeSizeLimit))"

definition validate_env ::
  "('g, 'j, 'd, 'ir, 'gas, 'rg, 'res) handler_ops \<Rightarrow> ('g, 'j) ctx \<Rightarrow> ('d evm_error, unit) outcome" where
  "validate_env H c =
     obind (validate_header H c) (\<lambda>_.
     obind (map_err TransactionError (validate_chain_id H c)) (\<lambda>_.
     obind (map_err TransactionError (validate_gas_cap H c)) (\<lambda>_.
     obind (map_err TransactionError (validate_tx_type H c)) (\<lambda>_.
     map_err TransactionError (validate_limits H c)))))"

section \<open>\<open>validate_initial_tx_gas\<close>\<close>

text \<open>
  \<open>TransactionType::Legacy\<close> is compared with the type byte itself; as a byte it is 0. The counters have
  the widths Rust gives them: \<open>num_accounts\<close> is an \<open>i32\<close> (the fallback of an integer literal), cast
  \<open>as u64\<close> (sign extension), \<open>num_storage_slots\<close> a \<open>usize\<close>. A \<open>+=\<close> that overflows panics, as it does
  with overflow checks on; \<open>access_list_counts_unchecked\<close> is the fold with overflow checks off.
\<close>

definition count_item ::
  "access_list_item \<Rightarrow> i32 \<times> usize \<Rightarrow> ('e, i32 \<times> usize) outcome" where
  "count_item item counts =
     (case counts of (num_accounts, num_storage_slots) \<Rightarrow>
        obind (or_panic (add_i32 num_accounts 1)) (\<lambda>num_accounts.
        obind (or_panic (iter_count (storage_slots item))) (\<lambda>n.
        obind (or_panic (checked_add num_storage_slots n)) (\<lambda>num_storage_slots.
        Ok (num_accounts, num_storage_slots)))))"

definition access_list_counts :: "ScrollTransaction \<Rightarrow> ('e, i32 \<times> usize) outcome" where
  "access_list_counts t =
     (if tx_type t \<noteq> 0 then
        (case access_list t of
           Some al \<Rightarrow> foldl (\<lambda>counts item. obind counts (count_item item)) (Ok (0, 0)) al
         | None \<Rightarrow> Ok (0, 0))
      else Ok (0, 0))"

definition access_list_counts_unchecked :: "ScrollTransaction \<Rightarrow> i32 \<times> usize" where
  "access_list_counts_unchecked t =
     (if tx_type t \<noteq> 0 then
        (case access_list t of
           Some al \<Rightarrow>
             foldl (\<lambda>(num_accounts, num_storage_slots) item.
               (num_accounts + 1, num_storage_slots + of_nat (length (storage_slots item)))) (0, 0) al
         | None \<Rightarrow> (0, 0))
      else (0, 0))"

definition validate_initial_tx_gas ::
  "('g, 'j, 'd, 'ir, 'gas, 'rg, 'res) handler_ops \<Rightarrow> ('g, 'j) ctx \<Rightarrow> ('d evm_error, init_gas) outcome" where
  "validate_initial_tx_gas H c =
     obind (access_list_counts (tx c)) (\<lambda>(accounts, storages).
     let t = tx c;
         gas = initial_tx_gas H (gas_params (cfg c)) (tx_input t) (is_create (kind t))
           (scast accounts) storages (authorization_list_len t);
         gas = (if is_eip7623_disabled (cfg c) \<or> \<not> is_enabled_in (cfg_spec (cfg c)) FEYNMAN
                then gas\<lparr>floor_gas := 0\<rparr> else gas)
     in if gas_limit t < initial_gas gas then
          Err (TransactionError (CallGasCostMoreThanGasLimit (gas_limit t) (initial_gas gas)))
        else if is_enabled_in (cfg_spec (cfg c)) FEYNMAN \<and> gas_limit t < floor_gas gas then
          Err (TransactionError (GasFloorMoreThanGasLimit (floor_gas gas) (gas_limit t)))
        else Ok gas)"

section \<open>The L1 fee of the transaction\<close>

definition tx_l1_cost :: "('g, 'j) ctx \<Rightarrow> ScrollSpecId \<Rightarrow> ('d evm_error, u256) outcome" where
  "tx_l1_cost c spec =
     (case rlp_bytes (tx c) of
        None \<Rightarrow> Err (CustomError ''[SCROLL] Failed to load transaction rlp_bytes.'')
      | Some rlp \<Rightarrow>
          map_err (\<lambda>err. CustomError (''[SCROLL] Failed to calculate L1 fee: '' @ display_L1FeeError err))
            (try_calculate_tx_l1_cost (l1_block_info (chain c)) rlp spec
              (compression_ratio (tx c)) (compressed_size (tx c))))"

section \<open>\<open>validate_against_state_and_deduct_caller\<close>\<close>

definition decr_caller_balance ::
  "('g, 'j, 'd, 'ir, 'gas, 'rg, 'res) handler_ops \<Rightarrow> address \<Rightarrow> u256 \<Rightarrow> (('g, 'j) ctx, 'e, unit) exec" where
  "decr_caller_balance H a v = modify (\<lambda>c. c\<lparr>journal := snd (decr_balance (jrn H) a v (journal c))\<rparr>)"

definition deduct_before_tsuki_v2 ::
  "('g, 'j, 'd, 'ir, 'gas, 'rg, 'res) handler_ops \<Rightarrow> (('g, 'j) ctx, 'd evm_error, unit) exec" where
  "deduct_before_tsuki_v2 H c0 =
     (let from = caller (tx c0); spec = cfg_spec (cfg c0);
          l1 = is_l1_msg (tx c0); sys = is_system_tx (tx c0)
      in bind (if \<not> l1 then mn_validate_against_state_and_deduct_caller H else ret ()) (\<lambda>_.
         if \<not> l1 \<and> \<not> sys then
           bind (lift (\<lambda>c. tx_l1_cost c spec)) (\<lambda>cost.
           bind (on_journal (load_account_mut (jrn H) from)) (\<lambda>_.
           bind (gets (\<lambda>c. acc_balance (jrn H) (journal c) from)) (\<lambda>balance.
           if balance < cost then raise (TransactionError (LackOfFundForMaxFee cost balance))
           else decr_caller_balance H from cost)))
         else ret ())) c0"

definition tsuki_v2_check ::
  "('g, 'j, 'd, 'ir, 'gas, 'rg, 'res) handler_ops \<Rightarrow> (('g, 'j) ctx, 'd evm_error, u256) exec" where
  "tsuki_v2_check H c0 =
     (let from = caller (tx c0); spec = cfg_spec (cfg c0)
      in bind (on_journal (load_account_mut (jrn H) from)) (\<lambda>_.
         bind (gets (\<lambda>c. acc_balance (jrn H) (journal c) from)) (\<lambda>balance.
         bind (lift (\<lambda>c. tx_l1_cost c spec)) (\<lambda>cost.
         bind (lift (\<lambda>c. map_err TransactionError (max_balance_spending (txo H) (tx c)))) (\<lambda>spending.
         bind (lift (\<lambda>c. ok_or (checked_add spending cost)
           (TransactionError OverflowPaymentInTransaction))) (\<lambda>required_balance.
         if balance < required_balance then
           raise (TransactionError (LackOfFundForMaxFee required_balance balance))
         else ret cost)))))) c0"

definition deduct_from_tsuki_v2 ::
  "('g, 'j, 'd, 'ir, 'gas, 'rg, 'res) handler_ops \<Rightarrow> (('g, 'j) ctx, 'd evm_error, unit) exec" where
  "deduct_from_tsuki_v2 H c0 =
     (let from = caller (tx c0); l1 = is_l1_msg (tx c0); sys = is_system_tx (tx c0)
      in bind (if \<not> l1 \<and> \<not> sys then tsuki_v2_check H else ret 0) (\<lambda>cost.
         bind (if \<not> l1 then mn_validate_against_state_and_deduct_caller H else ret ()) (\<lambda>_.
         if \<not> l1 \<and> \<not> sys then
           bind (on_journal (load_account_mut (jrn H) from)) (\<lambda>_. decr_caller_balance H from cost)
         else ret ()))) c0"

definition l1_msg_checks ::
  "('g, 'j, 'd, 'ir, 'gas, 'rg, 'res) handler_ops \<Rightarrow> (('g, 'j) ctx, 'd evm_error, unit) exec" where
  "l1_msg_checks H c0 =
     (let from = caller (tx c0); spec = cfg_spec (cfg c0);
          skip_balance_check = (is_l1_msg (tx c0) \<and> is_enabled_in spec EUCLID)
      in bind (on_journal (load_account_with_code_mut (jrn H) from)) (\<lambda>_.
         bind
           (if \<not> skip_balance_check then
              bind (lift (\<lambda>c. map_err TransactionError (max_balance_spending (txo H) (tx c)))) (\<lambda>m.
              bind (gets (\<lambda>c. acc_balance (jrn H) (journal c) from)) (\<lambda>balance.
              if balance < m then raise (TransactionError (LackOfFundForMaxFee m balance))
              else ret ()))
            else ret ()) (\<lambda>_.
         bind
           (if \<not> is_eip3607_disabled (cfg c0) then
              bind (gets (\<lambda>c. acc_code (jrn H) (journal c) from)) (\<lambda>code.
              if (case code of Some b \<Rightarrow> \<not> code_is_empty b \<and> \<not> code_is_eip7702 b | None \<Rightarrow> False)
              then raise (TransactionError RejectCallerWithCode) else ret ())
            else ret ()) (\<lambda>_.
         bind
           (if is_call (kind (tx c0)) then
              modify (\<lambda>c. c\<lparr>journal := snd (bump_nonce (jrn H) from (journal c))\<rparr>)
            else ret ()) (\<lambda>_.
         modify (\<lambda>c. c\<lparr>journal := touch (jrn H) from (journal c)\<rparr>))))) c0)"

definition validate_against_state_and_deduct_caller ::
  "('g, 'j, 'd, 'ir, 'gas, 'rg, 'res) handler_ops \<Rightarrow> (('g, 'j) ctx, 'd evm_error, unit) exec" where
  "validate_against_state_and_deduct_caller H c0 =
     (let l1 = is_l1_msg (tx c0); spec = cfg_spec (cfg c0)
      in bind (if \<not> is_enabled_in spec TSUKI_V2 then deduct_before_tsuki_v2 H
               else deduct_from_tsuki_v2 H) (\<lambda>_.
         if l1 then l1_msg_checks H else ret ()) c0)"

section \<open>\<open>pre_execution\<close>\<close>

definition refresh_l1_block_info ::
  "('g, 'j, 'd, 'ir, 'gas, 'rg, 'res) handler_ops \<Rightarrow> (('g, 'j) ctx, 'd evm_error, unit) exec" where
  "refresh_l1_block_info H c0 =
     (if \<not> is_l1_msg (tx c0) \<and> \<not> is_system_tx (tx c0) then
        bind (on_journal (try_fetch_from_journal (jrn H) (cfg_spec (cfg c0)))) (\<lambda>info.
        modify (\<lambda>c. c\<lparr>chain := (chain c)\<lparr>l1_block_info := info\<rparr>\<rparr>)) c0
      else ret () c0)"

definition pre_execution ::
  "('g, 'j, 'd, 'ir, 'gas, 'rg, 'res) handler_ops \<Rightarrow> (('g, 'j) ctx, 'd evm_error, u64) exec" where
  "pre_execution H =
     bind (refresh_l1_block_info H) (\<lambda>_.
     bind (validate_against_state_and_deduct_caller H) (\<lambda>_.
     bind (load_accounts H) (\<lambda>_.
     apply_eip7702_auth_list H)))"

section \<open>After execution\<close>

definition last_frame_result ::
  "('g, 'j, 'd, 'ir, 'gas, 'rg, 'res) handler_ops \<Rightarrow> ('ir, 'gas) frame_result
     \<Rightarrow> (('g, 'j) ctx, 'd evm_error, ('ir, 'gas) frame_result) exec" where
  "last_frame_result H frame_result c =
     (let instruction_result = fr_result frame_result;
          gas = fr_gas frame_result;
          rem = remaining (gmo H) gas;
          refund = refunded (gmo H) gas;
          gas = gas_new_spent (gmo H) (gas_limit (tx c));
          gas = (if ir_is_ok_or_revert H instruction_result then erase_cost (gmo H) rem gas else gas);
          gas = (if \<not> is_l1_msg (tx c) \<and> ir_is_ok H instruction_result
                 then record_refund (gmo H) refund gas else gas)
      in (Ok (frame_result\<lparr>fr_gas := gas\<rparr>), c))"

definition eip7623_check_gas_floor ::
  "('g, 'j, 'd, 'ir, 'gas, 'rg, 'res) handler_ops \<Rightarrow> ('ir, 'gas) frame_result \<Rightarrow> init_gas
     \<Rightarrow> ('g, 'j) ctx \<Rightarrow> ('ir, 'gas) frame_result \<times> ('g, 'j) ctx" where
  "eip7623_check_gas_floor H exec_result init_and_floor_gas c =
     (if is_l1_msg (tx c) then (exec_result, c)
      else mn_eip7623_check_gas_floor H exec_result init_and_floor_gas c)"

definition refund ::
  "('g, 'j, 'd, 'ir, 'gas, 'rg, 'res) handler_ops \<Rightarrow> ('ir, 'gas) frame_result \<Rightarrow> i64
     \<Rightarrow> ('g, 'j) ctx \<Rightarrow> ('ir, 'gas) frame_result \<times> ('g, 'j) ctx" where
  "refund H exec_result eip7702_refund c =
     (if is_l1_msg (tx c) then (exec_result, c)
      else
        let spec = spec_into_SpecId (cfg_spec (cfg c))
        in (exec_result\<lparr>fr_gas := mn_refund H spec (fr_gas exec_result) eip7702_refund\<rparr>, c))"

definition reimburse_caller ::
  "('g, 'j, 'd, 'ir, 'gas, 'rg, 'res) handler_ops \<Rightarrow> ('ir, 'gas) frame_result
     \<Rightarrow> (('g, 'j) ctx, 'd evm_error, ('ir, 'gas) frame_result) exec" where
  "reimburse_caller H exec_result c =
     (if is_l1_msg (tx c) then ret exec_result c else mn_reimburse_caller H exec_result c)"

definition reward_beneficiary ::
  "('g, 'j, 'd, 'ir, 'gas, 'rg, 'res) handler_ops \<Rightarrow> ('ir, 'gas) frame_result
     \<Rightarrow> (('g, 'j) ctx, 'd evm_error, unit) exec" where
  "reward_beneficiary H exec_result c0 =
     (if is_l1_msg (tx c0) then ret () c0
      else
        let effective_price = ucast (effective_gas_price (txo H) (tx c0) (ucast (basefee (block c0))));
            to = beneficiary (block c0)
        in bind (if \<not> is_system_tx (tx c0) then lift (\<lambda>c. tx_l1_cost c (cfg_spec (cfg c)))
                 else ret 0) (\<lambda>l1_cost.
           let gas = fr_gas exec_result;
               reward = saturating_add
                 (saturating_mul effective_price (ucast (gas_used (gmo H) gas))) l1_cost
           in on_journal (balance_incr (jrn H) to reward)) c0)"

definition execution_result ::
  "('g, 'j, 'd, 'ir, 'gas, 'rg, 'res) handler_ops \<Rightarrow> ('ir, 'gas) frame_result \<Rightarrow> 'rg
     \<Rightarrow> (('g, 'j) ctx, 'd evm_error, 'res) exec" where
  "execution_result H exec_result result_gas c =
     (let result_gas = (if is_l1_msg (tx c) then set_floor_gas H 0 result_gas else result_gas)
      in mn_execution_result H exec_result result_gas c)"

end
