(* ===== verification/HandlerFees.thy ===== *)
theory HandlerFees
  imports Handler
begin

text \<open>
  What a transaction pays before execution: \<open>pre_execution\<close> charges a fee-charged transaction its gas
  and exactly the L1 fee of the oracle snapshot it has just read, a system transaction its gas only,
  an L1 message nothing; from TsukiV2 the caller can still pay the value afterwards, and a
  transaction rejected for its balance has changed no balance. The lemmas are proved from the
  contract \<open>mainnet_handler\<close>.
\<close>

section \<open>Frames\<close>

lemma tx_l1_cost_env: "env_of c = env_of d \<Longrightarrow> tx_l1_cost c s = tx_l1_cost d s"
  by (simp add: tx_l1_cost_def env_of_def split: option.split)

lemma tx_l1_cost_journal [simp]: "tx_l1_cost (c\<lparr>journal := j\<rparr>) s = tx_l1_cost c s"
  by (rule tx_l1_cost_env) simp

lemma env_ofD: "env_of c = env_of d \<Longrightarrow> tx c = tx d \<and> cfg c = cfg d \<and> block c = block d \<and> chain c = chain d"
  by (simp add: env_of_def)

lemma decr_caller_balance_eq:
  "decr_caller_balance H a v c = (Ok (), c\<lparr>journal := snd (decr_balance (jrn H) a v (journal c))\<rparr>)"
  by (simp add: decr_caller_balance_def)

lemma tx_l1_cost_Ok:
  "tx_l1_cost c s = Ok fee \<longleftrightarrow>
     (\<exists>rlp. rlp_bytes (tx c) = Some rlp \<and>
        try_calculate_tx_l1_cost (l1_block_info (chain c)) rlp s (compression_ratio (tx c))
          (compressed_size (tx c)) = Ok fee)"
  by (auto simp: tx_l1_cost_def exec_simps split: option.splits)

section \<open>The charge\<close>

text \<open>Gas and fee are taken from the caller, who had both; nobody else is touched.\<close>

definition charged ::
  "('g, 'j, 'd, 'ir, 'gas, 'rg, 'res) handler_ops \<Rightarrow> (ScrollTransaction \<Rightarrow> block_env \<Rightarrow> u256)
     \<Rightarrow> ('g, 'j) ctx \<Rightarrow> u256 \<Rightarrow> ('g, 'j) ctx \<Rightarrow> bool" where
  "charged H gas_charge c fee d \<longleftrightarrow>
     tx d = tx c \<and> cfg d = cfg c \<and> block d = block c \<and>
     unat (balances H d (caller (tx c))) + unat (gas_charge (tx c) (block c)) + unat fee =
       unat (balances H c (caller (tx c))) \<and>
     (\<forall>a. a \<noteq> caller (tx c) \<longrightarrow> balances H d a = balances H c a)"

context mainnet_handler begin

lemma load_caller:
  assumes "on_journal (load_account_mut (jrn H) a) c = (r, d)"
  shows "env_of d = env_of c" "balances H d = balances H c"
    and "acc_nonce (jrn H) (journal d) = acc_nonce (jrn H) (journal c)"
  using assms load_views(1,2) [of a "journal c"]
  by (auto simp: on_journal_def balances_def split: prod.splits)

lemma load_caller_code:
  assumes "on_journal (load_account_with_code_mut (jrn H) a) c = (r, d)"
  shows "env_of d = env_of c" "balances H d = balances H c"
    and "acc_nonce (jrn H) (journal d) = acc_nonce (jrn H) (journal c)"
  using assms load_views(3,4) [of a "journal c"]
  by (auto simp: on_journal_def balances_def split: prod.splits)

lemma fetch_frame:
  assumes "on_journal (try_fetch_from_journal (jrn H) s) c = (r, d)"
  shows "env_of d = env_of c" "balances H d = balances H c"
    and "acc_nonce (jrn H) (journal d) = acc_nonce (jrn H) (journal c)"
  using assms journal_fetch_frame [of s "journal c"]
  by (auto simp: on_journal_def balances_def split: prod.splits)

lemma decr_frame:
  "env_of (c\<lparr>journal := snd (decr_balance (jrn H) a v (journal c))\<rparr>) = env_of c"
  by simp

lemma decr_balances:
  "v \<le> balances H c a \<Longrightarrow>
     balances H (c\<lparr>journal := snd (decr_balance (jrn H) a v (journal c))\<rparr>) =
       (balances H c)(a := balances H c a - v)"
  by (simp add: balances_def decr_balance_enough)

lemma mainnet_charge:
  assumes "mn_validate_against_state_and_deduct_caller H c = (Ok (), d)"
  shows "env_of d = env_of c"
    and "gas_charge (tx c) (block c) \<le> balances H c (caller (tx c))"
    and "balances H d = (balances H c)
      (caller (tx c) := balances H c (caller (tx c)) - gas_charge (tx c) (block c))"
  using deduct_ok [OF assms] preservesD [OF deduct_env assms]
  by (auto simp: word_le_nat_alt)

section \<open>Deductions\<close>

lemma chargedI:
  assumes "env_of d = env_of c"
    and "gas_charge (tx c) (block c) \<le> balances H c (caller (tx c))"
    and "fee \<le> balances H c (caller (tx c)) - gas_charge (tx c) (block c)"
    and "balances H d = (balances H c)
      (caller (tx c) := balances H c (caller (tx c)) - gas_charge (tx c) (block c) - fee)"
  shows "charged H gas_charge c fee d"
  using assms env_ofD [OF assms(1)] by (auto simp: charged_def word_le_nat_alt unat_sub)

lemma deduct_before_charges:
  assumes "deduct_before_tsuki_v2 H c = (Ok (), d)" and "fee_charged (tx c)"
  shows "\<exists>fee. tx_l1_cost c (cfg_spec (cfg c)) = (Ok fee :: ('d evm_error, u256) outcome) \<and>
    charged H gas_charge c fee d \<and> env_of d = env_of c"
proof -
  from assms obtain c1 fee c2 where
    mn: "mn_validate_against_state_and_deduct_caller H c = (Ok (), c1)"
    and fee: "tx_l1_cost c1 (cfg_spec (cfg c)) = (Ok fee :: ('d evm_error, u256) outcome)"
    and load: "on_journal (load_account_mut (jrn H) (caller (tx c))) c1 = (Ok (), c2)"
    and enough: "fee \<le> balances H c2 (caller (tx c))"
    and d: "d = c2\<lparr>journal := snd (decr_balance (jrn H) (caller (tx c)) fee (journal c2))\<rparr>"
    by (auto simp: deduct_before_tsuki_v2_def bind_Ok decr_caller_balance_eq balances_def Let_def
        not_less split: if_splits)
  note c1 = mainnet_charge [OF mn] and c2 = load_caller [OF load]
  have "tx_l1_cost c (cfg_spec (cfg c)) = (Ok fee :: ('d evm_error, u256) outcome)"
    using fee tx_l1_cost_env [OF c1(1)] by metis
  moreover have "charged H gas_charge c fee d"
  proof (rule chargedI)
    show "env_of d = env_of c" using c1 c2 by (simp add: d)
    show "gas_charge (tx c) (block c) \<le> balances H c (caller (tx c))" by (rule c1)
    show "fee \<le> balances H c (caller (tx c)) - gas_charge (tx c) (block c)"
      using enough c1 c2 by simp
    show "balances H d = (balances H c)
      (caller (tx c) := balances H c (caller (tx c)) - gas_charge (tx c) (block c) - fee)"
      unfolding d using decr_balances [OF enough] c1 c2 by simp
  qed
  moreover have "env_of d = env_of c" using c1 c2 by (simp add: d)
  ultimately show ?thesis by blast
qed

lemma tsuki_v2_check_Ok:
  assumes "tsuki_v2_check H c = (Ok fee, d)"
  obtains m where "max_balance_spending (txo H) (tx c) = Ok m"
    and "tx_l1_cost c (cfg_spec (cfg c)) = (Ok fee :: ('d evm_error, u256) outcome)"
    and "unat m + unat fee \<le> unat (balances H c (caller (tx c)))"
    and "env_of d = env_of c" and "balances H d = balances H c"
proof -
  from assms obtain m t where
    load: "on_journal (load_account_mut (jrn H) (caller (tx c))) c = (Ok (), d)"
    and fee: "tx_l1_cost d (cfg_spec (cfg c)) = (Ok fee :: ('d evm_error, u256) outcome)"
    and m: "max_balance_spending (txo H) (tx d) = Ok m"
    and t: "checked_add m fee = Some t" and enough: "t \<le> balances H d (caller (tx c))"
    by (auto simp: tsuki_v2_check_def bind_Ok balances_def Let_def not_less exec_simps
        split: if_splits)
  note d = load_caller [OF load]
  have "unat m + unat fee \<le> unat (balances H c (caller (tx c)))"
    using enough checked_add_Some [OF t] d by (simp add: word_le_nat_alt)
  then show thesis
    using that m fee d tx_l1_cost_env [OF d(1)] env_ofD [OF d(1)] by metis
qed

lemma tsuki_v2_check_Err:
  "tsuki_v2_check H c = (Err e, d) \<Longrightarrow> env_of d = env_of c \<and> balances H d = balances H c"
  by (auto simp: tsuki_v2_check_def bind_Err Let_def split: if_splits dest: load_caller)

lemma deduct_from_charges:
  assumes "deduct_from_tsuki_v2 H c = (Ok (), d)" and "fee_charged (tx c)"
  shows "\<exists>fee. tx_l1_cost c (cfg_spec (cfg c)) = (Ok fee :: ('d evm_error, u256) outcome) \<and>
    charged H gas_charge c fee d \<and> env_of d = env_of c \<and>
    unat (tx_value (tx c)) \<le> unat (balances H d (caller (tx c)))"
proof -
  from assms obtain fee c1 c2 c3 where
    check: "tsuki_v2_check H c = (Ok fee, c1)"
    and mn: "mn_validate_against_state_and_deduct_caller H c1 = (Ok (), c2)"
    and load: "on_journal (load_account_mut (jrn H) (caller (tx c))) c2 = (Ok (), c3)"
    and d: "d = c3\<lparr>journal := snd (decr_balance (jrn H) (caller (tx c)) fee (journal c3))\<rparr>"
    by (auto simp: deduct_from_tsuki_v2_def bind_Ok decr_caller_balance_eq Let_def)
  obtain m where m: "max_balance_spending (txo H) (tx c) = Ok m"
    and fee: "tx_l1_cost c (cfg_spec (cfg c)) = (Ok fee :: ('d evm_error, u256) outcome)"
    and room: "unat m + unat fee \<le> unat (balances H c (caller (tx c)))"
    and c1: "env_of c1 = env_of c" "balances H c1 = balances H c"
    using check by (rule tsuki_v2_check_Ok)
  have t: "tx c1 = tx c" "block c1 = block c" using env_ofD [OF c1(1)] by auto
  note c2 = mainnet_charge [OF mn, unfolded t c1] and c3 = load_caller [OF load]
  have gas: "unat (gas_charge (tx c) (block c)) + unat (tx_value (tx c)) \<le> unat m"
    using deduct_ok [OF mn] m t by auto
  have fits: "fee \<le> balances H c (caller (tx c)) - gas_charge (tx c) (block c)"
    using room gas c2(2) by (simp add: word_le_nat_alt unat_sub)
  have charge: "charged H gas_charge c fee d"
  proof (rule chargedI)
    show "env_of d = env_of c" using c2 c3 by (simp add: d)
    show "gas_charge (tx c) (block c) \<le> balances H c (caller (tx c))" by (rule c2)
    show "fee \<le> balances H c (caller (tx c)) - gas_charge (tx c) (block c)" by (rule fits)
    show "balances H d = (balances H c)
      (caller (tx c) := balances H c (caller (tx c)) - gas_charge (tx c) (block c) - fee)"
      unfolding d using decr_balances [of fee c3 "caller (tx c)"] fits c2 c3 by simp
  qed
  moreover from this have "unat (tx_value (tx c)) \<le> unat (balances H d (caller (tx c)))"
    using room gas unfolding charged_def by linarith
  moreover have "env_of d = env_of c" using c2 c3 by (simp add: d)
  ultimately show ?thesis using fee by blast
qed

text \<open>From TsukiV2 a rejected transaction has changed no balance.\<close>

lemma deduct_from_rejects:
  assumes "deduct_from_tsuki_v2 H c = (Err e, d)"
  shows "env_of d = env_of c \<and> balances H d = balances H c \<or>
    (\<exists>x. e = DatabaseError x)"
proof -
  consider "tsuki_v2_check H c = (Err e, d)"
    | fee c1 where "tsuki_v2_check H c = (Ok fee, c1) \<or> c1 = c"
        "mn_validate_against_state_and_deduct_caller H c1 = (Err e, d)"
    | "\<exists>x. e = DatabaseError x"
    using assms
    by (auto simp: deduct_from_tsuki_v2_def bind_Err bind_Ok exec_simps decr_caller_balance_eq Let_def
        split: if_splits)
  then show ?thesis
  proof cases
    case 1
    then show ?thesis using tsuki_v2_check_Err by blast
  next
    case (2 fee c1)
    then have "env_of c1 = env_of c \<and> balances H c1 = balances H c"
      by (metis tsuki_v2_check_Ok)
    with 2(2) show ?thesis
      using deduct_err [of c1 e d] preservesD [OF deduct_env, of c1 "Err e" d] by simp
  qed blast
qed

section \<open>L1 messages\<close>

lemma l1_msg_no_deduction:
  "is_l1_msg (tx c) \<Longrightarrow> deduct_before_tsuki_v2 H c = (Ok (), c)"
  "is_l1_msg (tx c) \<Longrightarrow> deduct_from_tsuki_v2 H c = (Ok (), c)"
  by (simp_all add: deduct_before_tsuki_v2_def deduct_from_tsuki_v2_def Let_def)

lemma validate_l1_msg:
  "is_l1_msg (tx c) \<Longrightarrow> validate_against_state_and_deduct_caller H c = l1_msg_checks H c"
  by (simp add: validate_against_state_and_deduct_caller_def bind_def l1_msg_no_deduction Let_def)

lemma validate_not_l1_msg:
  "\<not> is_l1_msg (tx c) \<Longrightarrow> validate_against_state_and_deduct_caller H c =
     (if TSUKI_V2 \<le> cfg_spec (cfg c) then deduct_from_tsuki_v2 H c else deduct_before_tsuki_v2 H c)"
  by (simp add: validate_against_state_and_deduct_caller_def Let_def is_enabled_in_le bind_def
      split: prod.split outcome.split)

lemma l1_msg_checks_Ok:
  assumes "l1_msg_checks H c = (Ok (), d)"
  shows "env_of d = env_of c" and "balances H d = balances H c"
    and "acc_nonce (jrn H) (journal c) (caller (tx c)) \<noteq> - 1 \<Longrightarrow>
      acc_nonce (jrn H) (journal d) =
        (acc_nonce (jrn H) (journal c))(caller (tx c) :=
           acc_nonce (jrn H) (journal c) (caller (tx c)) + (if is_call (kind (tx c)) then 1 else 0))"
proof -
  let ?a = "caller (tx c)"
  from assms obtain c1 where load: "on_journal (load_account_with_code_mut (jrn H) ?a) c = (Ok (), c1)"
    and d: "d = c1\<lparr>journal := touch (jrn H) ?a
      (if is_call (kind (tx c)) then snd (bump_nonce (jrn H) ?a (journal c1)) else journal c1)\<rparr>"
    by (auto simp: l1_msg_checks_def bind_Ok Let_def split: if_splits)
  note c1 = load_caller_code [OF load]
  show "env_of d = env_of c" "balances H d = balances H c"
    using c1 by (auto simp: d balances_def touch_balance bump_nonce_balance)
  assume "acc_nonce (jrn H) (journal c) ?a \<noteq> - 1"
  then show "acc_nonce (jrn H) (journal d) =
        (acc_nonce (jrn H) (journal c))(?a :=
           acc_nonce (jrn H) (journal c) ?a + (if is_call (kind (tx c)) then 1 else 0))"
    using c1(3) by (auto simp: d touch_nonce bump_nonce_other bump_nonce_room fun_eq_iff)
qed

lemma l1_msg_checks_Err:
  assumes "l1_msg_checks H c = (Err e, d)"
  shows "env_of d = env_of c \<and> balances H d = balances H c"
    and "is_l1_msg (tx c) \<Longrightarrow> EUCLID \<le> cfg_spec (cfg c) \<Longrightarrow>
      (\<exists>x. e = DatabaseError x) \<or> e = TransactionError RejectCallerWithCode"
  using assms
  by (auto simp: l1_msg_checks_def bind_Err bind_Ok Let_def is_enabled_in_le exec_simps
      balances_def env_of_def load_views split: if_splits dest!: load_caller_code)

lemma l1_msg_checks_Panic:
  assumes "l1_msg_checks H c = (Panic, d)"
  shows "env_of d = env_of c \<and> balances H d = balances H c"
  using assms
  by (auto simp: l1_msg_checks_def bind_Panic Let_def split: if_splits dest: load_caller_code(1,2))

section \<open>The whole of \<open>pre_execution\<close>\<close>

lemma later_stages:
  assumes "bind (load_accounts H) (\<lambda>_. apply_eip7702_auth_list H) c = (r, d)"
  shows "env_of d = env_of c" and "balances H d = balances H c"
proof -
  have "preserves env_of (bind (load_accounts H) (\<lambda>_. apply_eip7702_auth_list H))"
    and "preserves (balances H) (bind (load_accounts H) (\<lambda>_. apply_eip7702_auth_list H))"
    by (auto intro: load_env auth_env load_accounts_balances auth_balances)
  then show "env_of d = env_of c" and "balances H d = balances H c"
    using assms by (auto dest: preservesD)
qed

lemma pre_execution_Ok:
  assumes "pre_execution H c = (Ok r, d)"
  obtains c1 c2 where "refresh_l1_block_info H c = (Ok (), c1)"
    and "validate_against_state_and_deduct_caller H c1 = (Ok (), c2)"
    and "env_of d = env_of c2" and "balances H d = balances H c2"
proof -
  from assms obtain c1 c2 where "refresh_l1_block_info H c = (Ok (), c1)"
    and "validate_against_state_and_deduct_caller H c1 = (Ok (), c2)"
    and rest: "bind (load_accounts H) (\<lambda>_. apply_eip7702_auth_list H) c2 = (Ok r, d)"
    by (auto simp: pre_execution_def bind_Ok)
  then show thesis using that later_stages [OF rest] by blast
qed

lemma refresh_charged:
  assumes "refresh_l1_block_info H c = (Ok (), d)" and "fee_charged (tx c)"
  shows "tx d = tx c" "cfg d = cfg c" "block d = block c" "balances H d = balances H c"
    and "fst (try_fetch_from_journal (jrn H) (cfg_spec (cfg c)) (journal c)) =
      Ok (l1_block_info (chain d))"
proof -
  from assms obtain info j where
    fetch: "try_fetch_from_journal (jrn H) (cfg_spec (cfg c)) (journal c) = (Ok info, j)"
    and d: "d = c\<lparr>journal := j, chain := (chain c)\<lparr>l1_block_info := info\<rparr>\<rparr>"
    by (auto simp: refresh_l1_block_info_def exec_simps)
  show "tx d = tx c" "cfg d = cfg c" "block d = block c" "balances H d = balances H c"
    and "fst (try_fetch_from_journal (jrn H) (cfg_spec (cfg c)) (journal c)) =
      Ok (l1_block_info (chain d))"
    using journal_fetch_frame(2) [OF fetch] by (simp_all add: d fetch balances_def)
qed

lemma refresh_uncharged:
  "\<not> fee_charged (tx c) \<Longrightarrow> refresh_l1_block_info H c = (Ok (), c)"
  by (auto simp: refresh_l1_block_info_def)

lemma validate_charges:
  assumes "validate_against_state_and_deduct_caller H c = (Ok (), d)" and "fee_charged (tx c)"
  shows "\<exists>fee. tx_l1_cost c (cfg_spec (cfg c)) = (Ok fee :: ('d evm_error, u256) outcome) \<and>
    charged H gas_charge c fee d \<and> env_of d = env_of c \<and>
    (TSUKI_V2 \<le> cfg_spec (cfg c) \<longrightarrow> unat (tx_value (tx c)) \<le> unat (balances H d (caller (tx c))))"
  using assms deduct_before_charges [of c d] deduct_from_charges [of c d]
  by (simp add: validate_not_l1_msg split: if_splits)

lemma pre_execution_charged:
  assumes "pre_execution H c = (Ok r, d)" and "fee_charged (tx c)"
  shows "\<exists>info rlp fee.
    fst (try_fetch_from_journal (jrn H) (cfg_spec (cfg c)) (journal c)) = Ok info \<and>
    chain d = \<lparr>l1_block_info = info\<rparr> \<and> rlp_bytes (tx c) = Some rlp \<and>
    try_calculate_tx_l1_cost info rlp (cfg_spec (cfg c)) (compression_ratio (tx c))
      (compressed_size (tx c)) = Ok fee \<and>
    charged H gas_charge c fee d \<and>
    (TSUKI_V2 \<le> cfg_spec (cfg c) \<longrightarrow> unat (tx_value (tx c)) \<le> unat (balances H d (caller (tx c))))"
proof -
  obtain c1 c2 where c1: "refresh_l1_block_info H c = (Ok (), c1)"
    and c2: "validate_against_state_and_deduct_caller H c1 = (Ok (), c2)"
    and d: "env_of d = env_of c2" "balances H d = balances H c2"
    using assms(1) by (rule pre_execution_Ok)
  note t = refresh_charged(1-4) [OF c1 assms(2)] and r = refresh_charged(5) [OF c1 assms(2)]
  obtain fee where fee: "tx_l1_cost c1 (cfg_spec (cfg c)) = (Ok fee :: ('d evm_error, u256) outcome)"
    and ch: "charged H gas_charge c1 fee c2" "env_of c2 = env_of c1"
    and sol: "TSUKI_V2 \<le> cfg_spec (cfg c) \<longrightarrow> unat (tx_value (tx c)) \<le> unat (balances H c2 (caller (tx c)))"
    using validate_charges [OF c2] assms(2) t by auto
  have "chain d = chain c1" using env_ofD [OF d(1)] env_ofD [OF ch(2)] by simp
  then have "chain d = \<lparr>l1_block_info = l1_block_info (chain c1)\<rparr>" by simp
  moreover have "charged H gas_charge c fee d"
    using ch(1) env_ofD [OF d(1)] d(2) t by (simp add: charged_def)
  ultimately show ?thesis
    using r fee sol d(2) t by (auto simp: tx_l1_cost_Ok)
qed

lemma pre_execution_system:
  assumes "pre_execution H c = (Ok r, d)" and "\<not> is_l1_msg (tx c)" and "is_system_tx (tx c)"
  shows "charged H gas_charge c 0 d" and "chain d = chain c"
proof -
  obtain c2 where c2: "validate_against_state_and_deduct_caller H c = (Ok (), c2)"
    and d: "env_of d = env_of c2" "balances H d = balances H c2"
    using pre_execution_Ok [OF assms(1)] assms(3) by (metis refresh_uncharged Pair_inject)
  have "mn_validate_against_state_and_deduct_caller H c = (Ok (), c2)"
    using c2 assms(2,3)
    by (auto simp: validate_not_l1_msg deduct_from_tsuki_v2_def deduct_before_tsuki_v2_def bind_Ok
        Let_def split: if_splits)
  note m = mainnet_charge [OF this]
  have "charged H gas_charge c 0 c2" by (rule chargedI) (use m in auto)
  then show "charged H gas_charge c 0 d"
    using env_ofD [OF d(1)] d(2) by (simp add: charged_def)
  show "chain d = chain c" using env_ofD [OF d(1)] env_ofD [OF m(1)] by simp
qed

lemma pre_execution_l1_msg:
  assumes "pre_execution H c = (r, d)" and "is_l1_msg (tx c)"
  shows "env_of d = env_of c" and "balances H d = balances H c"
proof -
  obtain r1 c1 where c1: "l1_msg_checks H c = (r1, c1)" by (cases "l1_msg_checks H c")
  have run: "pre_execution H c =
      (case r1 of Ok u \<Rightarrow> bind (load_accounts H) (\<lambda>_. apply_eip7702_auth_list H) c1
       | Err e \<Rightarrow> (Err e, c1) | Panic \<Rightarrow> (Panic, c1))"
    using c1 assms(2)
    by (simp add: pre_execution_def bind_def refresh_uncharged validate_l1_msg split: outcome.split)
  have fr: "env_of c1 = env_of c" "balances H c1 = balances H c"
    using c1 l1_msg_checks_Ok [of c c1] l1_msg_checks_Err [of c _ c1] l1_msg_checks_Panic [of c c1]
    by (cases r1; simp)+
  show "env_of d = env_of c" and "balances H d = balances H c"
    using assms(1) run fr later_stages [of c1 r d] by (cases r1; simp)+
qed

lemma pre_execution_cost:
  assumes "pre_execution H c = (Ok r, d)" and "fee_charged (tx c)"
  shows "\<exists>fee. tx_l1_cost d (cfg_spec (cfg d)) = (Ok fee :: ('e evm_error, u256) outcome) \<and>
    charged H gas_charge c fee d"
proof -
  from pre_execution_charged [OF assms] obtain info rlp fee where
    "chain d = \<lparr>l1_block_info = info\<rparr>" "rlp_bytes (tx c) = Some rlp"
    "try_calculate_tx_l1_cost info rlp (cfg_spec (cfg c)) (compression_ratio (tx c))
      (compressed_size (tx c)) = Ok fee"
    and ch: "charged H gas_charge c fee d"
    by blast
  moreover have "tx d = tx c" "cfg d = cfg c" using ch by (simp_all add: charged_def)
  ultimately have "tx_l1_cost d (cfg_spec (cfg d)) = (Ok fee :: ('e evm_error, u256) outcome)"
    by (simp add: tx_l1_cost_Ok)
  with ch show ?thesis by blast
qed

end

section \<open>The reward\<close>

lemma price_times_gas:
  fixes p :: u128 and g :: u64
  shows "unat (saturating_mul (ucast p :: u256) (ucast g)) = unat p * unat g"
    and "unat p * unat g < 2 ^ 192"
proof -
  have "unat p < 2 ^ 128" "unat g < 2 ^ 64"
    using unsigned_less [of p, where ?'a = nat] unsigned_less [of g, where ?'a = nat] by simp_all
  then have "unat p * unat g < 2 ^ 128 * 2 ^ 64" by (rule mult_strict_mono) simp_all
  then show lt: "unat p * unat g < 2 ^ 192" by simp
  have "unat p * unat g < 2 ^ 256" using lt by (rule less_trans) simp
  then show "unat (saturating_mul (ucast p :: u256) (ucast g)) = unat p * unat g"
    by (simp add: unat_saturating_mul clip_less)
qed

lemma reward_no_saturation:
  fixes p :: u128 and g :: u64
  assumes "unat fee < 2 ^ 96"
  shows "unat (saturating_add (saturating_mul (ucast p :: u256) (ucast g)) fee) =
    unat p * unat g + unat fee"
proof -
  have "unat p * unat g + unat fee < 2 ^ 192 + 2 ^ 96"
    using price_times_gas(2) [of p g] assms by linarith
  also have "\<dots> < (2 :: nat) ^ 256" by simp
  finally show ?thesis by (simp add: unat_saturating_add price_times_gas clip_less)
qed

text \<open>What the block's beneficiary is credited: gas at the effective price, plus the L1 fee.\<close>

definition reward_spec ::
  "('g, 'j, 'd, 'ir, 'gas, 'rg, 'res) handler_ops \<Rightarrow> ('ir, 'gas) frame_result \<Rightarrow> ('g, 'j) ctx \<Rightarrow> u256 \<Rightarrow> nat" where
  "reward_spec H fr c fee =
     unat (effective_gas_price (txo H) (tx c) (ucast (basefee (block c))))
       * unat (gas_used (gmo H) (fr_gas fr)) + unat fee"

context mainnet_handler begin

lemma reward_charged:
  assumes "fee_charged (tx c)"
    and "tx_l1_cost c (cfg_spec (cfg c)) = (Ok fee :: ('d evm_error, u256) outcome)"
    and "reward_beneficiary H fr c = (Ok (), d)"
    and "unat (balances H c (beneficiary (block c))) + 2 ^ 193 \<le> 2 ^ 256"
  shows "unat (balances H d (beneficiary (block c))) =
      unat (balances H c (beneficiary (block c))) + reward_spec H fr c fee \<and>
    (\<forall>a. a \<noteq> beneficiary (block c) \<longrightarrow> balances H d a = balances H c a)"
proof -
  let ?p = "effective_gas_price (txo H) (tx c) (ucast (basefee (block c)))"
  let ?g = "gas_used (gmo H) (fr_gas fr)"
  let ?b = "beneficiary (block c)"
  let ?reward = "saturating_add (saturating_mul (ucast ?p) (ucast ?g)) fee"
  from assms obtain j where incr: "balance_incr (jrn H) ?b ?reward (journal c) = (Ok (), j)"
    and d: "d = c\<lparr>journal := j\<rparr>"
    by (auto simp: reward_beneficiary_def Let_def bind_def exec_simps split: prod.splits)
  have "fee_cap (cfg_spec (cfg c)) < 2 ^ 96" using fee_cap_le [of "cfg_spec (cfg c)"] by simp
  then have "unat fee < 2 ^ 96"
    using assms(2) fee_within_cap by (fastforce simp: tx_l1_cost_Ok)
  then have r: "unat ?reward = reward_spec H fr c fee" and small: "reward_spec H fr c fee < 2 ^ 193"
    using reward_no_saturation [of fee ?p ?g] price_times_gas(2) [of ?p ?g]
    by (simp_all add: reward_spec_def)
  have fits: "unat (balances H c ?b) + unat ?reward < 2 ^ 256" using r small assms(4) by linarith
  then have "balances H d = (balances H c)(?b := balances H c ?b + ?reward)"
    using balance_incr_room [OF incr] by (simp add: d balances_def)
  then show ?thesis using fits r by (simp add: unat_word_ariths)
qed

end

end
