(* ===== verification/RefHandler.thy ===== *)
theory RefHandler
  imports HandlerFees
begin

text \<open>
  A reference implementation of the interfaces the handler is written against, over the in-memory
  journal: type bytes as EIP-2718 numbers them, a gas meter of three counters, transactions priced by
  their \<open>gas_price\<close>, and a mainnet deduction that checks funds, takes the gas charge and bumps the
  nonce of calls. The interpretations show the contracts of \<open>EvmContext\<close> satisfiable together; the
  concrete runs of the handler use this instance.
\<close>

section \<open>Gas\<close>

record mem_gas =
  mg_total :: u64
  mg_remaining :: u64
  mg_refunded :: i64

definition mem_gas_ops :: "mem_gas gas_meter_ops" where
  "mem_gas_ops =
     \<lparr>gas_new_spent = (\<lambda>l. \<lparr>mg_total = l, mg_remaining = 0, mg_refunded = 0\<rparr>),
      erase_cost = (\<lambda>r g. g\<lparr>mg_remaining := mg_remaining g + r\<rparr>),
      record_refund = (\<lambda>f g. g\<lparr>mg_refunded := mg_refunded g + f\<rparr>),
      gas_total = mg_total, remaining = mg_remaining, refunded = mg_refunded,
      gas_used = (\<lambda>g. mg_total g - mg_remaining g - mg_refunded g)\<rparr>"

interpretation mem_meter: gas_meter mem_gas_ops
  by unfold_locales (simp_all add: mem_gas_ops_def)

section \<open>Transactions\<close>

definition eip2718_type :: "u8 \<Rightarrow> TransactionType" where
  "eip2718_type b =
     (if b = 0 then Legacy else if b = 1 then Eip2930 else if b = 2 then Eip1559
      else if b = 3 then Eip4844 else if b = 4 then Eip7702 else CustomType)"

lemma eip2718_types: "tx_types eip2718_type"
  by (auto simp: tx_types_def eip2718_type_def word_less_nat_alt)

definition mem_charge :: "ScrollTransaction \<Rightarrow> block_env \<Rightarrow> u256" where
  "mem_charge t b = ucast (gas_limit t) * ucast (gas_price t)"

definition mem_spending :: "ScrollTransaction \<Rightarrow> (InvalidTransaction, u256) outcome" where
  "mem_spending t =
     (if unat (gas_limit t) * unat (gas_price t) < 2 ^ 128 then
        ok_or (checked_add (ucast (gas_limit t) * ucast (gas_price t)) (tx_value t))
          OverflowPaymentInTransaction
      else Err OverflowPaymentInTransaction)"

definition mem_tx_ops :: tx_ops where
  "mem_tx_ops =
     \<lparr>max_fee_per_gas = gas_price, effective_gas_price = (\<lambda>t _. gas_price t),
      max_balance_spending = mem_spending\<rparr>"

section \<open>The mainnet handler\<close>

type_synonym mem_ctx = "(nat \<Rightarrow> u64, mem_journal) ctx"

definition mem_deduct :: "(mem_ctx, string evm_error, unit) exec" where
  "mem_deduct c =
     (let a = caller (tx c) in
      case mem_spending (tx c) of
        Ok m \<Rightarrow>
          if m \<le> m_balance (m_acc (journal c) a) then
            (Ok (), c\<lparr>journal :=
               (let j = snd (m_decr a (mem_charge (tx c) (block c)) (journal c))
                in if is_call (kind (tx c)) then snd (m_bump a j) else j)\<rparr>)
          else (Err (TransactionError (LackOfFundForMaxFee m (m_balance (m_acc (journal c) a)))), c)
      | Err e \<Rightarrow> (Err (TransactionError e), c)
      | Panic \<Rightarrow> (Panic, c))"

datatype mem_result = FrameOk | FrameRevert | FrameOutOfFunds | FrameHalt

definition mem_initial_gas :: "(nat \<Rightarrow> u64) \<Rightarrow> bytes \<Rightarrow> bool \<Rightarrow> u64 \<Rightarrow> u64 \<Rightarrow> u64 \<Rightarrow> init_gas" where
  "mem_initial_gas g input create accounts slots auths =
     \<lparr>initial_gas = (if create then 53000 else 21000) + 16 * of_nat (length input)
        + 2400 * accounts + 1900 * slots + g 0 * auths,
      floor_gas = g 3 + g 2 * 4 * of_nat (length input)\<rparr>"

text \<open>The refund is capped at a fifth of the gas spent; the floor replaces what was used, if higher.\<close>

definition mem_refund :: "mem_gas \<Rightarrow> i64 \<Rightarrow> mem_gas" where
  "mem_refund g r =
     g\<lparr>mg_refunded := min (mg_refunded g + r) ((mg_total g - mg_remaining g) div 5)\<rparr>"

definition mem_floor :: "init_gas \<Rightarrow> mem_gas \<Rightarrow> mem_gas" where
  "mem_floor i g =
     (if mg_total g - mg_remaining g - mg_refunded g < floor_gas i then
        g\<lparr>mg_remaining := (if floor_gas i \<le> mg_total g then mg_total g - floor_gas i else 0),
          mg_refunded := 0\<rparr>
      else g)"

definition mem_handler ::
  "(nat \<Rightarrow> u64, mem_journal, string, mem_result, mem_gas, u64, mem_gas \<times> u64) handler_ops" where
  "mem_handler =
     \<lparr>jrn = mem_ops, txo = mem_tx_ops, gmo = mem_gas_ops,
      ir_is_ok = (\<lambda>r. r = FrameOk), ir_is_ok_or_revert = (\<lambda>r. r \<noteq> FrameHalt),
      set_floor_gas = (\<lambda>f _. f), tx_type_of = eip2718_type,
      eth_enabled = (\<lambda>s f. s = Eth_CANCUN \<or> f \<noteq> Eth_CANCUN),
      effective_gas_limit_cap = (\<lambda>g. case tx_gas_limit_cap g of Some cap \<Rightarrow> cap | None \<Rightarrow> - 1),
      max_initcode_size = (\<lambda>_. 49152), max_blobs_per_tx = (\<lambda>_. Some 6),
      initial_tx_gas = mem_initial_gas,
      validate_legacy_gas_price = (\<lambda>p bf.
        guard_err (case bf of Some b \<Rightarrow> p < b | None \<Rightarrow> False) (OtherInvalid ''GasPriceLessThanBasefee'')),
      validate_priority_fee_tx = (\<lambda>m p bf off.
        obind (guard_err (\<not> off \<and> m < p) (OtherInvalid ''PriorityFeeGreaterThanMaxFee'')) (\<lambda>_.
        guard_err (case bf of Some b \<Rightarrow> m < b | None \<Rightarrow> False) (OtherInvalid ''GasPriceLessThanBasefee''))),
      validate_eip4844_tx = (\<lambda>hs _ _ _. guard_err (hs = []) (OtherInvalid ''EmptyBlobs'')),
      mn_validate_against_state_and_deduct_caller = mem_deduct,
      load_accounts = ret (),
      apply_eip7702_auth_list = ret 0,
      mn_eip7623_check_gas_floor = (\<lambda>fr i c. (fr\<lparr>fr_gas := mem_floor i (fr_gas fr)\<rparr>, c)),
      mn_refund = (\<lambda>_. mem_refund),
      mn_reimburse_caller = (\<lambda>fr c.
        bind (on_journal (m_incr (caller (tx c))
          (ucast (gas_price (tx c))
            * ucast (mg_remaining (fr_gas fr) + mg_refunded (fr_gas fr))))) (\<lambda>_. ret fr) c),
      mn_execution_result = (\<lambda>fr rg. ret (fr_gas fr, rg))\<rparr>"

lemma mem_handler_simps [simp]:
  "jrn mem_handler = mem_ops" "txo mem_handler = mem_tx_ops" "gmo mem_handler = mem_gas_ops"
  "max_balance_spending mem_tx_ops = mem_spending"
  "tx_type_of mem_handler = eip2718_type"
  "mn_validate_against_state_and_deduct_caller mem_handler = mem_deduct"
  "load_accounts mem_handler = ret ()" "apply_eip7702_auth_list mem_handler = ret 0"
  by (simp_all add: mem_handler_def mem_tx_ops_def)

lemma mem_eth_history: "eth_history (eth_enabled mem_handler)"
  by (simp add: eth_history_def mem_handler_def)

lemma mem_deduct_Ok:
  assumes "mem_deduct c = (Ok (), d)"
  obtains m where "mem_spending (tx c) = Ok m"
    and "m \<le> balances mem_handler c (caller (tx c))"
    and "unat (mem_charge (tx c) (block c)) + unat (tx_value (tx c)) = unat m"
    and "balances mem_handler d = (balances mem_handler c)
      (caller (tx c) := balances mem_handler c (caller (tx c)) - mem_charge (tx c) (block c))"
proof -
  from assms obtain m where m: "mem_spending (tx c) = Ok m"
    and enough: "m \<le> m_balance (m_acc (journal c) (caller (tx c)))"
    and d: "d = c\<lparr>journal :=
      (let j = snd (m_decr (caller (tx c)) (mem_charge (tx c) (block c)) (journal c))
       in if is_call (kind (tx c)) then snd (m_bump (caller (tx c)) j) else j)\<rparr>"
    by (auto simp: mem_deduct_def Let_def split: outcome.splits if_splits)
  have sum: "unat (mem_charge (tx c) (block c)) + unat (tx_value (tx c)) = unat m"
    using m by (auto simp: mem_spending_def mem_charge_def exec_simps dest: checked_add_Some split: if_splits)
  then have charge: "mem_charge (tx c) (block c) \<le> m_balance (m_acc (journal c) (caller (tx c)))"
    using enough by (simp add: word_le_nat_alt)
  then have decr: "acc_balance mem_ops (snd (decr_balance mem_ops (caller (tx c))
      (mem_charge (tx c) (block c)) (journal c))) = (acc_balance mem_ops (journal c))
      (caller (tx c) := acc_balance mem_ops (journal c) (caller (tx c)) - mem_charge (tx c) (block c))"
    by (intro mem.decr_balance_enough) simp
  have "balances mem_handler d = (balances mem_handler c)
      (caller (tx c) := balances mem_handler c (caller (tx c)) - mem_charge (tx c) (block c))"
    using decr mem.bump_nonce_balance by (simp add: d balances_def Let_def fun_eq_iff)
  then show thesis using that m enough sum by (simp add: balances_def)
qed

interpretation mem_mainnet: mainnet_handler mem_handler mem_charge
proof (rule mainnet_handler.intro)
  show "Journal.journal (jrn mem_handler)" using mem.journal_axioms by simp
  show "mainnet_handler_axioms mem_handler mem_charge"
  proof
    show "preserves env_of (mn_validate_against_state_and_deduct_caller mem_handler)"
      by (auto simp: preserves_def mem_deduct_def Let_def split: outcome.split)
    fix c c' :: mem_ctx and e
    assume "mn_validate_against_state_and_deduct_caller mem_handler c = (Err e, c')"
    then show "balances mem_handler c' = balances mem_handler c"
      by (auto simp: mem_deduct_def Let_def split: outcome.splits if_splits)
  next
    fix c c' :: mem_ctx
    assume "mn_validate_against_state_and_deduct_caller mem_handler c = (Ok (), c')"
    then have "mem_deduct c = (Ok (), c')" by simp
    then obtain m where "mem_spending (tx c) = Ok m"
      and "m \<le> balances mem_handler c (caller (tx c))"
      and "unat (mem_charge (tx c) (block c)) + unat (tx_value (tx c)) = unat m"
      and "balances mem_handler c' = (balances mem_handler c)
        (caller (tx c) := balances mem_handler c (caller (tx c)) - mem_charge (tx c) (block c))"
      by (rule mem_deduct_Ok)
    then show "(\<exists>m. max_balance_spending (txo mem_handler) (tx c) = Ok m \<and>
        m \<le> balances mem_handler c (caller (tx c)) \<and>
        unat (mem_charge (tx c) (block c)) + unat (tx_value (tx c)) \<le> unat m) \<and>
      balances mem_handler c' = (balances mem_handler c)
        (caller (tx c) := balances mem_handler c (caller (tx c)) - mem_charge (tx c) (block c))"
      by auto
  qed auto
qed

end
