(* ===== verification/HandlerProps.thy ===== *)
theory HandlerProps
  imports RefHandler
begin

text \<open>
  The properties of the handler's charging: exact charge, coverage of the value from TsukiV2,
  rejection without effect, exemption of L1 messages and system transactions, equality of the L1 fee
  taken before and rewarded after execution, gas accounting of the last frame.
\<close>

section \<open>Fee-charged transactions\<close>

text \<open>
  C7 Exact charge: when \<open>pre_execution\<close> accepts a fee-charged transaction, it has stored the oracle
  snapshot read through the journal, and the caller's balance has fallen by exactly the gas charge
  plus the L1 fee of the transaction's RLP bytes on that very snapshot (without wrap-around: the
  caller had both); every other balance is unchanged.
\<close>

theorem pre_execution_charges:
  assumes "mainnet_handler H gas_charge" and "fee_charged (tx c)"
    and "pre_execution H c = (Ok r, d)"
  shows "\<exists>info rlp fee.
    fst (try_fetch_from_journal (jrn H) (cfg_spec (cfg c)) (journal c)) = Ok info \<and>
    chain d = \<lparr>l1_block_info = info\<rparr> \<and> rlp_bytes (tx c) = Some rlp \<and>
    try_calculate_tx_l1_cost info rlp (cfg_spec (cfg c)) (compression_ratio (tx c))
      (compressed_size (tx c)) = Ok fee \<and>
    charged H gas_charge c fee d"
  using mainnet_handler.pre_execution_charged [OF assms(1,3,2)] by blast

text \<open>
  C9 From TsukiV2 the caller of an accepted fee-charged transaction can still pay the transaction's
  value after gas charge and L1 fee have been taken.
\<close>

theorem tsuki_v2_covers_value:
  assumes "mainnet_handler H gas_charge" and "fee_charged (tx c)"
    and "TSUKI_V2 \<le> cfg_spec (cfg c)" and "pre_execution H c = (Ok r, d)"
  shows "unat (tx_value (tx c)) \<le> unat (balances H d (caller (tx c)))"
  using mainnet_handler.pre_execution_charged [OF assms(1,4,2)] assms(3) by blast

text \<open>
  C18 From TsukiV2 the state check is atomic: when it rejects any transaction with a validation
  error or because the fee cannot be computed (anything but a database error), no balance and
  nothing of the environment has changed.
\<close>

theorem tsuki_v2_rejects_without_effect:
  assumes "mainnet_handler H gas_charge" and "TSUKI_V2 \<le> cfg_spec (cfg c)"
    and "validate_against_state_and_deduct_caller H c = (Err e, d)"
    and "\<nexists>x. e = DatabaseError x"
  shows "balances H d = balances H c \<and> env_of d = env_of c"
proof (cases "is_l1_msg (tx c)")
  case True
  then show ?thesis
    using assms(3) mainnet_handler.validate_l1_msg [OF assms(1) True]
      mainnet_handler.l1_msg_checks_Err(1) [OF assms(1)] by simp
next
  case False
  then show ?thesis
    using assms mainnet_handler.validate_not_l1_msg [OF assms(1) False]
      mainnet_handler.deduct_from_rejects [OF assms(1), of c e d] by auto
qed

section \<open>Exempt transactions\<close>

text \<open>
  System transactions pay their gas and no L1 fee: they are accepted without RLP bytes, and the
  stored oracle snapshot is left as it was.
\<close>

theorem system_tx_pays_gas_only:
  assumes "mainnet_handler H gas_charge" and "is_system_tx (tx c)" and "\<not> is_l1_msg (tx c)"
    and "pre_execution H c = (Ok r, d)"
  shows "charged H gas_charge c 0 d \<and> chain d = chain c"
  using mainnet_handler.pre_execution_system [OF assms(1,4,3,2)] by blast

text \<open>
  C17 L1 messages are free on L2: \<open>pre_execution\<close>, whatever its outcome, changes no balance and no
  stored snapshot, and after execution neither floor gas nor refund touches the gas, no gas is
  reimbursed, no reward is paid, and the result is reported with a floor gas of zero.
\<close>

theorem l1_message_is_free:
  assumes "mainnet_handler H gas_charge" and "is_l1_msg (tx c)"
  shows "balances H (snd (pre_execution H c)) = balances H c \<and>
    env_of (snd (pre_execution H c)) = env_of c \<and>
    eip7623_check_gas_floor H fr g c = (fr, c) \<and> refund H fr n c = (fr, c) \<and>
    reimburse_caller H fr c = (Ok fr, c) \<and> reward_beneficiary H fr c = (Ok (), c) \<and>
    execution_result H fr rg c = mn_execution_result H fr (set_floor_gas H 0 rg) c"
proof -
  obtain r d where "pre_execution H c = (r, d)" by (cases "pre_execution H c")
  with mainnet_handler.pre_execution_l1_msg [OF assms(1) _ assms(2)]
  have "balances H (snd (pre_execution H c)) = balances H c"
    and "env_of (snd (pre_execution H c)) = env_of c" by auto
  then show ?thesis
    by (simp add: assms(2) eip7623_check_gas_floor_def refund_def reimburse_caller_def
        reward_beneficiary_def execution_result_def)
qed

text \<open>
  From Euclid an L1 message is never refused for lack of funds: the state check can fail only
  because the sender has code that is not a delegation, or on a database error.
\<close>

theorem l1_message_never_unfunded:
  assumes "mainnet_handler H gas_charge" and "is_l1_msg (tx c)" and "EUCLID \<le> cfg_spec (cfg c)"
    and "validate_against_state_and_deduct_caller H c = (Err e, d)"
  shows "e = TransactionError RejectCallerWithCode \<or> (\<exists>x. e = DatabaseError x)"
  using mainnet_handler.l1_msg_checks_Err(2) [OF assms(1) _ assms(2,3)] assms(4)
    mainnet_handler.validate_l1_msg [OF assms(1,2)] by auto

text \<open>
  An accepted L1 message bumps the nonce of its sender by one if it is a call, and no nonce
  otherwise (creation bumps it later), as long as the nonce is not exhausted.
\<close>

theorem l1_message_nonce:
  assumes "mainnet_handler H gas_charge" and "is_l1_msg (tx c)"
    and "validate_against_state_and_deduct_caller H c = (Ok (), d)"
    and "acc_nonce (jrn H) (journal c) (caller (tx c)) \<noteq> - 1"
  shows "acc_nonce (jrn H) (journal d) = (acc_nonce (jrn H) (journal c))
    (caller (tx c) := acc_nonce (jrn H) (journal c) (caller (tx c))
       + (if is_call (kind (tx c)) then 1 else 0))"
  using mainnet_handler.l1_msg_checks_Ok(3) [OF assms(1) _ assms(4)] assms(3)
    mainnet_handler.validate_l1_msg [OF assms(1,2)] by simp

section \<open>Reward and conservation\<close>

text \<open>
  Fee conservation: whatever happens between the two, if transaction, configuration, block and
  snapshot are those \<open>pre_execution\<close> left, the L1 fee the beneficiary is credited on top of the gas
  fee is exactly the L1 fee the caller was charged; the reward never saturates, and nobody else's
  balance changes.
\<close>

theorem l1_fee_conserved:
  fixes H :: "('g, 'j, 'd, 'ir, 'gas, 'rg, 'res) handler_ops"
  assumes "mainnet_handler H gas_charge" and "fee_charged (tx c)"
    and "pre_execution H c = (Ok r, d)" and "env_of e = env_of d"
    and "reward_beneficiary H fr e = (Ok (), e')"
    and "unat (balances H e (beneficiary (block e))) + 2 ^ 193 \<le> 2 ^ 256"
  shows "\<exists>fee. charged H gas_charge c fee d \<and>
    unat (balances H e' (beneficiary (block e))) =
      unat (balances H e (beneficiary (block e))) + reward_spec H fr e fee \<and>
    (\<forall>a. a \<noteq> beneficiary (block e) \<longrightarrow> balances H e' a = balances H e a)"
proof -
  obtain fee where fee: "tx_l1_cost d (cfg_spec (cfg d)) = (Ok fee :: ('d evm_error, u256) outcome)"
    and ch: "charged H gas_charge c fee d"
    using mainnet_handler.pre_execution_cost [OF assms(1,3,2)] by blast
  have t: "tx d = tx c" using ch by (simp add: charged_def)
  have "tx_l1_cost e (cfg_spec (cfg e)) = (Ok fee :: ('d evm_error, u256) outcome)"
    and "fee_charged (tx e)"
    using fee assms(2) env_ofD [OF assms(4)] t by (simp_all add: tx_l1_cost_env [OF assms(4)])
  from mainnet_handler.reward_charged [OF assms(1) this(2,1) assms(5,6)]
  show ?thesis using ch by blast
qed

text \<open>
  Gas accounting of the last frame: the meter is rebuilt from the transaction's gas limit; the
  frame's remaining gas is given back if it returned or reverted, nothing if it halted, and the
  refund counter is kept only for a successful transaction that is not an L1 message.
\<close>

theorem last_frame_gas:
  assumes "gas_meter (gmo H)"
  shows "\<exists>fr'. last_frame_result H fr c = (Ok fr', c) \<and> fr_result fr' = fr_result fr \<and>
    gas_total (gmo H) (fr_gas fr') = gas_limit (tx c) \<and>
    remaining (gmo H) (fr_gas fr') =
      (if ir_is_ok_or_revert H (fr_result fr) then remaining (gmo H) (fr_gas fr) else 0) \<and>
    refunded (gmo H) (fr_gas fr') =
      (if ir_is_ok H (fr_result fr) \<and> \<not> is_l1_msg (tx c) then refunded (gmo H) (fr_gas fr) else 0)"
  using gas_meter.new_spent [OF assms] gas_meter.erase [OF assms] gas_meter.refund [OF assms]
  by (simp add: last_frame_result_def Let_def)

end
