(* ===== verification/HandlerRuns.thy ===== *)
theory HandlerRuns
  imports HandlerProps
begin

text \<open>
  Concrete runs of the handler on the reference instance: a transaction of 21000 gas at price 1 with
  value 100 and an L1 fee of 82000, by a caller of chosen funds, as ordinary, system and L1 message
  transaction; and from them the instances of the properties of \<open>HandlerProps\<close>.
\<close>

section \<open>The setting\<close>

definition run_journal :: "address \<Rightarrow> u256 \<Rightarrow> mem_journal" where
  "run_journal from funds =
     \<lparr>m_state = (\<lambda>a. if a = L1_GAS_PRICE_ORACLE_ADDRESS
        then Some (empty_account\<lparr>m_storage := (\<lambda>k. Some \<lparr>present_value = 1000000 * k\<rparr>)\<rparr>) else None),
      m_disk = (\<lambda>a. if a = from then empty_account\<lparr>m_balance := funds\<rparr> else empty_account)\<rparr>"

definition run_tx :: "u8 \<Rightarrow> address \<Rightarrow> ScrollTransaction" where
  "run_tx ty from = ScrollTransaction_new
     \<lparr>base_tx_type = ty, base_caller = from, base_gas_limit = 21000, base_value = 100,
      base_input = [], base_nonce = 0, base_kind = Call 0xB, base_chain_id = Some 1,
      base_gas_price = 1, base_access_list = None, base_blob_versioned_hashes = [],
      base_max_fee_per_blob_gas = 0, base_authorization_list = [],
      base_max_priority_fee_per_gas = None\<rparr> (Some [1, 1]) None (Some 2)"

definition run_block :: block_env where
  "run_block = \<lparr>block_number = 1, beneficiary = 0xC, block_gas_limit = 30000000, basefee = 1,
     prevrandao = Some 0, blob_excess_gas_and_price = None, blob_gasprice = None\<rparr>"

definition run_ctx :: "ScrollSpecId \<Rightarrow> ScrollTransaction \<Rightarrow> u256 \<Rightarrow> mem_ctx" where
  "run_ctx s t funds = \<lparr>tx = t, cfg = new_scroll table_cfg_ops s, block = run_block,
     chain = ScrollChainContext_mainnet, journal = run_journal (caller t) funds\<rparr>"

definition run_info :: L1BlockInfo where
  "run_info = snapshot_of (map (\<lambda>k. 1000000 * k) [1, 2, 3, 5, 6, 7, 9, 10])"

definition run_ready :: "ScrollSpecId \<Rightarrow> ScrollTransaction \<Rightarrow> u256 \<Rightarrow> mem_ctx" where
  "run_ready s t funds = (run_ctx s t funds)\<lparr>chain := \<lparr>l1_block_info = run_info\<rparr>\<rparr>"

lemmas tx_defs = run_tx_def ScrollTransaction_new_def caller_def gas_limit_def
  tx_value_def gas_price_def tx_type_def kind_def rlp_bytes_def compressed_size_def
  compression_ratio_def is_l1_msg_def is_system_tx_def L1_MESSAGE_TYPE_def SYSTEM_ADDRESS_def

lemmas run_defs = run_ready_def run_ctx_def tx_defs

lemma run_fetch:
  "try_fetch_from_journal mem_ops TSUKI_V2 (run_journal from funds) =
     (Ok run_info, run_journal from funds)"
proof -
  have "journaled mem_ops (run_journal from funds) k = Some (1000000 * k)" for k
    by (simp add: journaled_def run_journal_def)
  from read_all_journaled [of "oracle_slots TSUKI_V2", OF this] show ?thesis
    by (simp add: try_fetch_from_journal_def try_fetch_slots bind_def oracle_slots_def spec_gates
        run_info_def)
qed

lemma run_cfg [simp]: "cfg_spec (new_scroll table_cfg_ops s) = s"
  by (simp add: new_scroll_def Let_def)

lemma run_acc [simp]:
  "from \<noteq> L1_GAS_PRICE_ORACLE_ADDRESS \<Longrightarrow>
     m_acc (run_journal from funds) from = empty_account\<lparr>m_balance := funds\<rparr>"
  by (simp add: m_acc_def run_journal_def empty_account_def)

lemma not_oracle [simp]:
  "0xA \<noteq> L1_GAS_PRICE_ORACLE_ADDRESS" "SYSTEM_ADDRESS \<noteq> L1_GAS_PRICE_ORACLE_ADDRESS"
  by (simp_all add: L1_GAS_PRICE_ORACLE_ADDRESS_def SYSTEM_ADDRESS_def)

lemma run_fee: "try_calculate_tx_l1_cost run_info [1, 1] TSUKI_V2 None (Some 2) = Ok 82000"
  by (simp add: try_calculate_tx_l1_cost_def calculate_tx_l1_cost_galileo_def snapshot_of_def
      spec_gates wrapping_div_def saturating_mul_def saturating_add_def usize_len_def run_info_def
      TX_L1_FEE_PRECISION_U256_def TX_L1_FEE_PRECISION_def U96_MAX_def Let_def from_limbs_def)

lemma run_refresh:
  "refresh_l1_block_info mem_handler (run_ctx TSUKI_V2 (run_tx 0 0xA) funds) =
     (Ok (), run_ready TSUKI_V2 (run_tx 0 0xA) funds)"
  by (simp add: refresh_l1_block_info_def bind_def on_journal_def run_fetch run_defs
      ScrollChainContext_mainnet_def)

lemmas validate_defs = validate_against_state_and_deduct_caller_def deduct_from_tsuki_v2_def
  tsuki_v2_check_def l1_msg_checks_def tx_l1_cost_def mem_deduct_def mem_spending_def mem_charge_def
  m_load_def m_decr_def m_bump_def m_touch_def decr_caller_balance_eq checked_add_def
  checked_sub_def bind_def on_journal_def spec_gates

section \<open>Runs\<close>

lemma run_accepted:
  "fst (pre_execution mem_handler (run_ctx TSUKI_V2 (run_tx 0 0xA) 103100)) = Ok 0"
  unfolding pre_execution_def bind_def [of "refresh_l1_block_info mem_handler"] run_refresh
  by (simp add: run_defs validate_defs run_fee Let_def empty_account_def word_less_nat_alt
      word_le_nat_alt)

lemma run_rejected:
  "fst (validate_against_state_and_deduct_caller mem_handler (run_ready TSUKI_V2 (run_tx 0 0xA) 103099)) =
     Err (TransactionError (LackOfFundForMaxFee 103100 103099))"
  by (simp add: run_defs validate_defs run_fee Let_def empty_account_def word_less_nat_alt)

lemma run_system:
  "fst (pre_execution mem_handler (run_ctx TSUKI_V2 (run_tx 0 SYSTEM_ADDRESS) 21100)) = Ok 0"
proof -
  have "m_acc (run_journal 0xfffffffffffffffffffffffffffffffffffffffe 21100)
      0xfffffffffffffffffffffffffffffffffffffffe = empty_account\<lparr>m_balance := 21100\<rparr>"
    using run_acc [OF not_oracle(2)] by (simp add: SYSTEM_ADDRESS_def)
  then show ?thesis
    by (simp add: pre_execution_def refresh_l1_block_info_def run_defs validate_defs Let_def
        empty_account_def word_less_nat_alt word_le_nat_alt)
qed

lemma run_l1_message:
  "fst (validate_against_state_and_deduct_caller mem_handler (run_ctx TSUKI_V2 (run_tx 0x7E 0xA) 0)) = Ok ()"
  by (simp add: run_defs validate_defs Let_def empty_account_def new_scroll_def table_cfg_ops_def
      gas_table_ops.extend_def set_scroll_spec_def)

definition run_contract :: mem_ctx where
  "run_contract = (run_ctx TSUKI_V2 (run_tx 0x7E 0xA) 0)
     \<lparr>journal := m_put 0xA (empty_account\<lparr>m_code := Some \<lparr>code_is_empty = False, code_is_eip7702 = False\<rparr>\<rparr>)
        (run_journal 0xA 0)\<rparr>"

lemma run_l1_contract:
  "fst (validate_against_state_and_deduct_caller mem_handler run_contract) =
     Err (TransactionError RejectCallerWithCode)"
  by (simp add: run_contract_def run_defs validate_defs Let_def new_scroll_def table_cfg_ops_def
      gas_table_ops.extend_def set_scroll_spec_def empty_account_def)

section \<open>The value before and from TsukiV2\<close>

lemma run_fetch_tsuki:
  "try_fetch_from_journal mem_ops TSUKI (run_journal from funds) = (Ok run_info, run_journal from funds)"
proof -
  have "oracle_slots TSUKI = oracle_slots TSUKI_V2" by (simp add: oracle_slots_def spec_gates)
  then show ?thesis using run_fetch by (simp add: try_fetch_from_journal_def try_fetch_slots)
qed

lemma run_fee_tsuki: "try_calculate_tx_l1_cost run_info [1, 1] TSUKI None (Some 2) = Ok 82000"
proof -
  have "try_calculate_tx_l1_cost run_info [1, 1] TSUKI None (Some 2) =
      try_calculate_tx_l1_cost run_info [1, 1] TSUKI_V2 None (Some 2)"
    by (simp add: try_calculate_tx_l1_cost_def spec_gates)
  then show ?thesis by (simp add: run_fee)
qed

lemma run_refresh_tsuki:
  "refresh_l1_block_info mem_handler (run_ctx TSUKI (run_tx 0 0xA) funds) =
     (Ok (), run_ready TSUKI (run_tx 0 0xA) funds)"
  by (simp add: refresh_l1_block_info_def bind_def on_journal_def run_fetch_tsuki run_defs
      ScrollChainContext_mainnet_def)

text \<open>
  The rule TsukiV2 introduces is a real change: a caller holding exactly gas charge and L1 fee is
  accepted at Tsuki and left with nothing, although the transaction is to transfer 100; the same
  transaction by the same caller is rejected at TsukiV2, where the error names the full requirement.
\<close>

theorem value_uncovered_before_tsuki_v2:
  "fst (pre_execution mem_handler (run_ctx TSUKI (run_tx 0 0xA) 103000)) = Ok 0 \<and>
   balances mem_handler (snd (pre_execution mem_handler (run_ctx TSUKI (run_tx 0 0xA) 103000))) 0xA = 0 \<and>
   fst (pre_execution mem_handler (run_ctx TSUKI_V2 (run_tx 0 0xA) 103000)) =
     Err (TransactionError (LackOfFundForMaxFee 103100 103000))"
proof -
  have "fst (pre_execution mem_handler (run_ctx TSUKI (run_tx 0 0xA) 103000)) = Ok 0"
    and "balances mem_handler (snd (pre_execution mem_handler (run_ctx TSUKI (run_tx 0 0xA) 103000))) 0xA = 0"
    unfolding pre_execution_def bind_def [of "refresh_l1_block_info mem_handler"] run_refresh_tsuki
    by (simp_all add: run_defs validate_defs deduct_before_tsuki_v2_def run_fee_tsuki Let_def
        empty_account_def word_less_nat_alt word_le_nat_alt balances_def)
  moreover have "fst (pre_execution mem_handler (run_ctx TSUKI_V2 (run_tx 0 0xA) 103000)) =
      Err (TransactionError (LackOfFundForMaxFee 103100 103000))"
    unfolding pre_execution_def bind_def [of "refresh_l1_block_info mem_handler"] run_refresh
    by (simp add: run_defs validate_defs run_fee Let_def empty_account_def word_less_nat_alt)
  ultimately show ?thesis by blast
qed

section \<open>Instances of the properties\<close>

lemma run_fee_charged: "fee_charged (tx (run_ctx s (run_tx 0 0xA) funds))"
  by (simp add: run_defs)

lemma run_pair: "fst m = r \<Longrightarrow> m = (r, snd m)"
  by (simp add: prod_eq_iff)

lemma run_balance: "balances mem_handler (run_ctx s (run_tx ty 0xA) funds) 0xA = funds"
  by (simp add: balances_def run_defs empty_account_def)

lemma run_spec: "cfg_spec (cfg (run_ctx s t funds)) = s"
  by (simp add: run_ctx_def)

lemma run_tx_simps:
  "tx (run_ctx s t funds) = t" "block (run_ctx s t funds) = run_block"
  "caller (run_tx ty from) = from" "mem_charge (run_tx ty from) b = 21000"
  "tx_value (run_tx ty from) = 100" "rlp_bytes (run_tx ty from) = Some [1, 1]"
  "compression_ratio (run_tx ty from) = None" "compressed_size (run_tx ty from) = Some 2"
  by (simp_all add: run_ctx_def tx_defs mem_charge_def)

theorem pre_execution_charges_witness:
  "unat (balances mem_handler
     (snd (pre_execution mem_handler (run_ctx TSUKI_V2 (run_tx 0 0xA) 103100))) 0xA) = 100"
proof -
  from pre_execution_charges [OF mem_mainnet.mainnet_handler_axioms run_fee_charged
      run_pair [OF run_accepted]]
  obtain fee where "try_calculate_tx_l1_cost run_info [1, 1] TSUKI_V2 None (Some 2) = Ok fee"
    and "charged mem_handler mem_charge (run_ctx TSUKI_V2 (run_tx 0 0xA) 103100) fee
      (snd (pre_execution mem_handler (run_ctx TSUKI_V2 (run_tx 0 0xA) 103100)))"
    unfolding run_spec run_tx_simps by (auto simp: run_ctx_def run_tx_simps run_fetch)
  then show ?thesis
    using run_balance [of TSUKI_V2 0 103100] by (simp add: run_fee charged_def run_tx_simps)
qed

theorem tsuki_v2_covers_value_witness:
  "100 \<le> unat (balances mem_handler
     (snd (pre_execution mem_handler (run_ctx TSUKI_V2 (run_tx 0 0xA) 103100))) 0xA)"
  using tsuki_v2_covers_value [OF mem_mainnet.mainnet_handler_axioms run_fee_charged _
      run_pair [OF run_accepted]]
  by (simp add: run_spec run_tx_simps)

theorem tsuki_v2_rejects_without_effect_witness:
  "balances mem_handler (snd (validate_against_state_and_deduct_caller mem_handler
     (run_ready TSUKI_V2 (run_tx 0 0xA) 103099))) 0xA = 103099"
  using tsuki_v2_rejects_without_effect [OF mem_mainnet.mainnet_handler_axioms _
      run_pair [OF run_rejected]] run_balance [of TSUKI_V2 0 103099]
  by (simp add: run_ready_def run_ctx_def balances_def)

theorem system_tx_pays_gas_only_witness:
  "unat (balances mem_handler
     (snd (pre_execution mem_handler (run_ctx TSUKI_V2 (run_tx 0 SYSTEM_ADDRESS) 21100)))
     SYSTEM_ADDRESS) = 100"
proof -
  have "is_system_tx (tx (run_ctx TSUKI_V2 (run_tx 0 SYSTEM_ADDRESS) 21100))"
    and "\<not> is_l1_msg (tx (run_ctx TSUKI_V2 (run_tx 0 SYSTEM_ADDRESS) 21100))"
    and "balances mem_handler (run_ctx TSUKI_V2 (run_tx 0 SYSTEM_ADDRESS) 21100) SYSTEM_ADDRESS = 21100"
    using run_acc [OF not_oracle(2), of 21100]
    by (simp_all add: run_defs balances_def empty_account_def)
  then show ?thesis
    using system_tx_pays_gas_only [OF mem_mainnet.mainnet_handler_axioms _ _ run_pair [OF run_system]]
    by (simp add: charged_def run_tx_simps)
qed

theorem l1_message_is_free_witness:
  "reward_beneficiary mem_handler \<lparr>fr_result = FrameOk, fr_gas = gas_new_spent mem_gas_ops 21000\<rparr>
     (run_ctx TSUKI_V2 (run_tx 0x7E 0xA) 0) = (Ok (), run_ctx TSUKI_V2 (run_tx 0x7E 0xA) 0)"
  using l1_message_is_free [OF mem_mainnet.mainnet_handler_axioms,
      of "run_ctx TSUKI_V2 (run_tx 0x7E 0xA) 0"]
  by (simp add: run_defs)

theorem l1_message_never_unfunded_witness:
  "\<exists>e d. validate_against_state_and_deduct_caller mem_handler run_contract = (Err e, d) \<and>
     (e = TransactionError RejectCallerWithCode \<or> (\<exists>x. e = DatabaseError x))"
proof -
  have "is_l1_msg (tx run_contract)" and "EUCLID \<le> cfg_spec (cfg run_contract)"
    by (simp_all add: run_contract_def run_defs spec_gates)
  from l1_message_never_unfunded [OF mem_mainnet.mainnet_handler_axioms this
      run_pair [OF run_l1_contract]] run_pair [OF run_l1_contract]
  show ?thesis by blast
qed

theorem l1_message_nonce_witness:
  "acc_nonce mem_ops (journal (snd (validate_against_state_and_deduct_caller mem_handler
     (run_ctx TSUKI_V2 (run_tx 0x7E 0xA) 0)))) 0xA = 1"
proof -
  have "is_l1_msg (tx (run_ctx TSUKI_V2 (run_tx 0x7E 0xA) 0))"
    and "acc_nonce mem_ops (journal (run_ctx TSUKI_V2 (run_tx 0x7E 0xA) 0)) 0xA = 0"
    and "is_call (kind (run_tx 0x7E 0xA))"
    by (simp_all add: run_defs empty_account_def)
  then show ?thesis
    using l1_message_nonce [OF mem_mainnet.mainnet_handler_axioms _ run_pair [OF run_l1_message]]
    by (simp add: run_tx_simps fun_eq_iff del: mem_ops_simps)
qed

theorem last_frame_gas_witness:
  "\<exists>fr'. last_frame_result mem_handler
     \<lparr>fr_result = FrameOk, fr_gas = \<lparr>mg_total = 21000, mg_remaining = 20990, mg_refunded = 10\<rparr>\<rparr>
     (run_ctx TSUKI_V2 (run_tx 0 0xA) 0) = (Ok fr', run_ctx TSUKI_V2 (run_tx 0 0xA) 0) \<and>
     remaining mem_gas_ops (fr_gas fr') = 20990"
  using last_frame_gas [of mem_handler
      "\<lparr>fr_result = FrameOk, fr_gas = \<lparr>mg_total = 21000, mg_remaining = 20990, mg_refunded = 10\<rparr>\<rparr>"
      "run_ctx TSUKI_V2 (run_tx 0 0xA) 0"] mem_meter.gas_meter_axioms
  by (auto simp: mem_handler_def mem_gas_ops_def)

theorem l1_fee_conserved_witness:
  "\<exists>d e' fee. pre_execution mem_handler (run_ctx TSUKI_V2 (run_tx 0 0xA) 103100) = (Ok 0, d) \<and>
     reward_beneficiary mem_handler \<lparr>fr_result = FrameOk, fr_gas = gas_new_spent mem_gas_ops 21000\<rparr> d
       = (Ok (), e') \<and>
     charged mem_handler mem_charge (run_ctx TSUKI_V2 (run_tx 0 0xA) 103100) fee d \<and>
     unat (balances mem_handler e' 0xC) =
       unat (balances mem_handler d 0xC) + reward_spec mem_handler
         \<lparr>fr_result = FrameOk, fr_gas = gas_new_spent mem_gas_ops 21000\<rparr> d fee"
proof -
  let ?c = "run_ctx TSUKI_V2 (run_tx 0 0xA) 103100"
  let ?fr = "\<lparr>fr_result = FrameOk, fr_gas = gas_new_spent mem_gas_ops 21000\<rparr>"
  obtain d where d: "pre_execution mem_handler ?c = (Ok 0, d)" using run_pair [OF run_accepted] by blast
  from mem_mainnet.pre_execution_cost [OF d run_fee_charged] obtain fee where
    fee: "tx_l1_cost d (cfg_spec (cfg d)) = (Ok fee :: (string evm_error, u256) outcome)"
    and ch: "charged mem_handler mem_charge ?c fee d" by blast
  then have same: "tx d = run_tx 0 0xA" "block d = run_block" "balances mem_handler d 0xC = 0"
    by (simp_all add: charged_def run_tx_simps) (simp add: balances_def run_ctx_def run_journal_def
        m_acc_def empty_account_def L1_GAS_PRICE_ORACLE_ADDRESS_def run_tx_simps)
  have "\<not> is_l1_msg (run_tx 0 0xA)" "\<not> is_system_tx (run_tx 0 0xA)" by (simp_all add: tx_defs)
  then obtain e' where r: "reward_beneficiary mem_handler ?fr d = (Ok (), e')"
    using fee by (simp add: reward_beneficiary_def same bind_def Let_def on_journal_def m_incr_def)
  have "unat (balances mem_handler d (beneficiary (block d))) + 2 ^ 193 \<le> 2 ^ 256"
    using same by (simp add: run_block_def)
  from l1_fee_conserved [OF mem_mainnet.mainnet_handler_axioms run_fee_charged d refl r this]
  show ?thesis using d r same by (auto simp: run_block_def)
qed

end
