(* ===== verification/HandlerEnv.thy ===== *)
theory HandlerEnv
  imports HandlerRuns
begin

text \<open>
  Admission (\<open>validate_env\<close>, \<open>validate_initial_tx_gas\<close>): the declarative condition under which a
  transaction is admitted, with EIP-2718 type bytes and the Shanghai baseline, and its consequences:
  which types exist, the exemption of L1 messages from the gas cap, the intrinsic and floor gas.
\<close>

section \<open>The admission condition\<close>

definition price_base_fee :: "('g, 'j) ctx \<Rightarrow> u128 option" where
  "price_base_fee c =
     (if is_base_fee_check_disabled (cfg c) then None else Some (ucast (basefee (block c))))"

definition priority_fee_ok ::
  "('g, 'j, 'd, 'ir, 'gas, 'rg, 'res) handler_ops \<Rightarrow> ('g, 'j) ctx \<Rightarrow> bool" where
  "priority_fee_ok H c \<longleftrightarrow>
     validate_priority_fee_for_tx H (tx c) (price_base_fee c) (is_priority_fee_check_disabled (cfg c))
       = Ok ()"

text \<open>Type by type: what the type's byte demands. Blob transactions are never admitted.\<close>

definition type_admitted ::
  "('g, 'j, 'd, 'ir, 'gas, 'rg, 'res) handler_ops \<Rightarrow> ('g, 'j) ctx \<Rightarrow> bool" where
  "type_admitted H c \<longleftrightarrow>
     (let ty = tx_type (tx c) in
      if ty = 0 \<or> ty = 1 then validate_legacy_gas_price H (gas_price (tx c)) (price_base_fee c) = Ok ()
      else if ty = 2 then priority_fee_ok H c
      else if ty = 3 then False
      else if ty = 4 then
        EUCLID \<le> cfg_spec (cfg c) \<and> priority_fee_ok H c \<and> authorization_list_len (tx c) \<noteq> 0
      else is_l1_msg (tx c))"

definition chain_id_admitted :: "('g, 'j) ctx \<Rightarrow> bool" where
  "chain_id_admitted c \<longleftrightarrow> \<not> tx_chain_id_check (cfg c) \<or>
     (case tx_chain_id (tx c) of
        Some i \<Rightarrow> i = cfg_chain_id (cfg c)
      | None \<Rightarrow> tx_type (tx c) = 0 \<or> 4 < tx_type (tx c))"

definition limits_admitted ::
  "('g, 'j, 'd, 'ir, 'gas, 'rg, 'res) handler_ops \<Rightarrow> ('g, 'j) ctx \<Rightarrow> bool" where
  "limits_admitted H c \<longleftrightarrow>
     (is_block_gas_limit_disabled (cfg c) \<or> gas_limit (tx c) \<le> block_gas_limit (block c)) \<and>
     (is_create (kind (tx c)) \<longrightarrow> usize_len (tx_input (tx c)) \<le> max_initcode_size H (cfg c))"

definition admitted ::
  "('g, 'j, 'd, 'ir, 'gas, 'rg, 'res) handler_ops \<Rightarrow> ('g, 'j) ctx \<Rightarrow> bool" where
  "admitted H c \<longleftrightarrow>
     prevrandao (block c) \<noteq> None \<and> chain_id_admitted c \<and>
     (is_l1_msg (tx c) \<or> gas_limit (tx c) \<le> effective_gas_limit_cap H (cfg c)) \<and>
     type_admitted H c \<and> limits_admitted H c"

lemma four_less: "4 < b \<longleftrightarrow> b \<notin> {0, 1, 2, 3, 4 :: u8}"
proof (cases "4 < b")
  case False
  then have "unat b \<in> {0, 1, 2, 3, 4}" by (auto simp: word_less_nat_alt)
  with False show ?thesis by (auto simp: word_unat_eq_iff)
next
  case True
  then show ?thesis by (auto simp: word_less_nat_alt)
qed

lemma byte_types:
  fixes b :: u8
  assumes "tx_types f"
  shows "f b = (if b = 0 then Legacy else if b = 1 then Eip2930 else if b = 2 then Eip1559
    else if b = 3 then Eip4844 else if b = 4 then Eip7702 else CustomType)"
  using assms four_less [of b] by (auto simp: tx_types_def)

lemma l1_not_standard: "is_l1_msg t \<Longrightarrow> tx_type t \<notin> {0, 1, 2, 3, 4}"
  by (auto simp: is_l1_msg_def L1_MESSAGE_TYPE_def)

section \<open>Stage by stage\<close>

lemma header_Ok:
  assumes "eth_history (eth_enabled H)"
  shows "validate_header H c = Ok () \<longleftrightarrow> prevrandao (block c) \<noteq> None"
  using assms by (simp add: validate_header_def eth_history_def exec_simps)

lemma chain_id_Ok:
  assumes "tx_types (tx_type_of H)"
  shows "validate_chain_id H c = Ok () \<longleftrightarrow> chain_id_admitted c"
  by (auto simp: validate_chain_id_def chain_id_admitted_def byte_types [OF assms] four_less
      exec_simps Let_def split: option.splits)

lemma gas_cap_Ok:
  "validate_gas_cap H c = Ok () \<longleftrightarrow>
     is_l1_msg (tx c) \<or> gas_limit (tx c) \<le> effective_gas_limit_cap H (cfg c)"
  by (simp add: validate_gas_cap_def exec_simps Let_def not_less)

lemma tx_type_Ok:
  assumes "tx_types (tx_type_of H)" and "eth_history (eth_enabled H)"
  shows "validate_tx_type H c = Ok () \<longleftrightarrow> type_admitted H c"
proof -
  define ty where "ty = tx_type (tx c)"
  consider "ty = 0" | "ty = 1" | "ty = 2" | "ty = 3" | "ty = 4" | "ty \<notin> {0, 1, 2, 3, 4}" by blast
  then show ?thesis
    using assms(2)
    by cases (simp_all add: validate_tx_type_def type_admitted_def byte_types [OF assms(1)]
        ty_def eth_history_def exec_simps Let_def price_base_fee_def priority_fee_ok_def is_enabled_in_le)
qed

lemma limits_Ok:
  assumes "eth_history (eth_enabled H)"
  shows "validate_limits H c = Ok () \<longleftrightarrow> limits_admitted H c"
  using assms
  by (auto simp: validate_limits_def limits_admitted_def eth_history_def exec_simps Let_def not_less)

lemma validate_env_admitted:
  assumes "tx_types (tx_type_of H)" and "eth_history (eth_enabled H)"
  shows "validate_env H c = Ok () \<longleftrightarrow> admitted H c"
  by (simp add: validate_env_def admitted_def exec_simps header_Ok [OF assms(2)] gas_cap_Ok
      chain_id_Ok [OF assms(1)] tx_type_Ok [OF assms] limits_Ok [OF assms(2)])

text \<open>
  C10 Admission: with the type bytes of EIP-2718 and Shanghai as the baseline, \<open>validate_env\<close> accepts
  exactly the transactions that meet the declarative condition: \<open>prevrandao\<close> is set, the chain id is
  the configured one (or absent where the type may omit it), the gas limit is within the transaction
  cap unless it is an L1 message, the type is admitted (EIP-7702 from Euclid on, with authorizations;
  blobs never; of custom types the L1 message only), and the block and initcode limits hold.
\<close>

theorem validate_env_accepts:
  assumes "tx_types (tx_type_of H)" and "eth_history (eth_enabled H)"
  shows "validate_env H c = Ok () \<longleftrightarrow>
    prevrandao (block c) \<noteq> None \<and> chain_id_admitted c \<and>
    (is_l1_msg (tx c) \<or> gas_limit (tx c) \<le> effective_gas_limit_cap H (cfg c)) \<and>
    type_admitted H c \<and> limits_admitted H c"
  using validate_env_admitted [OF assms] by (simp add: admitted_def)

text \<open>
  C30 L1 messages: \<open>validate_env\<close> accepts an L1 message whatever its gas price, fees and gas limit
  relative to the transaction cap, if \<open>prevrandao\<close> is set, its chain id (if any) matches and the
  block and initcode limits hold; the block gas limit still binds it.
\<close>

theorem l1_message_admission:
  assumes "tx_types (tx_type_of H)" and "eth_history (eth_enabled H)" and "is_l1_msg (tx c)"
  shows "validate_env H c = Ok () \<longleftrightarrow>
    prevrandao (block c) \<noteq> None \<and>
    (tx_chain_id_check (cfg c) \<longrightarrow> tx_chain_id (tx c) \<in> {None, Some (cfg_chain_id (cfg c))}) \<and>
    limits_admitted H c"
proof -
  have "tx_type (tx c) = 0x7E" using assms(3) by (simp add: is_l1_msg_def L1_MESSAGE_TYPE_def)
  then show ?thesis
    using assms(3)
    by (auto simp: validate_env_admitted [OF assms(1,2)] admitted_def type_admitted_def
        chain_id_admitted_def word_less_nat_alt split: option.split)
qed

section \<open>Intrinsic and floor gas\<close>

text \<open>The list the handler counts, and the bounds within which its counters are exact.\<close>

definition listed :: "ScrollTransaction \<Rightarrow> access_list_item list" where
  "listed t = (if tx_type t = 0 then [] else case access_list t of Some al \<Rightarrow> al | None \<Rightarrow> [])"

definition listed_slots :: "ScrollTransaction \<Rightarrow> nat" where
  "listed_slots t = (\<Sum>item\<leftarrow>listed t. length (storage_slots item))"

definition access_list_fits :: "ScrollTransaction \<Rightarrow> bool" where
  "access_list_fits t \<longleftrightarrow> length (listed t) < 2 ^ 31 \<and> listed_slots t < 2 ^ 64"

lemma sint_i32: "n < 2 ^ 31 \<Longrightarrow> sint (of_nat n :: i32) = int n"
  by (simp add: signed_of_nat signed_take_bit_int_eq_self)

lemma unat_u64: "n < 2 ^ 64 \<Longrightarrow> unat (of_nat n :: u64) = n"
  by (simp add: unat_of_nat take_bit_nat_eq_self)

lemma scast_i32: "n < 2 ^ 31 \<Longrightarrow> (scast (of_nat n :: i32) :: u64) = of_nat n"
  by (simp add: signed_of_nat signed_take_bit_int_eq_self)

lemma add_i32_exact:
  "n < 2 ^ 31 \<Longrightarrow> add_i32 (of_nat n) 1 = (if n + 1 < 2 ^ 31 then Some (of_nat (n + 1)) else None)"
  by (simp add: add_i32_def sint_i32 add.commute)

lemma checked_add_exact:
  "m < 2 ^ 64 \<Longrightarrow> k < 2 ^ 64 \<Longrightarrow>
     checked_add (of_nat m :: usize) (of_nat k) = (if m + k < 2 ^ 64 then Some (of_nat (m + k)) else None)"
  by (simp add: checked_add_def unat_u64)

lemma count_item_exact:
  assumes "n < 2 ^ 31" and "m < 2 ^ 64"
  shows "count_item item (of_nat n, of_nat m) =
    (if n + 1 < 2 ^ 31 \<and> m + length (storage_slots item) < 2 ^ 64
     then Ok (of_nat (n + 1), of_nat (m + length (storage_slots item))) else Panic)"
proof (cases "length (storage_slots item) < 2 ^ 64")
  case True
  then show ?thesis
    unfolding count_item_def iter_count_def prod.case add_i32_exact [OF assms(1)]
    using checked_add_exact [OF assms(2) True] by simp
next
  case False
  then show ?thesis
    unfolding count_item_def iter_count_def prod.case add_i32_exact [OF assms(1)] by simp
qed

lemma counts_panicked: "foldl (\<lambda>counts item. obind counts (count_item item)) Panic al = Panic"
  by (induction al) simp_all

lemma fold_counts:
  assumes "n < 2 ^ 31" and "m < 2 ^ 64"
  shows "foldl (\<lambda>counts item. obind counts (count_item item)) (Ok (of_nat n, of_nat m)) al =
    (if n + length al < 2 ^ 31 \<and> m + (\<Sum>item\<leftarrow>al. length (storage_slots item)) < 2 ^ 64
     then Ok (of_nat (n + length al), of_nat (m + (\<Sum>item\<leftarrow>al. length (storage_slots item))))
     else (Panic :: ('e, i32 \<times> usize) outcome))"
  using assms
proof (induction al arbitrary: n m)
  case (Cons item al)
  show ?case
  proof (cases "n + 1 < 2 ^ 31 \<and> m + length (storage_slots item) < 2 ^ 64")
    case True
    then show ?thesis
      using Cons.IH [of "n + 1" "m + length (storage_slots item)"]
      by (simp add: count_item_exact [OF Cons.prems] add.assoc del: of_nat_add of_nat_Suc)
  next
    case False
    then have "count_item item (of_nat n, of_nat m) = (Panic :: ('e, i32 \<times> usize) outcome)" by (simp add: count_item_exact [OF Cons.prems])
    moreover have "\<not> (n + length (item # al) < 2 ^ 31 \<and>
        m + (\<Sum>item\<leftarrow>item # al. length (storage_slots item)) < 2 ^ 64)"
      using False by auto
    ultimately show ?thesis unfolding foldl_Cons obind.simps by (simp only: counts_panicked if_False)
  qed
qed simp

lemma access_list_counts_eq:
  "access_list_counts t =
     (if access_list_fits t then Ok (of_nat (length (listed t)), of_nat (listed_slots t))
      else (Panic :: ('e, i32 \<times> usize) outcome))"
proof -
  have "access_list_counts t =
      foldl (\<lambda>counts item. obind counts (count_item item))
        (Ok (of_nat 0, of_nat 0) :: ('e, i32 \<times> usize) outcome) (listed t)"
    by (simp add: access_list_counts_def listed_def split: option.split)
  then show ?thesis
    using fold_counts [of 0 0 "listed t", where ?'e = 'e]
    by (simp add: access_list_fits_def listed_slots_def)
qed

text \<open>Within the bounds both build profiles count alike.\<close>

lemma fold_unchecked:
  "foldl (\<lambda>(a :: i32, s :: usize) item. (a + 1, s + of_nat (length (storage_slots item)))) (a0, s0) al =
     (a0 + of_nat (length al), s0 + of_nat ((\<Sum>item\<leftarrow>al. length (storage_slots item))))"
  by (induction al arbitrary: a0 s0) (simp_all add: algebra_simps)

lemma access_list_counts_profiles:
  "access_list_counts t = Ok n \<Longrightarrow> access_list_counts_unchecked t = n"
  by (auto simp: access_list_counts_eq access_list_counts_unchecked_def fold_unchecked listed_def
      listed_slots_def split: if_splits option.splits)

text \<open>The gas the table asks for, the floor being in force from Feynman unless switched off.\<close>

definition required_gas ::
  "('g, 'j, 'd, 'ir, 'gas, 'rg, 'res) handler_ops \<Rightarrow> ('g, 'j) ctx \<Rightarrow> init_gas" where
  "required_gas H c =
     (let g = initial_tx_gas H (gas_params (cfg c)) (tx_input (tx c)) (is_create (kind (tx c)))
            (of_nat (length (listed (tx c)))) (of_nat (listed_slots (tx c)))
            (authorization_list_len (tx c))
      in if FEYNMAN \<le> cfg_spec (cfg c) \<and> \<not> is_eip7623_disabled (cfg c) then g
         else g\<lparr>floor_gas := 0\<rparr>)"

lemma validate_initial_eq:
  "validate_initial_tx_gas H c =
     (if access_list_fits (tx c) then
        let g = required_gas H c in
        if gas_limit (tx c) < initial_gas g then
          Err (TransactionError (CallGasCostMoreThanGasLimit (gas_limit (tx c)) (initial_gas g)))
        else if gas_limit (tx c) < floor_gas g then
          Err (TransactionError (GasFloorMoreThanGasLimit (floor_gas g) (gas_limit (tx c))))
        else Ok g
      else Panic)"
  by (simp add: validate_initial_tx_gas_def required_gas_def access_list_counts_eq Let_def
      is_enabled_in_le scast_i32 access_list_fits_def)

lemma validate_initial_panics: "validate_initial_tx_gas H c = Panic \<longleftrightarrow> \<not> access_list_fits (tx c)"
  by (simp add: validate_initial_eq Let_def)

section \<open>The gas schedule of the forks\<close>

text \<open>
  \<open>revm\<close>'s intrinsic gas on a table that differs from the Shanghai one at most in the parameters the
  Scroll forks override: what Shanghai charges for calldata, creation and access list, plus the table's
  price for each authorization; the floor is the table's base plus its price for each calldata token.
\<close>

definition overridden_ids :: "('g, 'i) gas_table_ops \<Rightarrow> 'i set" where
  "overridden_ids G = {tx_eip7702_per_empty_account_cost G, tx_eip7702_auth_refund G,
     tx_floor_cost_per_token G, tx_floor_cost_base_gas G}"

definition schedule_law ::
  "('g, 'j, 'd, 'ir, 'gas, 'rg, 'res) handler_ops \<Rightarrow> ('g, 'i) gas_table_ops
     \<Rightarrow> (bytes \<Rightarrow> bool \<Rightarrow> u64 \<Rightarrow> u64 \<Rightarrow> u64) \<Rightarrow> (bytes \<Rightarrow> u64) \<Rightarrow> bool" where
  "schedule_law H G shanghai tokens \<longleftrightarrow>
     (\<forall>p input create accounts slots auths.
        (\<forall>i. i \<notin> overridden_ids G \<longrightarrow> gp_get G p i = gp_get G (gp_new_spec G Eth_SHANGHAI) i) \<longrightarrow>
        initial_tx_gas H p input create accounts slots auths =
          \<lparr>initial_gas = shanghai input create accounts slots
             + auths * gp_get G p (tx_eip7702_per_empty_account_cost G),
           floor_gas = gp_get G p (tx_floor_cost_base_gas G)
             + tokens input * gp_get G p (tx_floor_cost_per_token G)\<rparr>)"

lemma scroll_gas_overridden:
  assumes "gas_table G"
  shows "i \<notin> overridden_ids G \<Longrightarrow> scroll_gas G spec i = gp_get G (gp_new_spec G Eth_SHANGHAI) i"
    and "scroll_gas G spec (tx_eip7702_per_empty_account_cost G) =
      (if EUCLID \<le> spec then PER_EMPTY_ACCOUNT_COST G
       else gp_get G (gp_new_spec G Eth_SHANGHAI) (tx_eip7702_per_empty_account_cost G))"
    and "FEYNMAN \<le> spec \<Longrightarrow> scroll_gas G spec (tx_floor_cost_base_gas G) = 21000"
    and "FEYNMAN \<le> spec \<Longrightarrow> scroll_gas G spec (tx_floor_cost_per_token G) = TOTAL_COST_FLOOR_PER_TOKEN G"
  using gas_table.ids_distinct [OF assms] by (auto simp: scroll_gas_def overridden_ids_def)

lemma schedule_gas:
  assumes "gas_table G" and "schedule_law H G shanghai tokens"
  shows "initial_tx_gas H (new_scroll_spec G spec) input create accounts slots auths =
    \<lparr>initial_gas = shanghai input create accounts slots
       + auths * scroll_gas G spec (tx_eip7702_per_empty_account_cost G),
     floor_gas = scroll_gas G spec (tx_floor_cost_base_gas G)
       + tokens input * scroll_gas G spec (tx_floor_cost_per_token G)\<rparr>"
  using assms(2) scroll_gas_overridden(1) [OF assms(1)]
  unfolding schedule_law_def gas_table.new_scroll_spec_get [OF assms(1), symmetric] by blast

text \<open>
  C29 The gas schedule: on a configuration reached by fork changes, whatever its last fork, a transaction
  whose access list the counters can hold is admitted exactly if its gas limit covers the intrinsic gas
  and the floor, and the error names the first that is not covered. The intrinsic gas is Shanghai's for
  calldata, creation and the listed accounts and slots (none for a legacy transaction), plus EIP-7702's
  price for each authorization from Euclid (the Shanghai table's before); the floor is EIP-7623's, 21000
  plus its price for each token, from Feynman unless switched off, and zero otherwise.
\<close>

theorem intrinsic_gas_schedule:
  assumes "gas_table (gas_table_ops.truncate C)"
    and "schedule_law H (gas_table_ops.truncate C) shanghai tokens"
    and "reconfigured C cfg0 ss (cfg c)" and "ss \<noteq> []" and "access_list_fits (tx c)"
  shows "validate_initial_tx_gas H c =
    (let t = tx c; spec = last ss; G = gas_table_ops.truncate C;
         per_auth = (if EUCLID \<le> spec then PER_EMPTY_ACCOUNT_COST G
           else gp_get G (gp_new_spec G Eth_SHANGHAI) (tx_eip7702_per_empty_account_cost G));
         intrinsic = shanghai (tx_input t) (is_create (kind t))
             (of_nat (length (listed t))) (of_nat (listed_slots t)) + authorization_list_len t * per_auth;
         least = (if FEYNMAN \<le> spec \<and> \<not> is_eip7623_disabled (cfg c)
           then 21000 + tokens (tx_input t) * TOTAL_COST_FLOOR_PER_TOKEN G else 0)
     in if intrinsic \<le> gas_limit t \<and> least \<le> gas_limit t
        then Ok \<lparr>initial_gas = intrinsic, floor_gas = least\<rparr>
        else Err (TransactionError
          (if intrinsic \<le> gas_limit t then GasFloorMoreThanGasLimit least (gas_limit t)
           else CallGasCostMoreThanGasLimit (gas_limit t) intrinsic)))"
proof -
  from reconfigured_consistent [OF assms(3,4)]
  have "gas_params (cfg c) = new_scroll_spec (gas_table_ops.truncate C) (last ss)"
    and spec: "cfg_spec (cfg c) = last ss" by (simp_all add: cfg_consistent_def)
  then have gas: "required_gas H c = (let g = initial_tx_gas H (new_scroll_spec (gas_table_ops.truncate C) (last ss))
      (tx_input (tx c)) (is_create (kind (tx c))) (of_nat (length (listed (tx c))))
      (of_nat (listed_slots (tx c))) (authorization_list_len (tx c))
     in if FEYNMAN \<le> last ss \<and> \<not> is_eip7623_disabled (cfg c) then g else g\<lparr>floor_gas := 0\<rparr>)"
    by (simp add: required_gas_def)
  show ?thesis
  proof (cases "FEYNMAN \<le> last ss")
    case True
    then show ?thesis
      by (simp add: validate_initial_eq assms(5) gas schedule_gas [OF assms(1,2)]
          scroll_gas_overridden(2) [OF assms(1)] scroll_gas_overridden(3,4) [OF assms(1) True] Let_def not_less)
        auto
  next
    case False
    then show ?thesis
      by (simp add: validate_initial_eq assms(5) gas schedule_gas [OF assms(1,2)]
          scroll_gas_overridden(2) [OF assms(1)] Let_def) auto
  qed
qed

section \<open>Instances\<close>

theorem validate_env_accepts_witness:
  "validate_env mem_handler (run_ctx TSUKI_V2 (run_tx 0 0xA) 0) = Ok () \<and>
   validate_env mem_handler (run_ctx TSUKI_V2 (run_tx 3 0xA) 0) \<noteq> Ok () \<and>
   validate_env mem_handler (run_ctx TSUKI_V2 (run_tx 0x7F 0xA) 0) \<noteq> Ok ()"
proof -
  have "tx_types (tx_type_of mem_handler)" by (simp add: eip2718_types)
  note accepts = validate_env_accepts [OF this mem_eth_history]
  show ?thesis
    unfolding accepts
    by (simp add: run_defs run_block_def chain_id_admitted_def type_admitted_def limits_admitted_def
        tx_chain_id_def mem_handler_def price_base_fee_def new_scroll_def set_scroll_spec_def
        table_cfg_ops_def gas_table_ops.extend_def spec_gates guard_err_def word_le_nat_alt
        word_less_nat_alt Let_def)
qed

theorem l1_message_admission_witness:
  "validate_env mem_handler
     ((run_ctx TSUKI_V2 (run_tx 0x7E 0xA) 0)
        \<lparr>cfg := (new_scroll table_cfg_ops TSUKI_V2)\<lparr>tx_gas_limit_cap := Some 5\<rparr>\<rparr>) = Ok ()"
proof -
  have types: "tx_types (tx_type_of mem_handler)" by (simp add: eip2718_types)
  show ?thesis
    by (subst l1_message_admission [OF types mem_eth_history])
      (simp_all add: run_defs run_block_def limits_admitted_def tx_chain_id_def new_scroll_def
        set_scroll_spec_def table_cfg_ops_def gas_table_ops.extend_def spec_gates word_le_nat_alt Let_def)
qed

end
