(* ===== verification/Interpreter.thy ===== *)
theory Interpreter
  imports Hardfork
begin

text \<open>
  The interpreter and the host as the instructions see them. Both are code of \<open>revm\<close>: a record of
  operations each (\<open>interp_ops\<close>, \<open>host_ops\<close>), the macros \<open>popn_top!\<close>, \<open>gas!\<close> and so on being written
  out over these where the source uses them. The locales \<open>interpreter\<close> and \<open>history_host\<close> state the
  laws that are relied on, over views of the state (stack, gas, halt status; warmth of accounts and
  slots, contents of storage); a reference instance of both follows.
\<close>

section \<open>The interpreter\<close>

datatype InstructionResult =
  NotActivated
| FatalExternalError
| OutOfGas
| StackUnderflow
| StackOverflow
| StateChangeDuringStaticCall
| InvalidOperandOOG
| MemoryOOG
| OtherResult nat

record ('i, 'g) interp_ops =
  top :: "'i \<Rightarrow> u256 option"
  set_top :: "u256 \<Rightarrow> 'i \<Rightarrow> 'i"
  popn :: "nat \<Rightarrow> 'i \<Rightarrow> (u256 list \<times> 'i) option"
  push_stack :: "u256 \<Rightarrow> 'i \<Rightarrow> 'i option"
  halt :: "InstructionResult \<Rightarrow> 'i \<Rightarrow> 'i"
  halt_oog :: "'i \<Rightarrow> 'i"
  halt_fatal :: "'i \<Rightarrow> 'i"
  record_cost :: "u64 \<Rightarrow> 'i \<Rightarrow> 'i option"
  gas_remaining :: "'i \<Rightarrow> u64"
  is_static :: "'i \<Rightarrow> bool"
  target_address :: "'i \<Rightarrow> address"
  resize_memory :: "'g \<Rightarrow> usize \<Rightarrow> usize \<Rightarrow> 'i \<Rightarrow> bool \<times> 'i"
  memory_copy :: "usize \<Rightarrow> usize \<Rightarrow> usize \<Rightarrow> 'i \<Rightarrow> 'i"
  as_u64_saturated :: "u256 \<Rightarrow> u64"
  as_usize :: "u256 \<Rightarrow> usize option"

locale interpreter =
  fixes I :: "('i, 'g) interp_ops"
    and stack :: "'i \<Rightarrow> u256 list"
    and status :: "'i \<Rightarrow> InstructionResult option"
  assumes top_stack: "top I i = (case stack i of [] \<Rightarrow> None | v # vs \<Rightarrow> Some v)"
    and set_top_stack: "stack i = v # vs \<Longrightarrow> stack (set_top I w i) = w # vs"
    and set_top_rest: "gas_remaining I (set_top I w i) = gas_remaining I i"
      "status (set_top I w i) = status i"
    and popn_stack:
      "popn I n i = None \<longleftrightarrow> length (stack i) < n"
      "popn I n i = Some (vs, i') \<Longrightarrow>
         stack i = vs @ stack i' \<and> length vs = n \<and> status i' = status i \<and>
         gas_remaining I i' = gas_remaining I i"
    and push_rest: "push_stack I v i = Some i' \<Longrightarrow>
         stack i' = v # stack i \<and> status i' = status i \<and> gas_remaining I i' = gas_remaining I i"
    and halt_status: "status (halt I r i) = Some r"
      "status (halt_oog I i) = Some OutOfGas" "status (halt_fatal I i) = Some FatalExternalError"
    and halt_stack: "stack (halt I r i) = stack i" "stack (halt_oog I i) = stack i"
      "stack (halt_fatal I i) = stack i"
    and record_cost_None: "record_cost I c i = None \<longleftrightarrow> gas_remaining I i < c"
    and record_cost_Some: "record_cost I c i = Some i' \<Longrightarrow>
         gas_remaining I i' = gas_remaining I i - c \<and> stack i' = stack i \<and> status i' = status i"
    and as_u64: "unat (as_u64_saturated I v) = clip 64 (unat v)"
begin

lemma pays: "c \<le> gas_remaining I i \<Longrightarrow> \<exists>i'. record_cost I c i = Some i' \<and>
    gas_remaining I i' = gas_remaining I i - c \<and> stack i' = stack i \<and> status i' = status i"
  using record_cost_None [of c i] record_cost_Some [of c i]
  by (cases "record_cost I c i") auto

lemma as_u64_small: "unat v < 2 ^ 64 \<Longrightarrow> unat (as_u64_saturated I v) = unat v"
  by (simp add: as_u64 clip_less)

end

section \<open>The host\<close>

record StateLoad =
  sl_data :: u256
  is_cold :: bool

datatype LoadError = DBError | ColdLoadSkipped

record ('h, 'g, 'cp) host_ops =
  host_spec :: "'h \<Rightarrow> ScrollSpecId"
  host_gas_params :: "'h \<Rightarrow> 'g"
  warm_storage_read_cost :: "'g \<Rightarrow> u64"
  cold_storage_additional_cost :: "'g \<Rightarrow> u64"
  mcopy_cost :: "'g \<Rightarrow> usize \<Rightarrow> u64"
  host_block_number :: "'h \<Rightarrow> u256"
  host_chain_id :: "'h \<Rightarrow> u256"
  host_basefee :: "'h \<Rightarrow> u256"
  host_tload :: "address \<Rightarrow> u256 \<Rightarrow> 'h \<Rightarrow> u256 \<times> 'h"
  host_tstore :: "address \<Rightarrow> u256 \<Rightarrow> u256 \<Rightarrow> 'h \<Rightarrow> 'h"
  load_account_delegated :: "address \<Rightarrow> 'h \<Rightarrow> bool \<times> 'h"
  sload :: "address \<Rightarrow> u256 \<Rightarrow> 'h \<Rightarrow> StateLoad option \<times> 'h"
  sload_skip_cold_load :: "address \<Rightarrow> u256 \<Rightarrow> bool \<Rightarrow> 'h \<Rightarrow> (LoadError + StateLoad) \<times> 'h"
  load_account_info_skip_cold_load :: "address \<Rightarrow> bool \<Rightarrow> bool \<Rightarrow> 'h \<Rightarrow> (LoadError + unit) \<times> 'h"
  checkpoint :: "'h \<Rightarrow> 'cp \<times> 'h"
  checkpoint_revert :: "'cp \<Rightarrow> 'h \<Rightarrow> 'h"
  keccak256 :: "u8 list \<Rightarrow> u8 list"
  BLOCK_HASH_HISTORY :: u64

text \<open>
  Views of the host: which accounts are in the journal at all, which are warm, which slots are warm,
  and what a slot holds. \<open>sload_skip_cold_load\<close> on an account outside the journal answers
  \<open>ColdLoadSkipped\<close> whatever its flag; on a journaled one it answers that only for a cold slot it
  was told to skip, and otherwise reports the slot's coldness and warms the slot, not the account.
  Loading the account brings it into the journal; reverting to a checkpoint taken before restores
  every warmth but keeps the account there.
\<close>

locale history_host =
  fixes K :: "('h, 'g, 'cp) host_ops"
    and cached :: "'h \<Rightarrow> address \<Rightarrow> bool"
    and warm_account :: "'h \<Rightarrow> address \<Rightarrow> bool"
    and warm_slot :: "'h \<Rightarrow> address \<Rightarrow> u256 \<Rightarrow> bool"
    and stored :: "'h \<Rightarrow> address \<Rightarrow> u256 \<Rightarrow> u256"
  assumes sload_uncached:
      "\<not> cached h a \<Longrightarrow> sload_skip_cold_load K a k skip h = (r, h') \<Longrightarrow> r = Inl ColdLoadSkipped \<and> h' = h"
    and sload_skipped:
      "cached h a \<Longrightarrow> \<not> warm_slot h a k \<Longrightarrow> sload_skip_cold_load K a k True h = (Inl ColdLoadSkipped, h)"
    and sload_done:
      "cached h a \<Longrightarrow> warm_slot h a k \<or> \<not> skip \<Longrightarrow> sload_skip_cold_load K a k skip h = (r, h') \<Longrightarrow>
         r = Inl DBError \<and> warm_account h' = warm_account h \<and> warm_slot h' = warm_slot h \<or>
         r = Inr \<lparr>sl_data = stored h a k, is_cold = (\<not> warm_slot h a k)\<rparr> \<and>
         warm_account h' = warm_account h \<and>
         warm_slot h' = (warm_slot h)(a := (warm_slot h a)(k := True))"
    and sload_host:
      "sload_skip_cold_load K a k skip h = (r, h') \<Longrightarrow>
         host_spec K h' = host_spec K h \<and> host_gas_params K h' = host_gas_params K h"
    and isolated_load:
      "checkpoint K h = (cp, h1) \<Longrightarrow>
       load_account_info_skip_cold_load K a False False h1 = (q, h2) \<Longrightarrow>
       checkpoint_revert K cp h2 = h3 \<Longrightarrow>
         warm_account h3 = warm_account h \<and> warm_slot h3 = warm_slot h \<and> stored h3 = stored h \<and>
         (q = Inr () \<longrightarrow> cached h3 a) \<and> q \<in> {Inr (), Inl DBError} \<and>
         host_spec K h3 = host_spec K h \<and> host_gas_params K h3 = host_gas_params K h"

section \<open>Opcodes and the table\<close>

type_synonym ('i, 'h) instruction = "'i \<Rightarrow> 'h \<Rightarrow> 'i \<times> 'h"

record ('i, 'h) table_entry =
  run_instruction :: "('i, 'h) instruction"
  static_gas :: u64

record opcodes =
  op_BLOCKHASH :: u8
  op_BASEFEE :: u8
  op_TSTORE :: u8
  op_TLOAD :: u8
  op_SELFDESTRUCT :: u8
  op_MCOPY :: u8
  op_DIFFICULTY :: u8
  op_CLZ :: u8

definition opcodes_distinct :: "opcodes \<Rightarrow> bool" where
  "opcodes_distinct Op \<longleftrightarrow> distinct [op_BLOCKHASH Op, op_BASEFEE Op, op_TSTORE Op, op_TLOAD Op,
     op_SELFDESTRUCT Op, op_MCOPY Op, op_DIFFICULTY Op, op_CLZ Op]"

end
