(* ===== verification/Instructions.thy ===== *)
theory Instructions
  imports Interpreter
begin

text \<open>
  The instructions Scroll overrides (\<open>src/instructions.rs\<close>), in the order of the file. An instruction
  maps interpreter and host to interpreter and host; halting is a state of the interpreter. The
  history branch of \<open>BLOCKHASH\<close> is split into its two forks.
\<close>

definition HISTORY_STORAGE_ADDRESS :: address where
  "HISTORY_STORAGE_ADDRESS = 0x0000F90827F1C53a10cb7A02335B175320002935"

definition HISTORY_SERVE_WINDOW :: u64 where
  "HISTORY_SERVE_WINDOW = 8191"

definition DIFFICULTY :: u256 where
  "DIFFICULTY = 0"

section \<open>BLOCKHASH\<close>

definition compute_block_hash :: "('h, 'g, 'cp) host_ops \<Rightarrow> u64 \<Rightarrow> u64 \<Rightarrow> u256" where
  "compute_block_hash K chain_id number =
     (let input = to_be_bytes 8 chain_id @ to_be_bytes 8 number
      in from_be_bytes (keccak256 K input))"

definition eip7709_history_sload ::
  "('h, 'g, 'cp) host_ops \<Rightarrow> u256 \<Rightarrow> bool \<Rightarrow> 'h \<Rightarrow> (LoadError + StateLoad) \<times> 'h" where
  "eip7709_history_sload K index skip_cold h =
     (case sload_skip_cold_load K HISTORY_STORAGE_ADDRESS index skip_cold h of
        (Inr v, h') \<Rightarrow> (Inr v, h')
      | (Inl DBError, h') \<Rightarrow> (Inl DBError, h')
      | (Inl ColdLoadSkipped, h') \<Rightarrow>
          (case checkpoint K h' of (cp, h1) \<Rightarrow>
           case load_account_info_skip_cold_load K HISTORY_STORAGE_ADDRESS False False h1 of (loaded, h2) \<Rightarrow>
           let h3 = checkpoint_revert K cp h2 in
           case loaded of
             Inr _ \<Rightarrow> sload_skip_cold_load K HISTORY_STORAGE_ADDRESS index skip_cold h3
           | Inl e \<Rightarrow> (Inl e, h3)))"

definition blockhash_tsuki_v2 ::
  "('i, 'g) interp_ops \<Rightarrow> ('h, 'g, 'cp) host_ops \<Rightarrow> u256 \<Rightarrow> ('i, 'h) instruction" where
  "blockhash_tsuki_v2 I K index i h =
     (case record_cost I (warm_storage_read_cost K (host_gas_params K h)) i of
        None \<Rightarrow> (halt_oog I i, h)
      | Some i1 \<Rightarrow>
          let additional_cold_cost = cold_storage_additional_cost K (host_gas_params K h);
              skip_cold = gas_remaining I i1 < additional_cold_cost
          in case eip7709_history_sload K index skip_cold h of
               (Inr v, h') \<Rightarrow>
                 if is_cold v then
                   (case record_cost I additional_cold_cost i1 of
                      None \<Rightarrow> (halt_oog I i1, h')
                    | Some i2 \<Rightarrow> (set_top I (sl_data v) i2, h'))
                 else (set_top I (sl_data v) i1, h')
             | (Inl ColdLoadSkipped, h') \<Rightarrow> (halt_oog I i1, h')
             | (Inl DBError, h') \<Rightarrow> (halt_fatal I i1, h'))"

definition blockhash_feynman ::
  "('i, 'g) interp_ops \<Rightarrow> ('h, 'g, 'cp) host_ops \<Rightarrow> u256 \<Rightarrow> ('i, 'h) instruction" where
  "blockhash_feynman I K index i h =
     (case load_account_delegated K HISTORY_STORAGE_ADDRESS h of
        (False, h1) \<Rightarrow> (halt I FatalExternalError i, h1)
      | (True, h1) \<Rightarrow>
          (case sload K HISTORY_STORAGE_ADDRESS index h1 of
             (None, h2) \<Rightarrow> (halt I FatalExternalError i, h2)
           | (Some v, h2) \<Rightarrow> (set_top I (sl_data v) i, h2)))"

definition blockhash ::
  "('i, 'g) interp_ops \<Rightarrow> ('h, 'g, 'cp) host_ops \<Rightarrow> ('i, 'h) instruction" where
  "blockhash I K i h =
     (case top I i of
        None \<Rightarrow> (halt I StackUnderflow i, h)
      | Some requested_number \<Rightarrow>
          (case checked_sub (host_block_number K h) requested_number of
             None \<Rightarrow> (set_top I 0 i, h)
           | Some difference \<Rightarrow>
               let diff = as_u64_saturated I difference in
               if diff = 0 then (set_top I 0 i, h)
               else if BLOCK_HASH_HISTORY K < diff then (set_top I 0 i, h)
               else if \<not> is_enabled_in (host_spec K h) FEYNMAN then
                 let chain_id = as_u64_saturated I (host_chain_id K h)
                 in (set_top I (compute_block_hash K chain_id (as_u64_saturated I requested_number)) i, h)
               else
                 let requested_block_number_u64 = as_u64_saturated I requested_number;
                     index = ucast (requested_block_number_u64 mod HISTORY_SERVE_WINDOW)
                 in if is_enabled_in (host_spec K h) TSUKI_V2 then blockhash_tsuki_v2 I K index i h
                    else blockhash_feynman I K index i h))"

section \<open>The other instructions\<close>

definition selfdestruct :: "('i, 'g) interp_ops \<Rightarrow> ('i, 'h) instruction" where
  "selfdestruct I i h = (halt I NotActivated i, h)"

definition push_or_halt :: "('i, 'g) interp_ops \<Rightarrow> u256 \<Rightarrow> 'i \<Rightarrow> 'i" where
  "push_or_halt I v i = (case push_stack I v i of Some i' \<Rightarrow> i' | None \<Rightarrow> halt I StackOverflow i)"

definition basefee_instr ::
  "('i, 'g) interp_ops \<Rightarrow> ('h, 'g, 'cp) host_ops \<Rightarrow> ('i, 'h) instruction" where
  "basefee_instr I K i h =
     (if \<not> is_enabled_in (host_spec K h) CURIE then (halt I NotActivated i, h)
      else (push_or_halt I (host_basefee K h) i, h))"

definition tstore ::
  "('i, 'g) interp_ops \<Rightarrow> ('h, 'g, 'cp) host_ops \<Rightarrow> ('i, 'h) instruction" where
  "tstore I K i h =
     (if \<not> is_enabled_in (host_spec K h) CURIE then (halt I NotActivated i, h)
      else if is_static I i then (halt I StateChangeDuringStaticCall i, h)
      else
        (case popn I 2 i of
           Some ([index, v], i') \<Rightarrow> (i', host_tstore K (target_address I i') index v h)
         | _ \<Rightarrow> (halt I StackUnderflow i, h)))"

definition tload ::
  "('i, 'g) interp_ops \<Rightarrow> ('h, 'g, 'cp) host_ops \<Rightarrow> ('i, 'h) instruction" where
  "tload I K i h =
     (if \<not> is_enabled_in (host_spec K h) CURIE then (halt I NotActivated i, h)
      else
        (case top I i of
           None \<Rightarrow> (halt I StackUnderflow i, h)
         | Some index \<Rightarrow>
             (case host_tload K (target_address I i) index h of (v, h') \<Rightarrow> (set_top I v i, h'))))"

definition mcopy ::
  "('i, 'g) interp_ops \<Rightarrow> ('h, 'g, 'cp) host_ops \<Rightarrow> ('i, 'h) instruction" where
  "mcopy I K i h =
     (if \<not> is_enabled_in (host_spec K h) CURIE then (halt I NotActivated i, h)
      else
        (case popn I 3 i of
           Some ([dst, src, len], i1) \<Rightarrow>
             (case as_usize I len of
                None \<Rightarrow> (halt I InvalidOperandOOG i1, h)
              | Some len \<Rightarrow>
                  (case record_cost I (mcopy_cost K (host_gas_params K h) len) i1 of
                     None \<Rightarrow> (halt_oog I i1, h)
                   | Some i2 \<Rightarrow>
                       if len = 0 then (i2, h)
                       else
                         (case as_usize I dst of
                            None \<Rightarrow> (halt I InvalidOperandOOG i2, h)
                          | Some dst \<Rightarrow>
                              (case as_usize I src of
                                 None \<Rightarrow> (halt I InvalidOperandOOG i2, h)
                               | Some src \<Rightarrow>
                                   (case resize_memory I (host_gas_params K h) (max dst src) len i2 of
                                      (False, i3) \<Rightarrow> (i3, h)
                                    | (True, i3) \<Rightarrow> (memory_copy I dst src len i3, h))))))
         | _ \<Rightarrow> (halt I StackUnderflow i, h)))"

definition difficulty :: "('i, 'g) interp_ops \<Rightarrow> ('i, 'h) instruction" where
  "difficulty I i h = (push_or_halt I DIFFICULTY i, h)"

fun bit_len :: "nat \<Rightarrow> nat" where
  "bit_len n = (if n = 0 then 0 else Suc (bit_len (n div 2)))"

declare bit_len.simps [simp del]

definition leading_zeros :: "u256 \<Rightarrow> nat" where
  "leading_zeros w = 256 - bit_len (unat w)"

definition clz ::
  "('i, 'g) interp_ops \<Rightarrow> ('h, 'g, 'cp) host_ops \<Rightarrow> ('i, 'h) instruction" where
  "clz I K i h =
     (if \<not> is_enabled_in (host_spec K h) GALILEO then (halt I NotActivated i, h)
      else
        (case top I i of
           None \<Rightarrow> (halt I StackUnderflow i, h)
         | Some op1 \<Rightarrow> (set_top I (of_nat (leading_zeros op1)) i, h)))"

section \<open>The instruction table\<close>

definition make_scroll_instruction_table ::
  "(SpecId \<Rightarrow> u8 \<Rightarrow> ('i, 'h) table_entry) \<Rightarrow> opcodes \<Rightarrow> ('i, 'g) interp_ops
     \<Rightarrow> ('h, 'g, 'cp) host_ops \<Rightarrow> ScrollSpecId \<Rightarrow> u8 \<Rightarrow> ('i, 'h) table_entry" where
  "make_scroll_instruction_table base_table Op I K spec =
     (base_table (spec_into_SpecId spec))
       (op_BLOCKHASH Op := \<lparr>run_instruction = blockhash I K, static_gas = 20\<rparr>,
        op_BASEFEE Op := \<lparr>run_instruction = basefee_instr I K, static_gas = 2\<rparr>,
        op_TSTORE Op := \<lparr>run_instruction = tstore I K, static_gas = 100\<rparr>,
        op_TLOAD Op := \<lparr>run_instruction = tload I K, static_gas = 100\<rparr>,
        op_SELFDESTRUCT Op := \<lparr>run_instruction = selfdestruct I, static_gas = 0\<rparr>,
        op_MCOPY Op := \<lparr>run_instruction = mcopy I K, static_gas = 3\<rparr>,
        op_DIFFICULTY Op := \<lparr>run_instruction = difficulty I, static_gas = 2\<rparr>,
        op_CLZ Op := \<lparr>run_instruction = clz I K, static_gas = 5\<rparr>)"

record ('i, 'h) ScrollInstructions =
  instruction_table :: "u8 \<Rightarrow> ('i, 'h) table_entry"

definition instructions_new :: "(u8 \<Rightarrow> ('i, 'h) table_entry) \<Rightarrow> ('i, 'h) ScrollInstructions" where
  "instructions_new base_table = \<lparr>instruction_table = base_table\<rparr>"

definition new_mainnet_with_spec ::
  "(SpecId \<Rightarrow> u8 \<Rightarrow> ('i, 'h) table_entry) \<Rightarrow> opcodes \<Rightarrow> ('i, 'g) interp_ops
     \<Rightarrow> ('h, 'g, 'cp) host_ops \<Rightarrow> ScrollSpecId \<Rightarrow> ('i, 'h) ScrollInstructions" where
  "new_mainnet_with_spec base_table Op I K spec =
     instructions_new (make_scroll_instruction_table base_table Op I K spec)"

definition new_mainnet ::
  "(SpecId \<Rightarrow> u8 \<Rightarrow> ('i, 'h) table_entry) \<Rightarrow> opcodes \<Rightarrow> ('i, 'g) interp_ops
     \<Rightarrow> ('h, 'g, 'cp) host_ops \<Rightarrow> ('i, 'h) ScrollInstructions" where
  "new_mainnet base_table Op I K = new_mainnet_with_spec base_table Op I K default_spec"

end
