(* ===== verification/RefInterpreter.thy ===== *)
theory RefInterpreter
  imports Instructions
begin

text \<open>
  A reference interpreter (stack, gas, status, memory) and host (warmth and contents as functions,
  checkpoints that save the warmth) satisfying the contracts of \<open>Interpreter\<close>; concrete runs of the
  instructions use it. Its hash function only pads: no property depends on what the hash computes.
\<close>

section \<open>Interpreter\<close>

record mem_interp =
  mi_stack :: "u256 list"
  mi_gas :: u64
  mi_status :: "InstructionResult option"
  mi_static :: bool
  mi_address :: address
  mi_memory :: bytes

definition mem_as_u64 :: "u256 \<Rightarrow> u64" where
  "mem_as_u64 v = (if unat v < 2 ^ 64 then ucast v else - 1)"

text \<open>Memory grows by words; its cost is linear with a quadratic part.\<close>

definition mem_words :: "nat \<Rightarrow> nat" where
  "mem_words n = (n + 31) div 32"

definition mem_gas_of :: "nat \<Rightarrow> nat" where
  "mem_gas_of w = 3 * w + w * w div 512"

definition mem_resize :: "usize \<Rightarrow> usize \<Rightarrow> mem_interp \<Rightarrow> bool \<times> mem_interp" where
  "mem_resize off len i =
     (let old = mem_words (length (mi_memory i)); new = max old (mem_words (unat off + unat len));
          cost = mem_gas_of new - mem_gas_of old
      in if unat (mi_gas i) < cost then (False, i\<lparr>mi_status := Some MemoryOOG\<rparr>)
         else (True, i\<lparr>mi_gas := mi_gas i - of_nat cost,
           mi_memory := mi_memory i @ replicate (32 * new - length (mi_memory i)) 0\<rparr>))"

definition mem_interp_ops :: "(mem_interp, u64 \<times> u64) interp_ops" where
  "mem_interp_ops =
     \<lparr>top = (\<lambda>i. case mi_stack i of [] \<Rightarrow> None | v # vs \<Rightarrow> Some v),
      set_top = (\<lambda>v i. i\<lparr>mi_stack := v # tl (mi_stack i)\<rparr>),
      popn = (\<lambda>n i. if length (mi_stack i) < n then None
        else Some (take n (mi_stack i), i\<lparr>mi_stack := drop n (mi_stack i)\<rparr>)),
      push_stack = (\<lambda>v i. if length (mi_stack i) < 1024 then Some (i\<lparr>mi_stack := v # mi_stack i\<rparr>) else None),
      halt = (\<lambda>r i. i\<lparr>mi_status := Some r\<rparr>),
      halt_oog = (\<lambda>i. i\<lparr>mi_gas := 0, mi_status := Some OutOfGas\<rparr>),
      halt_fatal = (\<lambda>i. i\<lparr>mi_status := Some FatalExternalError\<rparr>),
      record_cost = (\<lambda>c i. if mi_gas i < c then None else Some (i\<lparr>mi_gas := mi_gas i - c\<rparr>)),
      gas_remaining = mi_gas, is_static = mi_static, target_address = mi_address,
      resize_memory = (\<lambda>_. mem_resize),
      memory_copy = (\<lambda>dst src len i.
        i\<lparr>mi_memory := take (unat dst) (mi_memory i) @ take (unat len) (drop (unat src) (mi_memory i))
           @ drop (unat dst + unat len) (mi_memory i)\<rparr>),
      as_u64_saturated = mem_as_u64,
      as_usize = (\<lambda>v. if unat v < 2 ^ 64 then Some (ucast v) else None)\<rparr>"

lemma mem_as_u64_clip: "unat (mem_as_u64 v) = clip 64 (unat v)"
  by (auto simp: mem_as_u64_def clip_def unsigned_ucast_eq take_bit_nat_eq_self
      unsigned_minus_1_eq_mask mask_eq_exp_minus_1)

interpretation mem_interp: interpreter mem_interp_ops mi_stack mi_status
  by unfold_locales
    (auto simp: mem_interp_ops_def mem_as_u64_clip split: if_splits list.splits)

section \<open>Host\<close>

record mem_host =
  mh_spec :: ScrollSpecId
  mh_number :: u256
  mh_chain_id :: u256
  mh_basefee :: u256
  mh_cached :: "address \<Rightarrow> bool"
  mh_warm_account :: "address \<Rightarrow> bool"
  mh_warm_slot :: "address \<Rightarrow> u256 \<Rightarrow> bool"
  mh_stored :: "address \<Rightarrow> u256 \<Rightarrow> u256"
  mh_transient :: "address \<Rightarrow> u256 \<Rightarrow> u256"

definition mem_sload ::
  "address \<Rightarrow> u256 \<Rightarrow> bool \<Rightarrow> mem_host \<Rightarrow> (LoadError + StateLoad) \<times> mem_host" where
  "mem_sload a k skip h =
     (if \<not> mh_cached h a \<or> skip \<and> \<not> mh_warm_slot h a k then (Inl ColdLoadSkipped, h)
      else (Inr \<lparr>sl_data = mh_stored h a k, is_cold = (\<not> mh_warm_slot h a k)\<rparr>,
        h\<lparr>mh_warm_slot := (mh_warm_slot h)(a := (mh_warm_slot h a)(k := True))\<rparr>))"

definition mem_load_account :: "address \<Rightarrow> mem_host \<Rightarrow> mem_host" where
  "mem_load_account a h =
     h\<lparr>mh_cached := (mh_cached h)(a := True), mh_warm_account := (mh_warm_account h)(a := True)\<rparr>"

definition mem_host_ops ::
  "(mem_host, u64 \<times> u64, (address \<Rightarrow> bool) \<times> (address \<Rightarrow> u256 \<Rightarrow> bool)) host_ops" where
  "mem_host_ops =
     \<lparr>host_spec = mh_spec, host_gas_params = (\<lambda>_. (100, 2000)),
      warm_storage_read_cost = fst, cold_storage_additional_cost = snd,
      mcopy_cost = (\<lambda>_ len. 3 * ((len + 31) div 32)),
      host_block_number = mh_number, host_chain_id = mh_chain_id, host_basefee = mh_basefee,
      host_tload = (\<lambda>a k h. (mh_transient h a k, h)),
      host_tstore = (\<lambda>a k v h. h\<lparr>mh_transient := (mh_transient h)(a := (mh_transient h a)(k := v))\<rparr>),
      load_account_delegated = (\<lambda>a h. (True, mem_load_account a h)),
      sload = (\<lambda>a k h. case mem_sload a k False h of (Inr v, h') \<Rightarrow> (Some v, h') | (_, h') \<Rightarrow> (None, h')),
      sload_skip_cold_load = mem_sload,
      load_account_info_skip_cold_load = (\<lambda>a _ _ h. (Inr (), mem_load_account a h)),
      checkpoint = (\<lambda>h. ((mh_warm_account h, mh_warm_slot h), h)),
      checkpoint_revert = (\<lambda>cp h. h\<lparr>mh_warm_account := fst cp, mh_warm_slot := snd cp\<rparr>),
      keccak256 = (\<lambda>bs. take 32 (replicate 16 0 @ bs)),
      BLOCK_HASH_HISTORY = 256\<rparr>"

interpretation mem_host: history_host mem_host_ops mh_cached mh_warm_account mh_warm_slot mh_stored
  by unfold_locales
    (auto simp: mem_host_ops_def mem_sload_def mem_load_account_def split: if_splits)

end
