(* ===== verification/InstructionProps.thy ===== *)
theory InstructionProps
  imports RefInterpreter
begin

text \<open>
  What the overridden instructions do: \<open>BLOCKHASH\<close> on every branch (window, hash before Feynman,
  EIP-7709 gas and warmth from TsukiV2), \<open>CLZ\<close>, transient storage, and the instruction table.
\<close>

section \<open>The window of \<open>BLOCKHASH\<close>\<close>

text \<open>
  \<open>BLOCK_HASH_HISTORY\<close> is a constant of \<open>revm_primitives\<close>, 256 by its documentation; a block is
  within the window when it is one of the last 256.
\<close>

definition in_window :: "('h, 'g, 'cp) host_ops \<Rightarrow> 'h \<Rightarrow> u256 \<Rightarrow> bool" where
  "in_window K h n \<longleftrightarrow>
     unat n < unat (host_block_number K h) \<and> unat (host_block_number K h) - unat n \<le> 256"

text \<open>The slot of the history contract's ring buffer that holds a block's hash.\<close>

definition history_index :: "u64 \<Rightarrow> u256" where
  "history_index n = of_nat (unat n mod 8191)"

lemma index_eq: "ucast (n mod HISTORY_SERVE_WINDOW) = history_index n"
proof -
  have "unat n mod 8191 < 2 ^ 256" using mod_less_divisor [of 8191 "unat n"] by simp
  then show ?thesis
    by (simp add: history_index_def HISTORY_SERVE_WINDOW_def word_unat_eq_iff unat_mod_distrib
        unsigned_of_nat take_bit_nat_eq_self)
qed

context interpreter begin

lemma diff_gates:
  assumes "n \<le> host_block_number K h" and "BLOCK_HASH_HISTORY K = 256"
  shows "as_u64_saturated I (host_block_number K h - n) \<noteq> 0 \<and>
      \<not> BLOCK_HASH_HISTORY K < as_u64_saturated I (host_block_number K h - n) \<longleftrightarrow> in_window K h n"
proof -
  have le: "unat n \<le> unat (host_block_number K h)" using assms(1) by (simp add: word_le_nat_alt)
  have "unat (as_u64_saturated I (host_block_number K h - n)) =
      clip 64 (unat (host_block_number K h) - unat n)"
    using assms(1) by (simp add: as_u64 unat_sub word_le_nat_alt)
  then show ?thesis
    using le assms(2)
    by (auto simp: in_window_def word_less_nat_alt clip_def word_unat_eq_iff)
qed

lemma blockhash_outside:
  assumes "stack i = n # vs" and "BLOCK_HASH_HISTORY K = 256" and "\<not> in_window K h n"
  shows "blockhash I K i h = (set_top I 0 i, h)"
proof (cases "n \<le> host_block_number K h")
  case True
  then show ?thesis
    using assms(1,3) diff_gates [OF True assms(2)]
    by (auto simp: blockhash_def top_stack checked_sub_def Let_def)
qed (simp add: blockhash_def top_stack checked_sub_def assms(1))

lemma blockhash_inside:
  assumes "stack i = n # vs" and "BLOCK_HASH_HISTORY K = 256" and "in_window K h n"
  shows "blockhash I K i h =
    (if \<not> FEYNMAN \<le> host_spec K h then
       (set_top I (compute_block_hash K (as_u64_saturated I (host_chain_id K h))
          (as_u64_saturated I n)) i, h)
     else if TSUKI_V2 \<le> host_spec K h then
       blockhash_tsuki_v2 I K (history_index (as_u64_saturated I n)) i h
     else blockhash_feynman I K (history_index (as_u64_saturated I n)) i h)"
proof -
  have le: "n \<le> host_block_number K h"
    using assms(3) by (simp add: in_window_def word_le_nat_alt)
  then show ?thesis
    using assms(1,3) diff_gates [OF le assms(2)]
    by (auto simp: blockhash_def top_stack checked_sub_def Let_def index_eq is_enabled_in_le)
qed

end

text \<open>
  \<open>BLOCKHASH\<close> outside the window: for the current block, a future one or one more than 256 blocks
  old, every fork replaces the number on the stack by 0, charges nothing beyond the static gas, and
  does not touch the host.
\<close>

theorem blockhash_outside_window:
  assumes "interpreter I stack status" and "BLOCK_HASH_HISTORY K = 256"
    and "stack i = n # vs" and "\<not> in_window K h n"
  shows "\<exists>i'. blockhash I K i h = (i', h) \<and> stack i' = 0 # vs \<and> status i' = status i \<and>
    gas_remaining I i' = gas_remaining I i"
  using interpreter.blockhash_outside [OF assms(1,3,2,4)]
    interpreter.set_top_stack [OF assms(1,3)] interpreter.set_top_rest [OF assms(1)]
  by simp

text \<open>
  \<open>BLOCKHASH\<close> before Feynman: within the window the result is the hash of the eight big-endian bytes
  of the chain id followed by the eight of the block number; no storage is read.
\<close>

theorem blockhash_before_feynman:
  assumes "interpreter I stack status" and "BLOCK_HASH_HISTORY K = 256"
    and "stack i = n # vs" and "in_window K h n" and "\<not> FEYNMAN \<le> host_spec K h"
    and "unat (host_chain_id K h) < 2 ^ 64" and "unat n < 2 ^ 64"
  shows "\<exists>i'. blockhash I K i h = (i', h) \<and> status i' = status i \<and>
    gas_remaining I i' = gas_remaining I i \<and>
    stack i' = from_be_bytes (keccak256 K
      (to_be_bytes 8 (ucast (host_chain_id K h) :: u64) @ to_be_bytes 8 (ucast n :: u64))) # vs"
proof -
  have "as_u64_saturated I v = ucast v" if "unat v < 2 ^ 64" for v
    using interpreter.as_u64_small [OF assms(1) that] that
    by (simp add: word_unat_eq_iff unsigned_ucast_eq take_bit_nat_eq_self)
  then show ?thesis
    using interpreter.blockhash_inside [OF assms(1,3,2,4)]
      interpreter.set_top_stack [OF assms(1,3)] interpreter.set_top_rest [OF assms(1)] assms(5-7)
    by (simp add: compute_block_hash_def Let_def)
qed

section \<open>EIP-7709: history through storage, with its gas\<close>

abbreviation history_slot_warm :: "('h \<Rightarrow> address \<Rightarrow> u256 \<Rightarrow> bool) \<Rightarrow> 'h \<Rightarrow> u256 \<Rightarrow> bool" where
  "history_slot_warm warm_slot h k \<equiv> warm_slot h HISTORY_STORAGE_ADDRESS k"

definition warm_history ::
  "('h \<Rightarrow> address \<Rightarrow> u256 \<Rightarrow> bool) \<Rightarrow> 'h \<Rightarrow> u256 \<Rightarrow> address \<Rightarrow> u256 \<Rightarrow> bool" where
  "warm_history warm_slot h k =
     (warm_slot h)(HISTORY_STORAGE_ADDRESS := (warm_slot h HISTORY_STORAGE_ADDRESS)(k := True))"

context history_host begin

lemma sload_cases:
  assumes "sload_skip_cold_load K a k skip h = (r, h')" and "cached h a"
  shows "warm_account h' = warm_account h \<and>
    (r = Inl DBError \<and> warm_slot h' = warm_slot h \<or>
     r = Inl ColdLoadSkipped \<and> skip \<and> \<not> warm_slot h a k \<and> warm_slot h' = warm_slot h \<or>
     r = Inr \<lparr>sl_data = stored h a k, is_cold = (\<not> warm_slot h a k)\<rparr> \<and>
       (warm_slot h a k \<or> \<not> skip) \<and>
       warm_slot h' = (warm_slot h)(a := (warm_slot h a)(k := True)))"
proof (cases "warm_slot h a k \<or> \<not> skip")
  case True
  from sload_done [OF assms(2) this assms(1)] True show ?thesis by auto
next
  case False
  then have "sload_skip_cold_load K a k skip h = (Inl ColdLoadSkipped, h)"
    using sload_skipped [OF assms(2), of k] by simp
  with False assms(1) show ?thesis by auto
qed

lemma history_sload:
  assumes "eip7709_history_sload K k skip h = (r, h')"
  shows "warm_account h' = warm_account h \<and>
    (r = Inl DBError \<and> warm_slot h' = warm_slot h \<or>
     r = Inl ColdLoadSkipped \<and> skip \<and> \<not> history_slot_warm warm_slot h k \<and>
       warm_slot h' = warm_slot h \<or>
     r = Inr \<lparr>sl_data = stored h HISTORY_STORAGE_ADDRESS k,
              is_cold = (\<not> history_slot_warm warm_slot h k)\<rparr> \<and>
       (history_slot_warm warm_slot h k \<or> \<not> skip) \<and> warm_slot h' = warm_history warm_slot h k)"
proof (cases "\<exists>h1. sload_skip_cold_load K HISTORY_STORAGE_ADDRESS k skip h = (Inl ColdLoadSkipped, h1)")
  case False
  then have cached: "cached h HISTORY_STORAGE_ADDRESS"
    using sload_uncached by (metis prod.collapse)
  have "sload_skip_cold_load K HISTORY_STORAGE_ADDRESS k skip h = (r, h')"
    using assms False by (auto simp: eip7709_history_sload_def split: prod.splits sum.splits LoadError.splits)
  from sload_cases [OF this cached] show ?thesis by (auto simp: warm_history_def)
next
  case True
  then obtain h1 where first: "sload_skip_cold_load K HISTORY_STORAGE_ADDRESS k skip h = (Inl ColdLoadSkipped, h1)"
    by blast
  have same: "h1 = h"
  proof (cases "cached h HISTORY_STORAGE_ADDRESS")
    case True
    then have "\<not> history_slot_warm warm_slot h k \<and> skip"
      using sload_done [OF True _ first] by auto
    then show ?thesis using first sload_skipped [OF True, of k] by simp
  next
    case False
    then show ?thesis using sload_uncached [OF False first] by simp
  qed
  obtain cp h2 q h3 where cp: "checkpoint K h1 = (cp, h2)"
    and load: "load_account_info_skip_cold_load K HISTORY_STORAGE_ADDRESS False False h2 = (q, h3)"
    by (metis prod.collapse)
  note reverted = isolated_load [OF cp load refl]
  show ?thesis
  proof (cases q)
    case (Inl e)
    then show ?thesis
      using assms first cp load reverted same by (auto simp: eip7709_history_sload_def Let_def)
  next
    case (Inr u)
    then have second: "sload_skip_cold_load K HISTORY_STORAGE_ADDRESS k skip (checkpoint_revert K cp h3) = (r, h')"
      using assms first cp load by (simp add: eip7709_history_sload_def Let_def)
    have "cached (checkpoint_revert K cp h3) HISTORY_STORAGE_ADDRESS" using reverted Inr by simp
    from sload_cases [OF second this] show ?thesis
      using reverted same by (auto simp: warm_history_def)
  qed
qed

end

text \<open>
  The history lookup of EIP-7709 never changes which accounts are warm, whether it succeeds, is
  skipped or fails; it warms the one slot it read and no other; it answers with that slot's contents
  and whether the slot was cold before; and it declines exactly when the slot is cold and the caller
  asked to skip cold loads.
\<close>

theorem history_lookup_isolated:
  assumes "history_host K cached warm_account warm_slot stored"
    and "eip7709_history_sload K k skip h = (r, h')"
  shows "warm_account h' = warm_account h \<and>
    (r = Inl DBError \<and> warm_slot h' = warm_slot h \<or>
     r = Inl ColdLoadSkipped \<and> skip \<and> \<not> history_slot_warm warm_slot h k \<and>
       warm_slot h' = warm_slot h \<or>
     r = Inr \<lparr>sl_data = stored h HISTORY_STORAGE_ADDRESS k,
              is_cold = (\<not> history_slot_warm warm_slot h k)\<rparr> \<and>
       (history_slot_warm warm_slot h k \<or> \<not> skip) \<and> warm_slot h' = warm_history warm_slot h k)"
  using history_host.history_sload [OF assms] .

text \<open>What a history lookup costs: the warm price, and the cold surcharge for a cold slot.\<close>

definition history_cost :: "('h, 'g, 'cp) host_ops \<Rightarrow> ('h \<Rightarrow> address \<Rightarrow> u256 \<Rightarrow> bool) \<Rightarrow> 'h \<Rightarrow> u256 \<Rightarrow> nat" where
  "history_cost K warm_slot h k =
     unat (warm_storage_read_cost K (host_gas_params K h)) +
     (if history_slot_warm warm_slot h k then 0
      else unat (cold_storage_additional_cost K (host_gas_params K h)))"

definition history_outcome ::
  "('i, 'g) interp_ops \<Rightarrow> ('h, 'g, 'cp) host_ops \<Rightarrow> ('i \<Rightarrow> u256 list) \<Rightarrow> ('i \<Rightarrow> InstructionResult option)
     \<Rightarrow> ('h \<Rightarrow> address \<Rightarrow> u256 \<Rightarrow> bool) \<Rightarrow> u256 \<Rightarrow> u256 \<Rightarrow> u256 list \<Rightarrow> 'i \<Rightarrow> 'h \<Rightarrow> 'i \<Rightarrow> 'h \<Rightarrow> bool" where
  "history_outcome I K stack status warm_slot k hash vs i h i' h' \<longleftrightarrow>
     status i' = Some FatalExternalError \<or>
     (if history_cost K warm_slot h k \<le> unat (gas_remaining I i)
      then stack i' = hash # vs \<and> status i' = status i \<and>
        unat (gas_remaining I i') = unat (gas_remaining I i) - history_cost K warm_slot h k \<and>
        warm_slot h' = warm_history warm_slot h k
      else status i' = Some OutOfGas \<and> warm_slot h' = warm_slot h)"

text \<open>Paying the cold surcharge, if any, and delivering the value.\<close>

lemma surcharge:
  assumes I: "interpreter I stack status" and stk: "stack i = n # vs"
    and enough: "cold \<Longrightarrow> x \<le> gas_remaining I i"
  shows "\<exists>i'. (if cold then (case record_cost I x i of
          None \<Rightarrow> (halt_oog I i, h) | Some i2 \<Rightarrow> (set_top I v i2, h))
        else (set_top I v i, h)) = (i', h) \<and>
      stack i' = v # vs \<and> status i' = status i \<and>
      unat (gas_remaining I i') = unat (gas_remaining I i) - (if cold then unat x else 0)"
proof (cases cold)
  case True
  then obtain i2 where "record_cost I x i = Some i2" "gas_remaining I i2 = gas_remaining I i - x"
      "stack i2 = stack i" "status i2 = status i"
    using interpreter.pays [OF I enough] by blast
  then show ?thesis
    using True enough stk interpreter.set_top_stack [OF I, of i2 n vs] interpreter.set_top_rest [OF I]
    by (simp add: unat_sub word_le_nat_alt)
next
  case False
  then show ?thesis
    using interpreter.set_top_stack [OF I stk] interpreter.set_top_rest [OF I] by simp
qed

lemma tsuki_v2_outcome:
  assumes I: "interpreter I stack status"
    and K: "history_host K cached warm_account warm_slot stored"
    and stk: "stack i = n # vs" and run: "blockhash_tsuki_v2 I K k i h = (i', h')"
  shows "warm_account h' = warm_account h \<and>
    history_outcome I K stack status warm_slot k (stored h HISTORY_STORAGE_ADDRESS k) vs i h i' h'"
proof -
  define w where "w = warm_storage_read_cost K (host_gas_params K h)"
  define x where "x = cold_storage_additional_cost K (host_gas_params K h)"
  note run = run [unfolded blockhash_tsuki_v2_def w_def [symmetric] x_def [symmetric] Let_def]
  note cost = history_cost_def [of K warm_slot h k, folded w_def x_def]
  note halts = interpreter.halt_status [OF I]
  show ?thesis
  proof (cases "record_cost I w i")
    case None
    then have "gas_remaining I i < w" using interpreter.record_cost_None [OF I] by blast
    moreover have "i' = halt_oog I i" "h' = h" using run None by simp_all
    ultimately show ?thesis by (simp add: history_outcome_def cost word_less_nat_alt halts)
  next
    case (Some i1)
    note i1 = interpreter.record_cost_Some [OF I Some]
    have paid: "unat w \<le> unat (gas_remaining I i)"
      using Some interpreter.record_cost_None [OF I, of w i] by (auto simp: word_less_nat_alt)
    then have left: "unat (gas_remaining I i1) = unat (gas_remaining I i) - unat w"
      using i1 by (simp add: unat_sub word_le_nat_alt)
    obtain r h1 where look: "eip7709_history_sload K k (gas_remaining I i1 < x) h = (r, h1)"
      by (metis prod.collapse)
    note found = history_host.history_sload [OF K look]
    show ?thesis
    proof (cases r)
      case (Inl e)
      then show ?thesis
        using run Some look found paid left
        by (cases e) (auto simp: history_outcome_def cost halts word_less_nat_alt)
    next
      case (Inr v)
      then have v: "v = \<lparr>sl_data = stored h HISTORY_STORAGE_ADDRESS k,
          is_cold = (\<not> history_slot_warm warm_slot h k)\<rparr>"
        and ok: "history_slot_warm warm_slot h k \<or> \<not> gas_remaining I i1 < x"
        and warm: "warm_account h1 = warm_account h" "warm_slot h1 = warm_history warm_slot h k"
        using found by auto
      have stk1: "stack i1 = n # vs" using i1 stk by simp
      have enough: "is_cold v \<Longrightarrow> x \<le> gas_remaining I i1" using v ok by auto
      have "(if is_cold v then (case record_cost I x i1 of
          None \<Rightarrow> (halt_oog I i1, h1) | Some i2 \<Rightarrow> (set_top I (sl_data v) i2, h1))
        else (set_top I (sl_data v) i1, h1)) = (i', h')"
        using run Some look Inr by simp
      with surcharge [OF I stk1, of "is_cold v" x h1 "sl_data v", OF enough]
      have "h' = h1" "stack i' = sl_data v # vs" "status i' = status i1"
        "unat (gas_remaining I i') = unat (gas_remaining I i1) - (if is_cold v then unat x else 0)"
        by auto
      then show ?thesis
        using v warm left paid i1 ok by (auto simp: history_outcome_def cost word_less_nat_alt)
    qed
  qed
qed


section \<open>Ring buffer and hash input\<close>

lemma history_index_inj:
  assumes "history_index n = history_index m"
  shows "unat n mod 8191 = unat m mod 8191"
proof -
  have "unat (history_index k) = unat k mod 8191" for k
    using mod_less_divisor [of 8191 "unat k"]
    by (simp add: history_index_def unsigned_of_nat take_bit_nat_eq_self)
  with assms show ?thesis by metis
qed

lemma mod_close:
  fixes x y d :: nat
  assumes "x mod d = y mod d" and "x \<le> y" and "y < x + d"
  shows "x = y"
proof -
  have "d dvd y - x" using assms(1,2) by (metis mod_eq_dvd_iff_nat)
  moreover have "y - x < d" using assms(2,3) by linarith
  ultimately have "y - x = 0" by (metis dvd_imp_le not_less zero_less_iff_neq_zero)
  with assms(2) show ?thesis by simp
qed

text \<open>
  Ring buffer: two different block numbers that \<open>BLOCKHASH\<close> may look up at the same height never
  share a slot of the history contract, although its buffer wraps around.
\<close>

theorem history_slots_disjoint:
  assumes "interpreter I stack status" and "in_window K h n" and "in_window K h m"
    and "unat n < 2 ^ 64" and "unat m < 2 ^ 64"
    and "(ucast (as_u64_saturated I n mod HISTORY_SERVE_WINDOW) :: u256) =
      ucast (as_u64_saturated I m mod HISTORY_SERVE_WINDOW)"
  shows "n = m"
proof -
  have "unat n mod 8191 = unat m mod 8191"
    using history_index_inj [OF assms(6) [unfolded index_eq]] interpreter.as_u64_small [OF assms(1)] assms(4,5) by simp
  moreover have "unat n < unat m + 8191" "unat m < unat n + 8191"
    using assms(2,3) by (auto simp: in_window_def)
  ultimately have "unat n = unat m"
    using mod_close [of "unat n" 8191 "unat m"] mod_close [of "unat m" 8191 "unat n"]
    by (cases "unat n \<le> unat m") simp_all
  then show ?thesis by (simp add: word_unat_eq_iff)
qed

section \<open>Count leading zeros\<close>

lemma bit_len_bounds: "0 < n \<Longrightarrow> 2 ^ (bit_len n - 1) \<le> n \<and> n < 2 ^ bit_len n \<and> 0 < bit_len n"
proof (induction n rule: bit_len.induct)
  case (1 n)
  show ?case
  proof (cases "n div 2 = 0")
    case True
    then have "n = 1" using 1(2) by linarith
    then show ?thesis by (simp add: bit_len.simps [of "Suc 0"] bit_len.simps [of 0])
  next
    case False
    with 1 have ih: "2 ^ (bit_len (n div 2) - 1) \<le> n div 2" "n div 2 < 2 ^ bit_len (n div 2)"
      "0 < bit_len (n div 2)" by auto
    have "bit_len n = Suc (bit_len (n div 2))" using 1(2) by (simp add: bit_len.simps [of n])
    moreover have "(2 :: nat) ^ bit_len (n div 2) = 2 * 2 ^ (bit_len (n div 2) - 1)"
      using ih(3) by (cases "bit_len (n div 2)") simp_all
    ultimately show ?thesis using ih by simp linarith
  qed
qed

lemma bit_len_le: "n < 2 ^ k \<Longrightarrow> bit_len n \<le> k"
proof (cases "n = 0")
  case False
  assume "n < 2 ^ k"
  then have "(2 :: nat) ^ (bit_len n - 1) < 2 ^ k" using bit_len_bounds [of n] False by linarith
  then have "bit_len n - 1 < k" by simp
  then show ?thesis by linarith
qed (simp add: bit_len.simps [of 0])

lemma leading_zeros_bounds:
  shows "leading_zeros 0 = 256"
    and "w \<noteq> 0 \<Longrightarrow> leading_zeros w < 256 \<and>
      2 ^ (255 - leading_zeros w) \<le> unat w \<and> unat w < 2 ^ (256 - leading_zeros w)"
proof -
  show "leading_zeros 0 = 256" by (simp add: leading_zeros_def bit_len.simps [of 0])
  assume "w \<noteq> 0"
  then have "0 < unat w" by (simp add: unat_gt_0)
  moreover have "bit_len (unat w) \<le> 256"
    by (rule bit_len_le) (use unsigned_less [of w, where ?'a = nat] in simp)
  ultimately show "leading_zeros w < 256 \<and>
      2 ^ (255 - leading_zeros w) \<le> unat w \<and> unat w < 2 ^ (256 - leading_zeros w)"
    using bit_len_bounds [of "unat w"] by (simp add: leading_zeros_def)
qed

text \<open>
  From Galileo \<open>CLZ\<close> replaces the top of the stack by its number of leading zero bits: 256 for zero,
  otherwise the \<open>z\<close> for which the value lies in \<open>[2^(255-z), 2^(256-z))\<close>; before Galileo it halts as not
  activated and leaves the stack alone.
\<close>

theorem clz_counts_leading_zeros:
  assumes "interpreter I stack status" and "stack i = w # vs"
  shows "\<exists>i' z. clz I K i h = (i', h) \<and>
    (if GALILEO \<le> host_spec K h
     then stack i' = of_nat z # vs \<and> status i' = status i \<and>
       (if w = 0 then z = 256
        else z < 256 \<and> 2 ^ (255 - z) \<le> unat w \<and> unat w < 2 ^ (256 - z))
     else stack i' = w # vs \<and> status i' = Some NotActivated)"
proof (cases "GALILEO \<le> host_spec K h")
  case True
  then show ?thesis
    using assms(2) interpreter.top_stack [OF assms(1)] interpreter.set_top_stack [OF assms]
      interpreter.set_top_rest [OF assms(1)] leading_zeros_bounds
    by (intro exI [of _ "set_top I (of_nat (leading_zeros w)) i"] exI [of _ "leading_zeros w"])
      (auto simp: clz_def is_enabled_in_le)
next
  case False
  then show ?thesis
    using assms(2) interpreter.halt_status [OF assms(1)] interpreter.halt_stack [OF assms(1)]
    by (auto simp: clz_def is_enabled_in_le)
qed

section \<open>Transient storage\<close>

text \<open>What is relied on of the host's transient storage (EIP-1153): a map per address.\<close>

definition transient_storage ::
  "('h, 'g, 'cp) host_ops \<Rightarrow> ('h \<Rightarrow> address \<Rightarrow> u256 \<Rightarrow> u256) \<Rightarrow> bool" where
  "transient_storage K tval \<longleftrightarrow>
     (\<forall>a k h. fst (host_tload K a k h) = tval h a k) \<and>
     (\<forall>a k v h. tval (host_tstore K a k v h) = (tval h)(a := (tval h a)(k := v))) \<and>
     (\<forall>a k v h. host_spec K (host_tstore K a k v h) = host_spec K h)"

text \<open>
  C38 \<open>TSTORE\<close> and \<open>TLOAD\<close> from Curie: outside a static call a store pops index and value, and a later
  load finds the value stored at that index by that contract, and what was there before at every
  other index and in every other contract.
\<close>

theorem tload_after_tstore:
  assumes "interpreter I stack status" and "transient_storage K tval"
    and "CURIE \<le> host_spec K h" and "\<not> is_static I i" and "stack i = k # v # vs"
    and "tstore I K i h = (i1, h1)" and "stack i2 = k2 # ws"
  shows "stack i1 = vs \<and> status i1 = status i \<and>
    stack (fst (tload I K i2 h1)) =
      (if target_address I i2 = target_address I i1 \<and> k2 = k then v
       else tval h (target_address I i2) k2) # ws"
proof -
  note popn = interpreter.popn_stack [OF assms(1)]
  obtain xs j where pop: "popn I 2 i = Some (xs, j)"
    using popn(1) [of 2 i] assms(5) by (cases "popn I 2 i") auto
  from popn(2) [OF pop] assms(5) have xs: "xs = [k, v]" "stack j = vs" "status j = status i"
    by (auto simp: length_Suc_conv numeral_2_eq_2)
  have "tstore I K i h = (j, host_tstore K (target_address I j) k v h)"
    using assms(3,4) pop by (simp add: tstore_def is_enabled_in_le xs)
  then have i1: "i1 = j" "h1 = host_tstore K (target_address I j) k v h"
    using assms(6) by simp_all
  have h1: "CURIE \<le> host_spec K h1" "tval h1 = (tval h)
      (target_address I j := (tval h (target_address I j))(k := v))"
    using assms(2,3) by (simp_all add: transient_storage_def i1)
  obtain u h2 where load: "host_tload K (target_address I i2) k2 h1 = (u, h2)" by fastforce
  then have u: "u = tval h1 (target_address I i2) k2"
    using assms(2) by (metis fst_conv transient_storage_def)
  have "tload I K i2 h1 = (set_top I u i2, h2)"
    using h1(1) load by (simp add: tload_def is_enabled_in_le interpreter.top_stack [OF assms(1)] assms(7))
  then show ?thesis
    using xs i1 u h1(2) interpreter.set_top_stack [OF assms(1,7)] by simp
qed

section \<open>The table\<close>

text \<open>The overridden opcodes that are switched off at a fork.\<close>

definition switched_off :: "opcodes \<Rightarrow> ScrollSpecId \<Rightarrow> u8 set" where
  "switched_off Op s =
     {op_SELFDESTRUCT Op} \<union>
     (if CURIE \<le> s then {} else {op_BASEFEE Op, op_TSTORE Op, op_TLOAD Op, op_MCOPY Op}) \<union>
     (if GALILEO \<le> s then {} else {op_CLZ Op})"

definition overridden :: "opcodes \<Rightarrow> u8 set" where
  "overridden Op = {op_BLOCKHASH Op, op_BASEFEE Op, op_TSTORE Op, op_TLOAD Op, op_SELFDESTRUCT Op,
     op_MCOPY Op, op_DIFFICULTY Op, op_CLZ Op}"

lemma table_entries:
  assumes "opcodes_distinct Op"
  shows
    "run_instruction (make_scroll_instruction_table T Op I K s (op_BASEFEE Op)) = basefee_instr I K"
    "run_instruction (make_scroll_instruction_table T Op I K s (op_TSTORE Op)) = tstore I K"
    "run_instruction (make_scroll_instruction_table T Op I K s (op_TLOAD Op)) = tload I K"
    "run_instruction (make_scroll_instruction_table T Op I K s (op_SELFDESTRUCT Op)) = selfdestruct I"
    "run_instruction (make_scroll_instruction_table T Op I K s (op_MCOPY Op)) = mcopy I K"
    "run_instruction (make_scroll_instruction_table T Op I K s (op_CLZ Op)) = clz I K"
  using assms by (auto simp: make_scroll_instruction_table_def opcodes_distinct_def)

lemma switched_off_runs:
  assumes "opcodes_distinct Op" and "b \<in> switched_off Op (host_spec K h)"
  shows "run_instruction (make_scroll_instruction_table T Op I K s b) i h = (halt I NotActivated i, h)"
  using assms(2)
  by (auto simp: switched_off_def table_entries [OF assms(1)] basefee_instr_def tstore_def tload_def
      selfdestruct_def mcopy_def clz_def is_enabled_in_le split: if_splits)

text \<open>
  The instruction table: at every fork \<open>SELFDESTRUCT\<close> is off, \<open>BASEFEE\<close>, \<open>TSTORE\<close>, \<open>TLOAD\<close> and
  \<open>MCOPY\<close> are off before Curie and \<open>CLZ\<close> before Galileo: running the table's entry halts as not
  activated, with stack and host unchanged; all opcodes but the eight overridden ones are those of the
  Ethereum Shanghai table.
\<close>

theorem table_switches:
  assumes "interpreter I stack status" and "opcodes_distinct Op"
  shows "(b \<in> switched_off Op (host_spec K h) \<longrightarrow>
      (\<exists>i'. run_instruction (make_scroll_instruction_table T Op I K s b) i h = (i', h) \<and>
        status i' = Some NotActivated \<and> stack i' = stack i)) \<and>
    (b \<notin> overridden Op \<longrightarrow> make_scroll_instruction_table T Op I K s b = T Eth_SHANGHAI b)"
proof (intro conjI impI)
  assume "b \<in> switched_off Op (host_spec K h)"
  from switched_off_runs [OF assms(2) this, of T I s i]
  show "\<exists>i'. run_instruction (make_scroll_instruction_table T Op I K s b) i h = (i', h) \<and>
      status i' = Some NotActivated \<and> stack i' = stack i"
    using interpreter.halt_status(1) [OF assms(1)] interpreter.halt_stack(1) [OF assms(1)] by simp
next
  assume "b \<notin> overridden Op"
  then show "make_scroll_instruction_table T Op I K s b = T Eth_SHANGHAI b"
    by (simp add: make_scroll_instruction_table_def overridden_def)
qed

end
