(* ===== verification/InstructionRuns.thy ===== *)
theory InstructionRuns
  imports InstructionProps
begin

text \<open>
  Concrete runs of the instructions on the reference interpreter and host: block 1000, the history
  contract not yet in the journal, every slot holding its index plus 7.
\<close>

definition run_interp :: "u256 list \<Rightarrow> u64 \<Rightarrow> mem_interp" where
  "run_interp vs g = \<lparr>mi_stack = vs, mi_gas = g, mi_status = None, mi_static = False,
     mi_address = 0xA, mi_memory = []\<rparr>"

definition run_host :: "ScrollSpecId \<Rightarrow> mem_host" where
  "run_host s = \<lparr>mh_spec = s, mh_number = 1000, mh_chain_id = 534352, mh_basefee = 5,
     mh_cached = (\<lambda>_. False), mh_warm_account = (\<lambda>_. False), mh_warm_slot = (\<lambda>_ _. False),
     mh_stored = (\<lambda>_ k. k + 7), mh_transient = (\<lambda>_ _. 0)\<rparr>"

definition evm_opcodes :: opcodes where
  "evm_opcodes = \<lparr>op_BLOCKHASH = 0x40, op_BASEFEE = 0x48, op_TSTORE = 0x5D, op_TLOAD = 0x5C,
     op_SELFDESTRUCT = 0xFF, op_MCOPY = 0x5E, op_DIFFICULTY = 0x44, op_CLZ = 0x1E\<rparr>"

lemma evm_opcodes_distinct: "opcodes_distinct evm_opcodes"
  by (simp add: opcodes_distinct_def evm_opcodes_def)

lemma run_simps [simp]:
  "mi_stack (run_interp vs g) = vs" "mi_gas (run_interp vs g) = g" "mi_status (run_interp vs g) = None"
  "host_spec mem_host_ops (run_host s) = s" "BLOCK_HASH_HISTORY mem_host_ops = 256"
  "gas_remaining mem_interp_ops (run_interp vs g) = g"
  "as_u64_saturated mem_interp_ops = mem_as_u64"
  by (simp_all add: run_interp_def run_host_def mem_host_ops_def mem_interp_ops_def)

lemma run_window: "in_window mem_host_ops (run_host s) n \<longleftrightarrow> unat n < 1000 \<and> 1000 - unat n \<le> 256"
  by (simp add: in_window_def run_host_def mem_host_ops_def)

theorem blockhash_outside_window_witness:
  "mi_stack (fst (blockhash mem_interp_ops mem_host_ops (run_interp [700] 50) (run_host TSUKI_V2))) = [0] \<and>
   mi_stack (fst (blockhash mem_interp_ops mem_host_ops (run_interp [1000] 50) (run_host CURIE))) = [0]"
  using blockhash_outside_window [OF mem_interp.interpreter_axioms, of mem_host_ops
      "run_interp [700] 50" 700 "[]" "run_host TSUKI_V2"]
    blockhash_outside_window [OF mem_interp.interpreter_axioms, of mem_host_ops
      "run_interp [1000] 50" 1000 "[]" "run_host CURIE"]
  by (auto simp: run_window)

theorem blockhash_before_feynman_witness:
  "mi_stack (fst (blockhash mem_interp_ops mem_host_ops (run_interp [999] 50) (run_host CURIE))) =
     [from_be_bytes (keccak256 mem_host_ops
        (to_be_bytes 8 (534352 :: u64) @ to_be_bytes 8 (999 :: u64)))]"
proof -
  have "host_chain_id mem_host_ops (run_host CURIE) = 534352"
    by (simp add: mem_host_ops_def run_host_def)
  then show ?thesis
    using blockhash_before_feynman [OF mem_interp.interpreter_axioms, of mem_host_ops
        "run_interp [999] 50" 999 "[]" "run_host CURIE"]
    by (auto simp: run_window spec_gates)
qed

theorem history_lookup_isolated_witness:
  "\<not> mh_warm_account (snd (eip7709_history_sload mem_host_ops 999 False (run_host TSUKI_V2)))
     HISTORY_STORAGE_ADDRESS"
proof -
  obtain r h' where run: "eip7709_history_sload mem_host_ops 999 False (run_host TSUKI_V2) = (r, h')"
    by fastforce
  from history_lookup_isolated [OF mem_host.history_host_axioms this] run show ?thesis
    by (simp add: run_host_def)
qed

lemma run_blockhash:
  "mi_status (fst (blockhash mem_interp_ops mem_host_ops (run_interp [999] 2100) (run_host TSUKI_V2))) = None"
  by (simp add: blockhash_def blockhash_tsuki_v2_def eip7709_history_sload_def run_interp_def
      run_host_def mem_interp_ops_def mem_host_ops_def checked_sub_def mem_as_u64_def spec_gates
      mem_sload_def mem_load_account_def Let_def word_le_nat_alt word_less_nat_alt
      HISTORY_STORAGE_ADDRESS_def)


theorem history_slots_disjoint_witness:
  "(ucast (mem_as_u64 999 mod HISTORY_SERVE_WINDOW) :: u256) \<noteq>
     ucast (mem_as_u64 998 mod HISTORY_SERVE_WINDOW)"
proof
  assume "(ucast (mem_as_u64 999 mod HISTORY_SERVE_WINDOW) :: u256) =
     ucast (mem_as_u64 998 mod HISTORY_SERVE_WINDOW)"
  then have "(999 :: u256) = 998"
    using history_slots_disjoint [OF mem_interp.interpreter_axioms, of mem_host_ops "run_host CURIE" 999 998]
    by (simp add: run_window)
  then show False by simp
qed

theorem clz_counts_leading_zeros_witness:
  "mi_stack (fst (clz mem_interp_ops mem_host_ops (run_interp [0] 5) (run_host GALILEO))) = [256] \<and>
   mi_status (fst (clz mem_interp_ops mem_host_ops (run_interp [1] 5) (run_host FEYNMAN))) = Some NotActivated"
  using clz_counts_leading_zeros [OF mem_interp.interpreter_axioms, of "run_interp [0] 5" 0 "[]"
      mem_host_ops "run_host GALILEO"]
    clz_counts_leading_zeros [OF mem_interp.interpreter_axioms, of "run_interp [1] 5" 1 "[]"
      mem_host_ops "run_host FEYNMAN"]
  by (auto simp: spec_gates)

lemma mem_transient: "transient_storage mem_host_ops mh_transient"
  by (simp add: transient_storage_def mem_host_ops_def)

theorem tload_after_tstore_witness:
  "mi_stack (fst (tload mem_interp_ops mem_host_ops (run_interp [3] 100)
     (snd (tstore mem_interp_ops mem_host_ops (run_interp [3, 42] 100) (run_host CURIE))))) = [42]"
proof -
  obtain i1 h1 where run:
    "tstore mem_interp_ops mem_host_ops (run_interp [3, 42] 100) (run_host CURIE) = (i1, h1)"
    by fastforce
  then have "target_address mem_interp_ops i1 = 0xA"
    by (auto simp: tstore_def mem_interp_ops_def run_interp_def spec_gates mem_host_ops_def
        run_host_def numeral_2_eq_2)
  moreover have "\<not> is_static mem_interp_ops (run_interp [3, 42] 100)"
    and "target_address mem_interp_ops (run_interp [3] 100) = 0xA"
    by (simp_all add: mem_interp_ops_def run_interp_def)
  ultimately show ?thesis
    using tload_after_tstore [OF mem_interp.interpreter_axioms mem_transient _ _ _ run, of 3 42 "[]"
        "run_interp [3] 100" 3 "[]"] run
    by (simp add: spec_gates)
qed

theorem table_switches_witness:
  "mi_status (fst (run_instruction
     (make_scroll_instruction_table (\<lambda>_ _. \<lparr>run_instruction = difficulty mem_interp_ops, static_gas = 2\<rparr>)
        evm_opcodes mem_interp_ops mem_host_ops TSUKI_V2 0xFF) (run_interp [1] 5) (run_host TSUKI_V2))) =
   Some NotActivated"
proof -
  have "0xFF \<in> switched_off evm_opcodes (host_spec mem_host_ops (run_host TSUKI_V2))"
    by (simp add: switched_off_def evm_opcodes_def)
  with table_switches [OF mem_interp.interpreter_axioms evm_opcodes_distinct, of "0xFF" mem_host_ops
      "run_host TSUKI_V2" "\<lambda>_ _. \<lparr>run_instruction = difficulty mem_interp_ops, static_gas = 2\<rparr>"
      TSUKI_V2 "run_interp [1] 5"]
  show ?thesis by auto
qed

end
