(* ===== verification/Precompiles.thy ===== *)
theory Precompiles
  imports Hardfork
begin

text \<open>
  The precompiles (\<open>src/precompile\<close>): their addresses, the crate's own input rules (\<open>hash.rs\<close>,
  \<open>blake2.rs\<close>, \<open>bn254.rs\<close>, \<open>modexp.rs\<close>), the native transfer (\<open>transfer.rs\<close>), and the set installed at
  each fork with its provider (\<open>mod.rs\<close>). The cryptographic functions and the precompiles taken
  unchanged are \<open>revm\<close>'s: fields of \<open>precompile_lib\<close>.
\<close>

section \<open>Addresses\<close>

definition u64_to_address :: "u64 \<Rightarrow> address" where
  "u64_to_address x = ucast x"

definition ECRECOVER :: address where "ECRECOVER = u64_to_address 1"
definition SHA256 :: address where "SHA256 = u64_to_address 2"
definition RIPEMD160 :: address where "RIPEMD160 = u64_to_address 3"
definition IDENTITY :: address where "IDENTITY = u64_to_address 4"
definition MODEXP :: address where "MODEXP = u64_to_address 5"
definition BN254_ADD :: address where "BN254_ADD = u64_to_address 6"
definition BN254_MUL :: address where "BN254_MUL = u64_to_address 7"
definition BN254_PAIRING :: address where "BN254_PAIRING = u64_to_address 8"
definition BLAKE2F :: address where "BLAKE2F = u64_to_address 9"
definition P256VERIFY :: address where "P256VERIFY = u64_to_address 256"
definition TRANSFER :: address where "TRANSFER = u64_to_address (0xff - 2)"

datatype PrecompileId =
  EcRec | Sha256 | Ripemd160 | Identity | ModExp | Bn254Add | Bn254Mul | Bn254Pairing | Blake2F
| P256Verify | CustomId string

definition TRANSFER_ID :: PrecompileId where
  "TRANSFER_ID = CustomId ''TRANSFER''"

section \<open>Precompiles and their results\<close>

datatype PrecompileError = PcOutOfGas | PcOther string | PcFatal string

datatype PrecompileOutput = Completed u64 bytes | Reverted u64 bytes

type_synonym precompile_fn = "bytes \<Rightarrow> u64 \<Rightarrow> (PrecompileError, PrecompileOutput) outcome"

record Precompile =
  pc_id :: PrecompileId
  pc_address :: address
  pc_run :: precompile_fn

definition Precompile_new :: "PrecompileId \<Rightarrow> address \<Rightarrow> precompile_fn \<Rightarrow> Precompile" where
  "Precompile_new i a f = \<lparr>pc_id = i, pc_address = a, pc_run = f\<rparr>"

text \<open>The library: functions the crate wraps, and precompiles it installs as they are.\<close>

record precompile_lib =
  sha256_run :: precompile_fn
  ripemd160_run :: precompile_fn
  modexp_osaka_run :: precompile_fn
  modexp_run_inner_berlin :: "bytes \<Rightarrow> u64 \<Rightarrow> u64 \<Rightarrow> (PrecompileError, PrecompileOutput) outcome"
  right_pad_with_offset :: "nat \<Rightarrow> bytes \<Rightarrow> nat \<Rightarrow> bytes"
  run_pair :: "bytes \<Rightarrow> u64 \<Rightarrow> u64 \<Rightarrow> u64 \<Rightarrow> (PrecompileError, PrecompileOutput) outcome"
  PAIR_ELEMENT_LEN :: nat
  ISTANBUL_PAIR_PER_POINT :: u64
  ISTANBUL_PAIR_BASE :: u64
  lib_ECRECOVER :: Precompile
  lib_IDENTITY :: Precompile
  lib_bn254_add_ISTANBUL :: Precompile
  lib_bn254_mul_ISTANBUL :: Precompile
  lib_bn254_pair_ISTANBUL :: Precompile
  lib_P256VERIFY :: Precompile
  lib_P256VERIFY_OSAKA :: Precompile

definition lib_addresses :: "precompile_lib \<Rightarrow> bool" where
  "lib_addresses L \<longleftrightarrow>
     pc_address (lib_ECRECOVER L) = ECRECOVER \<and> pc_address (lib_IDENTITY L) = IDENTITY \<and>
     pc_address (lib_bn254_add_ISTANBUL L) = BN254_ADD \<and>
     pc_address (lib_bn254_mul_ISTANBUL L) = BN254_MUL \<and>
     pc_address (lib_bn254_pair_ISTANBUL L) = BN254_PAIRING \<and>
     pc_address (lib_P256VERIFY L) = P256VERIFY \<and>
     pc_address (lib_P256VERIFY_OSAKA L) = P256VERIFY"

section \<open>The crate's input rules\<close>

definition precompile_not_implemented :: "PrecompileId \<Rightarrow> address \<Rightarrow> Precompile" where
  "precompile_not_implemented i a =
     Precompile_new i a (\<lambda>_ _. Err (PcOther ''NotImplemented: Precompile not implemented''))"

definition sha256_SHANGHAI :: Precompile where
  "sha256_SHANGHAI = precompile_not_implemented Sha256 SHA256"

definition sha256_BERNOULLI :: "precompile_lib \<Rightarrow> Precompile" where
  "sha256_BERNOULLI L = Precompile_new Sha256 SHA256 (sha256_run L)"

definition ripemd160_SHANGHAI :: Precompile where
  "ripemd160_SHANGHAI = precompile_not_implemented Ripemd160 RIPEMD160"

definition TSUKI_LEN_LIMIT :: nat where
  "TSUKI_LEN_LIMIT = 32"

definition ripemd160_TSUKI :: "precompile_lib \<Rightarrow> Precompile" where
  "ripemd160_TSUKI L = Precompile_new Ripemd160 RIPEMD160
     (\<lambda>input gas_limit.
        if TSUKI_LEN_LIMIT < length input then
          Err (PcOther ''Ripemd160InputOverflow: ripemd160 input overflow'')
        else ripemd160_run L input gas_limit)"

definition blake2_SHANGHAI :: Precompile where
  "blake2_SHANGHAI = precompile_not_implemented Blake2F BLAKE2F"

definition bn254_BERNOULLI_LEN_LIMIT :: nat where
  "bn254_BERNOULLI_LEN_LIMIT = 4"

definition bn254_bernoulli_run :: "precompile_lib \<Rightarrow> precompile_fn" where
  "bn254_bernoulli_run L input gas_limit =
     (if bn254_BERNOULLI_LEN_LIMIT * PAIR_ELEMENT_LEN L < length input then
        Err (PcOther ''BN128PairingInputOverflow: input overflow'')
      else run_pair L input (ISTANBUL_PAIR_PER_POINT L) (ISTANBUL_PAIR_BASE L) gas_limit)"

definition bn254_pair_BERNOULLI :: "precompile_lib \<Rightarrow> Precompile" where
  "bn254_pair_BERNOULLI L = Precompile_new Bn254Pairing BN254_PAIRING (bn254_bernoulli_run L)"

definition bn254_pair_FEYNMAN :: "precompile_lib \<Rightarrow> Precompile" where
  "bn254_pair_FEYNMAN L = lib_bn254_pair_ISTANBUL L"

definition modexp_BERNOULLI_LEN_LIMIT :: u256 where
  "modexp_BERNOULLI_LEN_LIMIT = 32"

definition modexp_bernoulli_run :: "precompile_lib \<Rightarrow> precompile_fn" where
  "modexp_bernoulli_run L input gas_limit =
     (let base_len = from_be_bytes (right_pad_with_offset L 32 input 0);
          exp_len = from_be_bytes (right_pad_with_offset L 32 input 32);
          mod_len = from_be_bytes (right_pad_with_offset L 32 input 64)
      in if modexp_BERNOULLI_LEN_LIMIT < base_len then
           Err (PcOther ''ModexpBaseOverflow: modexp base overflow'')
         else if modexp_BERNOULLI_LEN_LIMIT < exp_len then
           Err (PcOther ''ModexpExpOverflow: modexp exp overflow'')
         else if modexp_BERNOULLI_LEN_LIMIT < mod_len then
           Err (PcOther ''ModexpModOverflow: modexp mod overflow'')
         else modexp_run_inner_berlin L input gas_limit 200)"

definition modexp_BERNOULLI :: "precompile_lib \<Rightarrow> Precompile" where
  "modexp_BERNOULLI L = Precompile_new ModExp MODEXP (modexp_bernoulli_run L)"

definition modexp_GALILEO :: "precompile_lib \<Rightarrow> Precompile" where
  "modexp_GALILEO L = Precompile_new ModExp MODEXP (modexp_osaka_run L)"

section \<open>The native transfer\<close>

record PrecompileInput =
  pi_data :: bytes
  pi_gas :: u64
  pi_caller :: address
  pi_is_static :: bool
  pi_is_direct_call :: bool

record ('w, 'e, 't) internals_ops =
  in_load_account :: "address \<Rightarrow> ('w, 'e, u256) exec"
  in_transfer :: "address \<Rightarrow> address \<Rightarrow> u256 \<Rightarrow> ('w, 'e, 't option) exec"
  in_debug :: "'e \<Rightarrow> string"

definition NATIVE_DOGE_TOKEN_ADDRESS :: address where
  "NATIVE_DOGE_TOKEN_ADDRESS = 0x530000000000000000000000000000000000d09e"

definition GAS_COST :: u64 where
  "GAS_COST = 9000"

definition CALL_DATA_LENGTH :: nat where
  "CALL_DATA_LENGTH = 32 + 32 + 32"

text \<open>\<open>Address::from_slice\<close> panics unless it is given 20 bytes, \<open>U256::from_be_slice\<close> beyond 32.\<close>

definition address_from_slice :: "bytes \<Rightarrow> ('e, address) outcome" where
  "address_from_slice bs = (if length bs = 20 then Ok (from_be_bytes bs) else Panic)"

definition u256_from_be_slice :: "bytes \<Rightarrow> ('e, u256) outcome" where
  "u256_from_be_slice bs = (if length bs \<le> 32 then Ok (from_be_bytes bs) else Panic)"

definition transfer_guards :: "PrecompileInput \<Rightarrow> (PrecompileError, unit) outcome" where
  "transfer_guards input =
     obind (guard_err (pi_is_static input)
       (PcOther ''transfer precompile cannot be called in a static context'')) (\<lambda>_.
     obind (guard_err (\<not> pi_is_direct_call input)
       (PcOther ''transfer precompile must be called directly, not via delegatecall or callcode'')) (\<lambda>_.
     obind (guard_err (pi_caller input \<noteq> NATIVE_DOGE_TOKEN_ADDRESS)
       (PcOther ''transfer precompile can only be called by the allowed caller'')) (\<lambda>_.
     obind (guard_err (pi_gas input < GAS_COST) PcOutOfGas) (\<lambda>_.
     guard_err (length (pi_data input) \<noteq> CALL_DATA_LENGTH)
       (PcOther ''transfer precompile expects exactly 96 bytes of calldata'')))))"

definition transfer_args ::
  "bytes \<Rightarrow> (PrecompileError, address \<times> address \<times> u256) outcome" where
  "transfer_args data =
     obind (obind (slice_range 12 32 data) address_from_slice) (\<lambda>from.
     obind (obind (slice_range 44 64 data) address_from_slice) (\<lambda>to.
     obind (obind (slice_range 64 96 data) u256_from_be_slice) (\<lambda>value.
     Ok (from, to, value))))"

definition db_failure :: "('w, 'e, 't) internals_ops \<Rightarrow> 'e \<Rightarrow> PrecompileError" where
  "db_failure N e = PcFatal (''transfer failed due to database error: '' @ in_debug N e)"

definition transfer_run ::
  "('w, 'e, 't) internals_ops \<Rightarrow> PrecompileInput \<Rightarrow> ('w, PrecompileError, PrecompileOutput) exec" where
  "transfer_run N input =
     bind (lift (\<lambda>_. transfer_guards input)) (\<lambda>_.
     bind (lift (\<lambda>_. transfer_args (pi_data input))) (\<lambda>(from, to, value).
     bind
       (if from \<noteq> to then
          (\<lambda>w. case in_load_account N to w of
             (Ok balance, w') \<Rightarrow> (Ok (checked_add balance value = None), w')
           | (Err e, w') \<Rightarrow> (Err (db_failure N e), w')
           | (Panic, w') \<Rightarrow> (Panic, w'))
        else ret False) (\<lambda>overflow.
     if overflow then ret (Reverted GAS_COST [])
     else
       (\<lambda>w. case in_transfer N from to value w of
          (Ok None, w') \<Rightarrow> (Ok (Completed GAS_COST []), w')
        | (Ok (Some _), w') \<Rightarrow> (Ok (Reverted GAS_COST []), w')
        | (Err e, w') \<Rightarrow> (Err (db_failure N e), w')
        | (Panic, w') \<Rightarrow> (Panic, w')))))"

section \<open>The sets per fork\<close>

text \<open>A set of precompiles is a map by address; extending it replaces what an address held.\<close>

type_synonym precompiles = "address \<Rightarrow> Precompile option"

definition extend_set :: "precompiles \<Rightarrow> Precompile list \<Rightarrow> precompiles" where
  "extend_set m ps = foldl (\<lambda>m p. m(pc_address p \<mapsto> p)) m ps"

definition pre_bernoulli :: "precompile_lib \<Rightarrow> precompiles" where
  "pre_bernoulli L = extend_set (\<lambda>_. None)
     [lib_ECRECOVER L, sha256_SHANGHAI, ripemd160_SHANGHAI, lib_IDENTITY L, modexp_BERNOULLI L,
      lib_bn254_add_ISTANBUL L, lib_bn254_mul_ISTANBUL L, bn254_pair_BERNOULLI L, blake2_SHANGHAI]"

definition bernoulli :: "precompile_lib \<Rightarrow> precompiles" where
  "bernoulli L = extend_set (pre_bernoulli L) [sha256_BERNOULLI L]"

definition euclid :: "precompile_lib \<Rightarrow> precompiles" where
  "euclid L = extend_set (bernoulli L) [lib_P256VERIFY L]"

definition feynman :: "precompile_lib \<Rightarrow> precompiles" where
  "feynman L = extend_set (euclid L) [bn254_pair_FEYNMAN L]"

definition galileo :: "precompile_lib \<Rightarrow> precompiles" where
  "galileo L = extend_set (feynman L) [modexp_GALILEO L, lib_P256VERIFY_OSAKA L]"

definition tsuki_static :: "precompile_lib \<Rightarrow> precompiles" where
  "tsuki_static L = extend_set (galileo L) [ripemd160_TSUKI L]"

datatype ('w, 'e, 't) installed =
  Static Precompile
| Dynamic PrecompileId "PrecompileInput \<Rightarrow> ('w, PrecompileError, PrecompileOutput) exec"

type_synonym ('w, 'e, 't) precompiles_map = "address \<Rightarrow> ('w, 'e, 't) installed option"

definition from_static :: "precompiles \<Rightarrow> ('w, 'e, 't) precompiles_map" where
  "from_static m a = map_option Static (m a)"

definition transfer_precompile :: "('w, 'e, 't) internals_ops \<Rightarrow> ('w, 'e, 't) installed" where
  "transfer_precompile N = Dynamic TRANSFER_ID (transfer_run N)"

definition tsuki_extensions ::
  "('w, 'e, 't) internals_ops \<Rightarrow> (address \<times> ('w, 'e, 't) installed) list" where
  "tsuki_extensions N = [(TRANSFER, transfer_precompile N)]"

definition tsuki ::
  "precompile_lib \<Rightarrow> ('w, 'e, 't) internals_ops \<Rightarrow> ('w, 'e, 't) precompiles_map" where
  "tsuki L N = foldl (\<lambda>m (a, p). m(a \<mapsto> p)) (from_static (tsuki_static L)) (tsuki_extensions N)"

section \<open>The provider\<close>

record ('w, 'e, 't) ScrollPrecompileProvider =
  inner :: "('w, 'e, 't) precompiles_map"
  provider_spec :: ScrollSpecId

definition provider_new_with_spec ::
  "precompile_lib \<Rightarrow> ('w, 'e, 't) internals_ops \<Rightarrow> ScrollSpecId
     \<Rightarrow> ('w, 'e, 't) ScrollPrecompileProvider" where
  "provider_new_with_spec L N spec =
     \<lparr>inner =
        (case spec of
           SHANGHAI \<Rightarrow> from_static (pre_bernoulli L)
         | BERNOULLI \<Rightarrow> from_static (bernoulli L)
         | CURIE \<Rightarrow> from_static (bernoulli L)
         | DARWIN \<Rightarrow> from_static (bernoulli L)
         | EUCLID \<Rightarrow> from_static (euclid L)
         | FEYNMAN \<Rightarrow> from_static (feynman L)
         | GALILEO \<Rightarrow> from_static (galileo L)
         | TSUKI \<Rightarrow> tsuki L N
         | TSUKI_V2 \<Rightarrow> tsuki L N),
      provider_spec = spec\<rparr>"

definition into_precompiles_map ::
  "('w, 'e, 't) ScrollPrecompileProvider \<Rightarrow> ('w, 'e, 't) precompiles_map" where
  "into_precompiles_map self = inner self"

definition set_spec ::
  "precompile_lib \<Rightarrow> ('w, 'e, 't) internals_ops \<Rightarrow> ScrollSpecId
     \<Rightarrow> ('w, 'e, 't) ScrollPrecompileProvider \<Rightarrow> bool \<times> ('w, 'e, 't) ScrollPrecompileProvider" where
  "set_spec L N spec self =
     (if spec = provider_spec self then (False, self)
      else (True, provider_new_with_spec L N spec))"

text \<open>\<open>run\<close> on a call is \<open>PrecompilesMap\<close>'s; the provider hands its map to it.\<close>

definition provider_run ::
  "(('w, 'e, 't) precompiles_map \<Rightarrow> 'c \<Rightarrow> 'i \<Rightarrow> (string, 'r option) outcome \<times> 'c)
     \<Rightarrow> ('w, 'e, 't) ScrollPrecompileProvider \<Rightarrow> 'c \<Rightarrow> 'i \<Rightarrow> (string, 'r option) outcome \<times> 'c" where
  "provider_run map_run self ctxt inputs = map_run (inner self) ctxt inputs"

definition warm_addresses :: "('w, 'e, 't) ScrollPrecompileProvider \<Rightarrow> address set" where
  "warm_addresses self = dom (inner self)"

definition provider_contains :: "('w, 'e, 't) ScrollPrecompileProvider \<Rightarrow> address \<Rightarrow> bool" where
  "provider_contains self a \<longleftrightarrow> inner self a \<noteq> None"

end
