(* ===== verification/PrecompileProps.thy ===== *)
theory PrecompileProps
  imports Precompiles MemJournal
begin

text \<open>
  What the precompile sets promise: which precompile every address holds at every fork, that upgrades
  only add addresses, that a provider always holds the set of its fork, which inputs are refused, and
  that the native transfer is all-or-nothing, exact and conserves the balances. The locale
  \<open>transfer_internals\<close> states what the transfer relies on of the EVM internals.
\<close>

section \<open>The activation matrix\<close>

definition expected_precompile ::
  "precompile_lib \<Rightarrow> ('w, 'e, 't) internals_ops \<Rightarrow> ScrollSpecId \<Rightarrow> address \<Rightarrow> ('w, 'e, 't) installed option" where
  "expected_precompile L N spec a =
     (if a = ECRECOVER then Some (Static (lib_ECRECOVER L))
      else if a = SHA256 then
        Some (Static (if BERNOULLI \<le> spec then sha256_BERNOULLI L else sha256_SHANGHAI))
      else if a = RIPEMD160 then
        Some (Static (if TSUKI \<le> spec then ripemd160_TSUKI L else ripemd160_SHANGHAI))
      else if a = IDENTITY then Some (Static (lib_IDENTITY L))
      else if a = MODEXP then
        Some (Static (if GALILEO \<le> spec then modexp_GALILEO L else modexp_BERNOULLI L))
      else if a = BN254_ADD then Some (Static (lib_bn254_add_ISTANBUL L))
      else if a = BN254_MUL then Some (Static (lib_bn254_mul_ISTANBUL L))
      else if a = BN254_PAIRING then
        Some (Static (if FEYNMAN \<le> spec then lib_bn254_pair_ISTANBUL L else bn254_pair_BERNOULLI L))
      else if a = BLAKE2F then Some (Static blake2_SHANGHAI)
      else if a = P256VERIFY then
        (if GALILEO \<le> spec then Some (Static (lib_P256VERIFY_OSAKA L))
         else if EUCLID \<le> spec then Some (Static (lib_P256VERIFY L)) else None)
      else if a = TRANSFER \<and> TSUKI \<le> spec then Some (transfer_precompile N)
      else None)"

lemmas address_defs = ECRECOVER_def SHA256_def RIPEMD160_def IDENTITY_def MODEXP_def BN254_ADD_def
  BN254_MUL_def BN254_PAIRING_def BLAKE2F_def P256VERIFY_def TRANSFER_def u64_to_address_def

lemmas own_precompile_defs = sha256_SHANGHAI_def sha256_BERNOULLI_def ripemd160_SHANGHAI_def
  ripemd160_TSUKI_def modexp_BERNOULLI_def modexp_GALILEO_def bn254_pair_BERNOULLI_def
  blake2_SHANGHAI_def precompile_not_implemented_def Precompile_new_def

lemma own_addresses [simp]:
  "pc_address sha256_SHANGHAI = SHA256" "pc_address (sha256_BERNOULLI L) = SHA256"
  "pc_address ripemd160_SHANGHAI = RIPEMD160" "pc_address (ripemd160_TSUKI L) = RIPEMD160"
  "pc_address (modexp_BERNOULLI L) = MODEXP" "pc_address (modexp_GALILEO L) = MODEXP"
  "pc_address (bn254_pair_BERNOULLI L) = BN254_PAIRING" "pc_address blake2_SHANGHAI = BLAKE2F"
  by (simp_all add: own_precompile_defs)

lemma addresses_distinct:
  "distinct [ECRECOVER, SHA256, RIPEMD160, IDENTITY, MODEXP, BN254_ADD, BN254_MUL, BN254_PAIRING,
     BLAKE2F, P256VERIFY, TRANSFER]"
  by (simp add: address_defs)

lemmas set_defs = pre_bernoulli_def bernoulli_def euclid_def feynman_def galileo_def tsuki_static_def
  tsuki_def tsuki_extensions_def extend_set_def from_static_def bn254_pair_FEYNMAN_def

lemma installed_matrix:
  assumes "lib_addresses L"
  shows "inner (provider_new_with_spec L N spec) a = expected_precompile L N spec a"
proof -
  consider "a \<in> {ECRECOVER, SHA256, RIPEMD160, IDENTITY}" | "a \<in> {MODEXP, BN254_ADD, BN254_MUL}"
    | "a \<in> {BN254_PAIRING, BLAKE2F, P256VERIFY, TRANSFER}"
    | "a \<notin> {ECRECOVER, SHA256, RIPEMD160, IDENTITY, MODEXP, BN254_ADD, BN254_MUL, BN254_PAIRING,
     BLAKE2F, P256VERIFY, TRANSFER}" by blast
  then show ?thesis
    by cases (use assms addresses_distinct in \<open>cases spec; auto simp: provider_new_with_spec_def
      expected_precompile_def lib_addresses_def spec_gates set_defs\<close>)+
qed

text \<open>
  C24 Activation matrix: at every fork, every address holds exactly the precompile of the fork's plan
  (own rules for SHA-256, RIPEMD-160, modexp, pairing and BLAKE2 by fork; P256VERIFY from Euclid, its
  Osaka variant from Galileo; the native transfer from Tsuki), and nothing else is installed.
\<close>

theorem activation_matrix:
  assumes "lib_addresses L"
  shows "inner (provider_new_with_spec L N spec) a = expected_precompile L N spec a"
  using installed_matrix [OF assms] .

section \<open>Upgrades\<close>

definition installed_addresses :: "ScrollSpecId \<Rightarrow> address set" where
  "installed_addresses spec =
     {ECRECOVER, SHA256, RIPEMD160, IDENTITY, MODEXP, BN254_ADD, BN254_MUL, BN254_PAIRING, BLAKE2F}
     \<union> (if EUCLID \<le> spec then {P256VERIFY} else {}) \<union> (if TSUKI \<le> spec then {TRANSFER} else {})"

interpretation precompile_upgrades: fork_upgrade is_enabled_in installed_addresses
proof
  fix later earlier :: ScrollSpecId
  assume "is_enabled_in later earlier"
  then show "installed_addresses earlier \<subseteq> installed_addresses later"
    by (auto simp: installed_addresses_def is_enabled_in_le dest: order_trans)
qed

lemma warm_addresses_installed:
  assumes "lib_addresses L"
  shows "warm_addresses (provider_new_with_spec L N spec) = installed_addresses spec"
proof -
  have "EUCLID \<le> spec" if "GALILEO \<le> spec" using that by (cases spec) (simp_all add: spec_gates)
  then show ?thesis
    using addresses_distinct
    by (auto simp: warm_addresses_def dom_def installed_matrix [OF assms] expected_precompile_def
        installed_addresses_def)
qed

inductive provider_reach ::
  "precompile_lib \<Rightarrow> ('w, 'e, 't) internals_ops \<Rightarrow> ('w, 'e, 't) ScrollPrecompileProvider \<Rightarrow> bool"
  for L :: precompile_lib and N :: "('w, 'e, 't) internals_ops" where
  created: "provider_reach L N (provider_new_with_spec L N spec)"
| respecced: "provider_reach L N p \<Longrightarrow> set_spec L N spec p = (changed, q) \<Longrightarrow> provider_reach L N q"

lemma provider_current:
  "provider_reach L N p \<Longrightarrow> p = provider_new_with_spec L N (provider_spec p)"
proof (induction rule: provider_reach.induct)
  case (respecced p spec changed q)
  then show ?case
    by (auto simp: set_spec_def provider_new_with_spec_def split: if_splits)
qed (simp add: provider_new_with_spec_def)

text \<open>
  C28 A provider is always current: however often its fork is set, it holds exactly the precompiles of
  its fork; \<open>set_spec\<close> moves it to the requested fork, answers whether that was a change, and a move to
  a later fork keeps every installed address.
\<close>

theorem provider_tracks_spec:
  assumes "lib_addresses L" and "provider_reach L N p" and "set_spec L N spec p = (changed, q)"
  shows "inner q a = expected_precompile L N spec a \<and> provider_spec q = spec \<and>
    (changed \<longleftrightarrow> spec \<noteq> provider_spec p) \<and>
    (provider_spec p \<le> spec \<longrightarrow> warm_addresses p \<subseteq> warm_addresses q)"
proof -
  have p: "p = provider_new_with_spec L N (provider_spec p)" by (rule provider_current [OF assms(2)])
  have q: "q = provider_new_with_spec L N spec" and c: "changed \<longleftrightarrow> spec \<noteq> provider_spec p"
    using assms(3) p by (auto simp: set_spec_def split: if_splits)
  have "warm_addresses p = installed_addresses (provider_spec p)"
    by (subst p) (rule warm_addresses_installed [OF assms(1)])
  moreover have "warm_addresses q = installed_addresses spec"
    unfolding q by (rule warm_addresses_installed [OF assms(1)])
  moreover have "provider_spec p \<le> spec \<Longrightarrow> installed_addresses (provider_spec p) \<subseteq> installed_addresses spec"
    using precompile_upgrades.installed_grows [of spec "provider_spec p"] by (simp add: is_enabled_in_le)
  ultimately show ?thesis
    using c installed_matrix [OF assms(1)] by (simp add: q) (simp add: provider_new_with_spec_def)
qed

section \<open>Refused inputs\<close>

text \<open>
  \<open>right_pad_with_offset\<close> reads a window of its input, padded with zeros; the length of a pairing
  element is 192 bytes.
\<close>

definition pads :: "precompile_lib \<Rightarrow> bool" where
  "pads L \<longleftrightarrow> (\<forall>n xs off. right_pad_with_offset L n xs off = take n (drop off xs @ replicate n 0))"

definition length_word :: "bytes \<Rightarrow> nat \<Rightarrow> u256" where
  "length_word input off = from_be_bytes (take 32 (drop off input @ replicate 32 0))"

text \<open>The inputs a fork refuses, whatever gas they come with.\<close>

definition refused :: "precompile_lib \<Rightarrow> ScrollSpecId \<Rightarrow> address \<Rightarrow> bytes \<Rightarrow> bool" where
  "refused L spec a input \<longleftrightarrow>
     a = SHA256 \<and> spec < BERNOULLI \<or> a = BLAKE2F \<or>
     a = RIPEMD160 \<and> (spec < TSUKI \<or> 32 < length input) \<or>
     a = BN254_PAIRING \<and> spec < FEYNMAN \<and> 4 * PAIR_ELEMENT_LEN L < length input \<or>
     a = MODEXP \<and> spec < GALILEO \<and>
       (\<exists>off \<in> {0, 32, 64}. 32 < length_word input off)"

text \<open>What an accepted input of the crate's own precompiles is handed to.\<close>

definition handed_to :: "precompile_lib \<Rightarrow> ScrollSpecId \<Rightarrow> address \<Rightarrow> precompile_fn option" where
  "handed_to L spec a =
     (if a = SHA256 then Some (sha256_run L)
      else if a = RIPEMD160 then Some (ripemd160_run L)
      else if a = MODEXP then
        Some (if GALILEO \<le> spec then modexp_osaka_run L
              else (\<lambda>input gas. modexp_run_inner_berlin L input gas 200))
      else if a = BN254_PAIRING then
        Some (if FEYNMAN \<le> spec then pc_run (lib_bn254_pair_ISTANBUL L)
              else (\<lambda>input. run_pair L input (ISTANBUL_PAIR_PER_POINT L) (ISTANBUL_PAIR_BASE L)))
      else None)"

lemma expected_at:
  "expected_precompile L N spec SHA256 =
     Some (Static (if BERNOULLI \<le> spec then sha256_BERNOULLI L else sha256_SHANGHAI))"
  "expected_precompile L N spec RIPEMD160 =
     Some (Static (if TSUKI \<le> spec then ripemd160_TSUKI L else ripemd160_SHANGHAI))"
  "expected_precompile L N spec MODEXP =
     Some (Static (if GALILEO \<le> spec then modexp_GALILEO L else modexp_BERNOULLI L))"
  "expected_precompile L N spec BN254_PAIRING =
     Some (Static (if FEYNMAN \<le> spec then lib_bn254_pair_ISTANBUL L else bn254_pair_BERNOULLI L))"
  "expected_precompile L N spec BLAKE2F = Some (Static blake2_SHANGHAI)"
  by (simp_all add: expected_precompile_def address_defs)

lemma refused_at:
  "refused L spec SHA256 input \<longleftrightarrow> spec < BERNOULLI"
  "refused L spec RIPEMD160 input \<longleftrightarrow> spec < TSUKI \<or> 32 < length input"
  "refused L spec BN254_PAIRING input \<longleftrightarrow> spec < FEYNMAN \<and> 4 * PAIR_ELEMENT_LEN L < length input"
  "refused L spec MODEXP input \<longleftrightarrow> spec < GALILEO \<and>
     (32 < length_word input 0 \<or> 32 < length_word input 32 \<or> 32 < length_word input 64)"
  "refused L spec BLAKE2F input"
  by (simp_all add: refused_def address_defs)

lemma handed_at:
  "handed_to L spec SHA256 = Some (sha256_run L)"
  "handed_to L spec RIPEMD160 = Some (ripemd160_run L)"
  "handed_to L spec MODEXP = Some (if GALILEO \<le> spec then modexp_osaka_run L
     else (\<lambda>input gas. modexp_run_inner_berlin L input gas 200))"
  "handed_to L spec BN254_PAIRING = Some (if FEYNMAN \<le> spec then pc_run (lib_bn254_pair_ISTANBUL L)
     else (\<lambda>input. run_pair L input (ISTANBUL_PAIR_PER_POINT L) (ISTANBUL_PAIR_BASE L)))"
  by (simp_all add: handed_to_def address_defs)

lemma modexp_rule:
  assumes "pads L"
  shows "modexp_bernoulli_run L input gas =
    (if 32 < length_word input 0 then Err (PcOther ''ModexpBaseOverflow: modexp base overflow'')
     else if 32 < length_word input 32 then Err (PcOther ''ModexpExpOverflow: modexp exp overflow'')
     else if 32 < length_word input 64 then Err (PcOther ''ModexpModOverflow: modexp mod overflow'')
     else modexp_run_inner_berlin L input gas 200)"
  using assms
  by (simp add: modexp_bernoulli_run_def pads_def length_word_def modexp_BERNOULLI_LEN_LIMIT_def Let_def)

definition follows_rule ::
  "precompile_lib \<Rightarrow> ScrollSpecId \<Rightarrow> address \<Rightarrow> bytes \<Rightarrow> u64 \<Rightarrow> Precompile \<Rightarrow> bool" where
  "follows_rule L spec a input gas p \<longleftrightarrow>
     (if refused L spec a input then \<exists>msg. pc_run p input gas = Err (PcOther msg)
      else \<exists>f. handed_to L spec a = Some f \<and> pc_run p input gas = f input gas)"

lemma rules_followed:
  "follows_rule L spec SHA256 input gas (if BERNOULLI \<le> spec then sha256_BERNOULLI L else sha256_SHANGHAI)"
  "follows_rule L spec RIPEMD160 input gas (if TSUKI \<le> spec then ripemd160_TSUKI L else ripemd160_SHANGHAI)"
  "follows_rule L spec BN254_PAIRING input gas
     (if FEYNMAN \<le> spec then lib_bn254_pair_ISTANBUL L else bn254_pair_BERNOULLI L)"
  "follows_rule L spec BLAKE2F input gas blake2_SHANGHAI"
  "pads L \<Longrightarrow> follows_rule L spec MODEXP input gas
     (if GALILEO \<le> spec then modexp_GALILEO L else modexp_BERNOULLI L)"
  by (auto simp: follows_rule_def refused_at handed_at own_precompile_defs bn254_bernoulli_run_def
      TSUKI_LEN_LIMIT_def bn254_BERNOULLI_LEN_LIMIT_def modexp_rule not_le)

text \<open>
  C27 Input rules: the precompiles that Scroll restricts (SHA-256, RIPEMD-160, modexp, pairing, BLAKE2)
  refuse with an error, whatever the gas, exactly the inputs the fork rules out (everything before the
  precompile exists; more than 32 bytes of RIPEMD-160 input; more than four pairs before Feynman; a
  modexp operand length above 32 before Galileo), and hand every other input and its gas unchanged to
  the library function.
\<close>

theorem restricted_inputs:
  assumes "lib_addresses L" and "pads L"
    and "a \<in> {SHA256, RIPEMD160, MODEXP, BN254_PAIRING, BLAKE2F}"
  shows "\<exists>p. inner (provider_new_with_spec L N spec) a = Some (Static p) \<and>
    (if refused L spec a input then \<exists>msg. pc_run p input gas = Err (PcOther msg)
     else \<exists>f. handed_to L spec a = Some f \<and> pc_run p input gas = f input gas)"
proof -
  have "\<exists>p. expected_precompile L N spec a = Some (Static p) \<and> follows_rule L spec a input gas p"
    using assms(3) expected_at [of L N spec] rules_followed [of L spec input gas] assms(2) by blast
  then show ?thesis
    unfolding installed_matrix [OF assms(1)] follows_rule_def .
qed

section \<open>The native transfer\<close>

text \<open>
  What the transfer relies on: loading an account reports its balance and moves none; a transfer the
  receiver has room for either moves the value (if the sender has it) or reports why not and moves
  nothing; nothing is promised of a transfer that would overflow the receiver.
\<close>

locale transfer_internals =
  fixes N :: "('w, 'e, 't) internals_ops"
    and bal :: "'w \<Rightarrow> address \<Rightarrow> u256"
  assumes load_total: "fst (in_load_account N a w) \<noteq> Panic"
    and load_reports: "in_load_account N a w = (Ok x, w') \<Longrightarrow> x = bal w a"
    and load_frame: "in_load_account N a w = (q, w') \<Longrightarrow> bal w' = bal w"
    and transfer_total: "fst (in_transfer N a b v w) \<noteq> Panic"
    and transfer_done:
      "in_transfer N a b v w = (Ok None, w') \<Longrightarrow> a = b \<or> unat (bal w b) + unat v < 2 ^ 256 \<Longrightarrow>
         v \<le> bal w a \<and>
         bal w' = (if a = b then bal w else (bal w)(a := bal w a - v, b := bal w b + v))"
    and transfer_refused:
      "in_transfer N a b v w = (Ok (Some t), w') \<Longrightarrow> a = b \<or> unat (bal w b) + unat v < 2 ^ 256 \<Longrightarrow>
         bal w' = bal w"
    and transfer_failed: "in_transfer N a b v w = (Err e, w') \<Longrightarrow> bal w' = bal w"

lemma transfer_args_total:
  "length data = CALL_DATA_LENGTH \<Longrightarrow>
     transfer_args data =
       Ok (from_be_bytes (take 20 (drop 12 data)), from_be_bytes (take 20 (drop 44 data)),
           from_be_bytes (take 32 (drop 64 data)))"
  by (simp add: transfer_args_def slice_range_def address_from_slice_def u256_from_be_slice_def
      CALL_DATA_LENGTH_def)

lemma transfer_guards_pass:
  "transfer_guards input = Ok () \<longleftrightarrow>
     \<not> pi_is_static input \<and> pi_is_direct_call input \<and> pi_caller input = NATIVE_DOGE_TOKEN_ADDRESS \<and>
     GAS_COST \<le> pi_gas input \<and> length (pi_data input) = CALL_DATA_LENGTH"
  by (auto simp: transfer_guards_def exec_simps not_less)

lemma transfer_guards_total: "transfer_guards input \<noteq> Panic"
  by (auto simp: transfer_guards_def exec_simps)

lemma transfer_refuses: "transfer_guards input = Err e \<Longrightarrow> transfer_run N input w = (Err e, w)"
  by (simp add: transfer_run_def bind_def)

text \<open>The three words of the calldata: sender, receiver, amount.\<close>

definition sender :: "bytes \<Rightarrow> address" where
  "sender data = from_be_bytes (take 20 (drop 12 data))"

definition receiver :: "bytes \<Rightarrow> address" where
  "receiver data = from_be_bytes (take 20 (drop 44 data))"

definition amount :: "bytes \<Rightarrow> u256" where
  "amount data = from_be_bytes (take 32 (drop 64 data))"

definition moved :: "(address \<Rightarrow> u256) \<Rightarrow> bytes \<Rightarrow> address \<Rightarrow> u256" where
  "moved b data =
     (if sender data = receiver data then b
      else b(sender data := b (sender data) - amount data, receiver data := b (receiver data) + amount data))"

context transfer_internals begin

lemma move_step:
  assumes "a = b \<or> unat (bal w b) + unat v < 2 ^ 256"
  shows "\<exists>r w'. (case in_transfer N a b v w of
          (Ok None, w') \<Rightarrow> (Ok (Completed GAS_COST []), w')
        | (Ok (Some _), w') \<Rightarrow> (Ok (Reverted GAS_COST []), w')
        | (Err e, w') \<Rightarrow> (Err (db_failure N e), w')
        | (Panic, w') \<Rightarrow> (Panic, w')) = (r, w') \<and>
      (r = Ok (Completed GAS_COST []) \<and> v \<le> bal w a \<and>
         bal w' = (if a = b then bal w else (bal w)(a := bal w a - v, b := bal w b + v)) \<or>
       (r = Ok (Reverted GAS_COST []) \<or> (\<exists>e. r = Err (db_failure N e))) \<and> bal w' = bal w)"
proof -
  obtain q w1 where run: "in_transfer N a b v w = (q, w1)" by fastforce
  show ?thesis
  proof (cases q)
    case (Ok t)
    with run transfer_done [OF _ assms] transfer_refused [OF _ assms] show ?thesis
      by (cases t) fastforce+
  next
    case (Err e)
    with run transfer_failed show ?thesis by auto
  next
    case Panic
    with run transfer_total [of a b v w] show ?thesis by simp
  qed
qed

lemma transfer_accepted:
  assumes "transfer_guards input = Ok ()"
  shows "\<exists>r w'. transfer_run N input w = (r, w') \<and>
    (r = Ok (Completed GAS_COST []) \<and> amount (pi_data input) \<le> bal w (sender (pi_data input)) \<and>
       (sender (pi_data input) = receiver (pi_data input) \<or>
        unat (bal w (receiver (pi_data input))) + unat (amount (pi_data input)) < 2 ^ 256) \<and>
       bal w' = moved (bal w) (pi_data input) \<or>
     (r = Ok (Reverted GAS_COST []) \<or> (\<exists>e. r = Err (db_failure N e))) \<and> bal w' = bal w)"
proof -
  let ?d = "pi_data input"
  have args: "transfer_args ?d = Ok (sender ?d, receiver ?d, amount ?d)"
    using assms by (simp add: transfer_guards_pass transfer_args_total sender_def receiver_def amount_def)
  show ?thesis
  proof (cases "sender ?d = receiver ?d")
    case True
    with move_step [of "sender ?d" "receiver ?d" w "amount ?d"] show ?thesis
      by (simp add: transfer_run_def assms args moved_def bind_def)
  next
    case False
    obtain q w1 where load: "in_load_account N (receiver ?d) w = (q, w1)" by fastforce
    note w1 = load_frame [OF load]
    show ?thesis
    proof (cases q)
      case (Ok b)
      then have b: "b = bal w (receiver ?d)" using load load_reports by blast
      show ?thesis
      proof (cases "checked_add b (amount ?d)")
        case None
        then show ?thesis
          using False load Ok w1 by (simp add: transfer_run_def assms args bind_def)
      next
        case (Some t)
        then have room: "unat (bal w1 (receiver ?d)) + unat (amount ?d) < 2 ^ 256"
          using b w1 by (simp add: checked_add_def split: if_splits)
        with move_step [of "sender ?d" "receiver ?d" w1 "amount ?d"] False load Ok Some w1
        show ?thesis
          by (simp add: transfer_run_def assms args bind_def moved_def)
      qed
    next
      case (Err e)
      then show ?thesis
        using False load w1 by (auto simp: transfer_run_def assms args bind_def)
    next
      case Panic
      then show ?thesis using load load_total [of "receiver ?d" w] by simp
    qed
  qed
qed

end

text \<open>
  The native transfer completes only when it may and moves exactly what it says: a completed run
  cost 9000 gas, was a direct, non-static call by the native token contract with at least 9000 gas and
  96 bytes of calldata, the sender had the amount, the receiver's balance did not overflow, and
  exactly the amount went from sender to receiver (nothing moves when they are the same).
\<close>

theorem transfer_exact:
  assumes "transfer_internals N bal" and "transfer_run N input w = (Ok (Completed g out), w')"
  shows "g = 9000 \<and> out = [] \<and> \<not> pi_is_static input \<and> pi_is_direct_call input \<and>
    pi_caller input = NATIVE_DOGE_TOKEN_ADDRESS \<and> 9000 \<le> pi_gas input \<and> length (pi_data input) = 96 \<and>
    amount (pi_data input) \<le> bal w (sender (pi_data input)) \<and>
    (sender (pi_data input) = receiver (pi_data input) \<or>
     unat (bal w (receiver (pi_data input))) + unat (amount (pi_data input)) < 2 ^ 256) \<and>
    bal w' = moved (bal w) (pi_data input)"
proof (cases "transfer_guards input")
  case (Ok u)
  then have ok: "transfer_guards input = Ok ()" by simp
  from transfer_internals.transfer_accepted [OF assms(1) this, of w] assms(2)
    ok [unfolded transfer_guards_pass]
  show ?thesis by (auto simp: GAS_COST_def CALL_DATA_LENGTH_def)
next
  case (Err e)
  then show ?thesis using assms(2) transfer_refuses [OF Err, of N w] by simp
next
  case Panic
  then show ?thesis using transfer_guards_total by blast
qed

text \<open>
  The native transfer is all-or-nothing: it never panics, and whenever it does not complete (a
  failed guard, an overflow of the receiver, missing funds, a database error) every balance is as
  before; a revert costs the same 9000 gas.
\<close>

theorem transfer_all_or_nothing:
  assumes "transfer_internals N bal" and "transfer_run N input w = (r, w')"
    and "r \<noteq> Ok (Completed 9000 [])"
  shows "bal w' = bal w \<and> (r = Ok (Reverted 9000 []) \<or> (\<exists>e. r = Err e))"
proof (cases "transfer_guards input")
  case (Ok u)
  then have ok: "transfer_guards input = Ok ()" by simp
  from transfer_internals.transfer_accepted [OF assms(1) this, of w] assms(2,3)
  show ?thesis by (auto simp: GAS_COST_def)
next
  case (Err e)
  then show ?thesis using assms(2) transfer_refuses [OF Err, of N w] by auto
next
  case Panic
  then show ?thesis using transfer_guards_total by blast
qed

text \<open>Either nothing moves, or exactly the amount does, covered and without overflow.\<close>

lemma transfer_cases:
  assumes "transfer_internals N bal" and "transfer_run N input w = (r, w')"
  obtains "bal w' = bal w"
  | "amount (pi_data input) \<le> bal w (sender (pi_data input))"
    "sender (pi_data input) \<noteq> receiver (pi_data input)"
    "unat (bal w (receiver (pi_data input))) + unat (amount (pi_data input)) < 2 ^ 256"
    "bal w' = moved (bal w) (pi_data input)"
proof (cases "transfer_guards input")
  case (Ok u)
  then have "transfer_guards input = Ok ()" by simp
  from transfer_internals.transfer_accepted [OF assms(1) this, of w] assms(2) that show thesis
    by (cases "sender (pi_data input) = receiver (pi_data input)") (auto simp: moved_def)
next
  case (Err e)
  then show thesis using assms(2) transfer_refuses [OF Err, of N w] that(1) by simp
next
  case Panic
  then show thesis using transfer_guards_total by blast
qed

text \<open>
  C19 The native transfer conserves the native token: whatever it is called with and however it ends,
  the balances of any finite set of accounts with sender and receiver sum to what they did before.
\<close>

theorem transfer_conserves:
  assumes "transfer_internals N bal" and "transfer_run N input w = (r, w')"
    and "finite A" and "sender (pi_data input) \<in> A" and "receiver (pi_data input) \<in> A"
  shows "(\<Sum>a\<in>A. unat (bal w' a)) = (\<Sum>a\<in>A. unat (bal w a))"
  using transfer_cases [OF assms(1,2)]
proof cases
  case 2
  let ?s = "sender (pi_data input)" and ?t = "receiver (pi_data input)" and ?v = "amount (pi_data input)"
  have split: "(\<Sum>a\<in>A. f a) = f ?s + f ?t + (\<Sum>a\<in>A - {?s} - {?t}. f a)" for f :: "address \<Rightarrow> nat"
    using 2(2) assms(3-5) by (simp add: sum.remove [of A ?s] sum.remove [of "A - {?s}" ?t])
  have "unat (bal w' ?s) + unat (bal w' ?t) = unat (bal w ?s) + unat (bal w ?t)"
    using 2 by (simp add: moved_def unat_sub word_le_nat_alt unat_word_ariths)
  moreover have "(\<Sum>a\<in>A - {?s} - {?t}. unat (bal w' a)) = (\<Sum>a\<in>A - {?s} - {?t}. unat (bal w a))"
    by (rule sum.cong) (auto simp: 2(4) moved_def)
  ultimately show ?thesis by (simp add: split)
qed simp

section \<open>A reference library and internals\<close>

text \<open>Transfers on the in-memory journal, and a library whose functions return their input.\<close>

definition mem_move ::
  "address \<Rightarrow> address \<Rightarrow> u256 \<Rightarrow> mem_journal \<Rightarrow> (string, unit option) outcome \<times> mem_journal" where
  "mem_move from to v j =
     (if v \<le> m_balance (m_acc j from) then
        (Ok None,
         let j = m_put from ((m_acc j from)\<lparr>m_balance := m_balance (m_acc j from) - v\<rparr>) j
         in m_put to ((m_acc j to)\<lparr>m_balance := m_balance (m_acc j to) + v\<rparr>) j)
      else (Ok (Some ()), j))"

definition mem_internals :: "(mem_journal, string, unit) internals_ops" where
  "mem_internals =
     \<lparr>in_load_account = (\<lambda>a j. (Ok (m_balance (m_acc j a)), m_put a (m_acc j a) j)),
      in_transfer = mem_move, in_debug = (\<lambda>e. e)\<rparr>"

definition mem_bal :: "mem_journal \<Rightarrow> address \<Rightarrow> u256" where
  "mem_bal j a = m_balance (m_acc j a)"

interpretation mem_transfer: transfer_internals mem_internals mem_bal
  by unfold_locales
    (auto simp: mem_internals_def mem_move_def mem_bal_def Let_def fun_eq_iff split: if_splits)

definition echo :: precompile_fn where
  "echo input gas = Ok (Completed gas input)"

definition echo_lib :: precompile_lib where
  "echo_lib =
     \<lparr>sha256_run = echo, ripemd160_run = echo, modexp_osaka_run = echo,
      modexp_run_inner_berlin = (\<lambda>input gas _. echo input gas),
      right_pad_with_offset = (\<lambda>n xs off. take n (drop off xs @ replicate n 0)),
      run_pair = (\<lambda>input _ _ gas. echo input gas), PAIR_ELEMENT_LEN = 192,
      ISTANBUL_PAIR_PER_POINT = 34000, ISTANBUL_PAIR_BASE = 45000,
      lib_ECRECOVER = Precompile_new EcRec ECRECOVER echo,
      lib_IDENTITY = Precompile_new Identity IDENTITY echo,
      lib_bn254_add_ISTANBUL = Precompile_new Bn254Add BN254_ADD echo,
      lib_bn254_mul_ISTANBUL = Precompile_new Bn254Mul BN254_MUL echo,
      lib_bn254_pair_ISTANBUL = Precompile_new Bn254Pairing BN254_PAIRING echo,
      lib_P256VERIFY = Precompile_new P256Verify P256VERIFY echo,
      lib_P256VERIFY_OSAKA = Precompile_new P256Verify P256VERIFY echo\<rparr>"

lemma echo_lib_addresses: "lib_addresses echo_lib"
  by (simp add: lib_addresses_def echo_lib_def Precompile_new_def)

lemma echo_lib_pads: "pads echo_lib"
  by (simp add: pads_def echo_lib_def)

end
