(* ===== verification/PrecompileRuns.thy ===== *)
theory PrecompileRuns
  imports PrecompileProps
begin

text \<open>Concrete instances of the precompile properties: a transfer of 5 between two accounts.\<close>

definition run_data :: bytes where
  "run_data = [0, 0, 0, 0, 0, 0, 0, 0, 0, 0, 0, 0, 0, 0, 0, 0, 0, 0, 0, 0, 0, 0, 0, 0, 0, 0, 0, 0, 0, 0, 0, 10,
     0, 0, 0, 0, 0, 0, 0, 0, 0, 0, 0, 0, 0, 0, 0, 0, 0, 0, 0, 0, 0, 0, 0, 0, 0, 0, 0, 0, 0, 0, 0, 11,
     0, 0, 0, 0, 0, 0, 0, 0, 0, 0, 0, 0, 0, 0, 0, 0, 0, 0, 0, 0, 0, 0, 0, 0, 0, 0, 0, 0, 0, 0, 0, 5]"

definition run_input :: "u64 \<Rightarrow> PrecompileInput" where
  "run_input gas = \<lparr>pi_data = run_data, pi_gas = gas, pi_caller = NATIVE_DOGE_TOKEN_ADDRESS,
     pi_is_static = False, pi_is_direct_call = True\<rparr>"

definition run_balances :: "u256 \<Rightarrow> mem_journal" where
  "run_balances b = mem_empty\<lparr>m_disk := (\<lambda>_. empty_account)(10 := empty_account\<lparr>m_balance := b\<rparr>)\<rparr>"

lemma run_words: "sender run_data = 10" "receiver run_data = 11" "amount run_data = 5"
  by (simp_all add: sender_def receiver_def amount_def run_data_def from_be_bytes_def)

lemma run_guards: "transfer_guards (run_input 9000) = Ok ()"
  by (simp add: transfer_guards_pass run_input_def run_data_def CALL_DATA_LENGTH_def GAS_COST_def)

lemma run_args: "transfer_args run_data = Ok (10, 11, 5)"
  using transfer_args_total [of run_data] run_words
  by (simp add: sender_def receiver_def amount_def) (simp add: run_data_def CALL_DATA_LENGTH_def)

lemma run_transfer:
  "fst (transfer_run mem_internals (run_input 9000) (run_balances b)) =
     (if 5 \<le> b then Ok (Completed 9000 []) else Ok (Reverted 9000 []))"
proof -
  have "m_acc (run_balances b) 10 = empty_account\<lparr>m_balance := b\<rparr>"
    and "m_acc (run_balances b) 11 = empty_account"
    by (simp_all add: m_acc_def run_balances_def mem_empty_def empty_account_def)
  moreover have "pi_data (run_input 9000) = run_data" by (simp add: run_input_def)
  ultimately show ?thesis
    by (simp add: transfer_run_def run_guards run_args bind_def GAS_COST_def mem_internals_def
        mem_move_def checked_add_def empty_account_def)
qed

lemma run_pi: "pi_data (run_input gas) = run_data"
  by (simp add: run_input_def)

lemma run_bal: "mem_bal (run_balances b) = (\<lambda>_. 0)(10 := b)"
  by (auto simp: mem_bal_def m_acc_def run_balances_def mem_empty_def empty_account_def fun_eq_iff)

theorem activation_matrix_witness:
  "inner (provider_new_with_spec echo_lib mem_internals EUCLID) P256VERIFY = Some (Static (lib_P256VERIFY echo_lib)) \<and>
   inner (provider_new_with_spec echo_lib mem_internals DARWIN) P256VERIFY = None \<and>
   inner (provider_new_with_spec echo_lib mem_internals TSUKI) TRANSFER = Some (transfer_precompile mem_internals)"
  unfolding activation_matrix [OF echo_lib_addresses]
  by (simp add: expected_precompile_def address_defs spec_gates)

theorem provider_tracks_spec_witness:
  "warm_addresses (provider_new_with_spec echo_lib mem_internals CURIE) \<subseteq>
     warm_addresses (snd (set_spec echo_lib mem_internals TSUKI
       (provider_new_with_spec echo_lib mem_internals CURIE)))"
proof -
  obtain changed q where run: "set_spec echo_lib mem_internals TSUKI
      (provider_new_with_spec echo_lib mem_internals CURIE) = (changed, q)" by fastforce
  from provider_tracks_spec [OF echo_lib_addresses provider_reach.created run] run
  show ?thesis by (simp add: provider_new_with_spec_def spec_gates)
qed

theorem restricted_inputs_witness:
  "\<exists>p. inner (provider_new_with_spec echo_lib mem_internals TSUKI) RIPEMD160 = Some (Static p) \<and>
     pc_run p [1, 2, 3] 600 = echo [1, 2, 3] 600 \<and>
     (\<exists>msg. pc_run p (replicate 33 0) 600 = Err (PcOther msg))"
proof -
  have a: "RIPEMD160 \<in> {SHA256, RIPEMD160, MODEXP, BN254_PAIRING, BLAKE2F}" by simp
  have "\<not> refused echo_lib TSUKI RIPEMD160 [1, 2, 3]" and "refused echo_lib TSUKI RIPEMD160 (replicate 33 0)"
    and "handed_to echo_lib TSUKI RIPEMD160 = Some echo"
    by (simp_all add: refused_at handed_at spec_gates) (simp add: echo_lib_def)
  then show ?thesis
    using restricted_inputs [OF echo_lib_addresses echo_lib_pads a, of mem_internals TSUKI "[1, 2, 3]" 600]
      restricted_inputs [OF echo_lib_addresses echo_lib_pads a, of mem_internals TSUKI "replicate 33 0" 600]
    by auto
qed

theorem transfer_exact_witness:
  "mem_bal (snd (transfer_run mem_internals (run_input 9000) (run_balances 8))) 11 = 5"
proof -
  obtain w' where run: "transfer_run mem_internals (run_input 9000) (run_balances 8) =
      (Ok (Completed 9000 []), w')"
    using run_transfer [of 8] by (cases "transfer_run mem_internals (run_input 9000) (run_balances 8)")
      (auto simp: word_le_nat_alt)
  from transfer_exact [OF mem_transfer.transfer_internals_axioms run]
  have "mem_bal w' = moved (mem_bal (run_balances 8)) run_data" by (simp add: run_pi)
  then show ?thesis by (simp add: run moved_def run_words run_bal)
qed

theorem transfer_all_or_nothing_witness:
  "mem_bal (snd (transfer_run mem_internals (run_input 9000) (run_balances 4))) = (\<lambda>_. 0)(10 := 4)"
proof -
  obtain w' where run: "transfer_run mem_internals (run_input 9000) (run_balances 4) =
      (Ok (Reverted 9000 []), w')"
    using run_transfer [of 4] by (cases "transfer_run mem_internals (run_input 9000) (run_balances 4)")
      (auto simp: word_le_nat_alt)
  from transfer_all_or_nothing [OF mem_transfer.transfer_internals_axioms run] show ?thesis
    by (simp add: run run_bal)
qed

theorem transfer_conserves_witness:
  "(\<Sum>a\<in>{10, 11}. unat (mem_bal (snd (transfer_run mem_internals (run_input 9000) (run_balances 8))) a)) = 8"
proof -
  obtain r w' where run: "transfer_run mem_internals (run_input 9000) (run_balances 8) = (r, w')"
    by fastforce
  have "(\<Sum>a\<in>{10, 11}. unat (mem_bal w' a)) = (\<Sum>a\<in>{10, 11}. unat (mem_bal (run_balances 8) a))"
    by (rule transfer_conserves [OF mem_transfer.transfer_internals_axioms run]) (simp_all add: run_pi run_words)
  then show ?thesis by (simp add: run run_bal)
qed

end
