(* ===== verification/Evm.thy ===== *)
theory Evm
  imports HandlerEnv InstructionRuns PrecompileRuns
begin

text \<open>
  The EVM instance and its entry points (\<open>src/evm.rs\<close>, \<open>src/exec.rs\<close>, \<open>src/system_call.rs\<close>): what
  \<open>ScrollEvm::new\<close> assembles, and the execution API as operations on the instance. The handler's
  \<open>run\<close>, \<open>inspect_run\<close> and \<open>run_system_call\<close> are provided methods of \<open>revm\<close>'s trait, the journal's
  \<open>finalize\<close> and the database's \<open>commit\<close> are \<open>revm\<close>'s as well: they are the fields of \<open>run_ops\<close>. The
  relation \<open>evm_reach\<close> describes every sequence of API calls.
\<close>

section \<open>The instance\<close>

record ('c, 'insp, 'i, 'p, 'fs) ScrollEvm =
  evm_ctx :: 'c
  evm_inspector :: 'insp
  evm_instruction :: 'i
  evm_precompiles :: 'p
  evm_frame_stack :: 'fs

type_synonym ('g, 'j, 'insp, 'i, 'h, 'w, 'e, 't, 'fs) scroll_evm =
  "(('g, 'j) ctx, 'insp, ('i, 'h) ScrollInstructions, ('w, 'e, 't) ScrollPrecompileProvider, 'fs) ScrollEvm"

text \<open>
  What an instance is assembled from: the base instruction table, library, internals, an empty stack.
  The instructions see the context through the host interface, so its state has a type of its own here.
\<close>

record ('i, 'h, 'gp, 'cp, 'w, 'e, 't, 'fs) evm_parts =
  base_table :: "SpecId \<Rightarrow> u8 \<Rightarrow> ('i, 'h) table_entry"
  ops_of :: opcodes
  interp_of :: "('i, 'gp) interp_ops"
  host_of :: "('h, 'gp, 'cp) host_ops"
  lib_of :: precompile_lib
  internals_of :: "('w, 'e, 't) internals_ops"
  frame_stack_new :: 'fs

definition instructions_for ::
  "('i, 'h, 'gp, 'cp, 'w, 'e, 't, 'fs) evm_parts \<Rightarrow> ScrollSpecId \<Rightarrow> ('i, 'h) ScrollInstructions" where
  "instructions_for P spec = new_mainnet_with_spec (base_table P) (ops_of P) (interp_of P) (host_of P) spec"

definition precompiles_for ::
  "('i, 'h, 'gp, 'cp, 'w, 'e, 't, 'fs) evm_parts \<Rightarrow> ScrollSpecId \<Rightarrow> ('w, 'e, 't) ScrollPrecompileProvider" where
  "precompiles_for P spec = provider_new_with_spec (lib_of P) (internals_of P) spec"

definition ScrollEvm_new ::
  "('i, 'h, 'gp, 'cp, 'w, 'e, 't, 'fs) evm_parts \<Rightarrow> ('g, 'j) ctx \<Rightarrow> 'insp
     \<Rightarrow> ('g, 'j, 'insp, 'i, 'h, 'w, 'e, 't, 'fs) scroll_evm" where
  "ScrollEvm_new P c insp =
     (let spec = cfg_spec (cfg c)
      in \<lparr>evm_ctx = c, evm_inspector = insp, evm_instruction = instructions_for P spec,
          evm_precompiles = precompiles_for P spec, evm_frame_stack = frame_stack_new P\<rparr>)"

definition build_scroll ::
  "('i, 'h, 'gp, 'cp, 'w, 'e, 't, 'fs) evm_parts \<Rightarrow> ('g, 'j) ctx
     \<Rightarrow> ('g, 'j, unit, 'i, 'h, 'w, 'e, 't, 'fs) scroll_evm" where
  "build_scroll P c = ScrollEvm_new P c ()"

definition build_scroll_with_inspector ::
  "('i, 'h, 'gp, 'cp, 'w, 'e, 't, 'fs) evm_parts \<Rightarrow> ('g, 'j) ctx \<Rightarrow> 'insp
     \<Rightarrow> ('g, 'j, 'insp, 'i, 'h, 'w, 'e, 't, 'fs) scroll_evm" where
  "build_scroll_with_inspector P c insp = ScrollEvm_new P c insp"

text \<open>
  The default context: \<open>Context::mainnet()\<close> gives block and journal, \<open>TxEnv::default()\<close> the base
  transaction; both are \<open>revm\<close>'s.
\<close>

definition scroll_context ::
  "('g, 'i) cfg_ops \<Rightarrow> ('g, 'j) ctx \<Rightarrow> base_tx \<Rightarrow> ('g, 'j) ctx" where
  "scroll_context C mainnet default_base =
     (let spec = default_spec; config = new_scroll C spec
      in mainnet\<lparr>tx := ScrollTransaction_default default_base, cfg := config,
           chain := ScrollChainContext_mainnet\<rparr>)"

definition with_inspector :: "('c, 'insp, 'i, 'p, 'fs) ScrollEvm \<Rightarrow> 'ninsp \<Rightarrow> ('c, 'ninsp, 'i, 'p, 'fs) ScrollEvm" where
  "with_inspector self insp =
     \<lparr>evm_ctx = evm_ctx self, evm_inspector = insp, evm_instruction = evm_instruction self,
      evm_precompiles = evm_precompiles self, evm_frame_stack = evm_frame_stack self\<rparr>"

definition with_precompiles :: "('c, 'insp, 'i, 'p, 'fs) ScrollEvm \<Rightarrow> 'np \<Rightarrow> ('c, 'insp, 'i, 'np, 'fs) ScrollEvm" where
  "with_precompiles self p =
     \<lparr>evm_ctx = evm_ctx self, evm_inspector = evm_inspector self,
      evm_instruction = evm_instruction self, evm_precompiles = p,
      evm_frame_stack = evm_frame_stack self\<rparr>"

definition into_inspector :: "('c, 'insp, 'i, 'p, 'fs) ScrollEvm \<Rightarrow> 'insp" where
  "into_inspector self = evm_inspector self"

section \<open>The execution API\<close>

record ('evm, 'err, 'res, 'j, 'st) run_ops =
  h_run :: "('evm, 'err, 'res) exec"
  h_inspect_run :: "('evm, 'err, 'res) exec"
  h_run_system_call :: "('evm, 'err, 'res) exec"
  j_finalize :: "'j \<Rightarrow> 'st \<times> 'j"
  db_commit :: "'st \<Rightarrow> 'j \<Rightarrow> 'j"

definition set_tx ::
  "ScrollTransaction \<Rightarrow> (('g, 'j) ctx, 'insp, 'i, 'p, 'fs) ScrollEvm \<Rightarrow> (('g, 'j) ctx, 'insp, 'i, 'p, 'fs) ScrollEvm" where
  "set_tx t self = self\<lparr>evm_ctx := (evm_ctx self)\<lparr>tx := t\<rparr>\<rparr>"

definition set_block ::
  "block_env \<Rightarrow> (('g, 'j) ctx, 'insp, 'i, 'p, 'fs) ScrollEvm \<Rightarrow> (('g, 'j) ctx, 'insp, 'i, 'p, 'fs) ScrollEvm" where
  "set_block b self = self\<lparr>evm_ctx := (evm_ctx self)\<lparr>block := b\<rparr>\<rparr>"

definition set_inspector :: "'insp \<Rightarrow> ('c, 'insp, 'i, 'p, 'fs) ScrollEvm \<Rightarrow> ('c, 'insp, 'i, 'p, 'fs) ScrollEvm" where
  "set_inspector insp self = self\<lparr>evm_inspector := insp\<rparr>"

definition transact_one ::
  "((('g, 'j) ctx, 'insp, 'i, 'p, 'fs) ScrollEvm, 'err, 'res, 'j, 'st) run_ops \<Rightarrow> ScrollTransaction
     \<Rightarrow> ((('g, 'j) ctx, 'insp, 'i, 'p, 'fs) ScrollEvm, 'err, 'res) exec" where
  "transact_one R t self = h_run R (set_tx t self)"

definition inspect_one_tx ::
  "((('g, 'j) ctx, 'insp, 'i, 'p, 'fs) ScrollEvm, 'err, 'res, 'j, 'st) run_ops \<Rightarrow> ScrollTransaction
     \<Rightarrow> ((('g, 'j) ctx, 'insp, 'i, 'p, 'fs) ScrollEvm, 'err, 'res) exec" where
  "inspect_one_tx R t self = h_inspect_run R (set_tx t self)"

definition finalize ::
  "((('g, 'j) ctx, 'insp, 'i, 'p, 'fs) ScrollEvm, 'err, 'res, 'j, 'st) run_ops
     \<Rightarrow> (('g, 'j) ctx, 'insp, 'i, 'p, 'fs) ScrollEvm \<Rightarrow> 'st \<times> (('g, 'j) ctx, 'insp, 'i, 'p, 'fs) ScrollEvm" where
  "finalize R self =
     (case j_finalize R (journal (evm_ctx self)) of (st, j) \<Rightarrow>
        (st, self\<lparr>evm_ctx := (evm_ctx self)\<lparr>journal := j\<rparr>\<rparr>))"

definition replay ::
  "((('g, 'j) ctx, 'insp, 'i, 'p, 'fs) ScrollEvm, 'err, 'res, 'j, 'st) run_ops
     \<Rightarrow> ((('g, 'j) ctx, 'insp, 'i, 'p, 'fs) ScrollEvm, 'err, 'res \<times> 'st) exec" where
  "replay R = bind (h_run R) (\<lambda>result self. case finalize R self of (st, self') \<Rightarrow> (Ok (result, st), self'))"

definition commit ::
  "((('g, 'j) ctx, 'insp, 'i, 'p, 'fs) ScrollEvm, 'err, 'res, 'j, 'st) run_ops \<Rightarrow> 'st
     \<Rightarrow> (('g, 'j) ctx, 'insp, 'i, 'p, 'fs) ScrollEvm \<Rightarrow> (('g, 'j) ctx, 'insp, 'i, 'p, 'fs) ScrollEvm" where
  "commit R st self =
     self\<lparr>evm_ctx := (evm_ctx self)\<lparr>journal := db_commit R st (journal (evm_ctx self))\<rparr>\<rparr>"

definition system_call_one_with_caller ::
  "((('g, 'j) ctx, 'insp, 'i, 'p, 'fs) ScrollEvm, 'err, 'res, 'j, 'st) run_ops
     \<Rightarrow> (address \<Rightarrow> address \<Rightarrow> bytes \<Rightarrow> base_tx) \<Rightarrow> address \<Rightarrow> address \<Rightarrow> bytes
     \<Rightarrow> ((('g, 'j) ctx, 'insp, 'i, 'p, 'fs) ScrollEvm, 'err, 'res) exec" where
  "system_call_one_with_caller R new_base from system_contract_address data self =
     h_run_system_call R
       (set_tx (new_system_tx_with_caller new_base from system_contract_address data) self)"

definition transact_system_call_with_caller ::
  "((('g, 'j) ctx, 'insp, 'i, 'p, 'fs) ScrollEvm, 'err, 'res, 'j, 'st) run_ops
     \<Rightarrow> (address \<Rightarrow> address \<Rightarrow> bytes \<Rightarrow> base_tx) \<Rightarrow> address \<Rightarrow> address \<Rightarrow> bytes
     \<Rightarrow> ((('g, 'j) ctx, 'insp, 'i, 'p, 'fs) ScrollEvm, 'err, 'res) exec" where
  "transact_system_call_with_caller R new_base from system_contract_address data self =
     h_run_system_call R
       (set_tx (new_system_tx_with_caller new_base from system_contract_address data) self)"

section \<open>Sequences of API calls\<close>

inductive evm_reach ::
  "('i, 'h, 'gp, 'cp, 'w, 'e, 't, 'fs) evm_parts
     \<Rightarrow> (('g, 'j, 'insp, 'i, 'h, 'w, 'e, 't, 'fs) scroll_evm, 'err, 'res, 'j, 'st) run_ops
     \<Rightarrow> ('g, 'j) ctx \<Rightarrow> 'insp \<Rightarrow> ('g, 'j, 'insp, 'i, 'h, 'w, 'e, 't, 'fs) scroll_evm \<Rightarrow> bool"
  for P :: "('i, 'h, 'gp, 'cp, 'w, 'e, 't, 'fs) evm_parts"
    and R :: "(('g, 'j, 'insp, 'i, 'h, 'w, 'e, 't, 'fs) scroll_evm, 'err, 'res, 'j, 'st) run_ops"
    and c0 :: "('g, 'j) ctx" and insp0 :: 'insp where
  built: "evm_reach P R c0 insp0 (ScrollEvm_new P c0 insp0)"
| blocked: "evm_reach P R c0 insp0 e \<Longrightarrow> evm_reach P R c0 insp0 (set_block b e)"
| inspected: "evm_reach P R c0 insp0 e \<Longrightarrow> evm_reach P R c0 insp0 (set_inspector i e)"
| transacted: "evm_reach P R c0 insp0 e \<Longrightarrow> transact_one R t e = (r, e') \<Longrightarrow> evm_reach P R c0 insp0 e'"
| inspected_tx: "evm_reach P R c0 insp0 e \<Longrightarrow> inspect_one_tx R t e = (r, e') \<Longrightarrow> evm_reach P R c0 insp0 e'"
| system_called: "evm_reach P R c0 insp0 e \<Longrightarrow>
    system_call_one_with_caller R mk a s d e = (r, e') \<Longrightarrow> evm_reach P R c0 insp0 e'"
| replayed: "evm_reach P R c0 insp0 e \<Longrightarrow> replay R e = (q, e') \<Longrightarrow> evm_reach P R c0 insp0 e'"
| finalized: "evm_reach P R c0 insp0 e \<Longrightarrow> finalize R e = (st, e') \<Longrightarrow> evm_reach P R c0 insp0 e'"
| committed: "evm_reach P R c0 insp0 e \<Longrightarrow> evm_reach P R c0 insp0 (commit R st e)"

definition evm_consistent ::
  "('i, 'h, 'gp, 'cp, 'w, 'e, 't, 'fs) evm_parts \<Rightarrow> 'g cfg_env
     \<Rightarrow> ('g, 'j, 'insp, 'i, 'h, 'w, 'e, 't, 'fs) scroll_evm \<Rightarrow> bool" where
  "evm_consistent P g e \<longleftrightarrow>
     cfg (evm_ctx e) = g \<and> evm_instruction e = instructions_for P (cfg_spec g) \<and>
     evm_precompiles e = precompiles_for P (cfg_spec g)"

lemma set_spec_same: "snd (set_spec L N s (provider_new_with_spec L N s)) = provider_new_with_spec L N s"
  by (simp add: set_spec_def provider_new_with_spec_def)

lemma consistent_update:
  "evm_consistent P g (set_tx t e) = evm_consistent P g e"
  "evm_consistent P g (set_block b e) = evm_consistent P g e"
  "evm_consistent P g (set_inspector i e) = evm_consistent P g e"
  "evm_consistent P g (commit R st e) = evm_consistent P g e"
  "evm_consistent P g (snd (finalize R e)) = evm_consistent P g e"
  by (simp_all add: evm_consistent_def set_tx_def set_block_def set_inspector_def commit_def
      finalize_def split: prod.split)

text \<open>
  System calls: the transaction a system call by the system address installs needs no RLP bytes:
  where the handler would compute the L1 fee of another transaction and fail for lack of them, it
  rewards the beneficiary with the gas fee alone.
\<close>

theorem system_call_needs_no_rlp:
  assumes "base_caller (mk SYSTEM_ADDRESS a d) = SYSTEM_ADDRESS"
    and "tx c = new_system_tx_with_caller mk SYSTEM_ADDRESS a d" and "\<not> is_l1_msg (tx c)"
  shows "tx_l1_cost c (cfg_spec (cfg c)) =
      Err (CustomError ''[SCROLL] Failed to load transaction rlp_bytes.'') \<and>
    reward_beneficiary H fr c =
      on_journal (balance_incr (jrn H) (beneficiary (block c))
        (saturating_mul (ucast (effective_gas_price (txo H) (tx c) (ucast (basefee (block c)))))
          (ucast (gas_used (gmo H) (fr_gas fr))))) c"
proof -
  have "is_system_tx (tx c)" and "rlp_bytes (tx c) = None"
    using system_call_tx [of mk a d] assms(1) by (simp_all add: assms(2))
  moreover have "saturating_add x 0 = x" for x :: u256
    using unsigned_less [of x, where ?'a = nat] by (simp add: saturating_add_def)
  ultimately show ?thesis
    using assms(3) by (simp add: tx_l1_cost_def reward_beneficiary_def Let_def)
qed

section \<open>Instances\<close>

type_synonym mem_evm =
  "(nat \<Rightarrow> u64, mem_journal, unit, mem_interp, mem_host, mem_journal, string, unit, nat) scroll_evm"

definition mem_parts ::
  "(mem_interp, mem_host, u64 \<times> u64, (address \<Rightarrow> bool) \<times> (address \<Rightarrow> u256 \<Rightarrow> bool),
    mem_journal, string, unit, nat) evm_parts" where
  "mem_parts =
     \<lparr>base_table = (\<lambda>_ _. \<lparr>run_instruction = (\<lambda>i h. (i, h)), static_gas = 3\<rparr>),
      ops_of = evm_opcodes, interp_of = mem_interp_ops, host_of = mem_host_ops, lib_of = echo_lib,
      internals_of = mem_internals, frame_stack_new = 0\<rparr>"

definition run_system_base :: "address \<Rightarrow> address \<Rightarrow> bytes \<Rightarrow> base_tx" where
  "run_system_base from to data = (base (run_tx 0 from))\<lparr>base_kind := Call to, base_input := data\<rparr>"

theorem system_call_needs_no_rlp_witness:
  "tx_l1_cost (run_ctx TSUKI_V2 (new_system_tx_with_caller run_system_base SYSTEM_ADDRESS 1 []) 0)
     TSUKI_V2 = (Err (CustomError ''[SCROLL] Failed to load transaction rlp_bytes.'')
       :: (string evm_error, u256) outcome)"
proof -
  let ?c = "run_ctx TSUKI_V2 (new_system_tx_with_caller run_system_base SYSTEM_ADDRESS 1 []) 0"
  have "base_caller (run_system_base SYSTEM_ADDRESS 1 []) = SYSTEM_ADDRESS"
    and "tx ?c = new_system_tx_with_caller run_system_base SYSTEM_ADDRESS 1 []"
    and "\<not> is_l1_msg (tx ?c)"
    by (simp_all add: run_system_base_def run_tx_def ScrollTransaction_new_def run_ctx_def
        new_system_tx_with_caller_def is_l1_msg_def tx_type_def L1_MESSAGE_TYPE_def)
  from system_call_needs_no_rlp [OF this, THEN conjunct1, unfolded run_spec] show ?thesis .
qed

end
