(* ===== verification/EvmAccess.thy ===== *)
theory EvmAccess
  imports Evm
begin

text \<open>
  The accessors of the instance (\<open>src/evm.rs\<close>, the implementations of \<open>EvmTr\<close> and \<open>InspectorEvmTr\<close>).
  A method returning references to fields is a view of the instance; a method returning mutable
  references is a view with a \<open>put\<close>, and a use of the borrow is \<open>lend\<close>: the borrower sees the parts,
  and what it leaves in them is written back. The locale \<open>borrow\<close> holds what every such pair obeys;
  each accessor interprets it. The inner \<open>Evm\<close> the frame methods delegate to, and the current frame
  of a \<open>FrameStack\<close>, are \<open>revm\<close>'s: \<open>inner_evm_ops\<close> and \<open>frame_stack_ops\<close>.
\<close>

section \<open>Borrows\<close>

definition lend :: "('s \<Rightarrow> 'a) \<Rightarrow> ('a \<Rightarrow> 's \<Rightarrow> 's) \<Rightarrow> ('a \<Rightarrow> 'r \<times> 'a) \<Rightarrow> 's \<Rightarrow> 'r \<times> 's" where
  "lend view put f s = (case f (view s) of (r, a) \<Rightarrow> (r, put a s))"

locale borrow =
  fixes view :: "'s \<Rightarrow> 'a" and put :: "'a \<Rightarrow> 's \<Rightarrow> 's"
  assumes view_put: "view (put a s) = a"
    and put_view: "put (view s) s = s"
    and put_put: "put b (put a s) = put b s"
begin

lemma lend_writes: "view (snd (lend view put f s)) = snd (f (view s))"
  by (simp add: lend_def view_put split: prod.split)

lemma lend_reads:
  assumes "\<And>a. snd (f a) = a"
  shows "lend view put f s = (fst (f (view s)), s)"
proof -
  have "f (view s) = (fst (f (view s)), view s)" using assms by (simp add: prod_eq_iff)
  then show ?thesis by (metis (mono_tags, lifting) lend_def put_view split_conv)
qed

lemma lend_twice:
  "lend view put g (snd (lend view put f s)) =
     lend view put (\<lambda>a. g (snd (f a))) s"
  by (simp add: lend_def view_put put_put split: prod.split)

end

section \<open>\<open>EvmTr\<close>\<close>

definition evm_all :: "('c, 'insp, 'i, 'p, 'fs) ScrollEvm \<Rightarrow> 'c \<times> 'i \<times> 'p \<times> 'fs" where
  "evm_all self = (evm_ctx self, evm_instruction self, evm_precompiles self, evm_frame_stack self)"

definition put_all :: "'c \<times> 'i \<times> 'p \<times> 'fs \<Rightarrow> ('c, 'insp, 'i, 'p, 'fs) ScrollEvm \<Rightarrow> ('c, 'insp, 'i, 'p, 'fs) ScrollEvm" where
  "put_all = (\<lambda>(c, i, p, fs) self.
     self\<lparr>evm_ctx := c, evm_instruction := i, evm_precompiles := p, evm_frame_stack := fs\<rparr>)"

definition all_mut ::
  "('c \<times> 'i \<times> 'p \<times> 'fs \<Rightarrow> 'r \<times> ('c \<times> 'i \<times> 'p \<times> 'fs))
     \<Rightarrow> ('c, 'insp, 'i, 'p, 'fs) ScrollEvm \<Rightarrow> 'r \<times> ('c, 'insp, 'i, 'p, 'fs) ScrollEvm" where
  "all_mut = lend evm_all put_all"

definition put_ctx :: "'c \<Rightarrow> ('c, 'insp, 'i, 'p, 'fs) ScrollEvm \<Rightarrow> ('c, 'insp, 'i, 'p, 'fs) ScrollEvm" where
  "put_ctx c self = self\<lparr>evm_ctx := c\<rparr>"

definition ctx_mut ::
  "('c \<Rightarrow> 'r \<times> 'c) \<Rightarrow> ('c, 'insp, 'i, 'p, 'fs) ScrollEvm \<Rightarrow> 'r \<times> ('c, 'insp, 'i, 'p, 'fs) ScrollEvm" where
  "ctx_mut = lend evm_ctx put_ctx"

definition ctx_ref :: "('c, 'insp, 'i, 'p, 'fs) ScrollEvm \<Rightarrow> 'c" where
  "ctx_ref self = evm_ctx self"

definition see_ctx_instructions :: "('c, 'insp, 'i, 'p, 'fs) ScrollEvm \<Rightarrow> 'c \<times> 'i" where
  "see_ctx_instructions self = (evm_ctx self, evm_instruction self)"

definition put_ctx_instructions :: "'c \<times> 'i \<Rightarrow> ('c, 'insp, 'i, 'p, 'fs) ScrollEvm \<Rightarrow> ('c, 'insp, 'i, 'p, 'fs) ScrollEvm" where
  "put_ctx_instructions = (\<lambda>(c, i) self. self\<lparr>evm_ctx := c, evm_instruction := i\<rparr>)"

definition ctx_instructions ::
  "('c \<times> 'i \<Rightarrow> 'r \<times> ('c \<times> 'i)) \<Rightarrow> ('c, 'insp, 'i, 'p, 'fs) ScrollEvm
     \<Rightarrow> 'r \<times> ('c, 'insp, 'i, 'p, 'fs) ScrollEvm" where
  "ctx_instructions = lend see_ctx_instructions put_ctx_instructions"

definition see_ctx_precompiles :: "('c, 'insp, 'i, 'p, 'fs) ScrollEvm \<Rightarrow> 'c \<times> 'p" where
  "see_ctx_precompiles self = (evm_ctx self, evm_precompiles self)"

definition put_ctx_precompiles :: "'c \<times> 'p \<Rightarrow> ('c, 'insp, 'i, 'p, 'fs) ScrollEvm \<Rightarrow> ('c, 'insp, 'i, 'p, 'fs) ScrollEvm" where
  "put_ctx_precompiles = (\<lambda>(c, p) self. self\<lparr>evm_ctx := c, evm_precompiles := p\<rparr>)"

definition ctx_precompiles ::
  "('c \<times> 'p \<Rightarrow> 'r \<times> ('c \<times> 'p)) \<Rightarrow> ('c, 'insp, 'i, 'p, 'fs) ScrollEvm
     \<Rightarrow> 'r \<times> ('c, 'insp, 'i, 'p, 'fs) ScrollEvm" where
  "ctx_precompiles = lend see_ctx_precompiles put_ctx_precompiles"

definition put_frame_stack :: "'fs \<Rightarrow> ('c, 'insp, 'i, 'p, 'fs) ScrollEvm \<Rightarrow> ('c, 'insp, 'i, 'p, 'fs) ScrollEvm" where
  "put_frame_stack fs self = self\<lparr>evm_frame_stack := fs\<rparr>"

definition frame_stack_mut ::
  "('fs \<Rightarrow> 'r \<times> 'fs) \<Rightarrow> ('c, 'insp, 'i, 'p, 'fs) ScrollEvm \<Rightarrow> 'r \<times> ('c, 'insp, 'i, 'p, 'fs) ScrollEvm" where
  "frame_stack_mut = lend evm_frame_stack put_frame_stack"

text \<open>
  The frame methods of the inner \<open>Evm\<close>: what they return is an item (a new frame) or a result, a
  request for a new frame or a result, and the result once the last frame has been popped.
\<close>

record ('evm, 'e, 'fi, 'f, 'fr) inner_evm_ops =
  inner_frame_init :: "'fi \<Rightarrow> ('evm, 'e, 'f + 'fr) exec"
  inner_frame_run :: "('evm, 'e, 'fi + 'fr) exec"
  inner_frame_return_result :: "'fr \<Rightarrow> ('evm, 'e, 'fr option) exec"

definition frame_init ::
  "(('c, 'insp, 'i, 'p, 'fs) ScrollEvm, 'e, 'fi, 'f, 'fr) inner_evm_ops \<Rightarrow> 'fi
     \<Rightarrow> (('c, 'insp, 'i, 'p, 'fs) ScrollEvm, 'e, 'f + 'fr) exec" where
  "frame_init N frame_input = inner_frame_init N frame_input"

definition frame_run ::
  "(('c, 'insp, 'i, 'p, 'fs) ScrollEvm, 'e, 'fi, 'f, 'fr) inner_evm_ops
     \<Rightarrow> (('c, 'insp, 'i, 'p, 'fs) ScrollEvm, 'e, 'fi + 'fr) exec" where
  "frame_run N = inner_frame_run N"

definition frame_return_result ::
  "(('c, 'insp, 'i, 'p, 'fs) ScrollEvm, 'e, 'fi, 'f, 'fr) inner_evm_ops \<Rightarrow> 'fr
     \<Rightarrow> (('c, 'insp, 'i, 'p, 'fs) ScrollEvm, 'e, 'fr option) exec" where
  "frame_return_result N result = inner_frame_return_result N result"

section \<open>\<open>InspectorEvmTr\<close>\<close>

record ('fs, 'f) frame_stack_ops =
  fs_get :: "'fs \<Rightarrow> 'f"
  fs_put :: "'f \<Rightarrow> 'fs \<Rightarrow> 'fs"

definition all_inspector :: "('c, 'insp, 'i, 'p, 'fs) ScrollEvm \<Rightarrow> 'c \<times> 'i \<times> 'p \<times> 'fs \<times> 'insp" where
  "all_inspector self =
     (evm_ctx self, evm_instruction self, evm_precompiles self, evm_frame_stack self, evm_inspector self)"

definition put_all_inspector ::
  "'c \<times> 'i \<times> 'p \<times> 'fs \<times> 'insp \<Rightarrow> ('c, 'insp, 'i, 'p, 'fs) ScrollEvm \<Rightarrow> ('c, 'insp, 'i, 'p, 'fs) ScrollEvm" where
  "put_all_inspector = (\<lambda>(c, i, p, fs, n) self.
     self\<lparr>evm_ctx := c, evm_inspector := n, evm_instruction := i, evm_precompiles := p, evm_frame_stack := fs\<rparr>)"

definition all_mut_inspector ::
  "('c \<times> 'i \<times> 'p \<times> 'fs \<times> 'insp \<Rightarrow> 'r \<times> ('c \<times> 'i \<times> 'p \<times> 'fs \<times> 'insp))
     \<Rightarrow> ('c, 'insp, 'i, 'p, 'fs) ScrollEvm \<Rightarrow> 'r \<times> ('c, 'insp, 'i, 'p, 'fs) ScrollEvm" where
  "all_mut_inspector = lend all_inspector put_all_inspector"

definition put_inspector :: "'insp \<Rightarrow> ('c, 'insp, 'i, 'p, 'fs) ScrollEvm \<Rightarrow> ('c, 'insp, 'i, 'p, 'fs) ScrollEvm" where
  "put_inspector n self = self\<lparr>evm_inspector := n\<rparr>"

definition inspector_mut ::
  "('insp \<Rightarrow> 'r \<times> 'insp) \<Rightarrow> ('c, 'insp, 'i, 'p, 'fs) ScrollEvm \<Rightarrow> 'r \<times> ('c, 'insp, 'i, 'p, 'fs) ScrollEvm" where
  "inspector_mut = lend evm_inspector put_inspector"

definition see_ctx_inspector :: "('c, 'insp, 'i, 'p, 'fs) ScrollEvm \<Rightarrow> 'c \<times> 'insp" where
  "see_ctx_inspector self = (evm_ctx self, evm_inspector self)"

definition put_ctx_inspector :: "'c \<times> 'insp \<Rightarrow> ('c, 'insp, 'i, 'p, 'fs) ScrollEvm \<Rightarrow> ('c, 'insp, 'i, 'p, 'fs) ScrollEvm" where
  "put_ctx_inspector = (\<lambda>(c, n) self. self\<lparr>evm_ctx := c, evm_inspector := n\<rparr>)"

definition ctx_inspector ::
  "('c \<times> 'insp \<Rightarrow> 'r \<times> ('c \<times> 'insp)) \<Rightarrow> ('c, 'insp, 'i, 'p, 'fs) ScrollEvm
     \<Rightarrow> 'r \<times> ('c, 'insp, 'i, 'p, 'fs) ScrollEvm" where
  "ctx_inspector = lend see_ctx_inspector put_ctx_inspector"

definition see_ctx_inspector_frame ::
  "('fs, 'f) frame_stack_ops \<Rightarrow> ('c, 'insp, 'i, 'p, 'fs) ScrollEvm \<Rightarrow> 'c \<times> 'insp \<times> 'f" where
  "see_ctx_inspector_frame S self = (evm_ctx self, evm_inspector self, fs_get S (evm_frame_stack self))"

definition put_ctx_inspector_frame ::
  "('fs, 'f) frame_stack_ops \<Rightarrow> 'c \<times> 'insp \<times> 'f \<Rightarrow> ('c, 'insp, 'i, 'p, 'fs) ScrollEvm
     \<Rightarrow> ('c, 'insp, 'i, 'p, 'fs) ScrollEvm" where
  "put_ctx_inspector_frame S = (\<lambda>(c, n, f) self.
     self\<lparr>evm_ctx := c, evm_inspector := n, evm_frame_stack := fs_put S f (evm_frame_stack self)\<rparr>)"

definition ctx_inspector_frame ::
  "('fs, 'f) frame_stack_ops \<Rightarrow> ('c \<times> 'insp \<times> 'f \<Rightarrow> 'r \<times> ('c \<times> 'insp \<times> 'f))
     \<Rightarrow> ('c, 'insp, 'i, 'p, 'fs) ScrollEvm \<Rightarrow> 'r \<times> ('c, 'insp, 'i, 'p, 'fs) ScrollEvm" where
  "ctx_inspector_frame S = lend (see_ctx_inspector_frame S) (put_ctx_inspector_frame S)"

definition see_ctx_inspector_frame_instructions ::
  "('fs, 'f) frame_stack_ops \<Rightarrow> ('c, 'insp, 'i, 'p, 'fs) ScrollEvm \<Rightarrow> 'c \<times> 'insp \<times> 'f \<times> 'i" where
  "see_ctx_inspector_frame_instructions S self =
     (evm_ctx self, evm_inspector self, fs_get S (evm_frame_stack self), evm_instruction self)"

definition put_ctx_inspector_frame_instructions ::
  "('fs, 'f) frame_stack_ops \<Rightarrow> 'c \<times> 'insp \<times> 'f \<times> 'i \<Rightarrow> ('c, 'insp, 'i, 'p, 'fs) ScrollEvm
     \<Rightarrow> ('c, 'insp, 'i, 'p, 'fs) ScrollEvm" where
  "put_ctx_inspector_frame_instructions S = (\<lambda>(c, n, f, i) self.
     self\<lparr>evm_ctx := c, evm_inspector := n, evm_instruction := i,
       evm_frame_stack := fs_put S f (evm_frame_stack self)\<rparr>)"

definition ctx_inspector_frame_instructions ::
  "('fs, 'f) frame_stack_ops \<Rightarrow> ('c \<times> 'insp \<times> 'f \<times> 'i \<Rightarrow> 'r \<times> ('c \<times> 'insp \<times> 'f \<times> 'i))
     \<Rightarrow> ('c, 'insp, 'i, 'p, 'fs) ScrollEvm \<Rightarrow> 'r \<times> ('c, 'insp, 'i, 'p, 'fs) ScrollEvm" where
  "ctx_inspector_frame_instructions S =
     lend (see_ctx_inspector_frame_instructions S) (put_ctx_inspector_frame_instructions S)"

section \<open>The accessors are borrows\<close>

lemmas evm_views = evm_all_def put_all_def put_ctx_def see_ctx_instructions_def put_ctx_instructions_def
  see_ctx_precompiles_def put_ctx_precompiles_def put_frame_stack_def all_inspector_def
  put_all_inspector_def put_inspector_def see_ctx_inspector_def put_ctx_inspector_def

interpretation ev_all: borrow evm_all put_all
  by unfold_locales (auto simp: evm_views split: prod.split)

interpretation ev_ctx: borrow evm_ctx put_ctx
  by unfold_locales (auto simp: evm_views)

interpretation ev_instructions: borrow see_ctx_instructions put_ctx_instructions
  by unfold_locales (auto simp: evm_views split: prod.split)

interpretation ev_precompiles: borrow see_ctx_precompiles put_ctx_precompiles
  by unfold_locales (auto simp: evm_views split: prod.split)

interpretation ev_frames: borrow evm_frame_stack put_frame_stack
  by unfold_locales (auto simp: evm_views)

interpretation ev_all_inspector: borrow all_inspector put_all_inspector
  by unfold_locales (auto simp: evm_views split: prod.split)

interpretation ev_inspector: borrow evm_inspector put_inspector
  by unfold_locales (auto simp: evm_views)

interpretation ev_ctx_inspector: borrow see_ctx_inspector put_ctx_inspector
  by unfold_locales (auto simp: evm_views split: prod.split)

text \<open>The current frame of a frame stack is itself borrowed; through it, so is the accessor's triple.\<close>

lemma frame_borrow:
  assumes "borrow (fs_get S) (fs_put S)"
  shows "borrow (see_ctx_inspector_frame S) (put_ctx_inspector_frame S)"
    and "borrow (see_ctx_inspector_frame_instructions S) (put_ctx_inspector_frame_instructions S)"
  using borrow.view_put [OF assms] borrow.put_view [OF assms] borrow.put_put [OF assms]
  by (unfold_locales; auto simp: see_ctx_inspector_frame_def put_ctx_inspector_frame_def
      see_ctx_inspector_frame_instructions_def put_ctx_inspector_frame_instructions_def split: prod.split)+


text \<open>
  The accessors hand out the instance's own parts: what a borrower leaves in the context, inspector,
  current frame and instruction table it got from \<open>ctx_inspector_frame_instructions\<close> is what \<open>ctx_ref\<close>,
  \<open>inspector\<close>, \<open>frame_stack\<close>, \<open>all\<close> and \<open>ctx_inspector_frame\<close> hand out next; the borrower's result
  is returned, and the precompiles are as they were.
\<close>

theorem accessors_write_through:
  assumes "borrow (fs_get S) (fs_put S)"
    and "f (evm_ctx e, evm_inspector e, fs_get S (evm_frame_stack e), evm_instruction e) = (r, c, n, fr, i)"
  shows "\<exists>e' fs. ctx_inspector_frame_instructions S f e = (r, e') \<and>
    ctx_ref e' = c \<and> fst (inspector_mut (\<lambda>x. (x, x)) e') = n \<and>
    frame_stack_mut (\<lambda>x. (fs_get S x, x)) e' = (fr, e') \<and>
    evm_all e' = (c, i, evm_precompiles e, fs) \<and>
    ctx_inspector_frame S (\<lambda>x. (x, x)) e' = ((c, n, fr), e')"
proof -
  let ?e = "put_ctx_inspector_frame_instructions S (c, n, fr, i) e"
  have run: "ctx_inspector_frame_instructions S f e = (r, ?e)"
    using assms(2) by (simp add: ctx_inspector_frame_instructions_def lend_def
        see_ctx_inspector_frame_instructions_def)
  show ?thesis
    unfolding run
    using borrow.view_put [OF assms(1)] borrow.put_put [OF assms(1)] borrow.put_view [OF assms(1)]
    by (simp add: put_ctx_inspector_frame_instructions_def ctx_ref_def inspector_mut_def
        frame_stack_mut_def ctx_inspector_frame_def see_ctx_inspector_frame_def
        put_ctx_inspector_frame_def lend_def evm_views)
qed

text \<open>A frame stack as its current frame and the suspended ones.\<close>

definition split_stack :: "('f \<times> 'f list, 'f) frame_stack_ops" where
  "split_stack = \<lparr>fs_get = fst, fs_put = (\<lambda>f s. (f, snd s))\<rparr>"

interpretation split: borrow "fs_get split_stack" "fs_put split_stack"
  by unfold_locales (simp_all add: split_stack_def)

definition small_evm :: "(nat, string, nat, unit, nat \<times> nat list) ScrollEvm" where
  "small_evm = \<lparr>evm_ctx = 1, evm_inspector = ''idle'', evm_instruction = 3, evm_precompiles = (),
     evm_frame_stack = (7, [8])\<rparr>"

theorem accessors_write_through_witness:
  "\<exists>e' fs. ctx_inspector_frame_instructions split_stack (\<lambda>_. (True, 2, ''seen'', 9, 4)) small_evm =
       (True, e') \<and> ctx_ref e' = 2 \<and> evm_all e' = (2, 4, (), fs)"
  using accessors_write_through [OF split.borrow_axioms,
      where e = small_evm and f = "\<lambda>_. (True, 2, ''seen'', 9, 4)", OF refl]
  by auto

end
