(* ===== verification/Lifecycle.thy ===== *)
theory Lifecycle
  imports Evm
begin

text \<open>
  A whole transaction. The provided \<open>run\<close> of \<open>revm\<close>'s \<open>Handler\<close> calls the methods of the handler in a
  fixed, documented order: validation, \<open>pre_execution\<close>, the frames and \<open>last_frame_result\<close>, then
  \<open>refund\<close>, \<open>eip7623_check_gas_floor\<close>, \<open>reimburse_caller\<close>, \<open>reward_beneficiary\<close>, \<open>execution_result\<close>.
  The relation \<open>tx_step\<close> is that order, one step per method of the crate; the frames (\<open>revm\<close>'s interpreter
  loop) are a relation \<open>F\<close>. The locale \<open>settlement\<close> adds to \<open>mainnet_handler\<close> and \<open>gas_meter\<close> what
  \<open>revm\<close>'s refund, floor, reimbursement and frames promise. The ledger invariant says that what is
  missing from the accounts at any stage is exactly what the transaction still has to give back.
\<close>

section \<open>The stages of a transaction\<close>

datatype ('ir, 'gas, 'res) phase =
  Received
| Validated init_gas
| Charged init_gas u64
| Executed init_gas u64 "('ir, 'gas) frame_result"
| Refunded init_gas "('ir, 'gas) frame_result"
| Floored init_gas "('ir, 'gas) frame_result"
| Reimbursed init_gas "('ir, 'gas) frame_result"
| Rewarded init_gas "('ir, 'gas) frame_result"
| Finished 'res

type_synonym ('g, 'j, 'ir, 'gas) frames =
  "init_gas \<Rightarrow> ('g, 'j) ctx \<Rightarrow> ('ir, 'gas) frame_result \<Rightarrow> ('g, 'j) ctx \<Rightarrow> bool"

inductive tx_step ::
  "('g, 'j, 'd, 'ir, 'gas, 'rg, 'res) handler_ops \<Rightarrow> ('g, 'j, 'ir, 'gas) frames
     \<Rightarrow> ('ir, 'gas, 'res) phase \<times> ('g, 'j) ctx \<Rightarrow> ('ir, 'gas, 'res) phase \<times> ('g, 'j) ctx \<Rightarrow> bool"
  for H :: "('g, 'j, 'd, 'ir, 'gas, 'rg, 'res) handler_ops" and F :: "('g, 'j, 'ir, 'gas) frames" where
  validated: "validate_env H c = Ok () \<Longrightarrow> validate_initial_tx_gas H c = Ok g \<Longrightarrow>
    tx_step H F (Received, c) (Validated g, c)"
| charged: "pre_execution H c = (Ok n, d) \<Longrightarrow> tx_step H F (Validated g, c) (Charged g n, d)"
| executed: "F g c fr b \<Longrightarrow> last_frame_result H fr b = (Ok fr', d) \<Longrightarrow>
    tx_step H F (Charged g n, c) (Executed g n fr', d)"
| refunded: "refund H fr n c = (fr', d) \<Longrightarrow> tx_step H F (Executed g n fr, c) (Refunded g fr', d)"
| floored: "eip7623_check_gas_floor H fr g c = (fr', d) \<Longrightarrow>
    tx_step H F (Refunded g fr, c) (Floored g fr', d)"
| reimbursed: "reimburse_caller H fr c = (Ok fr', d) \<Longrightarrow>
    tx_step H F (Floored g fr, c) (Reimbursed g fr', d)"
| rewarded: "reward_beneficiary H fr c = (Ok (), d) \<Longrightarrow>
    tx_step H F (Reimbursed g fr, c) (Rewarded g fr, d)"
| finished: "execution_result H fr rg c = (Ok r, d) \<Longrightarrow>
    tx_step H F (Rewarded g fr, c) (Finished r, d)"

inductive_cases rewarded_cases: "tx_step H F (Rewarded g fr, c) q"
inductive_simps received_step: "tx_step H F (Received, c) q"

section \<open>What is relied on of the stages that are not the crate's\<close>

definition unit_price :: "('g, 'j, 'd, 'ir, 'gas, 'rg, 'res) handler_ops \<Rightarrow> ('g, 'j) ctx \<Rightarrow> nat" where
  "unit_price H c = unat (effective_gas_price (txo H) (tx c) (ucast (basefee (block c))))"

definition total_supply :: "('g, 'j, 'd, 'ir, 'gas, 'rg, 'res) handler_ops \<Rightarrow> ('g, 'j) ctx \<Rightarrow> nat" where
  "total_supply H c = (\<Sum>a\<in>UNIV. unat (balances H c a))"

definition gas_bounded :: "('g, 'j, 'd, 'ir, 'gas, 'rg, 'res) handler_ops \<Rightarrow> u64 \<Rightarrow> ('ir, 'gas) frame_result \<Rightarrow> bool" where
  "gas_bounded H limit fr \<longleftrightarrow>
     gas_total (gmo H) (fr_gas fr) = limit \<and>
     unat (remaining (gmo H) (fr_gas fr)) + unat (refunded (gmo H) (fr_gas fr)) \<le> unat limit"

text \<open>
  The gas charge is the gas limit at the effective price (no blob fee, for any type but EIP-4844),
  computed in 128 bits; used gas is spent gas less the refund; the final refund is capped below the
  gas spent; the floor keeps the meter within its limit; the caller is reimbursed remaining gas and
  refund at the effective price; frames move value between accounts only.
\<close>

locale settlement = mainnet_handler H gas_charge + gas_meter "gmo H"
  for H :: "('g, 'j, 'd, 'ir, 'gas, 'rg, 'res) handler_ops" and gas_charge +
  fixes F :: "('g, 'j, 'ir, 'gas) frames"
  assumes charge_price:
      "mn_validate_against_state_and_deduct_caller H c = (Ok (), d) \<Longrightarrow>
         tx_type_of H (tx_type (tx c)) \<noteq> Eip4844 \<Longrightarrow>
         unat (gas_charge (tx c) (block c)) = unit_price H c * unat (gas_limit (tx c)) \<and>
         unit_price H c * unat (gas_limit (tx c)) < 2 ^ 128"
    and used_gas:
      "unat (remaining (gmo H) m) + unat (refunded (gmo H) m) \<le> unat (gas_total (gmo H) m) \<Longrightarrow>
         unat (gas_used (gmo H) m) =
           unat (gas_total (gmo H) m) - unat (remaining (gmo H) m) - unat (refunded (gmo H) m)"
    and refund_capped:
      "unat (remaining (gmo H) m) \<le> unat (gas_total (gmo H) m) \<Longrightarrow>
         gas_total (gmo H) (mn_refund H s m n) = gas_total (gmo H) m \<and>
         unat (remaining (gmo H) (mn_refund H s m n)) + unat (refunded (gmo H) (mn_refund H s m n))
           \<le> unat (gas_total (gmo H) m)"
    and floor_frame:
      "mn_eip7623_check_gas_floor H fr g c = (fr', d) \<Longrightarrow>
         env_of d = env_of c \<and> balances H d = balances H c \<and>
         (gas_bounded H l fr \<longrightarrow> gas_bounded H l fr')"
    and reimburse_frame:
      "mn_reimburse_caller H fr c = (Ok fr', d) \<Longrightarrow> env_of d = env_of c \<and> fr_gas fr' = fr_gas fr"
    and reimburse_pays:
      "mn_reimburse_caller H fr c = (Ok fr', d) \<Longrightarrow> gas_bounded H (gas_limit (tx c)) fr \<Longrightarrow>
         v = unit_price H c * (unat (remaining (gmo H) (fr_gas fr)) + unat (refunded (gmo H) (fr_gas fr))) \<Longrightarrow>
         v < 2 ^ 128 \<Longrightarrow> unat (balances H c (caller (tx c))) + v < 2 ^ 256 \<Longrightarrow>
         balances H d = (balances H c)
           (caller (tx c) := balances H c (caller (tx c)) + of_nat v)"
    and result_balances:
      "mn_execution_result H fr rg c = (Ok r, d) \<Longrightarrow> env_of d = env_of c \<and> balances H d = balances H c"
    and frames_env: "F g c fr d \<Longrightarrow> env_of d = env_of c"
    and frames_supply: "F g c fr d \<Longrightarrow> total_supply H d = total_supply H c"
    and frames_gas: "F g c fr d \<Longrightarrow> unat (remaining (gmo H) (fr_gas fr)) \<le> unat (gas_limit (tx c))"

section \<open>The ledger\<close>

text \<open>The L1 fee of a fee-charged transaction on the stored snapshot; nothing for any other.\<close>

definition l1_fee_of :: "('g, 'j) ctx \<Rightarrow> u256 option" where
  "l1_fee_of c =
     (case rlp_bytes (tx c) of
        None \<Rightarrow> None
      | Some rlp \<Rightarrow>
          (case try_calculate_tx_l1_cost (l1_block_info (chain c)) rlp (cfg_spec (cfg c))
             (compression_ratio (tx c)) (compressed_size (tx c)) of
             Ok fee \<Rightarrow> Some fee | _ \<Rightarrow> None))"

definition l1_part :: "('g, 'j) ctx \<Rightarrow> nat" where
  "l1_part c = (if fee_charged (tx c) then (case l1_fee_of c of Some fee \<Rightarrow> unat fee | None \<Rightarrow> 0) else 0)"

fun escrow ::
  "('g, 'j, 'd, 'ir, 'gas, 'rg, 'res) handler_ops \<Rightarrow> ('g, 'j) ctx \<Rightarrow> ('ir, 'gas, 'res) phase \<Rightarrow> nat" where
  "escrow H c Received = 0"
| "escrow H c (Validated g) = 0"
| "escrow H c (Charged g n) =
     (if is_l1_msg (tx c) then 0 else unit_price H c * unat (gas_limit (tx c)) + l1_part c)"
| "escrow H c (Executed g n fr) =
     (if is_l1_msg (tx c) then 0 else unit_price H c * unat (gas_limit (tx c)) + l1_part c)"
| "escrow H c (Refunded g fr) =
     (if is_l1_msg (tx c) then 0 else unit_price H c * unat (gas_limit (tx c)) + l1_part c)"
| "escrow H c (Floored g fr) =
     (if is_l1_msg (tx c) then 0 else unit_price H c * unat (gas_limit (tx c)) + l1_part c)"
| "escrow H c (Reimbursed g fr) =
     (if is_l1_msg (tx c) then 0 else unit_price H c * unat (gas_used (gmo H) (fr_gas fr)) + l1_part c)"
| "escrow H c (Rewarded g fr) = 0"
| "escrow H c (Finished r) = 0"

definition charge_ok :: "('g, 'j, 'd, 'ir, 'gas, 'rg, 'res) handler_ops \<Rightarrow> ('g, 'j) ctx \<Rightarrow> bool" where
  "charge_ok H c \<longleftrightarrow>
     (\<not> is_l1_msg (tx c) \<longrightarrow> unit_price H c * unat (gas_limit (tx c)) < 2 ^ 128) \<and>
     (fee_charged (tx c) \<longrightarrow> l1_fee_of c \<noteq> None)"

fun phase_ok ::
  "('g, 'j, 'd, 'ir, 'gas, 'rg, 'res) handler_ops \<Rightarrow> ('g, 'j) ctx \<Rightarrow> ('ir, 'gas, 'res) phase \<Rightarrow> bool" where
  "phase_ok H c Received \<longleftrightarrow> True"
| "phase_ok H c (Validated g) \<longleftrightarrow> tx_type_of H (tx_type (tx c)) \<noteq> Eip4844"
| "phase_ok H c (Charged g n) \<longleftrightarrow> charge_ok H c"
| "phase_ok H c (Executed g n fr) \<longleftrightarrow> charge_ok H c \<and>
     gas_total (gmo H) (fr_gas fr) = gas_limit (tx c) \<and>
     unat (remaining (gmo H) (fr_gas fr)) \<le> unat (gas_limit (tx c))"
| "phase_ok H c (Refunded g fr) \<longleftrightarrow>
     charge_ok H c \<and> (\<not> is_l1_msg (tx c) \<longrightarrow> gas_bounded H (gas_limit (tx c)) fr)"
| "phase_ok H c (Floored g fr) \<longleftrightarrow>
     charge_ok H c \<and> (\<not> is_l1_msg (tx c) \<longrightarrow> gas_bounded H (gas_limit (tx c)) fr)"
| "phase_ok H c (Reimbursed g fr) \<longleftrightarrow>
     charge_ok H c \<and> (\<not> is_l1_msg (tx c) \<longrightarrow> gas_bounded H (gas_limit (tx c)) fr)"
| "phase_ok H c (Rewarded g fr) \<longleftrightarrow> True"
| "phase_ok H c (Finished r) \<longleftrightarrow> True"

definition ledger ::
  "('g, 'j, 'd, 'ir, 'gas, 'rg, 'res) handler_ops \<Rightarrow> ('g, 'j) ctx
     \<Rightarrow> ('ir, 'gas, 'res) phase \<times> ('g, 'j) ctx \<Rightarrow> bool" where
  "ledger H c0 = (\<lambda>(p, c).
     tx c = tx c0 \<and> cfg c = cfg c0 \<and> block c = block c0 \<and>
     total_supply H c + escrow H c p = total_supply H c0 \<and> phase_ok H c p)"

lemma ledger_supply:
  "ledger H c0 (p, c) \<Longrightarrow> total_supply H c + escrow H c p = total_supply H c0"
  by (simp add: ledger_def)

lemma ledger_phase: "ledger H c0 (p, c) \<Longrightarrow> phase_ok H c p"
  by (simp add: ledger_def)

section \<open>Sums of balances\<close>

lemma sum_balances_upd:
  fixes b :: "address \<Rightarrow> u256"
  shows "(\<Sum>x\<in>UNIV. unat ((b(a := v)) x)) + unat (b a) = (\<Sum>x\<in>UNIV. unat (b x)) + unat v"
proof -
  have "(\<Sum>x\<in>UNIV. unat (f x)) = unat (f a) + (\<Sum>x\<in>UNIV - {a}. unat (f x))"
    for f :: "address \<Rightarrow> u256" by (simp add: sum.remove)
  from this [of "b(a := v)"] this [of b] show ?thesis by simp
qed

lemma balance_le_supply: "unat (balances H c a) \<le> total_supply H c"
  unfolding total_supply_def by (rule member_le_sum) simp_all

lemma supply_balances: "balances H d = balances H c \<Longrightarrow> total_supply H d = total_supply H c"
  by (simp add: total_supply_def)

lemma supply_charged:
  assumes "charged H gas_charge c fee d"
  shows "total_supply H d + unat (gas_charge (tx c) (block c)) + unat fee = total_supply H c"
proof -
  let ?a = "caller (tx c)"
  have "balances H d = (balances H c)(?a := balances H d ?a)"
    using assms by (auto simp: charged_def)
  then have "total_supply H d + unat (balances H c ?a) = total_supply H c + unat (balances H d ?a)"
    using sum_balances_upd [of "balances H c" ?a "balances H d ?a"] by (simp add: total_supply_def)
  then show ?thesis using assms by (simp add: charged_def)
qed

lemma supply_credited:
  assumes "balances H d = (balances H c)(a := balances H c a + of_nat v)"
    and "unat (balances H c a) + v < 2 ^ 256"
  shows "total_supply H d = total_supply H c + v"
proof -
  have "unat (balances H c a + of_nat v) = unat (balances H c a) + v"
    using assms(2) by (simp add: unat_word_ariths unat_of_nat take_bit_eq_mod)
  then show ?thesis
    using sum_balances_upd [of "balances H c" a "balances H c a + of_nat v"] assms(1)
    by (simp add: total_supply_def)
qed

section \<open>The ledger is kept\<close>

lemma tx_l1_cost_fee:
  "tx_l1_cost c (cfg_spec (cfg c)) = (Ok fee :: ('d evm_error, u256) outcome) \<longleftrightarrow> l1_fee_of c = Some fee"
  by (auto simp: tx_l1_cost_Ok l1_fee_of_def split: option.splits outcome.splits)

lemma ledger_env:
  assumes "env_of d = env_of c"
  shows "unit_price H d = unit_price H c" "l1_part d = l1_part c" "charge_ok H d = charge_ok H c"
    "escrow H d p = escrow H c p"
proof -
  have e: "tx d = tx c" "cfg d = cfg c" "block d = block c" "chain d = chain c"
    using env_ofD [OF assms] by simp_all
  show u: "unit_price H d = unit_price H c" by (simp add: unit_price_def e)
  have f: "l1_fee_of d = l1_fee_of c" unfolding l1_fee_of_def e ..
  show p: "l1_part d = l1_part c" by (simp add: l1_part_def e f)
  show "charge_ok H d = charge_ok H c" by (simp add: charge_ok_def e u f)
  show "escrow H d p = escrow H c p" by (cases p) (simp_all add: e u p)
qed

context mainnet_handler begin

lemma pre_execution_deducts:
  assumes "pre_execution H c = (Ok n, d)" and "\<not> is_l1_msg (tx c)"
  obtains x y where "mn_validate_against_state_and_deduct_caller H x = (Ok (), y)"
    and "tx x = tx c" "cfg x = cfg c" "block x = block c"
proof -
  obtain c1 c2 where c1: "refresh_l1_block_info H c = (Ok (), c1)"
    and c2: "validate_against_state_and_deduct_caller H c1 = (Ok (), c2)"
    using assms(1) by (rule pre_execution_Ok)
  have e: "tx c1 = tx c" "cfg c1 = cfg c" "block c1 = block c"
    using refresh_charged(1-3) [OF c1] refresh_uncharged [of c] c1 assms(2)
    by (cases "is_system_tx (tx c)"; simp)+
  have "\<exists>x y. mn_validate_against_state_and_deduct_caller H x = (Ok (), y) \<and> (env_of x = env_of c1)"
  proof (cases "TSUKI_V2 \<le> cfg_spec (cfg c1)")
    case False
    then have "deduct_before_tsuki_v2 H c1 = (Ok (), c2)"
      using c2 assms(2) e by (simp add: validate_not_l1_msg)
    then show ?thesis
      using assms(2) e by (auto simp: deduct_before_tsuki_v2_def bind_Ok Let_def)
  next
    case True
    then have "deduct_from_tsuki_v2 H c1 = (Ok (), c2)"
      using c2 assms(2) e by (simp add: validate_not_l1_msg)
    then obtain fee x y where "tsuki_v2_check H c1 = (Ok fee, x) \<or> x = c1"
      and "mn_validate_against_state_and_deduct_caller H x = (Ok (), y)"
      using assms(2) e by (auto simp: deduct_from_tsuki_v2_def bind_Ok Let_def split: if_splits)
    moreover from this(1) have "env_of x = env_of c1" by (metis tsuki_v2_check_Ok)
    ultimately show ?thesis by blast
  qed
  then obtain x y where mn: "mn_validate_against_state_and_deduct_caller H x = (Ok (), y)"
    and "env_of x = env_of c1" by blast
  from env_ofD [OF this(2)] e show thesis by (intro that [OF mn]) simp_all
qed

end

context settlement begin

lemma charged_step:
  assumes "pre_execution H c = (Ok n, d)" and "tx_type_of H (tx_type (tx c)) \<noteq> Eip4844"
  shows "tx d = tx c \<and> cfg d = cfg c \<and> block d = block c \<and>
    total_supply H d + escrow H d (Charged g n) = total_supply H c \<and> charge_ok H d"
proof (cases "is_l1_msg (tx c)")
  case True
  note l1 = pre_execution_l1_msg [OF assms(1) True]
  show ?thesis
    using True env_ofD [OF l1(1)] supply_balances [OF l1(2)] by (simp add: charge_ok_def)
next
  case False
  obtain x y where "mn_validate_against_state_and_deduct_caller H x = (Ok (), y)"
    and x: "tx x = tx c" "cfg x = cfg c" "block x = block c"
    using assms(1) False by (rule pre_execution_deducts)
  from charge_price [OF this(1)] assms(2) x
  have price: "unat (gas_charge (tx c) (block c)) = unit_price H c * unat (gas_limit (tx c))"
    and small: "unit_price H c * unat (gas_limit (tx c)) < 2 ^ 128"
    by (simp_all add: unit_price_def)
  have "\<exists>fee. charged H gas_charge c fee d \<and> l1_part d = unat fee \<and>
      (fee_charged (tx c) \<longrightarrow> l1_fee_of d \<noteq> None)"
  proof (cases "is_system_tx (tx c)")
    case True
    from pre_execution_system(1) [OF assms(1) False True] show ?thesis
      using True by (intro exI [of _ 0]) (simp add: l1_part_def charged_def)
  next
    case sys: False
    from pre_execution_cost [OF assms(1)] False sys obtain fee where
      fee: "tx_l1_cost d (cfg_spec (cfg d)) = (Ok fee :: (unit evm_error, u256) outcome)"
      and ch: "charged H gas_charge c fee d" by blast
    then show ?thesis
      using False sys by (intro exI [of _ fee]) (simp add: l1_part_def charged_def tx_l1_cost_fee)
  qed
  then obtain fee where ch: "charged H gas_charge c fee d" and p: "l1_part d = unat fee"
    and f: "fee_charged (tx c) \<longrightarrow> l1_fee_of d \<noteq> None" by blast
  have e: "tx d = tx c" "cfg d = cfg c" "block d = block c" using ch by (simp_all add: charged_def)
  then have u: "unit_price H d = unit_price H c" by (simp add: unit_price_def)
  show ?thesis
    using supply_charged [OF ch] e f small False price by (simp add: charge_ok_def p u)
qed

lemma executed_step:
  assumes "F g c fr b" and "last_frame_result H fr b = (Ok fr', d)" and "phase_ok H c (Charged g n)"
  shows "env_of d = env_of c \<and> total_supply H d = total_supply H c \<and> phase_ok H d (Executed g n fr')"
proof -
  note b = frames_env [OF assms(1)] frames_supply [OF assms(1)]
  have d: "d = b" using assms(2) by (simp add: last_frame_result_def Let_def)
  have "gas_total (gmo H) (fr_gas fr') = gas_limit (tx b)"
    and "unat (remaining (gmo H) (fr_gas fr')) \<le> unat (remaining (gmo H) (fr_gas fr))"
    using assms(2) by (auto simp: last_frame_result_def Let_def new_spent erase refund)
  then show ?thesis
    using b d frames_gas [OF assms(1)] assms(3) ledger_env(3) [OF b(1), where H = H] env_ofD [OF b(1)] by simp
qed

lemma refunded_step:
  assumes "Handler.refund H fr n c = (fr', d)" and "phase_ok H c (Executed g n fr)"
  shows "d = c \<and> phase_ok H c (Refunded g fr')"
proof (cases "is_l1_msg (tx c)")
  case True
  then show ?thesis using assms by (simp add: Handler.refund_def charge_ok_def)
next
  case False
  then show ?thesis
    using assms refund_capped [of "fr_gas fr"]
    by (auto simp: Handler.refund_def Let_def gas_bounded_def)
qed

lemma floored_step:
  assumes "eip7623_check_gas_floor H fr g c = (fr', d)" and "phase_ok H c (Refunded g fr)"
  shows "env_of d = env_of c \<and> balances H d = balances H c \<and> phase_ok H d (Floored g fr')"
proof (cases "is_l1_msg (tx c)")
  case True
  then show ?thesis using assms by (simp add: eip7623_check_gas_floor_def charge_ok_def)
next
  case False
  then have "mn_eip7623_check_gas_floor H fr g c = (fr', d)"
    using assms(1) by (simp add: eip7623_check_gas_floor_def)
  note f = floor_frame [OF this, of "gas_limit (tx c)"]
  then show ?thesis
    using assms(2) False ledger_env(3) [of d c, where H = H] env_ofD [of d c] by simp
qed

text \<open>Nobody holds more than there is, so a credit of what is in escrow cannot overflow.\<close>

lemma credit_fits:
  assumes "total_supply H c + x \<le> total_supply H c0" and "total_supply H c0 < 2 ^ 256"
  shows "unat (balances H c a) + x < 2 ^ 256"
  using assms balance_le_supply [of H c a] by linarith

lemma reimburse_credits:
  assumes "reimburse_caller H fr c = (Ok fr', d)" and "phase_ok H c (Floored g fr)"
    and "\<not> is_l1_msg (tx c)" and "total_supply H c + escrow H c (Floored g fr) < 2 ^ 256"
    and "v = unit_price H c * (unat (gas_limit (tx c)) - unat (gas_used (gmo H) (fr_gas fr)))"
  shows "env_of d = env_of c" and "fr_gas fr' = fr_gas fr"
    and "balances H d = (balances H c)(caller (tx c) := balances H c (caller (tx c)) + of_nat v)"
    and "unat (balances H c (caller (tx c))) + v < 2 ^ 256"
    and "unat (gas_used (gmo H) (fr_gas fr)) \<le> unat (gas_limit (tx c))"
proof -
  let ?m = "fr_gas fr" and ?L = "unat (gas_limit (tx c))" and ?p = "unit_price H c"
  let ?left = "unat (remaining (gmo H) ?m) + unat (refunded (gmo H) ?m)"
  have mn: "mn_reimburse_caller H fr c = (Ok fr', d)"
    using assms(1,3) by (simp add: reimburse_caller_def)
  from reimburse_frame [OF mn] show "env_of d = env_of c" and "fr_gas fr' = fr_gas fr" by auto
  have gb: "gas_bounded H (gas_limit (tx c)) fr" using assms(2,3) by simp
  have bd: "gas_total (gmo H) ?m = gas_limit (tx c)" "?left \<le> ?L" and pL: "?p * ?L < 2 ^ 128"
    using assms(2,3) by (simp_all add: gas_bounded_def charge_ok_def)
  have used: "unat (gas_used (gmo H) ?m) = ?L - ?left" using used_gas [of ?m] bd by simp
  then show "unat (gas_used (gmo H) ?m) \<le> ?L" by simp
  have v: "v = ?p * ?left" using bd(2) by (simp add: assms(5) used)
  have le: "?p * ?left \<le> ?p * ?L" using bd(2) by simp
  have small: "v < 2 ^ 128" using pL le unfolding v by linarith
  have "total_supply H c + ?p * ?L < 2 ^ 256" using assms(3,4) by simp
  then show fits: "unat (balances H c (caller (tx c))) + v < 2 ^ 256"
    using le balance_le_supply [of H c "caller (tx c)"] unfolding v by linarith
  show "balances H d = (balances H c)(caller (tx c) := balances H c (caller (tx c)) + of_nat v)"
    by (rule reimburse_pays [OF mn gb v small fits])
qed

lemma reimbursed_step:
  assumes "reimburse_caller H fr c = (Ok fr', d)" and "phase_ok H c (Floored g fr)"
    and "total_supply H c + escrow H c (Floored g fr) < 2 ^ 256"
  shows "env_of d = env_of c \<and> phase_ok H d (Reimbursed g fr') \<and>
    total_supply H d + escrow H d (Reimbursed g fr') = total_supply H c + escrow H c (Floored g fr)"
proof (cases "is_l1_msg (tx c)")
  case True
  then show ?thesis using assms by (auto simp: reimburse_caller_def charge_ok_def)
next
  case False
  let ?L = "unat (gas_limit (tx c))" and ?p = "unit_price H c" and ?u = "unat (gas_used (gmo H) (fr_gas fr))"
  note r = reimburse_credits [OF assms(1,2) False assms(3) refl]
  have "total_supply H d = total_supply H c + ?p * (?L - ?u)" by (rule supply_credited [OF r(3,4)])
  moreover have "?p * ?u + ?p * (?L - ?u) = ?p * ?L"
    using r(5) by (metis distrib_left le_add_diff_inverse)
  moreover have "tx d = tx c" using env_ofD r(1) by blast
  ultimately show ?thesis
    using r(1,2) assms(2) False ledger_env(2) [of d c] ledger_env(1,3) [of d c, where H = H]
    by (simp add: gas_bounded_def)
qed

lemma reward_is_credit:
  assumes "\<not> is_l1_msg (tx c)" and "charge_ok H c"
    and v: "v = unit_price H c * unat (gas_used (gmo H) (fr_gas fr)) + l1_part c"
  shows "reward_beneficiary H fr c = on_journal (balance_incr (jrn H) (beneficiary (block c)) (of_nat v)) c"
    and "unat (of_nat v :: u256) = v"
proof -
  let ?p = "effective_gas_price (txo H) (tx c) (ucast (basefee (block c)))"
  let ?g = "gas_used (gmo H) (fr_gas fr)" and ?b = "beneficiary (block c)"
  obtain fee where part: "l1_part c = unat fee" and small: "unat fee < 2 ^ 96"
    and run: "reward_beneficiary H fr c = on_journal (balance_incr (jrn H) ?b
      (saturating_add (saturating_mul (ucast ?p) (ucast ?g)) fee)) c"
  proof (cases "is_system_tx (tx c)")
    case True
    then show thesis
      using assms(1) that [of 0] by (simp add: reward_beneficiary_def Let_def l1_part_def)
  next
    case False
    then obtain fee where fee: "l1_fee_of c = Some fee"
      using assms(1,2) by (auto simp: charge_ok_def)
    then have cost: "tx_l1_cost c (cfg_spec (cfg c)) = (Ok fee :: ('d evm_error, u256) outcome)"
      by (simp add: tx_l1_cost_fee)
    have "fee_cap (cfg_spec (cfg c)) < 2 ^ 96" using fee_cap_le [of "cfg_spec (cfg c)"] by simp
    then have "unat fee < 2 ^ 96" using cost fee_within_cap by (fastforce simp: tx_l1_cost_Ok)
    then show thesis
      using assms(1) False fee cost that [of fee]
      by (simp add: reward_beneficiary_def Let_def l1_part_def bind_def)
  qed
  let ?r = "saturating_add (saturating_mul (ucast ?p :: u256) (ucast ?g)) fee"
  have r: "unat ?r = v"
    using reward_no_saturation [OF small, of ?p ?g] by (simp add: v part unit_price_def)
  then have eq: "?r = of_nat v" by (simp flip: r)
  show "reward_beneficiary H fr c = on_journal (balance_incr (jrn H) ?b (of_nat v)) c"
    using run by (simp only: eq)
  show "unat (of_nat v :: u256) = v" using r by (simp only: eq)
qed

lemma reward_credits:
  assumes "reward_beneficiary H fr c = (Ok (), d)" and "\<not> is_l1_msg (tx c)" and "charge_ok H c"
    and "v = unit_price H c * unat (gas_used (gmo H) (fr_gas fr)) + l1_part c"
    and "unat (balances H c (beneficiary (block c))) + v < 2 ^ 256"
  shows "env_of d = env_of c"
    and "balances H d = (balances H c)
      (beneficiary (block c) := balances H c (beneficiary (block c)) + of_nat v)"
proof -
  note credit = reward_is_credit [OF assms(2-4)]
  from assms(1) obtain j where
    incr: "balance_incr (jrn H) (beneficiary (block c)) (of_nat v) (journal c) = (Ok (), j)"
    and d: "d = c\<lparr>journal := j\<rparr>" by (auto simp: credit(1) exec_simps)
  show "env_of d = env_of c" by (simp add: d)
  show "balances H d = (balances H c)
      (beneficiary (block c) := balances H c (beneficiary (block c)) + of_nat v)"
    using balance_incr_room [OF incr] assms(5) by (simp add: d balances_def credit(2))
qed

lemma rewarded_step:
  assumes "reward_beneficiary H fr c = (Ok (), d)" and "phase_ok H c (Reimbursed g fr)"
    and "total_supply H c + escrow H c (Reimbursed g fr) < 2 ^ 256"
  shows "env_of d = env_of c \<and> total_supply H d = total_supply H c + escrow H c (Reimbursed g fr)"
proof (cases "is_l1_msg (tx c)")
  case True
  then show ?thesis using assms(1) by (simp add: reward_beneficiary_def)
next
  case False
  let ?v = "unit_price H c * unat (gas_used (gmo H) (fr_gas fr)) + l1_part c"
  have fits: "unat (balances H c (beneficiary (block c))) + ?v < 2 ^ 256"
    using assms(3) False balance_le_supply [of H c "beneficiary (block c)"] by simp
  have ok: "charge_ok H c" using assms(2) by simp
  note r = reward_credits [OF assms(1) False ok refl fits]
  show ?thesis using r(1) supply_credited [OF r(2) fits] False by simp
qed

lemma ledger_step:
  assumes "tx_step H F q q'" and "ledger H c0 q" and "total_supply H c0 < 2 ^ 256"
    and types: "tx_types (tx_type_of H)" "eth_history (eth_enabled H)"
  shows "ledger H c0 q'"
  using assms(1-3)
proof (cases rule: tx_step.cases)
  case (validated c g)
  then have "type_admitted H c" using validate_env_admitted [OF types] by (simp add: admitted_def)
  then have "tx_type_of H (tx_type (tx c)) \<noteq> Eip4844"
    by (auto simp: type_admitted_def byte_types [OF types(1)] Let_def split: if_splits)
  then show ?thesis using validated assms(2) by (simp add: ledger_def)
next
  case (charged c n d g)
  then show ?thesis using assms(2) charged_step [of c n d g] by (auto simp: ledger_def split: if_splits)
next
  case (executed g c fr b fr' d n)
  then show ?thesis
    using assms(2) executed_step [of g c fr b fr' d n] ledger_env(1) [of d c, where H = H] ledger_env(2) [of d c] env_ofD [of d c]
    by (auto simp: ledger_def)
next
  case (refunded fr n c fr' d g)
  then show ?thesis
    using assms(2) refunded_step [of fr n c fr' d g] by (auto simp: ledger_def split: if_splits)
next
  case (floored fr g c fr' d)
  then show ?thesis
    using assms(2) floored_step [of fr g c fr' d] ledger_env(1) [of d c, where H = H] ledger_env(2) [of d c] env_ofD [of d c]
      supply_balances [of H d c]
    by (auto simp: ledger_def)
next
  case (reimbursed fr c fr' d g)
  then have "ledger H c0 (Floored g fr, c)" using assms(2) by simp
  from ledger_supply [OF this] assms(3)
  have "total_supply H c + escrow H c (Floored g fr) < 2 ^ 256" by (simp only:)
  from reimbursed_step [OF reimbursed(3) _ this] show ?thesis
    using reimbursed assms(2) env_ofD [of d c] by (auto simp: ledger_def split: if_splits)
next
  case (rewarded fr c d g)
  then have "ledger H c0 (Reimbursed g fr, c)" using assms(2) by simp
  from ledger_supply [OF this] assms(3)
  have "total_supply H c + escrow H c (Reimbursed g fr) < 2 ^ 256" by (simp only:)
  from rewarded_step [OF rewarded(3) _ this] show ?thesis
    using rewarded assms(2) env_ofD [of d c] by (auto simp: ledger_def split: if_splits)
next
  case (finished fr rg c r d g)
  let ?rg = "if is_l1_msg (tx c) then set_floor_gas H 0 rg else rg"
  have "mn_execution_result H fr ?rg c = (Ok r, d)"
    using finished by (simp add: execution_result_def Let_def)
  from result_balances [OF this] show ?thesis
    using finished assms(2) env_ofD [of d c] supply_balances [of H d c] by (simp add: ledger_def)
qed

lemma ledger_reach:
  assumes "(tx_step H F)\<^sup>*\<^sup>* (Received, c0) q" and "total_supply H c0 < 2 ^ 256"
    and "tx_types (tx_type_of H)" and "eth_history (eth_enabled H)"
  shows "ledger H c0 q"
  using assms(1)
proof (induction rule: rtranclp_induct)
  case base
  show ?case by (simp add: ledger_def)
next
  case (step q q')
  from ledger_step [OF step.hyps(2) step.IH assms(2-4)] show ?case .
qed

end

section \<open>Exact settlement\<close>

definition wallet :: "('g, 'j, 'd, 'ir, 'gas, 'rg, 'res) handler_ops \<Rightarrow> ('g, 'j) ctx \<Rightarrow> address \<Rightarrow> nat" where
  "wallet H c a = unat (balances H c a)"

definition credit :: "address \<Rightarrow> nat \<Rightarrow> (address \<Rightarrow> nat) \<Rightarrow> address \<Rightarrow> nat" where
  "credit a v f = f(a := f a + v)"

text \<open>The frame result after refund and floor: what the transaction is finally billed for.\<close>

definition billed ::
  "('g, 'j, 'd, 'ir, 'gas, 'rg, 'res) handler_ops \<Rightarrow> init_gas \<Rightarrow> u64 \<Rightarrow> ('ir, 'gas) frame_result
     \<Rightarrow> ('g, 'j) ctx \<Rightarrow> ('ir, 'gas) frame_result" where
  "billed H g n fr c = fst (eip7623_check_gas_floor H (fst (refund H fr n c)) g c)"

definition billed_gas ::
  "('g, 'j, 'd, 'ir, 'gas, 'rg, 'res) handler_ops \<Rightarrow> init_gas \<Rightarrow> u64 \<Rightarrow> ('ir, 'gas) frame_result
     \<Rightarrow> ('g, 'j) ctx \<Rightarrow> nat" where
  "billed_gas H g n fr c = unat (gas_used (gmo H) (fr_gas (billed H g n fr c)))"

definition reimbursed_wallet ::
  "('g, 'j, 'd, 'ir, 'gas, 'rg, 'res) handler_ops \<Rightarrow> ('g, 'j) ctx \<Rightarrow> nat \<Rightarrow> address \<Rightarrow> nat" where
  "reimbursed_wallet H c used =
     credit (caller (tx c)) (unit_price H c * (unat (gas_limit (tx c)) - used)) (wallet H c)"

definition rewarded_wallet ::
  "('g, 'j, 'd, 'ir, 'gas, 'rg, 'res) handler_ops \<Rightarrow> ('g, 'j) ctx \<Rightarrow> nat \<Rightarrow> address \<Rightarrow> nat" where
  "rewarded_wallet H c used =
     credit (beneficiary (block c)) (unit_price H c * used + l1_part c) (reimbursed_wallet H c used)"

fun settled ::
  "('g, 'j, 'd, 'ir, 'gas, 'rg, 'res) handler_ops \<Rightarrow> init_gas \<Rightarrow> u64 \<Rightarrow> ('ir, 'gas) frame_result
     \<Rightarrow> ('g, 'j) ctx \<Rightarrow> ('ir, 'gas, 'res) phase \<times> ('g, 'j) ctx \<Rightarrow> bool" where
  "settled H g n fr c (Executed g' n' fr', d) \<longleftrightarrow> g' = g \<and> n' = n \<and> fr' = fr \<and> d = c"
| "settled H g n fr c (Refunded g' fr', d) \<longleftrightarrow> g' = g \<and> fr' = fst (refund H fr n c) \<and> d = c"
| "settled H g n fr c (Floored g' fr', d) \<longleftrightarrow>
     fr' = billed H g n fr c \<and> env_of d = env_of c \<and> wallet H d = wallet H c"
| "settled H g n fr c (Reimbursed g' fr', d) \<longleftrightarrow>
     fr_gas fr' = fr_gas (billed H g n fr c) \<and> env_of d = env_of c \<and>
     wallet H d = reimbursed_wallet H c (billed_gas H g n fr c)"
| "settled H g n fr c (Rewarded g' fr', d) \<longleftrightarrow>
     wallet H d = rewarded_wallet H c (billed_gas H g n fr c)"
| "settled H g n fr c (Finished r, d) \<longleftrightarrow>
     wallet H d = rewarded_wallet H c (billed_gas H g n fr c)"
| "settled H g n fr c q \<longleftrightarrow> False"

lemma wallet_credited:
  assumes "balances H d = (balances H c)(a := balances H c a + of_nat v)"
    and "unat (balances H c a) + v < 2 ^ 256"
  shows "wallet H d = credit a v (wallet H c)"
proof -
  have "unat (balances H c a + of_nat v) = unat (balances H c a) + v"
    using assms(2) by (simp add: unat_word_ariths unat_of_nat take_bit_eq_mod)
  then show ?thesis by (auto simp: wallet_def credit_def assms(1))
qed

lemma wallet_same: "balances H d = balances H c \<Longrightarrow> wallet H d = wallet H c"
  by (auto simp: wallet_def)

context settlement begin

lemma settled_step:
  assumes step: "tx_step H F q q'" and "settled H g n fr c q" and "ledger H c0 q"
    and "total_supply H c0 < 2 ^ 256" and l1: "\<not> is_l1_msg (tx c)"
  shows "settled H g n fr c q'"
  using step
proof (cases rule: tx_step.cases)
  case (refunded f m d f' d' i)
  then have eq: "i = g" "m = n" "f = fr" "d = c" and run: "Handler.refund H fr n c = (f', d')"
    and ok: "phase_ok H c (Executed g n fr)"
    using assms(2,3) by (auto simp: ledger_def)
  from refunded_step [OF run ok] have "d' = c" by blast
  moreover have "f' = fst (Handler.refund H fr n c)" by (simp add: run)
  ultimately show ?thesis using refunded(2) eq by simp
next
  case (floored f i d f' d')
  then have eq: "i = g" "d = c" "f = fst (refund H fr n c)" and run: "eip7623_check_gas_floor H f g c = (f', d')"
    and ok: "phase_ok H c (Refunded g f)"
    using assms(2,3) by (auto simp: ledger_def)
  from floored_step [OF run ok] have "env_of d' = env_of c" and "wallet H d' = wallet H c"
    by (auto intro: wallet_same)
  moreover have "f' = billed H g n fr c" using run eq(3) by (simp add: billed_def)
  ultimately show ?thesis using floored(2) by simp
next
  case (reimbursed f d f' d' i)
  then have led: "ledger H c0 (Floored i f, d)" and f: "f = billed H g n fr c"
    and e: "env_of d = env_of c" and w: "wallet H d = wallet H c"
    using assms(2,3) by auto
  have t: "tx d = tx c" using env_ofD [OF e] by simp
  have bound: "total_supply H d + escrow H d (Floored i f) < 2 ^ 256"
    using ledger_supply [OF led] assms(4) by (simp only:)
  have ok: "phase_ok H d (Floored i f)" by (rule ledger_phase [OF led])
  have l: "\<not> is_l1_msg (tx d)" using l1 t by simp
  note r = reimburse_credits [OF reimbursed(3) ok l bound refl]
  have "wallet H d' = reimbursed_wallet H c (billed_gas H g n fr c)"
    using wallet_credited [OF r(3,4)] w t ledger_env(1) [OF e, where H = H]
    by (simp add: reimbursed_wallet_def billed_gas_def f)
  then show ?thesis using reimbursed(2) r(1,2) e f by simp
next
  case (rewarded f d d' i)
  then have led: "ledger H c0 (Reimbursed i f, d)" and f: "fr_gas f = fr_gas (billed H g n fr c)"
    and e: "env_of d = env_of c" and w: "wallet H d = reimbursed_wallet H c (billed_gas H g n fr c)"
    using assms(2,3) by auto
  have t: "tx d = tx c" "block d = block c" using env_ofD [OF e] by simp_all
  have l: "\<not> is_l1_msg (tx d)" using l1 t by simp
  let ?v = "unit_price H d * unat (gas_used (gmo H) (fr_gas f)) + l1_part d"
  have "total_supply H d + ?v < 2 ^ 256"
    using ledger_supply [OF led] assms(4) l by simp
  then have fits: "unat (balances H d (beneficiary (block d))) + ?v < 2 ^ 256"
    using balance_le_supply [of H d "beneficiary (block d)"] by linarith
  have ok: "charge_ok H d" using ledger_phase [OF led] by simp
  note r = reward_credits [OF rewarded(3) l ok refl fits]
  have "wallet H d' = rewarded_wallet H c (billed_gas H g n fr c)"
    using wallet_credited [OF r(2) fits] w t ledger_env(1) [OF e, where H = H] ledger_env(2) [OF e]
    by (simp add: rewarded_wallet_def billed_gas_def f)
  then show ?thesis using rewarded(2) by simp
next
  case (finished f rg d r d' i)
  let ?rg = "if is_l1_msg (tx d) then set_floor_gas H 0 rg else rg"
  have "mn_execution_result H f ?rg d = (Ok r, d')"
    using finished by (simp add: execution_result_def Let_def)
  from result_balances [OF this] have "wallet H d' = wallet H d" by (auto intro: wallet_same)
  then show ?thesis using finished assms(2) by simp
qed (use assms(2) in auto)

lemma settled_reach:
  assumes "(tx_step H F)\<^sup>*\<^sup>* (Received, c0) (Executed g n fr, c)"
    and "(tx_step H F)\<^sup>*\<^sup>* (Executed g n fr, c) q"
    and "total_supply H c0 < 2 ^ 256" and "\<not> is_l1_msg (tx c)"
    and "tx_types (tx_type_of H)" and "eth_history (eth_enabled H)"
  shows "settled H g n fr c q"
  using assms(2)
proof (induction rule: rtranclp_induct)
  case base
  show ?case by simp
next
  case (step q q')
  have "(tx_step H F)\<^sup>*\<^sup>* (Received, c0) q" using assms(1) step.hyps(1) by (rule rtranclp_trans)
  from ledger_reach [OF this assms(3,5,6)] show ?case
    by (rule settled_step [OF step.hyps(2) step.IH _ assms(3,4)])
qed

end

text \<open>
  C4 Exact settlement: from the end of execution to the end of a transaction that is not an L1 message,
  the balances change in two ways only: the caller gets the gas limit less the gas billed (after
  refund and floor) back at the effective price, and the beneficiary gets the gas billed at that
  price plus the L1 fee of the stored snapshot, without wrap-around, also when they are one account.
\<close>

theorem settlement_exact:
  assumes "settlement H gas_charge F" and "tx_types (tx_type_of H)" and "eth_history (eth_enabled H)"
    and "\<not> is_l1_msg (tx c)" and "total_supply H c0 < 2 ^ 256"
    and "(tx_step H F)\<^sup>*\<^sup>* (Received, c0) (Executed g n fr, c)"
    and "(tx_step H F)\<^sup>*\<^sup>* (Executed g n fr, c) (Finished r, d)"
  shows "wallet H d =
    credit (beneficiary (block c)) (unit_price H c * billed_gas H g n fr c + l1_part c)
      (credit (caller (tx c)) (unit_price H c * (unat (gas_limit (tx c)) - billed_gas H g n fr c))
        (wallet H c))"
  using settlement.settled_reach [OF assms(1,6,7,5,4,2,3)]
  by (simp add: rewarded_wallet_def reimbursed_wallet_def)

section \<open>Conservation\<close>

text \<open>
  C3 The ledger of a transaction: at every stage, in every kind of transaction and at every fork, the
  balances of all accounts and what the transaction still owes (the gas limit at the effective price
  plus the L1 fee from the charge on, the gas used plus the L1 fee once the caller is reimbursed,
  nothing before the charge, after the reward, or for an L1 message) sum to what the accounts held
  before it. Nothing is minted or burned, the base fee included.
\<close>

theorem ledger_balanced:
  assumes "settlement H gas_charge F" and "tx_types (tx_type_of H)" and "eth_history (eth_enabled H)"
    and "(tx_step H F)\<^sup>*\<^sup>* (Received, c) (p, d)" and "total_supply H c < 2 ^ 256"
  shows "total_supply H d + escrow H d p = total_supply H c \<and>
    tx d = tx c \<and> cfg d = cfg c \<and> block d = block c"
  using settlement.ledger_reach [OF assms(1,4,5,2,3)] by (simp add: ledger_def)

text \<open>
  A live database: the journal's credit of the account (which only has to load it) returns whenever the
  balance has room for the amount.
\<close>

definition creditable :: "('g, 'j, 'd, 'ir, 'gas, 'rg, 'res) handler_ops \<Rightarrow> ('g, 'j) ctx \<Rightarrow> address \<Rightarrow> bool" where
  "creditable H c a \<longleftrightarrow>
     (\<forall>v. unat (balances H c a) + unat v < 2 ^ 256 \<longrightarrow>
        fst (balance_incr (jrn H) a v (journal c)) = Ok ())"

text \<open>
  C22 The reward succeeds: once a transaction that is not an L1 message has been charged, settled and
  reimbursed, paying the beneficiary returns on a live database. The L1 fee that was charged is still
  there to be paid out, product and sum do not saturate, the credit fits the beneficiary's balance, and
  the beneficiary alone gains the gas billed at the effective price plus that L1 fee.
\<close>

theorem reward_is_the_credit:
  assumes "settlement H gas_charge F" and "tx_types (tx_type_of H)" and "eth_history (eth_enabled H)"
    and "\<not> is_l1_msg (tx c)" and "total_supply H c0 < 2 ^ 256"
    and "(tx_step H F)\<^sup>*\<^sup>* (Received, c0) (Reimbursed g fr, c)"
    and "creditable H c (beneficiary (block c))"
  shows "\<exists>d. reward_beneficiary H fr c = (Ok (), d) \<and> env_of d = env_of c \<and>
    wallet H d = credit (beneficiary (block c))
      (unit_price H c * unat (gas_used (gmo H) (fr_gas fr)) + l1_part c) (wallet H c)"
proof -
  let ?b = "beneficiary (block c)"
  let ?v = "unit_price H c * unat (gas_used (gmo H) (fr_gas fr)) + l1_part c"
  have led: "ledger H c0 (Reimbursed g fr, c)" by (rule settlement.ledger_reach [OF assms(1,6,5,2,3)])
  have ok: "charge_ok H c" using ledger_phase [OF led] by simp
  have "total_supply H c + ?v < 2 ^ 256" using ledger_supply [OF led] assms(4,5) by simp
  then have fits: "unat (balances H c ?b) + ?v < 2 ^ 256" using balance_le_supply [of H c ?b] by linarith
  note credit = settlement.reward_is_credit [OF assms(1,4) ok refl, of fr]
  have "fst (balance_incr (jrn H) ?b (of_nat ?v) (journal c)) = Ok ()"
    using assms(7) fits credit(2) unfolding creditable_def by simp
  then obtain j where "balance_incr (jrn H) ?b (of_nat ?v) (journal c) = (Ok (), j)"
    by (metis prod.collapse)
  then have run: "reward_beneficiary H fr c = (Ok (), c\<lparr>journal := j\<rparr>)"
    by (simp add: credit(1) on_journal_def)
  note r = settlement.reward_credits [OF assms(1) run assms(4) ok refl fits]
  show ?thesis using run r(1) wallet_credited [OF r(2) fits] by blast
qed

text \<open>
  What the run of the API does with the stages: a successful run went through all of them; a failed
  one left the balances as they were (\<open>revm\<close> discards the transaction's journal entries).
\<close>

definition follows_lifecycle ::
  "('g, 'j, 'd, 'ir, 'gas, 'rg, 'res) handler_ops \<Rightarrow> ('g, 'j, 'ir, 'gas) frames
     \<Rightarrow> ((('g, 'j) ctx, 'insp, 'i, 'p, 'fs) ScrollEvm, 'err, 'res) exec \<Rightarrow> bool" where
  "follows_lifecycle H F run \<longleftrightarrow>
     (\<forall>e r e'. run e = (Ok r, e') \<longrightarrow> (tx_step H F)\<^sup>*\<^sup>* (Received, evm_ctx e) (Finished r, evm_ctx e')) \<and>
     (\<forall>e x e'. run e = (Err x, e') \<longrightarrow> balances H (evm_ctx e') = balances H (evm_ctx e))"

text \<open>A sequence of transactions on one instance; a panic ends it.\<close>

fun transact_all ::
  "((('g, 'j) ctx, 'insp, 'i, 'p, 'fs) ScrollEvm, 'err, 'res, 'j, 'st) run_ops \<Rightarrow> ScrollTransaction list
     \<Rightarrow> (('g, 'j) ctx, 'insp, 'i, 'p, 'fs) ScrollEvm \<Rightarrow> (('g, 'j) ctx, 'insp, 'i, 'p, 'fs) ScrollEvm option" where
  "transact_all R [] e = Some e"
| "transact_all R (t # ts) e =
     (case transact_one R t e of (Panic, _) \<Rightarrow> None | (_, e') \<Rightarrow> transact_all R ts e')"

lemma set_tx_supply [simp]: "total_supply H (evm_ctx (set_tx t e)) = total_supply H (evm_ctx e)"
  by (simp add: total_supply_def balances_def set_tx_def)

lemma transact_one_supply:
  assumes "settlement H gas_charge F" and "tx_types (tx_type_of H)" and "eth_history (eth_enabled H)"
    and "follows_lifecycle H F (h_run R)" and "transact_one R t e = (r, e')" and "r \<noteq> Panic"
    and "total_supply H (evm_ctx e) < 2 ^ 256"
  shows "total_supply H (evm_ctx e') = total_supply H (evm_ctx e)"
proof (cases r)
  case (Ok a)
  then have "(tx_step H F)\<^sup>*\<^sup>* (Received, evm_ctx (set_tx t e)) (Finished a, evm_ctx e')"
    using assms(4,5) by (simp add: follows_lifecycle_def transact_one_def)
  from settlement.ledger_reach [OF assms(1) this _ assms(2,3)] assms(7)
  show ?thesis by (simp add: ledger_def)
next
  case (Err x)
  then have "balances H (evm_ctx e') = balances H (evm_ctx (set_tx t e))"
    using assms(4,5) by (simp add: follows_lifecycle_def transact_one_def)
  from supply_balances [OF this] show ?thesis by simp
qed (use assms in simp)

text \<open>
  A block conserves the native token: over any sequence of transactions on an instance (fee-charged,
  system, L1 messages; accepted, reverted, halted or rejected) the sum of all balances is unchanged.
\<close>

theorem block_conserves_supply:
  assumes "settlement H gas_charge F" and "tx_types (tx_type_of H)" and "eth_history (eth_enabled H)"
    and "follows_lifecycle H F (h_run R)" and "transact_all R ts e = Some e'"
    and "total_supply H (evm_ctx e) < 2 ^ 256"
  shows "total_supply H (evm_ctx e') = total_supply H (evm_ctx e)"
  using assms(5,6)
proof (induction ts arbitrary: e)
  case Nil
  then show ?case by simp
next
  case (Cons t ts)
  obtain r e1 where t: "transact_one R t e = (r, e1)" by (cases "transact_one R t e")
  with Cons.prems have r: "r \<noteq> Panic" and rest: "transact_all R ts e1 = Some e'"
    by (auto split: outcome.splits)
  have "total_supply H (evm_ctx e1) = total_supply H (evm_ctx e)"
    by (rule transact_one_supply [OF assms(1-4) t r Cons.prems(2)])
  then show ?case using Cons.IH [OF rest] Cons.prems(2) by simp
qed

end
