(* ===== verification/TransactRun.thy ===== *)
theory TransactRun
  imports Lifecycle
begin

text \<open>
  The run of a transaction as a function. \<open>run_from\<close> continues a transaction from any stage, calling the
  handler's methods in the order of \<open>tx_step\<close>; the frames are a function of the charged context. It is
  the lifecycle exactly: it ends in a result if and only if the relation reaches that result.
\<close>

section \<open>The stages as a program\<close>

definition always :: "('s \<Rightarrow> 'a \<times> 's) \<Rightarrow> ('s, 'e, 'a) exec" where
  "always m s = (case m s of (a, t) \<Rightarrow> (Ok a, t))"

lemma always_Ok [exec_simps]: "always m s = (Ok a, t) \<longleftrightarrow> m s = (a, t)"
  by (auto simp: always_def split: prod.split)

type_synonym ('g, 'j, 'ir, 'gas) frame_fn =
  "init_gas \<Rightarrow> ('g, 'j) ctx \<Rightarrow> ('ir, 'gas) frame_result \<times> ('g, 'j) ctx"

definition graph :: "('g, 'j, 'ir, 'gas) frame_fn \<Rightarrow> ('g, 'j, 'ir, 'gas) frames" where
  "graph f g c fr d \<longleftrightarrow> f g c = (fr, d)"

fun stage :: "('ir, 'gas, 'res) phase \<Rightarrow> nat" where
  "stage Received = 8"
| "stage (Validated g) = 7"
| "stage (Charged g n) = 6"
| "stage (Executed g n fr) = 5"
| "stage (Refunded g fr) = 4"
| "stage (Floored g fr) = 3"
| "stage (Reimbursed g fr) = 2"
| "stage (Rewarded g fr) = 1"
| "stage (Finished r) = 0"

function run_from ::
  "('g, 'j, 'd, 'ir, 'gas, 'rg, 'res) handler_ops \<Rightarrow> ('g, 'j, 'ir, 'gas) frame_fn \<Rightarrow> (init_gas \<Rightarrow> 'rg)
     \<Rightarrow> ('ir, 'gas, 'res) phase \<Rightarrow> (('g, 'j) ctx, 'd evm_error, 'res) exec" where
  "run_from H f rg Received =
     bind (lift (validate_env H)) (\<lambda>_. bind (lift (validate_initial_tx_gas H)) (\<lambda>g. run_from H f rg (Validated g)))"
| "run_from H f rg (Validated g) = bind (pre_execution H) (\<lambda>n. run_from H f rg (Charged g n))"
| "run_from H f rg (Charged g n) =
     bind (always (f g)) (\<lambda>fr. bind (last_frame_result H fr) (\<lambda>fr. run_from H f rg (Executed g n fr)))"
| "run_from H f rg (Executed g n fr) = bind (always (Handler.refund H fr n)) (\<lambda>fr. run_from H f rg (Refunded g fr))"
| "run_from H f rg (Refunded g fr) =
     bind (always (eip7623_check_gas_floor H fr g)) (\<lambda>fr. run_from H f rg (Floored g fr))"
| "run_from H f rg (Floored g fr) = bind (reimburse_caller H fr) (\<lambda>fr. run_from H f rg (Reimbursed g fr))"
| "run_from H f rg (Reimbursed g fr) = bind (reward_beneficiary H fr) (\<lambda>_. run_from H f rg (Rewarded g fr))"
| "run_from H f rg (Rewarded g fr) = execution_result H fr (rg g)"
| "run_from H f rg (Finished r) = ret r"
  by pat_completeness auto
termination
  by (relation "measure (\<lambda>(H, f, rg, p). stage p)") simp_all

declare run_from.simps [simp del]

definition run_steps ::
  "('g, 'j, 'd, 'ir, 'gas, 'rg, 'res) handler_ops \<Rightarrow> ('g, 'j, 'ir, 'gas) frame_fn \<Rightarrow> (init_gas \<Rightarrow> 'rg)
     \<Rightarrow> (('g, 'j) ctx, 'd evm_error, 'res) exec" where
  "run_steps H f rg = run_from H f rg Received"

section \<open>The program is the relation\<close>

text \<open>Every stage of the program is one step, and every step is a stage of the program.\<close>

lemma stage_steps:
  assumes "run_from H f rg p c = (Ok r, d)" and "\<forall>x. p \<noteq> Finished x"
  shows "\<exists>q e. tx_step H (graph f) (p, c) (q, e) \<and> stage q < stage p \<and> run_from H f rg q e = (Ok r, d)"
  using assms
  by (cases p) (fastforce simp: run_from.simps exec_simps graph_def intro: tx_step.intros)+

lemma step_stage:
  assumes "tx_step H (graph f) (p, c) (q, e)" and "\<forall>x. q \<noteq> Finished x"
  shows "run_from H f rg p c = run_from H f rg q e"
  using assms by cases (simp_all add: run_from.simps(1-7) bind_def lift_def always_def graph_def)

lemma last_stage:
  assumes "tx_step H (graph f) (p, c) (Finished x, e)"
  shows "\<exists>y. run_from H f (\<lambda>_. y) p c = (Ok x, e)"
  using assms by cases (auto simp: run_from.simps(8))

lemma steps_run:
  assumes "run_from H f rg p c = (Ok r, d)"
  shows "(tx_step H (graph f))\<^sup>*\<^sup>* (p, c) (Finished r, d)"
  using assms
proof (induction "stage p" arbitrary: p c rule: less_induct)
  case less
  show ?case
  proof (cases "\<exists>x. p = Finished x")
    case True
    then show ?thesis using less.prems by (auto simp: run_from.simps(9) ret_Pair)
  next
    case False
    with stage_steps [OF less.prems] obtain q e where "tx_step H (graph f) (p, c) (q, e)"
      and "stage q < stage p" and "run_from H f rg q e = (Ok r, d)" by blast
    with less.hyps show ?thesis by (meson converse_rtranclp_into_rtranclp)
  qed
qed

lemma run_steps_back:
  assumes "(tx_step H (graph f))\<^sup>*\<^sup>* q (Finished r, d)"
  shows "\<exists>y. run_from H f (\<lambda>_. y) (fst q) (snd q) = (Ok r, d)"
  using assms
proof (induction rule: converse_rtranclp_induct)
  case base
  show ?case by (simp add: run_from.simps(9) ret_Pair)
next
  case (step p q)
  show ?case
  proof (cases "\<exists>x. fst q = Finished x")
    case True
    then obtain x e where q: "q = (Finished x, e)" by (cases q) auto
    with step.hyps(2) have "q = (Finished r, d)"
      by (cases rule: converse_rtranclpE) (auto elim: tx_step.cases)
    then show ?thesis using last_stage [of H f "fst p" "snd p" r d] step.hyps(1) by simp
  next
    case False
    then have "run_from H f rg (fst p) (snd p) = run_from H f rg (fst q) (snd q)" for rg
      using step.hyps(1) by (intro step_stage) simp_all
    then show ?thesis using step.IH by simp
  qed
qed

text \<open>
  The run of a transaction: calling the handler's methods in their order is exactly the lifecycle. A
  transaction reaches a result in a context if and only if the program, for some gas report, returns
  that result in that context.
\<close>

theorem run_is_lifecycle:
  "(tx_step H (graph f))\<^sup>*\<^sup>* (Received, c) (Finished r, d) \<longleftrightarrow> (\<exists>y. run_steps H f (\<lambda>_. y) c = (Ok r, d))"
  using run_steps_back [of H f "(Received, c)" r d] steps_run [of H f _ Received c r d]
  by (auto simp: run_steps_def)

section \<open>The execution API over the program\<close>

text \<open>A failed transaction restores the journal it started on; a panic has no state.\<close>

definition tx_run ::
  "('g, 'j, 'd, 'ir, 'gas, 'rg, 'res) handler_ops \<Rightarrow> ('g, 'j, 'ir, 'gas) frame_fn \<Rightarrow> (init_gas \<Rightarrow> 'rg)
     \<Rightarrow> ((('g, 'j) ctx, 'insp, 'i, 'p, 'fs) ScrollEvm, 'd evm_error, 'res) exec" where
  "tx_run H f rg e =
     (case run_steps H f rg (evm_ctx e) of
        (Ok r, c) \<Rightarrow> (Ok r, e\<lparr>evm_ctx := c\<rparr>)
      | (Err x, c) \<Rightarrow> (Err x, e\<lparr>evm_ctx := c\<lparr>journal := journal (evm_ctx e)\<rparr>\<rparr>)
      | (Panic, c) \<Rightarrow> (Panic, e))"

lemma tx_run_follows: "follows_lifecycle H (graph f) (tx_run H f rg)"
  by (auto simp: follows_lifecycle_def tx_run_def run_steps_def balances_def dest: steps_run
      split: prod.splits outcome.splits)

end
