(* ===== verification/LifecycleRuns.thy ===== *)
theory LifecycleRuns
  imports TransactRun
begin

text \<open>
  The reference instance of a whole transaction: frames that move the transaction's value to the
  callee (or revert), and the execution API over the run of \<open>TransactRun\<close>. It interprets \<open>settlement\<close>, follows the lifecycle, and runs the properties of
  \<open>Lifecycle\<close> on a concrete transaction.
\<close>

section \<open>Frames\<close>

definition mem_pay :: "address \<Rightarrow> address \<Rightarrow> u256 \<Rightarrow> mem_journal \<Rightarrow> mem_journal option" where
  "mem_pay a b v j =
     (if v \<le> m_balance (m_acc j a) \<and> a \<noteq> b \<and> unat (m_balance (m_acc j b)) + unat v < 2 ^ 256 then
        Some (m_put b ((m_acc j b)\<lparr>m_balance := m_balance (m_acc j b) + v\<rparr>)
          (m_put a ((m_acc j a)\<lparr>m_balance := m_balance (m_acc j a) - v\<rparr>) j))
      else None)"

definition mem_frame :: "init_gas \<Rightarrow> mem_ctx \<Rightarrow> (mem_result, mem_gas) frame_result \<times> mem_ctx" where
  "mem_frame g c =
     (let l = gas_limit (tx c);
          gas = \<lparr>mg_total = l, mg_remaining = (if initial_gas g \<le> l then l - initial_gas g else 0),
            mg_refunded = 0\<rparr>
      in case kind (tx c) of
           Create \<Rightarrow> (\<lparr>fr_result = FrameRevert, fr_gas = gas\<rparr>, c)
         | Call to \<Rightarrow>
             (case mem_pay (caller (tx c)) to (tx_value (tx c)) (journal c) of
                None \<Rightarrow> (\<lparr>fr_result = FrameRevert, fr_gas = gas\<rparr>, c)
              | Some j \<Rightarrow> (\<lparr>fr_result = FrameOk, fr_gas = gas\<rparr>, c\<lparr>journal := j\<rparr>)))"

abbreviation mem_frames :: "(nat \<Rightarrow> u64, mem_journal, mem_result, mem_gas) frames" where
  "mem_frames \<equiv> graph mem_frame"

lemma mem_pay_supply:
  assumes "mem_pay a b v (journal c) = Some j"
  shows "total_supply mem_handler (c\<lparr>journal := j\<rparr>) = total_supply mem_handler c"
proof -
  let ?f = "balances mem_handler c"
  have ok: "v \<le> ?f a" "a \<noteq> b" "unat (?f b) + unat v < 2 ^ 256"
    and j: "balances mem_handler (c\<lparr>journal := j\<rparr>) = (?f(a := ?f a - v))(b := ?f b + v)"
    using assms by (auto simp: mem_pay_def balances_def fun_eq_iff split: if_splits)
  have "unat (?f a - v) + unat v = unat (?f a)" and "unat (?f b + v) = unat (?f b) + unat v"
    using ok by (simp_all add: unat_sub word_le_nat_alt unat_word_ariths)
  then show ?thesis
    using sum_balances_upd [of ?f a "?f a - v"] sum_balances_upd [of "?f(a := ?f a - v)" b "?f b + v"] ok(2)
    unfolding total_supply_def j by simp
qed

lemma mem_frames_frame:
  assumes "mem_frames g c fr d"
  shows "env_of d = env_of c" "total_supply mem_handler d = total_supply mem_handler c"
    and "unat (mg_remaining (fr_gas fr)) \<le> unat (gas_limit (tx c))"
  using assms mem_pay_supply
  by (auto simp: graph_def mem_frame_def Let_def unat_sub word_le_nat_alt
      split: TxKind.splits option.splits if_splits)

section \<open>Gas\<close>

lemma mem_used:
  assumes "unat (mg_remaining m) + unat (mg_refunded m) \<le> unat (mg_total m)"
  shows "unat (mg_total m - mg_remaining m - mg_refunded m) =
    unat (mg_total m) - unat (mg_remaining m) - unat (mg_refunded m)"
  using assms by (simp add: unat_sub word_le_nat_alt)

lemma mem_refund_capped:
  assumes "unat (mg_remaining m) \<le> unat (mg_total m)"
  shows "mg_total (mem_refund m n) = mg_total m"
    and "unat (mg_remaining (mem_refund m n)) + unat (mg_refunded (mem_refund m n)) \<le> unat (mg_total m)"
proof -
  let ?s = "mg_total m - mg_remaining m"
  have s: "unat ?s = unat (mg_total m) - unat (mg_remaining m)"
    using assms by (simp add: unat_sub word_le_nat_alt)
  have "unat (min (mg_refunded m + n) (?s div 5)) \<le> unat (?s div 5)"
    by (simp add: word_le_nat_alt [symmetric])
  also have "\<dots> \<le> unat ?s" by (simp add: unat_div_distrib)
  finally show "unat (mg_remaining (mem_refund m n)) + unat (mg_refunded (mem_refund m n)) \<le> unat (mg_total m)"
    using s assms by (simp add: mem_refund_def)
qed (simp add: mem_refund_def)

lemma mem_floor_bounded:
  assumes "mg_total m = l" and "unat (mg_remaining m) + unat (mg_refunded m) \<le> unat l"
  shows "mg_total (mem_floor g m) = l"
    and "unat (mg_remaining (mem_floor g m)) + unat (mg_refunded (mem_floor g m)) \<le> unat l"
  using assms by (auto simp: mem_floor_def unat_sub word_le_nat_alt)

section \<open>The settlement contract\<close>

lemma mem_price: "unit_price mem_handler c = unat (gas_price (tx c))"
  by (simp add: unit_price_def mem_tx_ops_def)

lemma mem_charge_price:
  assumes "mem_deduct c = (Ok (), d)"
  shows "unat (mem_charge (tx c) (block c)) = unat (gas_price (tx c)) * unat (gas_limit (tx c))"
    and "unat (gas_price (tx c)) * unat (gas_limit (tx c)) < 2 ^ 128"
proof -
  from assms have small: "unat (gas_limit (tx c)) * unat (gas_price (tx c)) < 2 ^ 128"
    by (auto simp: mem_deduct_def mem_spending_def Let_def split: if_splits)
  then have "unat (gas_limit (tx c)) * unat (gas_price (tx c)) < 2 ^ 256" by simp
  then show "unat (mem_charge (tx c) (block c)) = unat (gas_price (tx c)) * unat (gas_limit (tx c))"
    by (simp add: mem_charge_def unat_word_ariths mult.commute)
  show "unat (gas_price (tx c)) * unat (gas_limit (tx c)) < 2 ^ 128"
    using small by (simp add: mult.commute)
qed

text \<open>Crediting gas at a price, without wrap-around.\<close>

lemma mem_credit_gas:
  fixes p :: u128 and l x y :: u64
  assumes "unat x + unat y \<le> unat l" and v: "v = unat p * (unat x + unat y)"
    and "v < 2 ^ 128" and "unat (acc_balance mem_ops j a) + v < 2 ^ 256"
    and "m_incr a (ucast p * ucast (x + y)) j = (Ok () :: (string, unit) outcome, j')"
  shows "acc_balance mem_ops j' = (acc_balance mem_ops j)(a := acc_balance mem_ops j a + of_nat v)"
proof -
  let ?w = "ucast p * ucast (x + y) :: u256"
  have "unat x + unat y < 2 ^ 64"
    using assms(1) unsigned_less [of l, where ?'a = nat] by simp
  then have "unat (x + y) = unat x + unat y" by (simp add: unat_word_ariths)
  then have "unat ?w = v" using assms(3) by (simp add: v unat_word_ariths)
  then have w: "?w = of_nat v" and fits: "unat (acc_balance mem_ops j a) + unat ?w < 2 ^ 256"
    using assms(4) by (simp_all flip: \<open>unat ?w = v\<close>)
  show ?thesis using mem.balance_incr_room [OF _ fits] assms(5) unfolding w by simp
qed

lemma mem_reimburses:
  assumes "mn_reimburse_caller mem_handler fr c = (Ok fr', d)"
    and "gas_bounded mem_handler (gas_limit (tx c)) fr"
    and "v = unit_price mem_handler c * (unat (remaining (gmo mem_handler) (fr_gas fr))
      + unat (refunded (gmo mem_handler) (fr_gas fr)))"
    and "v < 2 ^ 128" and "unat (balances mem_handler c (caller (tx c))) + v < 2 ^ 256"
  shows "balances mem_handler d =
    (balances mem_handler c)(caller (tx c) := balances mem_handler c (caller (tx c)) + of_nat v)"
proof -
  obtain j where "m_incr (caller (tx c)) (ucast (gas_price (tx c))
      * ucast (mg_remaining (fr_gas fr) + mg_refunded (fr_gas fr))) (journal c) = (Ok () :: (string, unit) outcome, j)"
    and d: "d = c\<lparr>journal := j\<rparr>"
    using assms(1) by (auto simp: mem_handler_def exec_simps m_incr_def)
  from mem_credit_gas [OF _ _ assms(4) _ this(1), of "gas_limit (tx c)"] assms(2,3,5) show ?thesis
    by (simp add: d balances_def mem_price gas_bounded_def mem_gas_ops_def)
qed

interpretation mem_settlement: settlement mem_handler mem_charge mem_frames
proof unfold_locales
  fix c d :: mem_ctx
  assume "mn_validate_against_state_and_deduct_caller mem_handler c = (Ok (), d)"
  then have "mem_deduct c = (Ok (), d)" by simp
  from mem_charge_price [OF this]
  show "unat (mem_charge (tx c) (block c)) = unit_price mem_handler c * unat (gas_limit (tx c)) \<and>
      unit_price mem_handler c * unat (gas_limit (tx c)) < 2 ^ 128"
    by (simp add: mem_price)
next
  fix m :: mem_gas
  assume "unat (remaining (gmo mem_handler) m) + unat (refunded (gmo mem_handler) m)
    \<le> unat (gas_total (gmo mem_handler) m)"
  then show "unat (gas_used (gmo mem_handler) m) = unat (gas_total (gmo mem_handler) m) -
      unat (remaining (gmo mem_handler) m) - unat (refunded (gmo mem_handler) m)"
    using mem_used [of m] by (simp add: mem_gas_ops_def)
next
  fix m :: mem_gas and s n
  assume "unat (remaining (gmo mem_handler) m) \<le> unat (gas_total (gmo mem_handler) m)"
  then show "gas_total (gmo mem_handler) (mn_refund mem_handler s m n) = gas_total (gmo mem_handler) m \<and>
      unat (remaining (gmo mem_handler) (mn_refund mem_handler s m n)) +
      unat (refunded (gmo mem_handler) (mn_refund mem_handler s m n)) \<le> unat (gas_total (gmo mem_handler) m)"
    using mem_refund_capped [of m n] by (simp add: mem_gas_ops_def mem_handler_def)
next
  fix fr fr' :: "(mem_result, mem_gas) frame_result" and g l and c d :: mem_ctx
  assume "mn_eip7623_check_gas_floor mem_handler fr g c = (fr', d)"
  then have "d = c" and "fr_gas fr' = mem_floor g (fr_gas fr)" by (auto simp: mem_handler_def)
  then show "env_of d = env_of c \<and> balances mem_handler d = balances mem_handler c \<and>
      (gas_bounded mem_handler l fr \<longrightarrow> gas_bounded mem_handler l fr')"
    using mem_floor_bounded [of "fr_gas fr" l g] by (simp add: gas_bounded_def mem_gas_ops_def)
next
  fix fr fr' :: "(mem_result, mem_gas) frame_result" and c d :: mem_ctx
  assume run: "mn_reimburse_caller mem_handler fr c = (Ok fr', d)"
  then show "env_of d = env_of c \<and> fr_gas fr' = fr_gas fr"
    by (auto simp: mem_handler_def exec_simps)
next
  fix fr fr' :: "(mem_result, mem_gas) frame_result" and c d :: mem_ctx and v :: nat
  assume "mn_reimburse_caller mem_handler fr c = (Ok fr', d)"
    and "gas_bounded mem_handler (gas_limit (tx c)) fr"
    and "v = unit_price mem_handler c * (unat (remaining (gmo mem_handler) (fr_gas fr))
      + unat (refunded (gmo mem_handler) (fr_gas fr)))"
    and "v < 2 ^ 128" and "unat (balances mem_handler c (caller (tx c))) + v < 2 ^ 256"
  then show "balances mem_handler d =
      (balances mem_handler c)(caller (tx c) := balances mem_handler c (caller (tx c)) + of_nat v)"
    by (rule mem_reimburses)
next
  fix fr :: "(mem_result, mem_gas) frame_result" and rg r and c d :: mem_ctx
  assume "mn_execution_result mem_handler fr rg c = (Ok r, d)"
  then show "env_of d = env_of c \<and> balances mem_handler d = balances mem_handler c"
    by (simp add: mem_handler_def)
next
  fix g fr and c d :: mem_ctx
  assume "mem_frames g c fr d"
  from mem_frames_frame [OF this]
  show "env_of d = env_of c" "total_supply mem_handler d = total_supply mem_handler c"
    and "unat (remaining (gmo mem_handler) (fr_gas fr)) \<le> unat (gas_limit (tx c))"
    by (simp_all add: mem_gas_ops_def)
qed (simp_all add: mem_gas_ops_def)

section \<open>A run of the whole lifecycle\<close>

abbreviation mem_tx_run :: "(mem_evm, string evm_error, mem_gas \<times> u64) exec" where
  "mem_tx_run \<equiv> tx_run mem_handler mem_frame floor_gas"

definition mem_api :: "(mem_evm, string evm_error, mem_gas \<times> u64, mem_journal, mem_journal) run_ops" where
  "mem_api =
     \<lparr>h_run = mem_tx_run, h_inspect_run = mem_tx_run, h_run_system_call = mem_tx_run,
      j_finalize = (\<lambda>j. (j, mem_empty)), db_commit = (\<lambda>st _. st)\<rparr>"

lemma mem_follows: "follows_lifecycle mem_handler mem_frames mem_tx_run"
  by (rule tx_run_follows)

section \<open>The run of one transaction\<close>

text \<open>
  The caller holds exactly the gas limit (21000 at price 1), the L1 fee (82000) and the value (100). It
  ends with nothing, the callee with the value, the beneficiary with gas and L1 fee.
\<close>

abbreviation run_start :: mem_ctx where
  "run_start \<equiv> run_ctx TSUKI_V2 (run_tx 0 0xA) 103100"

definition run_account :: "u256 \<Rightarrow> u64 \<Rightarrow> mem_account" where
  "run_account b n = empty_account\<lparr>m_balance := b, m_nonce := n\<rparr>"

definition run_at :: "mem_journal \<Rightarrow> mem_ctx" where
  "run_at j = (run_ready TSUKI_V2 (run_tx 0 0xA) 103100)\<lparr>journal := j\<rparr>"

definition run_charged :: mem_journal where
  "run_charged = m_put 0xA (run_account 100 1) (run_journal 0xA 103100)"

definition run_moved :: mem_journal where
  "run_moved = m_put 0xB (run_account 100 0) (m_put 0xA (run_account 0 1) run_charged)"

definition run_reimbursed :: mem_journal where
  "run_reimbursed = m_put 0xA (run_account 0 1) run_moved"

definition run_settled :: mem_journal where
  "run_settled = m_put 0xC (run_account 103000 0) run_reimbursed"

lemma run_acc_other:
  "a \<noteq> 0xA \<Longrightarrow> a \<noteq> L1_GAS_PRICE_ORACLE_ADDRESS \<Longrightarrow> m_acc (run_journal 0xA funds) a = run_account 0 0"
  by (simp add: m_acc_def run_journal_def run_account_def empty_account_def)

lemma run_pre: "pre_execution mem_handler run_start = (Ok 0, run_at run_charged)"
  unfolding pre_execution_def bind_def [of "refresh_l1_block_info mem_handler"] run_refresh
  by (simp add: run_defs validate_defs run_fee Let_def empty_account_def word_less_nat_alt
      word_le_nat_alt run_at_def run_charged_def run_account_def)

lemma run_env: "validate_env mem_handler run_start = Ok ()"
  using validate_env_accepts [of mem_handler run_start] eip2718_types mem_eth_history
  by (simp add: run_defs run_block_def chain_id_admitted_def type_admitted_def limits_admitted_def
      tx_chain_id_def mem_handler_def price_base_fee_def new_scroll_def set_scroll_spec_def
      table_cfg_ops_def gas_table_ops.extend_def spec_gates guard_err_def word_le_nat_alt
      word_less_nat_alt Let_def)

definition run_gas :: init_gas where
  "run_gas = \<lparr>initial_gas = 21000, floor_gas = 21000\<rparr>"

lemma run_initial: "validate_initial_tx_gas mem_handler run_start = Ok run_gas"
  by (simp add: validate_initial_tx_gas_def run_defs access_list_counts_def mem_handler_def
      mem_initial_gas_def run_gas_def new_scroll_def table_cfg_ops_def set_scroll_spec_def
      gas_table_ops.extend_def gas_table_ops.truncate_def new_scroll_spec_def table_ops_def
      spec_gates tx_input_def authorization_list_len_def authorization_list_def usize_len_def Let_def)

lemmas run_accounts = run_at_def run_charged_def run_moved_def run_reimbursed_def run_settled_def run_account_def
  empty_account_def   run_acc_other L1_GAS_PRICE_ORACLE_ADDRESS_def

definition run_result :: "(mem_result, mem_gas) frame_result" where
  "run_result = \<lparr>fr_result = FrameOk, fr_gas = \<lparr>mg_total = 21000, mg_remaining = 0, mg_refunded = 0\<rparr>\<rparr>"

lemma run_frames: "mem_frame run_gas (run_at run_charged) = (run_result, run_at run_moved)"
  by (simp add: mem_frame_def run_defs run_gas_def Let_def mem_pay_def run_accounts
      word_le_nat_alt run_result_def)

lemma run_last: "last_frame_result mem_handler run_result (run_at run_moved) = (Ok run_result, run_at run_moved)"
  by (simp add: last_frame_result_def run_result_def run_at_def run_defs mem_handler_def mem_gas_ops_def)

lemma run_refund: "Handler.refund mem_handler run_result 0 (run_at run_moved) = (run_result, run_at run_moved)"
  by (simp add: Handler.refund_def run_result_def run_at_def run_defs mem_handler_def mem_refund_def)

lemma run_floor:
  "eip7623_check_gas_floor mem_handler run_result run_gas (run_at run_moved) = (run_result, run_at run_moved)"
  by (simp add: eip7623_check_gas_floor_def run_result_def run_at_def run_defs mem_handler_def
      mem_floor_def run_gas_def)

lemma run_reimburse:
  "reimburse_caller mem_handler run_result (run_at run_moved) = (Ok run_result, run_at run_reimbursed)"
  by (simp add: reimburse_caller_def run_result_def run_defs mem_handler_def bind_def
      on_journal_def m_incr_def run_accounts checked_add_def)

lemma run_reward:
  "reward_beneficiary mem_handler run_result (run_at run_reimbursed) = (Ok (), run_at run_settled)"
  by (simp add: reward_beneficiary_def run_result_def run_defs bind_def mem_gas_ops_def
      mem_tx_ops_def on_journal_def m_incr_def run_accounts checked_add_def tx_l1_cost_def run_fee
      run_block_def saturating_add_def saturating_mul_def Let_def)

lemma run_finished:
  "execution_result mem_handler run_result 21000 (run_at run_settled) = (Ok (fr_gas run_result, 21000), run_at run_settled)"
  by (simp add: execution_result_def mem_handler_def run_at_def run_defs)

lemma run_one:
  "transact_one mem_api (run_tx 0 0xA) (ScrollEvm_new mem_parts run_start ()) =
     (Ok (fr_gas run_result, 21000), (ScrollEvm_new mem_parts run_start ())\<lparr>evm_ctx := run_at run_settled\<rparr>)"
proof -
  have start: "run_start\<lparr>tx := run_tx 0 0xA\<rparr> = run_start" by (simp add: run_ctx_def)
  have "run_steps mem_handler mem_frame floor_gas run_start =
      (Ok (fr_gas run_result, 21000), run_at run_settled)"
    by (simp add: run_steps_def run_from.simps bind_def lift_def always_def run_env run_initial run_pre
        run_frames run_last run_refund run_floor run_reimburse run_reward)
     (simp add: run_gas_def run_finished)
  then show ?thesis
    by (simp add: transact_one_def set_tx_def mem_api_def tx_run_def ScrollEvm_new_def Let_def start)
qed

lemma run_transact:
  "transact_all mem_api [run_tx 0 0xA] (ScrollEvm_new mem_parts run_start ()) =
     Some ((ScrollEvm_new mem_parts run_start ())\<lparr>evm_ctx := run_at run_settled\<rparr>)"
  by (simp add: run_one)

section \<open>Instances of the properties\<close>

lemma run_supply: "total_supply mem_handler run_start = 103100"
proof -
  have "balances mem_handler run_start a = (if a = 0xA then 103100 else 0)" for a
    by (simp add: balances_def run_ctx_def run_journal_def m_acc_def empty_account_def caller_def
        run_tx_def ScrollTransaction_new_def L1_GAS_PRICE_ORACLE_ADDRESS_def)
  then have "total_supply mem_handler run_start = (\<Sum>a\<in>UNIV. if a = (0xA :: address) then 103100 else 0)"
    unfolding total_supply_def by (intro sum.cong) simp_all
  then show ?thesis by (simp add: sum.delta)
qed

lemma run_types: "tx_types (tx_type_of mem_handler)"
  by (simp add: eip2718_types)

type_synonym run_phase = "(mem_result, mem_gas, mem_gas \<times> u64) phase"

lemma run_small: "total_supply mem_handler run_start < 2 ^ 256"
  by (simp add: run_supply)

lemma run_charging:
  "(tx_step mem_handler mem_frames)\<^sup>*\<^sup>* (Received, run_start) (Charged run_gas 0 :: run_phase, run_at run_charged)"
  using validated [where F = mem_frames, OF run_env run_initial] charged [where F = mem_frames, OF run_pre]
  by (meson converse_rtranclp_into_rtranclp r_into_rtranclp)

lemma run_executing:
  "(tx_step mem_handler mem_frames)\<^sup>*\<^sup>* (Received, run_start)
     (Executed run_gas 0 run_result :: run_phase, run_at run_moved)"
proof -
  have "mem_frames run_gas (run_at run_charged) run_result (run_at run_moved)"
    by (simp add: graph_def run_frames)
  from executed [where F = mem_frames, OF this run_last] run_charging show ?thesis
    by (meson rtranclp.rtrancl_into_rtrancl)
qed

lemma run_reimbursing:
  "(tx_step mem_handler mem_frames)\<^sup>*\<^sup>* (Executed run_gas 0 run_result :: run_phase, run_at run_moved)
     (Reimbursed run_gas run_result, run_at run_reimbursed)"
  using refunded [where F = mem_frames, OF run_refund] floored [where F = mem_frames, OF run_floor]
    reimbursed [where F = mem_frames, OF run_reimburse]
  by (meson converse_rtranclp_into_rtranclp r_into_rtranclp)

lemma run_finishing:
  "(tx_step mem_handler mem_frames)\<^sup>*\<^sup>* (Executed run_gas 0 run_result :: run_phase, run_at run_moved)
     (Finished (fr_gas run_result, 21000), run_at run_settled)"
  using run_reimbursing rewarded [where F = mem_frames, OF run_reward]
    finished [where F = mem_frames, OF run_finished]
  by (meson rtranclp.rtrancl_into_rtrancl)

lemma run_not_l1: "\<not> is_l1_msg (tx (run_at j))"
  by (simp add: run_at_def run_defs)

lemma run_price: "unit_price mem_handler (run_at j) = 1" "l1_part (run_at j) = 82000"
  by (simp_all add: run_at_def run_defs l1_part_def l1_fee_of_def run_fee mem_price)

theorem ledger_balanced_witness:
  "total_supply mem_handler (run_at run_charged) + 103000 = total_supply mem_handler run_start"
proof -
  note ledger_balanced [OF mem_settlement.settlement_axioms run_types mem_eth_history run_charging
      run_small, THEN conjunct1]
  moreover have "escrow mem_handler (run_at run_charged) (Charged run_gas 0 :: run_phase) = 103000"
    using run_not_l1 by (simp add: run_price) (simp add: run_at_def run_defs)
  ultimately show ?thesis by (simp only:)
qed

theorem settlement_exact_witness:
  "wallet mem_handler (run_at run_settled) 0xC = 103000 \<and>
   wallet mem_handler (run_at run_settled) 0xA = 0"
proof -
  have used: "billed_gas mem_handler run_gas 0 run_result (run_at run_moved) = 21000"
    by (simp add: billed_gas_def billed_def run_refund run_floor) (simp add: run_result_def mem_gas_ops_def)
  have "wallet mem_handler (run_at run_moved) 0xC = 0" "wallet mem_handler (run_at run_moved) 0xA = 0"
    and "beneficiary (block (run_at run_moved)) = 0xC" "caller (tx (run_at run_moved)) = 0xA"
    and "gas_limit (tx (run_at run_moved)) = 21000"
    by (simp_all add: wallet_def balances_def run_accounts run_defs run_block_def)
  then show ?thesis
    using settlement_exact [OF mem_settlement.settlement_axioms run_types mem_eth_history run_not_l1
      run_small run_executing run_finishing]
    by (simp add: used run_price credit_def)
qed

theorem reward_is_the_credit_witness:
  "\<exists>d. reward_beneficiary mem_handler run_result (run_at run_reimbursed) = (Ok (), d) \<and>
     wallet mem_handler d 0xC = wallet mem_handler (run_at run_reimbursed) 0xC + 103000"
proof -
  have "beneficiary (block (run_at run_reimbursed)) = 0xC"
    and "unat (gas_used (gmo mem_handler) (fr_gas run_result)) = 21000"
    by (simp_all add: run_at_def run_defs run_block_def run_result_def mem_gas_ops_def)
  moreover have "creditable mem_handler (run_at run_reimbursed) a" for a
    by (simp add: creditable_def m_incr_def)
  ultimately show ?thesis
    using reward_is_the_credit [OF mem_settlement.settlement_axioms run_types mem_eth_history run_not_l1
      run_small rtranclp_trans [OF run_executing run_reimbursing]]
    by (fastforce simp: run_price credit_def)
qed

theorem block_conserves_supply_witness:
  "transact_all mem_api [run_tx 0 0xA] (ScrollEvm_new mem_parts run_start ()) =
     Some ((ScrollEvm_new mem_parts run_start ())\<lparr>evm_ctx := run_at run_settled\<rparr>) \<and>
   total_supply mem_handler (run_at run_settled) = 103100 \<and>
   balances mem_handler (run_at run_settled) 0xC = 103000"
proof -
  have "follows_lifecycle mem_handler mem_frames (h_run mem_api)"
    using mem_follows by (simp add: mem_api_def)
  from block_conserves_supply [OF mem_settlement.settlement_axioms run_types mem_eth_history this run_transact]
  have "total_supply mem_handler (run_at run_settled) = total_supply mem_handler run_start"
    using run_supply by (simp add: ScrollEvm_new_def Let_def)
  then show ?thesis using run_transact run_supply by (simp add: run_accounts balances_def)
qed

end
