(* ===== verification/HandlerUpgrade.thy ===== *)
theory HandlerUpgrade
  imports HandlerRuns
begin

text \<open>
  What the TsukiV2 order of checks and deductions changes (\<open>validate_against_state_and_deduct_caller\<close>
  before and from TsukiV2, \<open>src/handler.rs\<close>). The two branches are compared on one context. The locale
  \<open>caching_mainnet\<close> adds to \<open>mainnet_handler\<close> that loading an account succeeds and only caches it: the
  mainnet deduction does the same with and without it.
\<close>

section \<open>The requirement of TsukiV2\<close>

text \<open>What TsukiV2 checks before anything is taken: maximal spending and L1 fee within the balance.\<close>

definition affordable :: "('g, 'j, 'd, 'ir, 'gas, 'rg, 'res) handler_ops \<Rightarrow> ('g, 'j) ctx \<Rightarrow> bool" where
  "affordable H c \<longleftrightarrow>
     (\<exists>m fee. max_balance_spending (txo H) (tx c) = Ok m \<and>
        tx_l1_cost c (cfg_spec (cfg c)) = (Ok fee :: (unit evm_error, u256) outcome) \<and>
        unat m + unat fee \<le> unat (balances H c (caller (tx c))))"

lemma tx_l1_cost_any:
  "tx_l1_cost c s = (Ok fee :: ('a evm_error, u256) outcome) \<longleftrightarrow>
     tx_l1_cost c s = (Ok fee :: ('b evm_error, u256) outcome)"
  by (simp add: tx_l1_cost_Ok)

section \<open>Loading is invisible\<close>

locale caching_mainnet = mainnet_handler H gas_charge
  for H :: "('g, 'j, 'd, 'ir, 'gas, 'rg, 'res) handler_ops" and gas_charge +
  assumes load_succeeds: "fst (load_account_mut (jrn H) a j) = Ok ()"
    and deduct_after_load:
      "load_account_mut (jrn H) a (journal c) = (Ok (), j) \<Longrightarrow>
         fst (mn_validate_against_state_and_deduct_caller H (c\<lparr>journal := j\<rparr>)) =
           fst (mn_validate_against_state_and_deduct_caller H c) \<and>
         balances H (snd (mn_validate_against_state_and_deduct_caller H (c\<lparr>journal := j\<rparr>))) =
           balances H (snd (mn_validate_against_state_and_deduct_caller H c))"
begin

lemma load_step:
  obtains d where "on_journal (load_account_mut (jrn H) a) c = (Ok (), d)"
    and "env_of d = env_of c" and "balances H d = balances H c"
    and "fst (mn_validate_against_state_and_deduct_caller H d) =
      fst (mn_validate_against_state_and_deduct_caller H c)"
    and "balances H (snd (mn_validate_against_state_and_deduct_caller H d)) =
      balances H (snd (mn_validate_against_state_and_deduct_caller H c))"
proof -
  obtain j where j: "load_account_mut (jrn H) a (journal c) = (Ok (), j)"
    using load_succeeds [of a "journal c"] by (metis prod.collapse)
  then have on: "on_journal (load_account_mut (jrn H) a) c = (Ok (), c\<lparr>journal := j\<rparr>)"
    by (simp add: on_journal_def)
  show thesis by (rule that [OF on]) (use load_caller [OF on] deduct_after_load [OF j] in auto)
qed

lemma check_passes:
  assumes "max_balance_spending (txo H) (tx c) = Ok m"
    and "tx_l1_cost c (cfg_spec (cfg c)) = (Ok fee :: ('d evm_error, u256) outcome)"
    and "unat m + unat fee \<le> unat (balances H c (caller (tx c)))"
  obtains d where "tsuki_v2_check H c = (Ok fee, d)" and "env_of d = env_of c"
    and "balances H d = balances H c"
    and "fst (mn_validate_against_state_and_deduct_caller H d) =
      fst (mn_validate_against_state_and_deduct_caller H c)"
    and "balances H (snd (mn_validate_against_state_and_deduct_caller H d)) =
      balances H (snd (mn_validate_against_state_and_deduct_caller H c))"
proof -
  obtain d where load: "on_journal (load_account_mut (jrn H) (caller (tx c))) c = (Ok (), d)"
    and d: "env_of d = env_of c" "balances H d = balances H c"
    and mn: "fst (mn_validate_against_state_and_deduct_caller H d) =
      fst (mn_validate_against_state_and_deduct_caller H c)"
      "balances H (snd (mn_validate_against_state_and_deduct_caller H d)) =
      balances H (snd (mn_validate_against_state_and_deduct_caller H c))"
    by (rule load_step)
  have t: "tx d = tx c" using env_ofD [OF d(1)] by simp
  have bal: "acc_balance (jrn H) (journal d) (caller (tx c)) = balances H c (caller (tx c))"
    using d(2) by (simp add: balances_def fun_eq_iff)
  have "unat m + unat fee < 2 ^ 256"
    using assms(3) unsigned_less [of "balances H c (caller (tx c))", where ?'a = nat] by simp
  then have sum: "checked_add m fee = Some (m + fee)" and "unat (m + fee) = unat m + unat fee"
    by (simp_all add: checked_add_def unat_word_ariths)
  then have "\<not> balances H c (caller (tx c)) < m + fee" using assms(3) by (simp add: word_less_nat_alt)
  moreover have "tx_l1_cost d (cfg_spec (cfg c)) = (Ok fee :: ('d evm_error, u256) outcome)"
    using assms(2) by (simp add: tx_l1_cost_env [OF d(1)])
  ultimately have "tsuki_v2_check H c = (Ok fee, d)"
    using load assms(1)
    by (simp add: tsuki_v2_check_def Let_def bind_def bal t sum)
  then show thesis using that d mn by blast
qed

lemma before_accepts:
  assumes "mn_validate_against_state_and_deduct_caller H c = (Ok (), c1)" and "fee_charged (tx c)"
    and "tx_l1_cost c (cfg_spec (cfg c)) = (Ok fee :: ('d evm_error, u256) outcome)"
    and "fee \<le> balances H c1 (caller (tx c))"
  shows "fst (deduct_before_tsuki_v2 H c) = Ok ()"
    and "balances H (snd (deduct_before_tsuki_v2 H c)) =
      (balances H c1)(caller (tx c) := balances H c1 (caller (tx c)) - fee)"
proof -
  note c1 = mainnet_charge [OF assms(1)]
  obtain d where load: "on_journal (load_account_mut (jrn H) (caller (tx c))) c1 = (Ok (), d)"
    and d: "env_of d = env_of c1" "balances H d = balances H c1" by (rule load_step)
  have cost: "tx_l1_cost c1 (cfg_spec (cfg c)) = (Ok fee :: ('d evm_error, u256) outcome)"
    using assms(3) by (simp add: tx_l1_cost_env [OF c1(1)])
  have bal: "acc_balance (jrn H) (journal d) (caller (tx c)) = balances H c1 (caller (tx c))"
    using d(2) by (simp add: balances_def fun_eq_iff)
  have run: "deduct_before_tsuki_v2 H c =
      (Ok (), d\<lparr>journal := snd (decr_balance (jrn H) (caller (tx c)) fee (journal d))\<rparr>)"
    using assms(1,2,4) load cost
    by (simp add: deduct_before_tsuki_v2_def Let_def bind_def bal not_less decr_caller_balance_eq)
  then show "fst (deduct_before_tsuki_v2 H c) = Ok ()" by simp
  show "balances H (snd (deduct_before_tsuki_v2 H c)) =
      (balances H c1)(caller (tx c) := balances H c1 (caller (tx c)) - fee)"
    using decr_balances [of fee d "caller (tx c)"] assms(4) d(2) by (simp add: run)
qed

lemma fee_fits:
  assumes "mn_validate_against_state_and_deduct_caller H c = (Ok (), c1)"
    and "max_balance_spending (txo H) (tx c) = Ok m"
    and "unat m + unat fee \<le> unat (balances H c (caller (tx c)))"
  shows "fee \<le> balances H c1 (caller (tx c))"
proof -
  have "unat (gas_charge (tx c) (block c)) \<le> unat m" using deduct_ok [OF assms(1)] assms(2) by auto
  then show ?thesis
    using mainnet_charge [OF assms(1)] assms(3) by (simp add: word_le_nat_alt unat_sub)
qed

lemma from_accepts:
  assumes "mn_validate_against_state_and_deduct_caller H c = (Ok (), c1)" and "fee_charged (tx c)"
    and "max_balance_spending (txo H) (tx c) = Ok m"
    and "tx_l1_cost c (cfg_spec (cfg c)) = (Ok fee :: ('d evm_error, u256) outcome)"
    and "unat m + unat fee \<le> unat (balances H c (caller (tx c)))"
  shows "fst (deduct_from_tsuki_v2 H c) = Ok ()"
    and "balances H (snd (deduct_from_tsuki_v2 H c)) =
      (balances H c1)(caller (tx c) := balances H c1 (caller (tx c)) - fee)"
proof -
  obtain d where check: "tsuki_v2_check H c = (Ok fee, d)" and d: "env_of d = env_of c"
    and mn: "fst (mn_validate_against_state_and_deduct_caller H d) = Ok ()"
      "balances H (snd (mn_validate_against_state_and_deduct_caller H d)) = balances H c1"
    using assms(1) by (auto intro: check_passes [OF assms(3-5)])
  obtain e where e: "mn_validate_against_state_and_deduct_caller H d = (Ok (), e)"
    and eb: "balances H e = balances H c1" using mn by (metis prod.collapse)
  obtain f where load: "on_journal (load_account_mut (jrn H) (caller (tx c))) e = (Ok (), f)"
    and f: "balances H f = balances H e" by (rule load_step)
  have run: "deduct_from_tsuki_v2 H c =
      (Ok (), f\<lparr>journal := snd (decr_balance (jrn H) (caller (tx c)) fee (journal f))\<rparr>)"
    using assms(2) check e load
    by (simp add: deduct_from_tsuki_v2_def Let_def bind_def decr_caller_balance_eq)
  then show "fst (deduct_from_tsuki_v2 H c) = Ok ()" by simp
  have "fee \<le> balances H c1 (caller (tx c))"
    by (rule fee_fits [OF assms(1,3,5)])
  then show "balances H (snd (deduct_from_tsuki_v2 H c)) =
      (balances H c1)(caller (tx c) := balances H c1 (caller (tx c)) - fee)"
    using decr_balances [of fee f "caller (tx c)"] f eb by (simp add: run)
qed

lemma from_implies:
  assumes "fst (deduct_from_tsuki_v2 H c) = Ok ()" and "fee_charged (tx c)"
  obtains m fee c1 where "max_balance_spending (txo H) (tx c) = Ok m"
    and "tx_l1_cost c (cfg_spec (cfg c)) = (Ok fee :: ('d evm_error, u256) outcome)"
    and "unat m + unat fee \<le> unat (balances H c (caller (tx c)))"
    and "mn_validate_against_state_and_deduct_caller H c = (Ok (), c1)"
proof -
  from assms obtain fee d e where check: "tsuki_v2_check H c = (Ok fee, d)"
    and mn: "mn_validate_against_state_and_deduct_caller H d = (Ok (), e)"
    by (cases "deduct_from_tsuki_v2 H c") (auto simp: deduct_from_tsuki_v2_def bind_Ok Let_def)
  obtain m where m: "max_balance_spending (txo H) (tx c) = Ok m"
    and fee: "tx_l1_cost c (cfg_spec (cfg c)) = (Ok fee :: ('d evm_error, u256) outcome)"
    and sum: "unat m + unat fee \<le> unat (balances H c (caller (tx c)))"
    using check by (rule tsuki_v2_check_Ok)
  obtain d' where "tsuki_v2_check H c = (Ok fee, d')"
    and "fst (mn_validate_against_state_and_deduct_caller H d') =
      fst (mn_validate_against_state_and_deduct_caller H c)"
    by (rule check_passes [OF m fee sum])
  then have "fst (mn_validate_against_state_and_deduct_caller H c) = Ok ()" using check mn by simp
  then show thesis using that [OF m fee sum] by (metis prod.collapse)
qed

lemma before_implies:
  assumes "fst (deduct_before_tsuki_v2 H c) = Ok ()" and "fee_charged (tx c)"
  obtains c1 where "mn_validate_against_state_and_deduct_caller H c = (Ok (), c1)"
  using assms
  by (cases "deduct_before_tsuki_v2 H c") (auto simp: deduct_before_tsuki_v2_def bind_Ok Let_def)

lemma upgrade:
  assumes "fee_charged (tx c)"
  shows "fst (deduct_from_tsuki_v2 H c) = Ok () \<longleftrightarrow>
      fst (deduct_before_tsuki_v2 H c) = Ok () \<and> affordable H c"
    and "fst (deduct_from_tsuki_v2 H c) = Ok () \<Longrightarrow>
      balances H (snd (deduct_from_tsuki_v2 H c)) = balances H (snd (deduct_before_tsuki_v2 H c))"
proof -
  have both: "fst (deduct_from_tsuki_v2 H c) = Ok () \<and> fst (deduct_before_tsuki_v2 H c) = Ok () \<and>
      balances H (snd (deduct_from_tsuki_v2 H c)) = balances H (snd (deduct_before_tsuki_v2 H c))"
    if "mn_validate_against_state_and_deduct_caller H c = (Ok (), c1)"
      and "max_balance_spending (txo H) (tx c) = Ok m"
      and "tx_l1_cost c (cfg_spec (cfg c)) = (Ok fee :: ('d evm_error, u256) outcome)"
      and "unat m + unat fee \<le> unat (balances H c (caller (tx c)))" for c1 m fee
    using from_accepts [OF that(1) assms that(2-4)]
      before_accepts [OF that(1) assms that(3) fee_fits [OF that(1,2,4)]] by simp
  show "balances H (snd (deduct_from_tsuki_v2 H c)) = balances H (snd (deduct_before_tsuki_v2 H c))"
    if "fst (deduct_from_tsuki_v2 H c) = Ok ()"
    using that assms by (rule from_implies) (use both in blast)
  show "fst (deduct_from_tsuki_v2 H c) = Ok () \<longleftrightarrow>
      fst (deduct_before_tsuki_v2 H c) = Ok () \<and> affordable H c"
  proof
    assume ok: "fst (deduct_from_tsuki_v2 H c) = Ok ()"
    obtain m fee c1 where m: "max_balance_spending (txo H) (tx c) = Ok m"
      and fee: "tx_l1_cost c (cfg_spec (cfg c)) = (Ok fee :: ('d evm_error, u256) outcome)"
      and sum: "unat m + unat fee \<le> unat (balances H c (caller (tx c)))"
      and mn: "mn_validate_against_state_and_deduct_caller H c = (Ok (), c1)"
      using ok assms by (rule from_implies)
    have "affordable H c" using m fee sum tx_l1_cost_any unfolding affordable_def by blast
    then show "fst (deduct_before_tsuki_v2 H c) = Ok () \<and> affordable H c"
      using both [OF mn m fee sum] by blast
  next
    assume old: "fst (deduct_before_tsuki_v2 H c) = Ok () \<and> affordable H c"
    then obtain c1 where mn: "mn_validate_against_state_and_deduct_caller H c = (Ok (), c1)"
      using assms before_implies by blast
    obtain m fee where m: "max_balance_spending (txo H) (tx c) = Ok m"
      and fee: "tx_l1_cost c (cfg_spec (cfg c)) = (Ok fee :: (unit evm_error, u256) outcome)"
      and sum: "unat m + unat fee \<le> unat (balances H c (caller (tx c)))"
      using old unfolding affordable_def by blast
    from both [OF mn m fee [THEN tx_l1_cost_any [THEN iffD1]] sum]
    show "fst (deduct_from_tsuki_v2 H c) = Ok ()" by blast
  qed
qed

end

section \<open>The upgrade\<close>

text \<open>
  C6 TsukiV2 only tightens admission, and by exactly one requirement: on the same context, the order
  of checks from TsukiV2 accepts a fee-charged transaction if and only if the order before it does and
  the caller's balance covers the maximal spending (gas and value) plus the L1 fee; whatever both
  accept they charge identically.
\<close>

theorem tsuki_v2_tightens:
  assumes "caching_mainnet H gas_charge" and "fee_charged (tx c)"
  shows "(fst (deduct_from_tsuki_v2 H c) = Ok () \<longleftrightarrow>
      fst (deduct_before_tsuki_v2 H c) = Ok () \<and>
      (\<exists>m fee. max_balance_spending (txo H) (tx c) = Ok m \<and>
        tx_l1_cost c (cfg_spec (cfg c)) = (Ok fee :: (unit evm_error, u256) outcome) \<and>
        unat m + unat fee \<le> unat (balances H c (caller (tx c))))) \<and>
    (fst (deduct_from_tsuki_v2 H c) = Ok () \<longrightarrow>
      balances H (snd (deduct_from_tsuki_v2 H c)) = balances H (snd (deduct_before_tsuki_v2 H c)))"
  using caching_mainnet.upgrade [OF assms] by (simp add: affordable_def)

section \<open>The reference instance\<close>

interpretation mem_caching: caching_mainnet mem_handler mem_charge
proof unfold_locales
  show "fst (load_account_mut (jrn mem_handler) a j) = Ok ()" for a and j :: mem_journal
    by (simp add: m_load_def)
  fix a and c :: mem_ctx and j
  assume "load_account_mut (jrn mem_handler) a (journal c) = (Ok (), j)"
  then have "m_acc j = m_acc (journal c)" by (auto simp: m_load_def fun_eq_iff)
  then show "fst (mn_validate_against_state_and_deduct_caller mem_handler (c\<lparr>journal := j\<rparr>)) =
        fst (mn_validate_against_state_and_deduct_caller mem_handler c) \<and>
      balances mem_handler (snd (mn_validate_against_state_and_deduct_caller mem_handler (c\<lparr>journal := j\<rparr>))) =
        balances mem_handler (snd (mn_validate_against_state_and_deduct_caller mem_handler c))"
    by (simp add: mem_deduct_def Let_def balances_def m_decr_def m_bump_def fun_eq_iff split: outcome.split option.split)
qed

theorem tsuki_v2_tightens_witness:
  "fst (deduct_before_tsuki_v2 mem_handler (run_ready TSUKI_V2 (run_tx 0 0xA) 103000)) = Ok () \<and>
   fst (deduct_from_tsuki_v2 mem_handler (run_ready TSUKI_V2 (run_tx 0 0xA) 103000)) \<noteq> Ok ()"
proof -
  let ?c = "run_ready TSUKI_V2 (run_tx 0 0xA) 103000"
  have "fee_charged (tx ?c)" by (simp add: run_defs)
  note tight = tsuki_v2_tightens [OF mem_caching.caching_mainnet_axioms this, THEN conjunct1]
  have "fst (deduct_before_tsuki_v2 mem_handler ?c) = Ok ()"
    by (simp add: run_defs validate_defs deduct_before_tsuki_v2_def run_fee Let_def
        empty_account_def word_less_nat_alt word_le_nat_alt)
  moreover have "balances mem_handler ?c (caller (tx ?c)) = 103000"
    by (simp add: run_defs balances_def empty_account_def)
  moreover have "max_balance_spending (txo mem_handler) (tx ?c) = Ok 21100"
    by (simp add: run_defs mem_spending_def checked_add_def)
  moreover have "tx_l1_cost ?c (cfg_spec (cfg ?c)) = (Ok 82000 :: (unit evm_error, u256) outcome)"
    by (simp add: tx_l1_cost_def run_defs run_fee)
  ultimately show ?thesis using tight by simp
qed

end
