(* ===== verification/HandlerTotal.thy ===== *)
theory HandlerTotal
  imports HandlerEnv
begin

text \<open>
  Totality and typing of the handler. Every method of \<open>src/handler.rs\<close> returns: if no function of
  \<open>revm\<close> it calls panics, neither does the method, in whatever state it is called; one rule per
  combinator carries the argument through the definitions. And the snapshot the handler keeps in the
  chain context is well-typed: it has exactly the fields of its fork, or is still the default one.
\<close>

section \<open>Panic freedom\<close>

definition returns :: "('s, 'e, 'a) exec \<Rightarrow> bool" where
  "returns m \<longleftrightarrow> (\<forall>s. fst (m s) \<noteq> Panic)"

named_theorems returns_rules

lemma returns_ret [returns_rules]: "returns (ret a)"
  by (simp add: returns_def)

lemma returns_raise [returns_rules]: "returns (raise e)"
  by (simp add: returns_def)

lemma returns_gets [returns_rules]: "returns (gets f)"
  by (simp add: returns_def)

lemma returns_modify [returns_rules]: "returns (modify f)"
  by (simp add: returns_def)

lemma returns_pure [returns_rules]: "returns (\<lambda>s. (Ok (f s), g s))" "returns (Pair (Ok a))"
  by (simp_all add: returns_def)

lemma returns_lift [returns_rules]: "(\<And>s. f s \<noteq> Panic) \<Longrightarrow> returns (lift f)"
  by (simp add: returns_def)

lemma returns_bind [returns_rules]:
  assumes "returns m" and "\<And>a. returns (f a)"
  shows "returns (bind m f)"
  unfolding returns_def
proof
  fix s
  show "fst (bind m f s) \<noteq> Panic"
    using assms by (cases "m s", cases "fst (m s)") (auto simp: returns_def bind_def, metis fst_conv)
qed

lemma returns_on_journal [returns_rules]: "returns m \<Longrightarrow> returns (on_journal m)"
  by (auto simp: returns_def on_journal_def exec_simps split: prod.split) (metis fst_conv)

lemma returns_if [returns_rules]: "(b \<Longrightarrow> returns m) \<Longrightarrow> (\<not> b \<Longrightarrow> returns m') \<Longrightarrow> returns (if b then m else m')"
  by simp

lemma returnsI: "(\<And>s. fst (m s) \<noteq> Panic) \<Longrightarrow> returns m"
  by (simp add: returns_def)

lemma returnsD: "returns m \<Longrightarrow> fst (m s) \<noteq> Panic"
  by (simp add: returns_def)

text \<open>What the crate calls and cannot see the inside of.\<close>

definition library_returns :: "('g, 'j, 'd, 'ir, 'gas, 'rg, 'res) handler_ops \<Rightarrow> bool" where
  "library_returns H \<longleftrightarrow>
     (\<forall>a k. returns (db_storage (jrn H) a k)) \<and>
     (\<forall>a. returns (load_account_mut (jrn H) a)) \<and>
     (\<forall>a. returns (load_account_with_code_mut (jrn H) a)) \<and>
     (\<forall>a v. returns (balance_incr (jrn H) a v)) \<and>
     (\<forall>t. max_balance_spending (txo H) t \<noteq> Panic) \<and>
     (\<forall>p b. validate_legacy_gas_price H p b \<noteq> Panic) \<and>
     (\<forall>m p b x. validate_priority_fee_tx H m p b x \<noteq> Panic) \<and>
     (\<forall>hs m p x. validate_eip4844_tx H hs m p x \<noteq> Panic) \<and>
     returns (mn_validate_against_state_and_deduct_caller H) \<and>
     returns (load_accounts H) \<and> returns (apply_eip7702_auth_list H) \<and>
     (\<forall>fr. returns (mn_reimburse_caller H fr)) \<and>
     (\<forall>fr rg. returns (mn_execution_result H fr rg))"

lemma fee_returns: "try_calculate_tx_l1_cost info input spec ratio csize \<noteq> Panic"
  using uncapped_outcome [of info input spec ratio csize] by (auto simp: try_calculate_capped)

lemma tx_l1_cost_returns: "tx_l1_cost c s \<noteq> Panic"
  by (simp add: tx_l1_cost_def fee_returns exec_simps split: option.split)

lemma decr_returns [returns_rules]: "returns (decr_caller_balance H a v)"
  unfolding decr_caller_balance_def by (rule returns_modify)

lemma read_returns:
  assumes "library_returns H"
  shows "returns (read_through_journal (jrn H) k)"
  using assms
  by (auto simp: returns_def read_through_journal_def library_returns_def Let_def split: option.split)

lemma fetch_returns:
  assumes "library_returns H"
  shows "returns (try_fetch_from_journal (jrn H) s)"
proof -
  have "returns (read_all (read_through_journal (jrn H)) ks)" for ks
    by (induction ks) (auto intro!: returns_rules read_returns assms)
  then show ?thesis
    unfolding try_fetch_from_journal_def try_fetch_slots by (auto intro!: returns_rules)
qed

lemma refresh_returns:
  assumes "library_returns H"
  shows "returns (refresh_l1_block_info H)"
  by (rule returnsI)
    (auto simp: refresh_l1_block_info_def intro!: returnsD [of "bind _ _"] returns_rules fetch_returns assms)

lemma before_returns:
  assumes "library_returns H"
  shows "returns (deduct_before_tsuki_v2 H)"
  using assms unfolding library_returns_def
  by (intro returnsI)
    (auto simp: deduct_before_tsuki_v2_def Let_def tx_l1_cost_returns intro!: returnsD [of "bind _ _"] returns_rules)

lemma check_returns:
  assumes "library_returns H"
  shows "returns (tsuki_v2_check H)"
  using assms unfolding library_returns_def
  by (intro returnsI)
    (auto simp: tsuki_v2_check_def Let_def tx_l1_cost_returns exec_simps intro!: returnsD [of "bind _ _"] returns_rules)

lemma from_returns:
  assumes "library_returns H"
  shows "returns (deduct_from_tsuki_v2 H)"
  using assms check_returns [OF assms] unfolding library_returns_def
  by (intro returnsI)
    (auto simp: deduct_from_tsuki_v2_def Let_def intro!: returnsD [of "bind _ _"] returns_rules)

lemma l1_checks_return:
  assumes "library_returns H"
  shows "returns (l1_msg_checks H)"
  using assms unfolding library_returns_def
  by (intro returnsI)
    (auto simp: l1_msg_checks_def Let_def exec_simps intro!: returnsD [of "bind _ _"] returns_rules)

lemma state_check_returns:
  assumes "library_returns H"
  shows "returns (validate_against_state_and_deduct_caller H)"
  by (rule returnsI)
    (auto simp: validate_against_state_and_deduct_caller_def Let_def
      intro!: returnsD [of "bind _ _"] returns_rules before_returns from_returns l1_checks_return assms)

lemma pre_execution_returns:
  assumes "library_returns H"
  shows "returns (pre_execution H)"
  using assms unfolding pre_execution_def library_returns_def
  by (auto intro!: returns_rules refresh_returns state_check_returns assms)

lemma validate_env_returns:
  assumes "library_returns H"
  shows "validate_env H c \<noteq> Panic"
proof -
  have "validate_header H c \<noteq> Panic" by (auto simp: validate_header_def exec_simps)
  moreover have "validate_chain_id H c \<noteq> Panic"
    by (auto simp: validate_chain_id_def Let_def split: option.split)
  moreover have "validate_gas_cap H c \<noteq> Panic" by (simp add: validate_gas_cap_def Let_def)
  moreover have "validate_tx_type H c \<noteq> Panic"
    using assms by (auto simp: validate_tx_type_def validate_priority_fee_for_tx_def Let_def exec_simps
        library_returns_def split: TransactionType.split)
  moreover have "validate_limits H c \<noteq> Panic" by (auto simp: validate_limits_def exec_simps Let_def)
  ultimately show ?thesis by (auto simp: validate_env_def exec_simps)
qed


section \<open>The snapshot\<close>

lemma map_err_Ok: "map_err f x = Ok v \<longleftrightarrow> x = Ok v"
  by (cases x) auto

text \<open>The fields a fork's snapshot has, and the derived one.\<close>

definition snapshot_typed :: "ScrollSpecId \<Rightarrow> L1BlockInfo \<Rightarrow> bool" where
  "snapshot_typed spec info \<longleftrightarrow>
     (l1_blob_base_fee info \<noteq> None \<longleftrightarrow> CURIE \<le> spec) \<and>
     (l1_commit_scalar info \<noteq> None \<longleftrightarrow> CURIE \<le> spec) \<and>
     (l1_blob_scalar info \<noteq> None \<longleftrightarrow> CURIE \<le> spec) \<and>
     (penalty_threshold info \<noteq> None \<longleftrightarrow> FEYNMAN \<le> spec) \<and>
     (penalty_factor info \<noteq> None \<longleftrightarrow> FEYNMAN \<le> spec) \<and>
     calldata_gas info = map_option (\<lambda>c. saturating_mul c (l1_base_fee info)) (l1_commit_scalar info)"

definition stored_typed :: "('g, 'j) ctx \<Rightarrow> bool" where
  "stored_typed c \<longleftrightarrow> chain c = ScrollChainContext_mainnet \<or>
     snapshot_typed (cfg_spec (cfg c)) (l1_block_info (chain c))"

lemma stored_typed_env: "env_of d = env_of c \<Longrightarrow> stored_typed d = stored_typed c"
  by (simp add: stored_typed_def env_of_def)

lemma fetched_typed:
  assumes "try_fetch_with rd spec s = (Ok info, t)"
  shows "snapshot_typed spec info"
proof -
  from assms obtain vs where "read_all rd (oracle_slots spec) s = (Ok vs, t)"
    and info: "info = snapshot_of vs"
    by (auto simp: try_fetch_slots exec_simps)
  then have len: "length vs = length (oracle_slots spec)" by (simp add: read_all_length)
  show ?thesis
    by (cases spec) (simp_all add: info len snapshot_of_def snapshot_typed_def oracle_slots_def
        Let_def spec_gates)
qed

lemma preservesI: "(\<And>s. v (snd (m s)) = v s) \<Longrightarrow> preserves v m"
  by (simp add: preserves_def)

lemma preserves_if: "(b \<Longrightarrow> preserves v m) \<Longrightarrow> (\<not> b \<Longrightarrow> preserves v m') \<Longrightarrow> preserves v (if b then m else m')"
  by simp

lemma preserves_at: "preserves v m \<Longrightarrow> v (snd (m s)) = v s"
  by (simp add: preserves_def)

lemma refresh_cfg: "preserves cfg (refresh_l1_block_info H)"
  by (rule preservesI)
    (auto simp: refresh_l1_block_info_def on_journal_def bind_def split: prod.splits outcome.splits)

text \<open>
  The library functions that run before the frames see the environment (transaction, configuration,
  block, chain data) through shared references and leave it alone; so do then the crate's own methods.
\<close>

locale env_library =
  fixes H :: "('g, 'j, 'd, 'ir, 'gas, 'rg, 'res) handler_ops"
  assumes env_deduct: "preserves env_of (mn_validate_against_state_and_deduct_caller H)"
    and env_load: "preserves env_of (load_accounts H)"
    and env_auth: "preserves env_of (apply_eip7702_auth_list H)"
begin

lemma decr_env: "preserves env_of (decr_caller_balance H a v)"
  by (simp add: preserves_def decr_caller_balance_def env_of_def)

lemma check_env: "preserves env_of (tsuki_v2_check H)"
  by (rule preservesI)
    (auto simp: tsuki_v2_check_def Let_def intro!: preserves_at [of env_of "bind _ _"] preserves_bind preserves_if on_journal_env)

lemma before_env: "preserves env_of (deduct_before_tsuki_v2 H)"
  by (rule preservesI)
    (auto simp: deduct_before_tsuki_v2_def Let_def
      intro!: preserves_at [of env_of "bind _ _"] preserves_bind preserves_if on_journal_env env_deduct decr_env)

lemma from_env: "preserves env_of (deduct_from_tsuki_v2 H)"
  by (rule preservesI)
    (auto simp: deduct_from_tsuki_v2_def Let_def
      intro!: preserves_at [of env_of "bind _ _"] preserves_bind preserves_if on_journal_env env_deduct decr_env check_env)

lemma l1_checks_env: "preserves env_of (l1_msg_checks H)"
  by (rule preservesI)
    (auto simp: l1_msg_checks_def Let_def env_of_def [abs_def] on_journal_def bind_def
      split: prod.splits outcome.splits)

lemma state_check_env: "preserves env_of (validate_against_state_and_deduct_caller H)"
  by (rule preservesI)
    (auto simp: validate_against_state_and_deduct_caller_def Let_def
      intro!: preserves_at [of env_of "bind _ _"] preserves_bind preserves_if before_env from_env l1_checks_env)

lemma after_refresh_env:
  "preserves env_of (bind (validate_against_state_and_deduct_caller H) (\<lambda>_.
     bind (load_accounts H) (\<lambda>_. apply_eip7702_auth_list H)))"
  by (auto intro!: state_check_env env_load env_auth)

end

sublocale mainnet_handler \<subseteq> env_library
  by unfold_locales (fact deduct_env load_env auth_env)+

context mainnet_handler begin

lemma snapshot_step:
  assumes "stored_typed c" and "pre_execution H c = (r, d)"
  shows "stored_typed d \<and> (fee_charged (tx c) \<and> (\<exists>n. r = Ok n) \<longrightarrow>
    snapshot_typed (cfg_spec (cfg d)) (l1_block_info (chain d)))"
proof (cases "refresh_l1_block_info H c")
  case (Pair r1 c1)
  have rest: "env_of d = env_of c1" if "r1 = Ok ()"
    using assms(2) Pair that preserves_at [OF after_refresh_env, of c1]
    by (simp add: pre_execution_def bind_def [of "refresh_l1_block_info H"])
  have stop: "d = c1 \<and> (\<forall>n. r \<noteq> Ok n)" if "r1 \<noteq> Ok ()"
    using assms(2) Pair that by (cases r1) (auto simp: pre_execution_def bind_def)
  have typed: "stored_typed c1 \<and> (fee_charged (tx c) \<and> r1 = Ok () \<longrightarrow>
      snapshot_typed (cfg_spec (cfg c1)) (l1_block_info (chain c1)))"
  proof (cases "fee_charged (tx c)")
    case False
    then show ?thesis using refresh_uncharged [OF False] Pair assms(1) by (auto simp del: fst_conv)
  next
    case True
    show ?thesis
    proof (cases "on_journal (try_fetch_from_journal (jrn H) (cfg_spec (cfg c))) c")
      case (Pair r2 c2)
      have same: "env_of c2 = env_of c" by (rule fetch_frame [OF Pair])
      show ?thesis
      proof (cases r2)
        case (Ok info)
        have "snapshot_typed (cfg_spec (cfg c)) info"
          using Pair Ok fetched_typed
          by (auto simp: on_journal_def try_fetch_from_journal_def map_err_Ok split: prod.splits)
        then show ?thesis
          using True Pair Ok \<open>refresh_l1_block_info H c = (r1, c1)\<close> env_ofD [OF same]
          by (auto simp: refresh_l1_block_info_def bind_def stored_typed_def)
      qed (use True Pair \<open>refresh_l1_block_info H c = (r1, c1)\<close> stored_typed_env [OF same] assms(1)
          in \<open>auto simp: refresh_l1_block_info_def bind_def\<close>)
    qed
  qed
  show ?thesis
  proof (cases "r1 = Ok ()")
    case True
    show ?thesis using typed True stored_typed_env [OF rest [OF True]] env_ofD [OF rest [OF True]] by auto
  qed (use stop typed in auto)
qed

end

text \<open>
  C21 The snapshot in the chain context is well-typed: it starts as the default one, and \<open>pre_execution\<close>
  - successful or not, for any transaction - leaves it the default or one with exactly the fields of
  the fork in force; after a successful \<open>pre_execution\<close> of a fee-charged transaction it is of the
  latter kind, with \<open>calldata_gas\<close> the (saturating) product of commit scalar and base fee.
\<close>

theorem snapshot_well_typed:
  assumes "mainnet_handler H gas_charge" and "stored_typed c" and "pre_execution H c = (r, d)"
  shows "stored_typed d \<and>
    (fee_charged (tx c) \<and> (\<exists>n. r = Ok n) \<longrightarrow>
       snapshot_typed (cfg_spec (cfg d)) (l1_block_info (chain d)))"
  by (rule mainnet_handler.snapshot_step [OF assms])

section \<open>Instances\<close>

lemma mem_returns: "library_returns mem_handler"
  unfolding library_returns_def
  by (auto simp: mem_handler_def returns_def m_db_storage_def m_load_def m_incr_def mem_spending_def
      mem_deduct_def on_journal_def bind_def checked_add_def guard_err_def Let_def
      split: prod.splits option.splits outcome.splits)

text \<open>A transaction that lists one address \<open>2\<^sup>31\<close> times.\<close>

definition long_list_tx :: ScrollTransaction where
  "long_list_tx = (let t = run_tx 1 0xA in
     t\<lparr>base := (base t)\<lparr>base_access_list := Some (replicate (2 ^ 31) \<lparr>item_address = 1, storage_slots = []\<rparr>)\<rparr>\<rparr>)"


lemma run_fork:
  assumes "pre_execution mem_handler (run_ctx s t funds) = (Ok n, d)"
  shows "cfg_spec (cfg d) = s"
proof -
  obtain c1 c2 where c1: "refresh_l1_block_info mem_handler (run_ctx s t funds) = (Ok (), c1)"
    and c2: "validate_against_state_and_deduct_caller mem_handler c1 = (Ok (), c2)"
    and d: "env_of d = env_of c2"
    using assms by (rule mem_mainnet.pre_execution_Ok)
  have "cfg d = cfg c1"
    using env_ofD [OF d] env_ofD [OF preservesD [OF mem_mainnet.state_check_env c2]] by simp
  moreover have "cfg c1 = cfg (run_ctx s t funds)"
    using preserves_at [OF refresh_cfg, of mem_handler "run_ctx s t funds"] c1 by simp
  ultimately show ?thesis by (simp add: run_ctx_def)
qed

theorem snapshot_well_typed_witness:
  "stored_typed (run_ctx TSUKI_V2 (run_tx 0 0xA) 103100) \<and>
   (\<exists>d. pre_execution mem_handler (run_ctx TSUKI_V2 (run_tx 0 0xA) 103100) = (Ok 0, d) \<and>
     snapshot_typed TSUKI_V2 (l1_block_info (chain d)))"
proof -
  let ?c = "run_ctx TSUKI_V2 (run_tx 0 0xA) 103100"
  have typed: "stored_typed ?c" by (simp add: stored_typed_def run_ctx_def)
  obtain d where d: "pre_execution mem_handler ?c = (Ok 0, d)"
    using run_accepted by (metis prod.collapse)
  have "fee_charged (tx ?c)" by (simp add: run_defs)
  with snapshot_well_typed [OF mem_mainnet.mainnet_handler_axioms typed d]
  have "snapshot_typed (cfg_spec (cfg d)) (l1_block_info (chain d))" by blast
  moreover have "cfg_spec (cfg d) = TSUKI_V2"
    using run_fork [OF d] by simp
  ultimately show ?thesis using typed d by auto
qed

end
