(* ===== verification/HistoryUpgrade.thy ===== *)
theory HistoryUpgrade
  imports InstructionRuns
begin

text \<open>
  \<open>BLOCKHASH\<close> from Feynman to TsukiV2 and what the change to EIP-7709 gas alters: the block hash found
  is the same, the price and the warmth are not. The locale \<open>history_reader\<close> extends the host's
  contract by the two unmetered loads of the earlier branch.
\<close>

locale history_reader = history_host K cached warm_account warm_slot stored
  for K :: "('h, 'g, 'cp) host_ops" and cached and warm_account and warm_slot and stored +
  assumes delegated_load:
      "load_account_delegated K a h = (ok, h') \<Longrightarrow>
         stored h' = stored h \<and> warm_slot h' = warm_slot h \<and>
         (ok \<longrightarrow> warm_account h' = (warm_account h)(a := True))"
    and plain_sload:
      "sload K a k h = (r, h') \<Longrightarrow> warm_account h' = warm_account h \<and>
         (\<forall>v. r = Some v \<longrightarrow> sl_data v = stored h a k \<and>
            warm_slot h' = (warm_slot h)(a := (warm_slot h a)(k := True)))"
begin

text \<open>Without metering: the stored value for the static gas alone, or a fatal halt.\<close>

lemma unmetered_outcome:
  assumes I: "interpreter I stack status" and stk: "stack i = n # vs"
    and run: "blockhash_feynman I K k i h = (i', h')"
  shows "status i' = Some FatalExternalError \<or>
    stack i' = stored h HISTORY_STORAGE_ADDRESS k # vs \<and> status i' = status i \<and>
    gas_remaining I i' = gas_remaining I i \<and>
    warm_account h' = (warm_account h)(HISTORY_STORAGE_ADDRESS := True) \<and>
    warm_slot h' = warm_history warm_slot h k"
proof -
  obtain ok h1 where load: "load_account_delegated K HISTORY_STORAGE_ADDRESS h = (ok, h1)"
    by (metis prod.collapse)
  obtain r h2 where read: "sload K HISTORY_STORAGE_ADDRESS k h1 = (r, h2)"
    by (metis prod.collapse)
  show ?thesis
  proof (cases "ok \<and> r \<noteq> None")
    case False
    then have "i' = halt I FatalExternalError i"
      using run load read by (cases ok; cases r) (auto simp: blockhash_feynman_def)
    then show ?thesis using interpreter.halt_status(1) [OF I] by simp
  next
    case True
    then obtain v where v: "r = Some v" and i': "i' = set_top I (sl_data v) i" "h' = h2"
      using run load read by (cases r) (auto simp: blockhash_feynman_def)
    then show ?thesis
      using True delegated_load [OF load] plain_sload [OF read]
        interpreter.set_top_stack [OF I stk] interpreter.set_top_rest [OF I]
      by (simp add: warm_history_def)
  qed
qed

end

text \<open>
  C13 What TsukiV2 changes of \<open>BLOCKHASH\<close>, within the window and on the same storage: where the earlier
  forks answer, they answer the stored hash for the static gas alone and leave the history contract's
  account warm; TsukiV2 answers the same hash, having charged the price of an SLOAD, and leaves every
  account as warm as it was - or it halts, out of gas exactly when that price is not covered.
\<close>

theorem blockhash_upgrade:
  assumes "interpreter I stack status" and "history_reader K cached warm_account warm_slot stored"
    and "BLOCK_HASH_HISTORY K = 256"
    and "FEYNMAN \<le> host_spec K h" and "\<not> TSUKI_V2 \<le> host_spec K h" and "TSUKI_V2 \<le> host_spec K g"
    and "host_block_number K g = host_block_number K h" and "stored g = stored h"
    and "stack i = n # vs" and "in_window K h n"
    and "blockhash I K i h = (i1, h1)" and "blockhash I K i g = (i2, g2)"
    and "status i1 \<noteq> Some FatalExternalError" and "status i2 \<noteq> Some FatalExternalError"
  shows "status i1 = status i \<and> gas_remaining I i1 = gas_remaining I i \<and>
    warm_account h1 = (warm_account h)(HISTORY_STORAGE_ADDRESS := True) \<and>
    warm_account g2 = warm_account g \<and>
    (let cost = history_cost K warm_slot g (history_index (as_u64_saturated I n)) in
     if cost \<le> unat (gas_remaining I i)
     then stack i2 = stack i1 \<and> status i2 = status i \<and>
       unat (gas_remaining I i2) = unat (gas_remaining I i1) - cost
     else status i2 = Some OutOfGas)"
proof -
  note I = assms(1)
  have H: "history_host K cached warm_account warm_slot stored"
    using assms(2) by (simp add: history_reader_def)
  let ?k = "history_index (as_u64_saturated I n)"
  have win: "in_window K g n" using assms(7,10) by (simp add: in_window_def)
  have old: "blockhash_feynman I K ?k i h = (i1, h1)"
    using interpreter.blockhash_inside [OF I assms(9,3,10)] assms(4,5,11) by simp
  have new: "blockhash_tsuki_v2 I K ?k i g = (i2, g2)"
    using interpreter.blockhash_inside [OF I assms(9,3) win] assms(6,12)
    by (auto simp: spec_gates split: if_splits)
  show ?thesis
    using history_reader.unmetered_outcome [OF assms(2) I assms(9) old]
      tsuki_v2_outcome [OF I H assms(9) new] assms(8,13,14)
    by (auto simp: history_outcome_def Let_def)
qed

interpretation mem_reader: history_reader mem_host_ops mh_cached mh_warm_account mh_warm_slot mh_stored
  by unfold_locales (auto simp: mem_host_ops_def mem_load_account_def mem_sload_def split: if_splits)


lemma run_feynman:
  "mi_status (fst (blockhash mem_interp_ops mem_host_ops (run_interp [999] 2100) (run_host FEYNMAN))) = None"
  by (simp add: blockhash_def blockhash_feynman_def run_interp_def run_host_def mem_interp_ops_def
      mem_host_ops_def checked_sub_def mem_as_u64_def spec_gates mem_sload_def mem_load_account_def
      Let_def word_le_nat_alt word_less_nat_alt HISTORY_STORAGE_ADDRESS_def)

theorem blockhash_upgrade_witness:
  "mi_stack (fst (blockhash mem_interp_ops mem_host_ops (run_interp [999] 2100) (run_host TSUKI_V2))) =
     mi_stack (fst (blockhash mem_interp_ops mem_host_ops (run_interp [999] 2100) (run_host FEYNMAN))) \<and>
   mh_warm_account (snd (blockhash mem_interp_ops mem_host_ops (run_interp [999] 2100) (run_host FEYNMAN)))
     HISTORY_STORAGE_ADDRESS \<and>
   \<not> mh_warm_account (snd (blockhash mem_interp_ops mem_host_ops (run_interp [999] 2100) (run_host TSUKI_V2)))
     HISTORY_STORAGE_ADDRESS"
proof -
  obtain i1 h1 i2 g2 where
    old: "blockhash mem_interp_ops mem_host_ops (run_interp [999] 2100) (run_host FEYNMAN) = (i1, h1)" and
    new: "blockhash mem_interp_ops mem_host_ops (run_interp [999] 2100) (run_host TSUKI_V2) = (i2, g2)"
    by (metis prod.collapse)
  have "mi_status i1 \<noteq> Some FatalExternalError" "mi_status i2 \<noteq> Some FatalExternalError"
    using run_feynman run_blockhash old new by simp_all
  moreover have "host_block_number mem_host_ops (run_host s) = 1000" "mh_stored (run_host s) = (\<lambda>_ k. k + 7)"
    "\<not> mh_warm_account (run_host s) a" for s a
    by (simp_all add: mem_host_ops_def run_host_def)
  moreover have "history_cost mem_host_ops mh_warm_slot (run_host TSUKI_V2) k = 2100" for k
    by (simp add: history_cost_def mem_host_ops_def run_host_def)
  ultimately show ?thesis
    using blockhash_upgrade [OF mem_interp.interpreter_axioms mem_reader.history_reader_axioms _ _ _ _ _ _ _ _
        old new, of 999 "[]"] old new
    by (simp add: run_window spec_gates Let_def)
qed

end
