(* ===== verification/MemoryCopy.thy ===== *)
theory MemoryCopy
  imports InstructionRuns
begin

text \<open>
  \<open>MCOPY\<close> (\<open>mcopy\<close>, \<open>src/instructions.rs\<close>). The locale \<open>interp_memory\<close> extends the interpreter's contract by
  its memory: which bytes it holds and how far it reaches. Copying is only promised within that reach,
  so that the instruction is right rests on its having resized the memory for both ranges.
\<close>

locale interp_memory = interpreter I stack status
  for I :: "('i, 'g) interp_ops" and stack and status +
  fixes byte_at :: "'i \<Rightarrow> nat \<Rightarrow> u8" and reach :: "'i \<Rightarrow> nat"
  assumes usize: "as_usize I v = (if unat v < 2 ^ 64 then Some (ucast v) else None)"
    and popn_memory: "popn I n i = Some (vs, i') \<Longrightarrow> byte_at i' = byte_at i"
    and cost_memory: "record_cost I c i = Some i' \<Longrightarrow> byte_at i' = byte_at i"
    and halt_memory: "byte_at (halt I r i) = byte_at i" "byte_at (halt_oog I i) = byte_at i"
    and resize_done: "resize_memory I g off len i = (True, i') \<Longrightarrow>
         byte_at i' = byte_at i \<and> unat off + unat len \<le> reach i' \<and> stack i' = stack i \<and>
         status i' = status i \<and> gas_remaining I i' \<le> gas_remaining I i"
    and resize_refused: "resize_memory I g off len i = (False, i') \<Longrightarrow>
         byte_at i' = byte_at i \<and> status i' \<noteq> None"
    and copy_within: "unat dst + unat len \<le> reach i \<Longrightarrow> unat src + unat len \<le> reach i \<Longrightarrow>
         byte_at (memory_copy I dst src len i) k =
           (if unat dst \<le> k \<and> k < unat dst + unat len then byte_at i (unat src + (k - unat dst))
            else byte_at i k)"
    and copy_rest: "stack (memory_copy I dst src len i) = stack i"
      "status (memory_copy I dst src len i) = status i"
      "gas_remaining I (memory_copy I dst src len i) = gas_remaining I i"
begin

text \<open>Memory after a copy of \<open>l\<close> bytes from \<open>s\<close> to \<open>d\<close>, all read before any is written.\<close>

definition copied :: "'i \<Rightarrow> nat \<Rightarrow> nat \<Rightarrow> nat \<Rightarrow> nat \<Rightarrow> u8" where
  "copied i d s l k = (if d \<le> k \<and> k < d + l then byte_at i (s + (k - d)) else byte_at i k)"

text \<open>The part after the charge, for a nonzero length.\<close>

lemma copy_outcome:
  assumes run: "(case as_usize I d of None \<Rightarrow> (halt I InvalidOperandOOG i, h)
      | Some dst \<Rightarrow>
          (case as_usize I s of None \<Rightarrow> (halt I InvalidOperandOOG i, h)
           | Some src \<Rightarrow>
               (case resize_memory I g (max dst src) len i of
                  (False, i3) \<Rightarrow> (i3, h)
                | (True, i3) \<Rightarrow> (memory_copy I dst src len i3, h)))) = (i', h')"
    and st: "status i = None"
  shows "h' = h \<and>
    (status i' = None \<longrightarrow> stack i' = stack i \<and> byte_at i' = copied i (unat d) (unat s) (unat len) \<and>
       gas_remaining I i' \<le> gas_remaining I i) \<and>
    (status i' \<noteq> None \<longrightarrow> byte_at i' = byte_at i)"
proof (cases "as_usize I d = None \<or> as_usize I s = None")
  case True
  then have "i' = halt I InvalidOperandOOG i" "h' = h"
    using run by (auto split: option.splits)
  then show ?thesis using st by (simp add: halt_status halt_memory)
next
  case False
  then have d: "as_usize I d = Some (ucast d)" "unat (ucast d :: usize) = unat d"
    and s: "as_usize I s = Some (ucast s)" "unat (ucast s :: usize) = unat s"
    using usize [of d] usize [of s]
    by (auto simp: unsigned_ucast_eq take_bit_nat_eq_self split: if_splits)
  obtain ok i3 where rs: "resize_memory I g (max (ucast d) (ucast s)) len i = (ok, i3)"
    by (metis prod.collapse)
  show ?thesis
  proof (cases ok)
    case False
    then have "i' = i3" "h' = h" using run d s rs by auto
    moreover have "byte_at i3 = byte_at i" "status i3 \<noteq> None"
      using resize_refused [of g _ len i i3] rs False by auto
    ultimately show ?thesis by auto
  next
    case True
    then have run': "i' = memory_copy I (ucast d) (ucast s) len i3" "h' = h"
      using run d s rs by auto
    have rs': "byte_at i3 = byte_at i" "stack i3 = stack i" "status i3 = status i"
      "gas_remaining I i3 \<le> gas_remaining I i"
      and reach: "unat (max (ucast d :: usize) (ucast s)) + unat len \<le> reach i3"
      using resize_done rs True by auto
    have "unat d + unat len \<le> reach i3" "unat s + unat len \<le> reach i3"
      using reach d(2) s(2) by (auto simp: max_def word_le_nat_alt split: if_splits)
    then have "byte_at i' = copied i (unat d) (unat s) (unat len)"
      using copy_within [of "ucast d" len i3 "ucast s"] d(2) s(2) rs'
      by (auto simp: run' copied_def fun_eq_iff)
    then show ?thesis using rs' st by (simp add: run' copy_rest)
  qed
qed

lemma mcopy_outcome:
  assumes stk: "stack i = d # s # l # vs" and st: "status i = None"
    and on: "CURIE \<le> host_spec K h" and run: "mcopy I K i h = (i', h')"
  shows "h' = h \<and>
    (status i' = None \<longrightarrow>
       stack i' = vs \<and> unat l < 2 ^ 64 \<and> byte_at i' = copied i (unat d) (unat s) (unat l) \<and>
       unat (gas_remaining I i') + unat (mcopy_cost K (host_gas_params K h) (ucast l)) \<le> unat (gas_remaining I i)) \<and>
    (status i' \<noteq> None \<longrightarrow> byte_at i' = byte_at i) \<and>
    (l = 0 \<and> mcopy_cost K (host_gas_params K h) 0 \<le> gas_remaining I i \<longrightarrow> status i' = None)"
proof -
  let ?c = "mcopy_cost K (host_gas_params K h)"
  obtain us i1 where pop: "popn I 3 i = Some (us, i1)"
    using popn_stack(1) [of 3 i] stk by fastforce
  then have us: "us = [d, s, l]" and i1: "stack i1 = vs" "status i1 = None"
      "gas_remaining I i1 = gas_remaining I i" "byte_at i1 = byte_at i"
    using popn_stack(2) [OF pop] popn_memory [OF pop] stk st
    by (auto simp: numeral_eq_Suc length_Suc_conv)
  note run = run [unfolded mcopy_def is_enabled_in_le, simplified on pop us, simplified]
  consider (wide) "as_usize I l = None" "\<not> unat l < 2 ^ 64"
    | (poor) "as_usize I l = Some (ucast l)" "record_cost I (?c (ucast l)) i1 = None"
    | (paid) i2 where "as_usize I l = Some (ucast l)" "unat l < 2 ^ 64"
        "record_cost I (?c (ucast l)) i1 = Some i2"
    using usize [of l] by (cases "record_cost I (?c (ucast l)) i1") (auto split: if_splits)
  then show ?thesis
  proof cases
    case wide
    then show ?thesis using run i1 by (auto simp: halt_status halt_memory)
  next
    case poor
    then have "gas_remaining I i1 < ?c (ucast l)" using record_cost_None by simp
    then show ?thesis using run poor i1 by (auto simp: halt_status halt_memory)
  next
    case (paid i2)
    note i2 = record_cost_Some [OF paid(3)] cost_memory [OF paid(3)]
    have "?c (ucast l) \<le> gas_remaining I i"
      using paid(3) record_cost_None [of "?c (ucast l)" i1] i1 by (metis linorder_not_less option.distinct(1))
    then have sum: "unat (gas_remaining I i2) + unat (?c (ucast l)) = unat (gas_remaining I i)"
      using i2 i1 by (simp add: unat_sub word_le_nat_alt)
    have ul: "unat (ucast l :: usize) = unat l"
      using paid(2) by (simp add: unsigned_ucast_eq take_bit_nat_eq_self)
    then have zero: "(ucast l :: usize) = 0 \<longleftrightarrow> l = 0" by (metis unat_eq_0)
    show ?thesis
    proof (cases "l = 0")
      case True
      then have "i' = i2" "h' = h" using run paid by auto
      then show ?thesis using True i1 i2 sum by (auto simp: copied_def fun_eq_iff)
    next
      case False
      have "h' = h \<and>
        (status i' = None \<longrightarrow> stack i' = stack i2 \<and> byte_at i' = copied i2 (unat d) (unat s) (unat l) \<and>
           gas_remaining I i' \<le> gas_remaining I i2) \<and>
        (status i' \<noteq> None \<longrightarrow> byte_at i' = byte_at i2)"
        using copy_outcome [where d = d and s = s and i = i2 and h = h and g = "host_gas_params K h"
            and len = "ucast l" and i' = i' and h' = h'] run paid False zero i1 i2 ul
        by simp
      then show ?thesis
        using False i1 i2 sum paid(2) by (auto simp: copied_def fun_eq_iff word_le_nat_alt)
    qed
  qed
qed

end


text \<open>
  C36 \<open>MCOPY\<close> from Curie on: it never touches the host; when it completes, the three operands are popped,
  the memory is the one before with the \<open>l\<close> bytes at \<open>s\<close> (as they were, so overlapping ranges are right)
  written at \<open>d\<close>, and at least the copy's price is spent; when it halts, no byte has changed. A copy of
  no bytes completes whenever its price is covered, wherever source and destination point.
\<close>

theorem mcopy_copies:
  assumes "interp_memory I stack status byte_at reach"
    and "stack i = d # s # l # vs" and "status i = None" and "CURIE \<le> host_spec K h"
    and "mcopy I K i h = (i', h')"
  shows "h' = h \<and>
    (status i' = None \<longrightarrow>
       stack i' = vs \<and> unat l < 2 ^ 64 \<and>
       (\<forall>k. byte_at i' k =
          (if unat d \<le> k \<and> k < unat d + unat l then byte_at i (unat s + (k - unat d)) else byte_at i k)) \<and>
       unat (gas_remaining I i') + unat (mcopy_cost K (host_gas_params K h) (ucast l)) \<le> unat (gas_remaining I i)) \<and>
    (status i' \<noteq> None \<longrightarrow> byte_at i' = byte_at i) \<and>
    (l = 0 \<and> mcopy_cost K (host_gas_params K h) 0 \<le> gas_remaining I i \<longrightarrow> status i' = None)"
  using interp_memory.mcopy_outcome [OF assms]
  by (simp add: interp_memory.copied_def [OF assms(1)] fun_eq_iff)

section \<open>The reference interpreter\<close>

definition mem_byte :: "mem_interp \<Rightarrow> nat \<Rightarrow> u8" where
  "mem_byte i k = (if k < length (mi_memory i) then mi_memory i ! k else 0)"

definition mem_reach :: "mem_interp \<Rightarrow> nat" where
  "mem_reach i = length (mi_memory i)"

lemma words_reach: "n \<le> 32 * mem_words n"
  by (simp add: mem_words_def)

lemma resize_mem:
  assumes "mem_resize off len i = (ok, i')"
  shows "mem_byte i' = mem_byte i" "mi_stack i' = mi_stack i" "mi_gas i' \<le> mi_gas i"
    "ok \<Longrightarrow> mi_status i' = mi_status i \<and> unat off + unat len \<le> mem_reach i'" "\<not> ok \<Longrightarrow> mi_status i' \<noteq> None"
proof -
  define old where "old = mem_words (length (mi_memory i))"
  define new where "new = max old (mem_words (unat off + unat len))"
  define cost where "cost = mem_gas_of new - mem_gas_of old"
  note run = assms [unfolded mem_resize_def Let_def old_def [symmetric] new_def [symmetric] cost_def [symmetric]]
  have wide: "length (mi_memory i) \<le> 32 * new" "unat off + unat len \<le> 32 * new"
    using words_reach [of "length (mi_memory i)"] words_reach [of "unat off + unat len"]
    by (simp_all add: new_def old_def)
  have pay: "mi_gas i - of_nat cost \<le> mi_gas i" if "\<not> unat (mi_gas i) < cost"
  proof (rule word_sub_le)
    have "unat (of_nat cost :: u64) = cost"
      using that unsigned_less [of "mi_gas i", where ?'a = nat]
      by (simp add: unsigned_of_nat take_bit_nat_eq_self)
    then show "of_nat cost \<le> mi_gas i" using that by (simp add: word_le_nat_alt)
  qed
  show "mem_byte i' = mem_byte i"
    using run by (auto simp: mem_byte_def fun_eq_iff nth_append split: if_splits)
  show "mi_stack i' = mi_stack i" using run by (auto split: if_splits)
  show "mi_gas i' \<le> mi_gas i" using run pay by (auto split: if_splits)
  show "ok \<Longrightarrow> mi_status i' = mi_status i \<and> unat off + unat len \<le> mem_reach i'"
    using run wide by (auto simp: mem_reach_def split: if_splits)
  show "\<not> ok \<Longrightarrow> mi_status i' \<noteq> None" using run by (auto split: if_splits)
qed

lemma splice_nth:
  assumes "d + length ys \<le> length m" and "k < length m"
  shows "(take d m @ ys @ drop (d + length ys) m) ! k = (if d \<le> k \<and> k < d + length ys then ys ! (k - d) else m ! k)"
  using assms by (auto simp: nth_append)

lemma copy_mem:
  assumes "unat dst + unat len \<le> mem_reach i" and "unat src + unat len \<le> mem_reach i"
  shows "mem_byte (memory_copy mem_interp_ops dst src len i) k =
    (if unat dst \<le> k \<and> k < unat dst + unat len then mem_byte i (unat src + (k - unat dst))
     else mem_byte i k)"
proof -
  let ?m = "mi_memory i"
  let ?ys = "take (unat len) (drop (unat src) ?m)"
  have ys: "length ?ys = unat len" using assms(2) by (simp add: mem_reach_def)
  have m: "mi_memory (memory_copy mem_interp_ops dst src len i) = take (unat dst) ?m @ ?ys @ drop (unat dst + length ?ys) ?m"
    using ys by (simp add: mem_interp_ops_def)
  have fits: "unat dst + length ?ys \<le> length ?m" using assms(1) ys by (simp add: mem_reach_def)
  then have "length (take (unat dst) ?m @ ?ys @ drop (unat dst + length ?ys) ?m) = length ?m" by simp
  then show ?thesis
    using splice_nth [OF fits, of k] assms ys unfolding mem_byte_def m by (auto simp: mem_reach_def)
qed

interpretation mem_memory: interp_memory mem_interp_ops mi_stack mi_status mem_byte mem_reach
proof unfold_locales
  fix g :: "u64 \<times> u64" and off len :: usize and i i' :: mem_interp
  show "resize_memory mem_interp_ops g off len i = (True, i') \<Longrightarrow>
      mem_byte i' = mem_byte i \<and> unat off + unat len \<le> mem_reach i' \<and> mi_stack i' = mi_stack i \<and>
      mi_status i' = mi_status i \<and> gas_remaining mem_interp_ops i' \<le> gas_remaining mem_interp_ops i"
    using resize_mem [of off len i True i'] by (simp add: mem_interp_ops_def)
  show "resize_memory mem_interp_ops g off len i = (False, i') \<Longrightarrow>
      mem_byte i' = mem_byte i \<and> mi_status i' \<noteq> None"
    using resize_mem [of off len i False i'] by (simp add: mem_interp_ops_def)
next
  fix dst src len :: usize and i :: mem_interp and k
  assume "unat dst + unat len \<le> mem_reach i" "unat src + unat len \<le> mem_reach i"
  then show "mem_byte (memory_copy mem_interp_ops dst src len i) k =
    (if unat dst \<le> k \<and> k < unat dst + unat len then mem_byte i (unat src + (k - unat dst))
     else mem_byte i k)" by (rule copy_mem)
qed (auto simp: mem_interp_ops_def mem_byte_def fun_eq_iff split: if_splits)

definition copy_interp :: mem_interp where
  "copy_interp = (run_interp [1, 0, 3] 100)\<lparr>mi_memory := [7, 8, 9]\<rparr>"

theorem mcopy_copies_witness:
  "map (mem_byte (fst (mcopy mem_interp_ops mem_host_ops copy_interp (run_host CURIE)))) [0, 1, 2, 3] =
     [7, 7, 8, 9]"
proof -
  obtain i' h' where run: "mcopy mem_interp_ops mem_host_ops copy_interp (run_host CURIE) = (i', h')"
    by (metis prod.collapse)
  have "mi_status i' = None"
    using run
    by (simp add: mcopy_def copy_interp_def run_interp_def run_host_def mem_interp_ops_def mem_host_ops_def
        spec_gates mem_resize_def mem_words_def mem_gas_of_def max_def Let_def word_less_nat_alt word_le_nat_alt)
      auto
  then have at: "mem_byte i' k = (if 1 \<le> k \<and> k < 1 + 3 then mem_byte copy_interp (k - 1) else mem_byte copy_interp k)" for k
    using mcopy_copies [OF mem_memory.interp_memory_axioms _ _ _ run, of 1 0 3 "[]"]
    by (simp add: copy_interp_def run_interp_def)
  show ?thesis by (simp add: run at) (simp add: mem_byte_def copy_interp_def)
qed

end
