(* ===== verification/FeeTests.thy ===== *)
theory FeeTests
  imports L1FeeSpec Config
begin

text \<open>
  The crate's unit tests of \<open>src/spec.rs\<close>, \<open>src/gas.rs\<close> and \<open>src/l1block.rs\<close>, transcribed over the
  model: every test is a truth value, its assertions in their order, and is shown true. The expected
  numbers are the crate's, so the definitions agree with the running code on every input tested.
\<close>

section \<open>Forks\<close>

definition all_bytes :: "u8 list" where
  "all_bytes = map of_nat [0..<256]"

definition spec_names_round_trip :: "string \<Rightarrow> bool" where
  "spec_names_round_trip sh \<longleftrightarrow>
     list_all (\<lambda>spec.
       let name = spec_name sh spec
       in spec_from_str sh name = Ok spec \<and> try_from_u8 (as_u8 spec) = Some spec)
     (List.map_filter try_from_u8 all_bytes)"

definition unknown_spec_name_is_an_error :: "string \<Rightarrow> string \<Rightarrow> bool" where
  "unknown_spec_name_is_an_error sh latest \<longleftrightarrow>
     list_all (\<lambda>name. spec_from_str sh name = Err UnknownHardfork)
       ['''', latest, ''prague'', ''Euclid'', ''tsukiv2'', ''tsuki_v2'', '' tsuki'']"

definition default_is_latest_spec :: bool where
  "default_is_latest_spec \<longleftrightarrow>
     default_spec = TSUKI_V2 \<and> try_from_u8 (as_u8 default_spec + 1) = None"

definition tsuki_v2_follows_tsuki :: "string \<Rightarrow> bool" where
  "tsuki_v2_follows_tsuki sh \<longleftrightarrow>
     (let name = spec_name sh TSUKI_V2
      in name = ''tsukiV2'' \<and> as_u8 TSUKI_V2 = 9 \<and> try_from_u8 10 = None \<and>
         spec_into_SpecId TSUKI_V2 = Eth_SHANGHAI \<and>
         is_enabled_in TSUKI_V2 TSUKI \<and> \<not> is_enabled_in TSUKI TSUKI_V2)"

text \<open>What the tests of names use of the re-exported ones.\<close>

definition ethereum_names :: "string \<Rightarrow> string \<Rightarrow> bool" where
  "ethereum_names sh latest \<longleftrightarrow> sh \<noteq> latest \<and> {sh, latest} \<inter> set own_names = {} \<and>
     sh \<notin> {'''', ''prague'', ''Euclid'', ''tsukiv2'', ''tsuki_v2'', '' tsuki''}"

lemma names_round_trip:
  assumes "ethereum_names sh latest"
  shows "spec_names_round_trip sh"
proof -
  have "sh \<notin> set own_names" using assms by (simp add: ethereum_names_def)
  from spec_name_roundtrip [OF this] show ?thesis
    by (simp add: spec_names_round_trip_def try_from_u8_as_u8 list_all_iff)
qed

lemma unknown_names:
  assumes "ethereum_names sh latest"
  shows "unknown_spec_name_is_an_error sh latest"
  using assms
  by (auto simp: unknown_spec_name_is_an_error_def spec_from_str_def ethereum_names_def own_names_def
      name_defs)

lemma default_is_latest: "default_is_latest_spec"
  by (simp add: default_is_latest_spec_def default_spec_def try_from_u8_def)

lemma follows_tsuki: "tsuki_v2_follows_tsuki sh"
  by (simp add: tsuki_v2_follows_tsuki_def name_defs try_from_u8_def spec_gates)

section \<open>Gas parameters\<close>

definition eip7702_auth_refund_per_spec :: "('g, 'i) gas_table_ops \<Rightarrow> bool" where
  "eip7702_auth_refund_per_spec G \<longleftrightarrow>
     (let params = new_scroll_spec G DARWIN
      in gp_get G params (tx_eip7702_auth_refund G) = 0) \<and>
     list_all (\<lambda>spec.
       let params = new_scroll_spec G spec
       in gp_get G params (tx_eip7702_auth_refund G) = PER_EMPTY_ACCOUNT_COST G - PER_AUTH_BASE_COST G \<and>
          gp_get G params (tx_eip7702_auth_refund G) = 12500 \<and>
          gp_get G params (tx_eip7702_per_empty_account_cost G) = 25000)
     [EUCLID, FEYNMAN, GALILEO, TSUKI, TSUKI_V2]"

text \<open>The EIP-7702 constants, and a Shanghai table without an authorization refund.\<close>

definition eip7702_table :: "('g, 'i) gas_table_ops \<Rightarrow> bool" where
  "eip7702_table G \<longleftrightarrow> gas_table G \<and> PER_EMPTY_ACCOUNT_COST G = 25000 \<and> PER_AUTH_BASE_COST G = 12500 \<and>
     gp_get G (gp_new_spec G Eth_SHANGHAI) (tx_eip7702_auth_refund G) = 0"

lemma auth_refund_per_spec:
  assumes "eip7702_table G"
  shows "eip7702_auth_refund_per_spec G"
  using assms gas_table.ids_distinct [of G]
  by (auto simp: eip7702_auth_refund_per_spec_def eip7702_table_def gas_table.new_scroll_spec_get
      scroll_gas_def spec_gates Let_def)

section \<open>Fees\<close>

definition rollup_fee_galileo :: "usize \<Rightarrow> u256 \<Rightarrow> bool" where
  "rollup_fee_galileo compressed expected \<longleftrightarrow>
     (let gpo = L1BlockInfo_default
            \<lparr>l1_base_fee := 1000000000, l1_blob_base_fee := Some 1000000000,
             l1_commit_scalar := Some 2394981796, l1_blob_scalar := Some 1019097245,
             penalty_factor := Some 10000\<rparr>;
          tx_size = 10000000000
      in calculate_tx_l1_cost_galileo gpo tx_size compressed = Ok expected)"

lemmas fee_eval = calculate_tx_l1_cost_galileo_def calculate_tx_l1_cost_feynman_def
  calculate_tx_l1_cost_curie_def curie_blob_fee_def try_calculate_tx_l1_cost_def
  L1BlockInfo_default_def wrapping_div_def saturating_mul_def saturating_add_def
  TX_L1_FEE_PRECISION_U256_def TX_L1_FEE_PRECISION_def usize_len_def spec_gates
  word_less_nat_alt word_le_nat_alt Let_def

lemma rollup_fees:
  "rollup_fee_galileo 50 171557471810" "rollup_fee_galileo 100 344821983141"
  "rollup_fee_galileo 1024 3854009072433" "rollup_fee_galileo (10 * 1024) 70759382824796"
  "rollup_fee_galileo (1024 * 1024) 378961881717079120"
  by (simp_all add: rollup_fee_galileo_def fee_eval)

definition invalid_inputs_return_errors :: bool where
  "invalid_inputs_return_errors \<longleftrightarrow>
     (let gpo = L1BlockInfo_default
            \<lparr>l1_blob_base_fee := Some 1, l1_commit_scalar := Some 1, l1_blob_scalar := Some 1,
             calldata_gas := Some 1, penalty_threshold := Some 1, penalty_factor := Some 1\<rparr>;
          input = replicate 4 1;
          ratio = Some TX_L1_FEE_PRECISION_U256;
          low_ratio = TX_L1_FEE_PRECISION_U256 - 1
      in (\<exists>fee. try_calculate_tx_l1_cost gpo input FEYNMAN ratio None = Ok fee) \<and>
         (\<exists>fee. try_calculate_tx_l1_cost gpo input TSUKI_V2 None (Some 4) = Ok fee) \<and>
         list_all (\<lambda>spec. try_calculate_tx_l1_cost L1BlockInfo_default input spec ratio (Some 4) =
             Err MissingOracleValue) [CURIE, FEYNMAN, TSUKI_V2] \<and>
         try_calculate_tx_l1_cost gpo input FEYNMAN None (Some 4) = Err MissingCompressionRatio \<and>
         try_calculate_tx_l1_cost gpo input FEYNMAN (Some low_ratio) None =
           Err (InvalidCompressionRatio low_ratio) \<and>
         try_calculate_tx_l1_cost gpo input TSUKI_V2 ratio None = Err MissingCompressedSize \<and>
         try_calculate_tx_l1_cost gpo input TSUKI_V2 None (Some 5) = Err (InvalidCompressedSize 5 4))"

lemma invalid_inputs: "invalid_inputs_return_errors"
  by (simp add: invalid_inputs_return_errors_def fee_eval)

definition u96_limbs :: bool where
  "u96_limbs \<longleftrightarrow> (let u96_max = (ucast ((2 ^ 96 :: u128) - 1) :: u256) in U96_MAX = u96_max)"

lemma u96: "u96_limbs"
  by (simp add: u96_limbs_def U96_MAX_def from_limbs_def)

end
