(* ===== verification/Fixtures.thy ===== *)
theory Fixtures
  imports HandlerRuns Evm
begin

text \<open>
  The fixtures of the crate's tests (\<open>src/test_utils.rs\<close>) on the reference instance: a context for a
  fork with the oracle's slots in the database, a caller of chosen funds and a transaction with RLP
  bytes. \<open>TxEnv::default()\<close> and \<open>Context::mainnet()\<close> are \<open>revm\<close>'s; their documented values are
  \<open>default_tx_env\<close> and \<open>mainnet_context\<close>.
\<close>

section \<open>Constants\<close>

definition fixture_FEE_PRECISION :: u256 where
  "fixture_FEE_PRECISION = from_limbs [1000000000, 0, 0, 0]"

definition CALLER :: address where
  "CALLER = 0x000000000000000000000000000000000000dead"

definition TO :: address where
  "TO = 0x00000000000000000000000000000000000dead1"

definition BENEFICIARY :: address where
  "BENEFICIARY = 0x0000000000000000000000000000000000000002"

definition MIN_TRANSACTION_COST :: u256 where
  "MIN_TRANSACTION_COST = from_limbs [21000, 0, 0, 0]"

definition L1_DATA_COST :: u256 where
  "L1_DATA_COST = from_limbs [40000, 0, 0, 0]"

section \<open>Contexts\<close>

definition default_tx_env :: base_tx where
  "default_tx_env =
     \<lparr>base_tx_type = 0, base_caller = 0, base_gas_limit = 16777216, base_value = 0,
      base_input = [], base_nonce = 0, base_kind = Call 0, base_chain_id = Some 1,
      base_gas_price = 0, base_access_list = None, base_blob_versioned_hashes = [],
      base_max_fee_per_blob_gas = 0, base_authorization_list = [],
      base_max_priority_fee_per_gas = None\<rparr>"

definition mainnet_context :: mem_ctx where
  "mainnet_context =
     \<lparr>tx = ScrollTransaction_default default_tx_env, cfg = new_scroll table_cfg_ops default_spec,
      block = \<lparr>block_number = 0, beneficiary = 0, block_gas_limit = - 1, basefee = 0,
        prevrandao = Some 0, blob_excess_gas_and_price = Some (0, 1), blob_gasprice = Some 1\<rparr>,
      chain = ScrollChainContext_mainnet, journal = mem_empty\<rparr>"

definition modify_db :: "((address \<Rightarrow> mem_account) \<Rightarrow> address \<Rightarrow> mem_account) \<Rightarrow> mem_ctx \<Rightarrow> mem_ctx" where
  "modify_db f c = c\<lparr>journal := (journal c)\<lparr>m_disk := f (m_disk (journal c))\<rparr>\<rparr>"

definition modify_base :: "(base_tx \<Rightarrow> base_tx) \<Rightarrow> mem_ctx \<Rightarrow> mem_ctx" where
  "modify_base f c = c\<lparr>tx := (tx c)\<lparr>base := f (base (tx c))\<rparr>\<rparr>"

definition insert_account_storage ::
  "address \<Rightarrow> u256 \<times> u256 \<Rightarrow> (address \<Rightarrow> mem_account) \<Rightarrow> address \<Rightarrow> mem_account" where
  "insert_account_storage a = (\<lambda>(slot, v) db.
     db(a := (db a)\<lparr>m_storage := (m_storage (db a))(slot \<mapsto> \<lparr>present_value = v\<rparr>)\<rparr>))"

definition replace_account_storage ::
  "address \<Rightarrow> (u256 \<times> u256) list \<Rightarrow> (address \<Rightarrow> mem_account) \<Rightarrow> address \<Rightarrow> mem_account" where
  "replace_account_storage a entries db =
     db(a := (db a)\<lparr>m_storage := map_of (map (\<lambda>(k, v). (k, \<lparr>present_value = v\<rparr>)) entries)\<rparr>)"

definition context_fixture :: mem_ctx where
  "context_fixture =
     (let c = scroll_context table_cfg_ops mainnet_context default_tx_env;
          c = c\<lparr>cfg := new_scroll table_cfg_ops EUCLID\<rparr>;
          c = modify_base (\<lambda>b. b\<lparr>base_caller := CALLER, base_kind := Call TO, base_gas_price := 1,
                base_gas_limit := 21000, base_max_priority_fee_per_gas := None\<rparr>) c;
          c = c\<lparr>tx := (tx c)\<lparr>tx_rlp_bytes := Some [1, 1, 1, 1]\<rparr>\<rparr>;
          c = c\<lparr>block := (block c)\<lparr>beneficiary := BENEFICIARY\<rparr>\<rparr>;
          c = c\<lparr>journal := mem_empty\<rparr>
      in modify_db (replace_account_storage L1_GAS_PRICE_ORACLE_ADDRESS
           (map (\<lambda>n. (of_nat n, 10000)) [0..<7] @ [(7, fixture_FEE_PRECISION)])) c)"

definition with_funds :: "u256 \<Rightarrow> mem_ctx \<Rightarrow> mem_ctx" where
  "with_funds funds = modify_db (\<lambda>db. db(CALLER := empty_account\<lparr>m_balance := funds\<rparr>))"

definition with_gas_oracle_config :: "(u256 \<times> u256) list \<Rightarrow> mem_ctx \<Rightarrow> mem_ctx" where
  "with_gas_oracle_config entries =
     modify_db (\<lambda>db. foldl (\<lambda>db entry. insert_account_storage L1_GAS_PRICE_ORACLE_ADDRESS entry db) db entries)"

definition with_tx_payload :: "bytes \<Rightarrow> mem_ctx \<Rightarrow> mem_ctx" where
  "with_tx_payload data c = c\<lparr>tx := (tx c)\<lparr>tx_rlp_bytes := Some data\<rparr>\<rparr>"

definition context_with_spec :: "ScrollSpecId \<Rightarrow> mem_ctx" where
  "context_with_spec spec =
     (let c = context_fixture;
          c = c\<lparr>cfg := set_scroll_spec table_cfg_ops spec (cfg c)\<rparr>;
          c = c\<lparr>tx := (tx c)\<lparr>tx_compression_ratio := Some fixture_FEE_PRECISION,
                tx_compressed_size := Some 4\<rparr>\<rparr>
      in with_gas_oracle_config [(PENALTY_FACTOR_SLOT, - 1)] c)"

section \<open>The oracle of the fixtures\<close>

definition fresh :: "mem_ctx \<Rightarrow> bool" where
  "fresh c \<longleftrightarrow> m_state (journal c) = (\<lambda>_. None)"

lemma read_fresh:
  assumes "fresh c"
  shows "read_through_journal mem_ops k (journal c) =
    (Ok (case m_storage (m_disk (journal c) L1_GAS_PRICE_ORACLE_ADDRESS) k of
       Some s \<Rightarrow> present_value s | None \<Rightarrow> 0), journal c)"
  using assms by (simp add: read_through_journal_def fresh_def m_db_storage_def)

lemma read_all_fresh:
  assumes "fresh c"
  shows "read_all (read_through_journal mem_ops) ks (journal c) =
    (Ok (map (\<lambda>k. case m_storage (m_disk (journal c) L1_GAS_PRICE_ORACLE_ADDRESS) k of
       Some s \<Rightarrow> present_value s | None \<Rightarrow> 0) ks), journal c)"
  by (induction ks) (simp_all add: bind_def read_fresh [OF assms])

lemma fetch_fresh:
  assumes "fresh c"
  shows "try_fetch_from_journal mem_ops s (journal c) =
    (Ok (snapshot_of (map (\<lambda>k. case m_storage (m_disk (journal c) L1_GAS_PRICE_ORACLE_ADDRESS) k of
       Some s \<Rightarrow> present_value s | None \<Rightarrow> 0) (oracle_slots s))), journal c)"
  by (simp add: try_fetch_from_journal_def try_fetch_slots bind_def read_all_fresh [OF assms])

lemma refresh_fresh:
  assumes "fresh c" and "fee_charged (tx c)"
  shows "refresh_l1_block_info mem_handler c = (Ok (), c\<lparr>chain := \<lparr>l1_block_info =
    snapshot_of (map (\<lambda>k. case m_storage (m_disk (journal c) L1_GAS_PRICE_ORACLE_ADDRESS) k of
       Some s \<Rightarrow> present_value s | None \<Rightarrow> 0) (oracle_slots (cfg_spec (cfg c))))\<rparr>\<rparr>)"
  using assms by (simp add: refresh_l1_block_info_def bind_def on_journal_def fetch_fresh)


lemma oracle_not_caller: "L1_GAS_PRICE_ORACLE_ADDRESS \<noteq> CALLER" "SYSTEM_ADDRESS \<noteq> CALLER"
  by (simp_all add: L1_GAS_PRICE_ORACLE_ADDRESS_def CALLER_def SYSTEM_ADDRESS_def)

lemmas fixture_defs = context_fixture_def context_with_spec_def with_funds_def
  with_gas_oracle_config_def modify_db_def modify_base_def insert_account_storage_def
  replace_account_storage_def scroll_context_def mainnet_context_def default_tx_env_def
  ScrollTransaction_default_def mem_empty_def

lemma upt_7: "[0..<7] = [0, 1, 2, 3, 4, 5, 6]"
  by (simp add: upt_rec)

lemma context_oracle:
  "m_storage (m_disk (journal context_fixture) L1_GAS_PRICE_ORACLE_ADDRESS) =
     map_of (map (\<lambda>(k, v). (k, \<lparr>present_value = v\<rparr>))
       [(0, 10000), (1, 10000), (2, 10000), (3, 10000), (4, 10000), (5, 10000), (6, 10000), (7, 1000000000)])"
  by (simp add: fixture_defs fixture_FEE_PRECISION_def upt_7)

lemma fixture_oracle:
  "m_storage (m_disk (journal (with_funds f context_fixture)) L1_GAS_PRICE_ORACLE_ADDRESS) =
     m_storage (m_disk (journal context_fixture) L1_GAS_PRICE_ORACLE_ADDRESS)"
  "m_storage (m_disk (journal (with_funds f (context_with_spec s))) L1_GAS_PRICE_ORACLE_ADDRESS) =
     (m_storage (m_disk (journal context_fixture) L1_GAS_PRICE_ORACLE_ADDRESS))(10 \<mapsto> \<lparr>present_value = - 1\<rparr>)"
  using oracle_not_caller
  by (simp_all add: with_funds_def modify_db_def context_with_spec_def with_gas_oracle_config_def
      insert_account_storage_def PENALTY_FACTOR_SLOT_def Let_def)

lemma fixture_fresh:
  "fresh context_fixture" "fresh (with_funds f c) \<longleftrightarrow> fresh c" "fresh (context_with_spec s)"
  "fresh (modify_base b c) \<longleftrightarrow> fresh c"
  by (simp_all add: fresh_def fixture_defs Let_def)

lemma fixture_caller:
  "m_disk (journal (with_funds f c)) CALLER = empty_account\<lparr>m_balance := f\<rparr>"
  by (simp add: with_funds_def modify_db_def)

lemma fixture_journal_simps:
  "journal (modify_base b c) = journal c" "tx (with_funds f c) = tx c" "cfg (with_funds f c) = cfg c"
  "block (with_funds f c) = block c" "cfg (modify_base b c) = cfg c" "block (modify_base b c) = block c"
  by (simp_all add: modify_base_def with_funds_def modify_db_def)

lemma fixture_tx:
  "tx context_fixture = ScrollTransaction_new (default_tx_env\<lparr>base_caller := CALLER, base_kind := Call TO,
     base_gas_price := 1, base_gas_limit := 21000\<rparr>) (Some [1, 1, 1, 1]) None None"
  "tx (context_with_spec s) = ScrollTransaction_new (default_tx_env\<lparr>base_caller := CALLER, base_kind := Call TO,
     base_gas_price := 1, base_gas_limit := 21000\<rparr>) (Some [1, 1, 1, 1]) (Some 1000000000) (Some 4)"
  "cfg_spec (cfg context_fixture) = EUCLID" "cfg_spec (cfg (context_with_spec s)) = s"
  by (simp_all add: fixture_defs ScrollTransaction_new_def fixture_FEE_PRECISION_def Let_def)

end
