(* ===== verification/HandlerTests.thy ===== *)
theory HandlerTests
  imports Fixtures
begin

text \<open>
  The unit tests of \<open>src/handler.rs\<close>, transcribed over the model on the reference instance, in the
  order of the file. The two tests that execute transactions, \<open>test_exact_upfront_balance\<close> and
  \<open>test_l1_block_info_sees_uncommitted_oracle_update\<close>, stand in \<open>TransactTests\<close> and \<open>OracleUpdate\<close>.
\<close>

section \<open>The tests\<close>

definition caller_after :: "mem_ctx \<Rightarrow> address \<Rightarrow> mem_account" where
  "caller_after c a = m_acc (snd (m_load a (journal c) :: (string, unit) outcome \<times> mem_journal)) a"

definition test_validate_lacking_funds :: "TxKind \<Rightarrow> u64 \<Rightarrow> bool" where
  "test_validate_lacking_funds k limit \<longleftrightarrow>
     (let value = 100;
          required_balance = ucast limit + value + L1_DATA_COST;
          initial_balance = required_balance - 1;
          ctx = modify_base (\<lambda>b. b\<lparr>base_kind := k, base_gas_limit := limit, base_value := value\<rparr>)
            (with_funds initial_balance (context_with_spec TSUKI_V2))
      in case pre_execution mem_handler ctx of (r, evm) \<Rightarrow>
           r = Err (TransactionError (LackOfFundForMaxFee required_balance initial_balance)) \<and>
           m_balance (caller_after evm CALLER) = initial_balance \<and>
           m_nonce (caller_after evm CALLER) = 0)"

definition test_load_account :: bool where
  "test_load_account \<longleftrightarrow>
     (let ctx = with_funds (MIN_TRANSACTION_COST + L1_DATA_COST) context_fixture
      in case pre_execution mem_handler ctx of (r, evm) \<Rightarrow>
           (\<exists>n. r = Ok n) \<and> l1_block_info (chain evm) \<noteq> L1BlockInfo_default \<and>
           evm_state mem_ops (journal evm) L1_GAS_PRICE_ORACLE_ADDRESS = None)"

definition test_gas :: "u64 \<Rightarrow> u64 \<Rightarrow> i64 \<Rightarrow> mem_gas" where
  "test_gas limit spent ref = \<lparr>mg_total = limit, mg_remaining = limit - spent, mg_refunded = ref\<rparr>"

definition test_last_frame_result :: bool where
  "test_last_frame_result \<longleftrightarrow>
     (let ctx = context_fixture; gas = test_gas 21000 10 10;
          result = \<lparr>fr_result = FrameOk, fr_gas = gas\<rparr>
      in case last_frame_result mem_handler result ctx of (r, evm) \<Rightarrow>
           (case r of Ok result \<Rightarrow> fr_gas result = gas | _ \<Rightarrow> False))"

definition test_refund :: bool where
  "test_refund \<longleftrightarrow>
     (let ctx = context_fixture; gas = test_gas 21000 10 10;
          result = \<lparr>fr_result = FrameOk, fr_gas = gas\<rparr>;
          result = fst (Handler.refund mem_handler result 0 ctx)
      in fr_gas result = gas\<lparr>mg_refunded := 2\<rparr>)"

definition test_reward_beneficiary :: bool where
  "test_reward_beneficiary \<longleftrightarrow>
     (let ctx = with_funds (MIN_TRANSACTION_COST + L1_DATA_COST) context_fixture;
          result = \<lparr>fr_result = FrameOk, fr_gas = test_gas 21000 21000 0\<rparr>
      in case pre_execution mem_handler ctx of (r1, evm) \<Rightarrow>
           (\<exists>n. r1 = Ok n) \<and>
           (case reward_beneficiary mem_handler result evm of (r2, evm) \<Rightarrow>
              r2 = Ok () \<and>
              m_balance (caller_after evm BENEFICIARY) = MIN_TRANSACTION_COST + L1_DATA_COST))"

definition test_upfront_balance_overflow :: "TxKind \<Rightarrow> u64 \<Rightarrow> bool" where
  "test_upfront_balance_overflow k limit \<longleftrightarrow>
     (let ctx = modify_base (\<lambda>b. b\<lparr>base_kind := k, base_gas_limit := limit,
            base_value := - 1 - ucast limit\<rparr>)
          (with_funds (- 1) (context_with_spec TSUKI_V2))
      in case pre_execution mem_handler ctx of (r, evm) \<Rightarrow>
           r = Err (TransactionError OverflowPaymentInTransaction) \<and>
           m_balance (caller_after evm CALLER) = - 1 \<and> m_nonce (caller_after evm CALLER) = 0)"

definition test_upfront_balance_overflow_before_tsuki_v2 :: "TxKind \<Rightarrow> u64 \<Rightarrow> bool" where
  "test_upfront_balance_overflow_before_tsuki_v2 k limit \<longleftrightarrow>
     (let ctx = modify_base (\<lambda>b. b\<lparr>base_kind := k, base_gas_limit := limit,
            base_value := - 1 - ucast limit\<rparr>)
          (with_funds (- 1) (context_with_spec TSUKI))
      in case pre_execution mem_handler ctx of (r, evm) \<Rightarrow>
           (\<exists>n. r = Ok n) \<and>
           m_balance (caller_after evm CALLER) = - 1 - ucast limit - L1_DATA_COST \<and>
           m_nonce (caller_after evm CALLER) = (if is_call k then 1 else 0))"

section \<open>They pass\<close>

lemmas test_tx = fixture_tx fixture_journal_simps modify_base_def [of _ "with_funds _ _"]
  ScrollTransaction_new_def default_tx_env_def caller_def gas_limit_def tx_value_def gas_price_def
  tx_type_def kind_def rlp_bytes_def compressed_size_def compression_ratio_def is_l1_msg_def
  is_system_tx_def L1_MESSAGE_TYPE_def

definition spec_info :: L1BlockInfo where
  "spec_info = snapshot_of [10000, 10000, 10000, 10000, 10000, 1000000000, 0, - 1]"

lemma test_refresh:
  fixes b :: "base_tx \<Rightarrow> base_tx" and f :: u256 and s :: ScrollSpecId
  defines "c \<equiv> modify_base b (with_funds f (context_with_spec s))"
  assumes "FEYNMAN \<le> s" and "fee_charged (tx c)"
  shows "refresh_l1_block_info mem_handler c = (Ok (), c\<lparr>chain := \<lparr>l1_block_info = spec_info\<rparr>\<rparr>)"
proof -
  have "oracle_slots s = [1, 2, 3, 5, 6, 7, 9, 10]"
    using assms(2) by (cases s) (simp_all add: oracle_slots_def spec_gates)
  moreover have "fresh c" by (simp add: c_def fixture_fresh)
  ultimately show ?thesis
    using assms(3)
    by (simp add: refresh_fresh c_def fixture_oracle fixture_journal_simps context_oracle fixture_tx spec_info_def)
qed

lemma spec_fee:
  "try_calculate_tx_l1_cost spec_info [1, 1, 1, 1] TSUKI_V2 r (Some 4) = Ok 40000"
  "try_calculate_tx_l1_cost spec_info [1, 1, 1, 1] TSUKI r (Some 4) = Ok 40000"
  by (simp_all add: try_calculate_tx_l1_cost_def calculate_tx_l1_cost_galileo_def snapshot_of_def
      spec_gates wrapping_div_def saturating_mul_def saturating_add_def usize_len_def spec_info_def
      TX_L1_FEE_PRECISION_U256_def TX_L1_FEE_PRECISION_def U96_MAX_def Let_def from_limbs_def
      word_less_nat_alt word_le_nat_alt)

lemma last_frame: "test_last_frame_result"
  by (simp add: test_last_frame_result_def last_frame_result_def test_gas_def mem_handler_def
      mem_gas_ops_def fixture_tx ScrollTransaction_new_def default_tx_env_def gas_limit_def
      is_l1_msg_def tx_type_def L1_MESSAGE_TYPE_def)

lemma refunds: "test_refund"
  by (simp add: test_refund_def Handler.refund_def test_gas_def mem_handler_def mem_refund_def
      fixture_tx ScrollTransaction_new_def default_tx_env_def is_l1_msg_def tx_type_def
      L1_MESSAGE_TYPE_def word_le_nat_alt min_def)


lemma pre_after_refresh:
  assumes "refresh_l1_block_info mem_handler c = (Ok (), d)"
  shows "pre_execution mem_handler c = (case validate_against_state_and_deduct_caller mem_handler d of
    (Ok _, e) \<Rightarrow> (Ok 0, e) | (Err x, e) \<Rightarrow> (Err x, e) | (Panic, e) \<Rightarrow> (Panic, e))"
  by (simp add: pre_execution_def bind_def [of "refresh_l1_block_info mem_handler"] assms)
    (simp add: bind_def ret_Pair split: prod.split outcome.split)

definition ready :: "TxKind \<Rightarrow> u64 \<Rightarrow> u256 \<Rightarrow> u256 \<Rightarrow> ScrollSpecId \<Rightarrow> mem_ctx" where
  "ready k limit v f s =
     (modify_base (\<lambda>b. b\<lparr>base_kind := k, base_gas_limit := limit, base_value := v\<rparr>)
       (with_funds f (context_with_spec s)))\<lparr>chain := \<lparr>l1_block_info = spec_info\<rparr>\<rparr>"

lemma ready_refresh:
  assumes "FEYNMAN \<le> s"
  shows "refresh_l1_block_info mem_handler
    (modify_base (\<lambda>b. b\<lparr>base_kind := k, base_gas_limit := limit, base_value := v\<rparr>)
       (with_funds f (context_with_spec s))) = (Ok (), ready k limit v f s)"
  using assms oracle_not_caller
  by (subst test_refresh) (simp_all add: ready_def test_tx)

lemma ready_simps:
  "caller (tx (ready k limit v f s)) = CALLER" "gas_limit (tx (ready k limit v f s)) = limit"
  "tx_value (tx (ready k limit v f s)) = v" "gas_price (tx (ready k limit v f s)) = 1"
  "kind (tx (ready k limit v f s)) = k" "is_l1_msg (tx (ready k limit v f s)) = False"
  "is_system_tx (tx (ready k limit v f s)) = False" "cfg_spec (cfg (ready k limit v f s)) = s"
  "m_acc (journal (ready k limit v f s)) CALLER = empty_account\<lparr>m_balance := f\<rparr>"
  "rlp_bytes (tx (ready k limit v f s)) = Some [1, 1, 1, 1]"
  "compressed_size (tx (ready k limit v f s)) = Some 4"
  "l1_block_info (chain (ready k limit v f s)) = spec_info"
proof -
  have "fresh (ready k limit v f s)" and "m_disk (journal (ready k limit v f s)) CALLER = empty_account\<lparr>m_balance := f\<rparr>"
    by (simp_all add: ready_def fresh_def fixture_caller fixture_journal_simps
        fixture_fresh [unfolded fresh_def])
  then show "m_acc (journal (ready k limit v f s)) CALLER = empty_account\<lparr>m_balance := f\<rparr>"
    by (simp add: m_acc_def fresh_def empty_account_def)
qed (use oracle_not_caller in \<open>simp_all add: ready_def test_tx\<close>)

lemma lacking_funds:
  "test_validate_lacking_funds (Call TO) 21000" "test_validate_lacking_funds Create 53000"
  by (simp_all add: test_validate_lacking_funds_def pre_after_refresh [OF ready_refresh] spec_gates
      validate_defs ready_simps spec_fee L1_DATA_COST_def caller_after_def word_less_nat_alt
      mem_spending_def empty_account_def Let_def)


lemma balance_overflow:
  "test_upfront_balance_overflow (Call TO) 21000" "test_upfront_balance_overflow Create 53000"
  by (simp_all add: test_upfront_balance_overflow_def pre_after_refresh [OF ready_refresh] spec_gates
      validate_defs ready_simps spec_fee caller_after_def word_less_nat_alt word_le_nat_alt
      mem_spending_def empty_account_def unsigned_minus_1_eq_mask mask_eq_exp_minus_1 Let_def)

lemma overflow_before_tsuki_v2:
  "test_upfront_balance_overflow_before_tsuki_v2 (Call TO) 21000"
  "test_upfront_balance_overflow_before_tsuki_v2 Create 53000"
  by (simp_all add: test_upfront_balance_overflow_before_tsuki_v2_def pre_after_refresh [OF ready_refresh]
      spec_gates validate_defs ready_simps spec_fee caller_after_def word_less_nat_alt word_le_nat_alt
      mem_spending_def empty_account_def L1_DATA_COST_def mem_charge_def deduct_before_tsuki_v2_def
      unsigned_minus_1_eq_mask mask_eq_exp_minus_1 Let_def)

text \<open>At Euclid: the Curie formula on a snapshot without penalty slots.\<close>

definition euclid_info :: L1BlockInfo where
  "euclid_info = snapshot_of [10000, 10000, 10000, 10000, 10000, 1000000000]"

definition euclid_ready :: mem_ctx where
  "euclid_ready = (with_funds 61000 context_fixture)\<lparr>chain := \<lparr>l1_block_info = euclid_info\<rparr>\<rparr>"

lemma euclid_refresh:
  "refresh_l1_block_info mem_handler (with_funds 61000 context_fixture) = (Ok (), euclid_ready)"
proof -
  have "oracle_slots EUCLID = [1, 2, 3, 5, 6, 7]"
    by (simp add: oracle_slots_def spec_gates)
  moreover have "fee_charged (tx (with_funds 61000 context_fixture))"
    using oracle_not_caller by (simp add: test_tx)
  ultimately show ?thesis
    by (simp add: refresh_fresh fixture_fresh fixture_oracle fixture_journal_simps context_oracle
        fixture_tx euclid_ready_def euclid_info_def)
qed

lemma euclid_simps:
  "caller (tx euclid_ready) = CALLER" "gas_limit (tx euclid_ready) = 21000"
  "tx_value (tx euclid_ready) = 0" "gas_price (tx euclid_ready) = 1"
  "kind (tx euclid_ready) = Call TO" "is_l1_msg (tx euclid_ready) = False"
  "is_system_tx (tx euclid_ready) = False" "cfg_spec (cfg euclid_ready) = EUCLID"
  "rlp_bytes (tx euclid_ready) = Some [1, 1, 1, 1]" "beneficiary (block euclid_ready) = BENEFICIARY"
  "compressed_size (tx euclid_ready) = None" "compression_ratio (tx euclid_ready) = None"
  "l1_block_info (chain euclid_ready) = euclid_info"
  "m_state (journal euclid_ready) = (\<lambda>_. None)"
  "m_acc (journal euclid_ready) CALLER = empty_account\<lparr>m_balance := 61000\<rparr>"
  "m_balance (m_acc (journal euclid_ready) BENEFICIARY) = 0"
proof -
  have "fresh euclid_ready" and "m_disk (journal euclid_ready) CALLER = empty_account\<lparr>m_balance := 61000\<rparr>"
    by (simp_all add: euclid_ready_def fresh_def fixture_caller fixture_journal_simps
        fixture_fresh [unfolded fresh_def])
  then show "m_acc (journal euclid_ready) CALLER = empty_account\<lparr>m_balance := 61000\<rparr>"
    and "m_state (journal euclid_ready) = (\<lambda>_. None)"
    by (simp_all add: m_acc_def fresh_def empty_account_def)
  then show "m_balance (m_acc (journal euclid_ready) BENEFICIARY) = 0"
    by (simp add: m_acc_def euclid_ready_def with_funds_def modify_db_def context_fixture_def mem_empty_def
        replace_account_storage_def CALLER_def BENEFICIARY_def L1_GAS_PRICE_ORACLE_ADDRESS_def
        empty_account_def Let_def)
  show "beneficiary (block euclid_ready) = BENEFICIARY"
    by (simp add: euclid_ready_def fixture_journal_simps context_fixture_def modify_db_def modify_base_def Let_def)
qed (use oracle_not_caller in \<open>simp_all add: euclid_ready_def test_tx\<close>)

lemma euclid_fee: "try_calculate_tx_l1_cost euclid_info [1, 1, 1, 1] EUCLID None None = Ok 40000"
  by (simp add: try_calculate_tx_l1_cost_def calculate_tx_l1_cost_curie_def curie_blob_fee_def
      snapshot_of_def spec_gates wrapping_div_def saturating_mul_def saturating_add_def usize_len_def
      euclid_info_def TX_L1_FEE_PRECISION_U256_def TX_L1_FEE_PRECISION_def U64_MAX_def Let_def
      from_limbs_def word_less_nat_alt word_le_nat_alt)

lemma fixture_cost: "MIN_TRANSACTION_COST + L1_DATA_COST = 61000"
  by (simp add: MIN_TRANSACTION_COST_def L1_DATA_COST_def)

lemma euclid_not_default: "euclid_info \<noteq> L1BlockInfo_default"
  by (simp add: euclid_info_def snapshot_of_def L1BlockInfo_default_def)

lemma m_state_put: "m_state (m_put a x j) b = (if b = a then Some x else m_state j b)"
  by (simp add: m_put_def)

lemma loads_account: "test_load_account"
  by (simp add: test_load_account_def fixture_cost pre_after_refresh [OF euclid_refresh] spec_gates
      validate_defs deduct_before_tsuki_v2_def euclid_simps euclid_fee mem_spending_def mem_charge_def
      empty_account_def word_less_nat_alt word_le_nat_alt Let_def euclid_not_default m_state_put oracle_not_caller)

lemma rewards_beneficiary: "test_reward_beneficiary"
  by (simp add: test_reward_beneficiary_def fixture_cost pre_after_refresh [OF euclid_refresh] spec_gates
      validate_defs deduct_before_tsuki_v2_def euclid_simps euclid_fee mem_spending_def mem_charge_def
      empty_account_def word_less_nat_alt word_le_nat_alt Let_def reward_beneficiary_def caller_after_def
      test_gas_def m_incr_def mem_tx_ops_def mem_gas_ops_def saturating_add_def saturating_mul_def)

end
