(* ===== verification/InstructionTests.thy ===== *)
theory InstructionTests
  imports InstructionRuns
begin

text \<open>
  The unit tests of \<open>src/instructions.rs\<close>, transcribed over the model on the reference interpreter and
  host. The interpreter's loop is \<open>revm\<close>'s; on the tests' two-instruction programs it charges the
  table's static gas and runs the entry (\<open>step_opcode\<close>) before \<open>STOP\<close> ends the run.
\<close>

section \<open>Setting\<close>

definition all_opcodes :: "u8 list" where
  "all_opcodes = map of_nat [0..<256]"

type_synonym mem_table = "u8 \<Rightarrow> (mem_interp, mem_host) table_entry"

definition test_instruction_table :: "(SpecId \<Rightarrow> mem_table) \<Rightarrow> ScrollSpecId \<Rightarrow> mem_table" where
  "test_instruction_table eth spec =
     make_scroll_instruction_table eth evm_opcodes mem_interp_ops mem_host_ops spec"

definition step_opcode :: "mem_table \<Rightarrow> u8 \<Rightarrow> mem_interp \<Rightarrow> mem_host \<Rightarrow> mem_interp \<times> mem_host" where
  "step_opcode table op i h =
     (case record_cost mem_interp_ops (static_gas (table op)) i of
        None \<Rightarrow> (halt_oog mem_interp_ops i, h)
      | Some i' \<Rightarrow> run_instruction (table op) i' h)"

definition test_interp :: "u256 list \<Rightarrow> mem_interp" where
  "test_interp vs = \<lparr>mi_stack = vs, mi_gas = - 1, mi_status = None, mi_static = False,
     mi_address = 0, mi_memory = []\<rparr>"

definition test_host :: "u256 \<Rightarrow> u256 \<Rightarrow> ScrollSpecId \<Rightarrow> mem_host" where
  "test_host chain_id current_block spec =
     \<lparr>mh_spec = spec, mh_number = current_block, mh_chain_id = chain_id, mh_basefee = 0,
      mh_cached = (\<lambda>_. False), mh_warm_account = (\<lambda>_. False), mh_warm_slot = (\<lambda>_ _. False),
      mh_stored = (\<lambda>_ _. 0), mh_transient = (\<lambda>_ _. 0)\<rparr>"

section \<open>The tests\<close>

definition test_blockhash_before_feynman :: "(SpecId \<Rightarrow> mem_table) \<Rightarrow> bool" where
  "test_blockhash_before_feynman eth \<longleftrightarrow>
     (let chain_id = 123; current_block = 1024; target_block = 1000; spec = EUCLID;
          context = test_host (ucast chain_id) current_block spec;
          instructions = test_instruction_table eth spec;
          interpreter = test_interp [ucast target_block];
          (interpreter, context) = step_opcode instructions (op_BLOCKHASH evm_opcodes) interpreter context;
          expected = compute_block_hash mem_host_ops chain_id target_block
      in mi_stack interpreter = [expected])"

definition test_blockhash_after_feynman :: "(SpecId \<Rightarrow> mem_table) \<Rightarrow> u256 \<Rightarrow> bool" where
  "test_blockhash_after_feynman eth expected_block_hash \<longleftrightarrow>
     (let chain_id = 123; current_block = 1024; target_block = 1000; spec = FEYNMAN;
          context = test_host chain_id current_block spec;
          context = context\<lparr>mh_stored := (mh_stored context)(HISTORY_STORAGE_ADDRESS :=
            (mh_stored context HISTORY_STORAGE_ADDRESS)(target_block := expected_block_hash))\<rparr>;
          instructions = test_instruction_table eth spec;
          interpreter = test_interp [target_block];
          (interpreter, context) = step_opcode instructions (op_BLOCKHASH evm_opcodes) interpreter context
      in mi_stack interpreter = [expected_block_hash])"

definition test_gas_used :: "(SpecId \<Rightarrow> mem_table) \<Rightarrow> u8 \<Rightarrow> u64 \<Rightarrow> bool" where
  "test_gas_used eth opcode expected_gas_used \<longleftrightarrow>
     (let chain_id = 123; current_block = 1024; spec = FEYNMAN;
          context = test_host chain_id current_block spec;
          instructions = test_instruction_table eth spec;
          interpreter = test_interp [0, 0, 1];
          (interpreter', context) = step_opcode instructions opcode interpreter context;
          actual_gas_used = mi_gas interpreter - mi_gas interpreter'
      in actual_gas_used = expected_gas_used)"

definition test_static_gas_overrides :: "(SpecId \<Rightarrow> mem_table) \<Rightarrow> ScrollSpecId \<Rightarrow> bool" where
  "test_static_gas_overrides eth spec \<longleftrightarrow>
     (let scroll_table = test_instruction_table eth spec;
          eth_table = eth (spec_into_SpecId spec);
          diffs = [(opcode, static_gas (eth_table opcode), static_gas (scroll_table opcode)).
            opcode \<leftarrow> all_opcodes, static_gas (scroll_table opcode) \<noteq> static_gas (eth_table opcode)]
      in diffs = [(op_SELFDESTRUCT evm_opcodes, 5000, 0)])"

definition test_call_family :: "(SpecId \<Rightarrow> mem_table) \<Rightarrow> ScrollSpecId \<Rightarrow> bool" where
  "test_call_family eth spec \<longleftrightarrow>
     (let table = test_instruction_table eth spec
      in list_all (\<lambda>opcode. static_gas (table opcode) = 100) [0xF1, 0xF2, 0xF4, 0xFA])"

definition test_clz :: "(u256 \<times> u256) list \<Rightarrow> bool" where
  "test_clz test_cases \<longleftrightarrow>
     (let spec = GALILEO; context = test_host 1 0 spec
      in list_all (\<lambda>(v, expected).
           let interpreter = fst (clz mem_interp_ops mem_host_ops (test_interp [v]) context)
           in mi_stack interpreter = [expected]) test_cases)"

definition clz_test_cases :: "(u256 \<times> u256) list" where
  "clz_test_cases = [(0x0, 256), (0x1, 255), (0x2, 254), (0x3, 254), (0x4, 253), (0x7, 253),
     (0x8, 252), (0xff, 248), (0x100, 247), (0xffff, 240),
     (0xffffffffffffffffffffffffffffffffffffffffffffffffffffffffffffffff, 0),
     (0x8000000000000000000000000000000000000000000000000000000000000000, 0),
     (0x4000000000000000000000000000000000000000000000000000000000000000, 1),
     (0x7fffffffffffffffffffffffffffffffffffffffffffffffffffffffffffffff, 1)]"

section \<open>They pass\<close>

text \<open>The static gas of Ethereum's table after its fork adjustments, as far as the tests look at it.\<close>

definition documented_gas :: "(SpecId \<Rightarrow> mem_table) \<Rightarrow> bool" where
  "documented_gas eth \<longleftrightarrow>
     (let g = (\<lambda>opcode. static_gas (eth Eth_SHANGHAI opcode))
      in g 0x40 = 20 \<and> g 0x48 = 2 \<and> g 0x5D = 100 \<and> g 0x5C = 100 \<and> g 0xFF = 5000 \<and> g 0x5E = 3 \<and>
         g 0x44 = 2 \<and> g 0x1E = 5 \<and> g 0xF1 = 100 \<and> g 0xF2 = 100 \<and> g 0xF4 = 100 \<and> g 0xFA = 100)"

lemmas step_defs = step_opcode_def test_instruction_table_def make_scroll_instruction_table_def
  evm_opcodes_def test_interp_def test_host_def mem_interp_ops_def mem_host_ops_def spec_gates Let_def
  word_less_nat_alt word_le_nat_alt unsigned_minus_1_eq_mask mask_eq_exp_minus_1

lemma blockhash_before: "test_blockhash_before_feynman eth"
  by (simp add: test_blockhash_before_feynman_def step_defs blockhash_def checked_sub_def mem_as_u64_def)

lemma blockhash_after: "test_blockhash_after_feynman eth expected"
  by (simp add: test_blockhash_after_feynman_def step_defs blockhash_def blockhash_feynman_def
      checked_sub_def mem_as_u64_def mem_sload_def mem_load_account_def HISTORY_SERVE_WINDOW_def)


lemma gas_used:
  "test_gas_used eth (op_BLOCKHASH evm_opcodes) 20" "test_gas_used eth (op_BASEFEE evm_opcodes) 2"
  "test_gas_used eth (op_TSTORE evm_opcodes) 100" "test_gas_used eth (op_TLOAD evm_opcodes) 100"
  "test_gas_used eth (op_MCOPY evm_opcodes) 9" "test_gas_used eth (op_SELFDESTRUCT evm_opcodes) 0"
  "test_gas_used eth (op_DIFFICULTY evm_opcodes) 2"
  by (simp_all add: test_gas_used_def step_defs blockhash_def checked_sub_def mem_as_u64_def
      basefee_instr_def push_or_halt_def tstore_def tload_def mcopy_def selfdestruct_def difficulty_def
      mem_resize_def mem_words_def mem_gas_of_def)

lemma filter_table:
  "[(op, f op, g op). op \<leftarrow> xs, g op \<noteq> f op] = map (\<lambda>op. (op, f op, g op)) (filter (\<lambda>op. g op \<noteq> f op) xs)"
  by (induction xs) auto

lemma only_selfdestruct: "filter (\<lambda>op. op = 0xFF) all_opcodes = [0xFF :: u8]"
proof -
  have split: "[0..<256] = [0..<255] @ [255]" by (rule upt_Suc_append [of 0 255, simplified])
  have "(of_nat n :: u8) \<noteq> 0xFF" if "n < 255" for n
    using that by (simp add: word_unat_eq_iff unat_of_nat)
  then show ?thesis by (simp add: all_opcodes_def split filter_map o_def filter_empty_conv)
qed

lemma static_gas_overrides:
  assumes "documented_gas eth"
  shows "test_static_gas_overrides eth spec"
proof -
  have "static_gas (test_instruction_table eth spec op) \<noteq> static_gas (eth Eth_SHANGHAI op) \<longleftrightarrow> op = 0xFF" for op
    using assms
    by (simp add: documented_gas_def test_instruction_table_def make_scroll_instruction_table_def
        evm_opcodes_def Let_def)
  then show ?thesis
    using assms
    unfolding test_static_gas_overrides_def Let_def filter_table spec_into_SpecId
    by (simp add: only_selfdestruct documented_gas_def test_instruction_table_def
        make_scroll_instruction_table_def evm_opcodes_def Let_def)
qed

lemma call_family:
  assumes "documented_gas eth"
  shows "test_call_family eth spec"
  using assms
  by (simp add: test_call_family_def documented_gas_def test_instruction_table_def
      make_scroll_instruction_table_def evm_opcodes_def Let_def)

lemma bit_len_steps: "bit_len 0 = 0" "bit_len 1 = 1" "bit_len (Suc 0) = 1"
  "bit_len (numeral k) = Suc (bit_len (numeral k div 2))"
  using bit_len.simps [of 0] bit_len.simps [of 1] bit_len.simps [of "numeral k"] by simp_all

lemma clz_runs: "mi_stack (fst (clz mem_interp_ops mem_host_ops (test_interp [v]) (test_host 1 0 GALILEO))) =
    [of_nat (leading_zeros v)]"
  by (simp add: clz_def step_defs)

lemma clz_cases: "test_clz clz_test_cases"
  by (simp add: test_clz_def clz_test_cases_def clz_runs leading_zeros_def bit_len_steps Let_def)

end
