(* ===== verification/PrecompileTests.thy ===== *)
theory PrecompileTests
  imports PrecompileRuns RefHandler
begin

text \<open>
  The unit tests of \<open>src/precompile/mod.rs\<close> (all but the pairing of a large input, whose result is the
  library's), transcribed over the model: their tables of expected
  addresses, identifiers and gas, their assertions, and the tests. They hold for every library with
  the documented prices and identifiers (\<open>documented_lib\<close>).
\<close>

section \<open>Tables\<close>

definition gas_used_of :: "PrecompileOutput \<Rightarrow> u64" where
  "gas_used_of out = (case out of Completed g _ \<Rightarrow> g | Reverted g _ \<Rightarrow> g)"

definition bytes_of :: "PrecompileOutput \<Rightarrow> bytes" where
  "bytes_of out = (case out of Completed _ bs \<Rightarrow> bs | Reverted _ bs \<Rightarrow> bs)"

type_synonym mem_installed = "(mem_journal, string, unit) installed"

definition precompile_id :: "mem_installed \<Rightarrow> PrecompileId" where
  "precompile_id p = (case p of Static q \<Rightarrow> pc_id q | Dynamic i _ \<Rightarrow> i)"

definition call_dyn_precompile ::
  "mem_installed \<Rightarrow> address \<Rightarrow> bytes \<Rightarrow> u64 \<Rightarrow> (PrecompileError, PrecompileOutput) outcome" where
  "call_dyn_precompile p from input gas =
     (case p of
        Static q \<Rightarrow> pc_run q input gas
      | Dynamic _ run \<Rightarrow> fst (run \<lparr>pi_data = input, pi_gas = gas, pi_caller = from,
          pi_is_static = False, pi_is_direct_call = True\<rparr> mem_empty))"

definition precompiles_for_spec :: "precompile_lib \<Rightarrow> ScrollSpecId \<Rightarrow> address \<Rightarrow> mem_installed option" where
  "precompiles_for_spec L spec = into_precompiles_map (provider_new_with_spec L mem_internals spec)"

definition ALL_SPECS :: "ScrollSpecId list" where
  "ALL_SPECS = [SHANGHAI, BERNOULLI, CURIE, DARWIN, EUCLID, FEYNMAN, GALILEO, TSUKI, TSUKI_V2]"

definition ALL_ADDRESSES :: "address list" where
  "ALL_ADDRESSES = [ECRECOVER, SHA256, RIPEMD160, IDENTITY, MODEXP, BN254_ADD, BN254_MUL,
     BN254_PAIRING, BLAKE2F, P256VERIFY, TRANSFER]"

fun static_precompiles_for_spec :: "precompile_lib \<Rightarrow> ScrollSpecId \<Rightarrow> precompiles" where
  "static_precompiles_for_spec L SHANGHAI = pre_bernoulli L"
| "static_precompiles_for_spec L BERNOULLI = bernoulli L"
| "static_precompiles_for_spec L CURIE = bernoulli L"
| "static_precompiles_for_spec L DARWIN = bernoulli L"
| "static_precompiles_for_spec L EUCLID = euclid L"
| "static_precompiles_for_spec L FEYNMAN = feynman L"
| "static_precompiles_for_spec L GALILEO = galileo L"
| "static_precompiles_for_spec L TSUKI = tsuki_static L"
| "static_precompiles_for_spec L TSUKI_V2 = tsuki_static L"

definition extension_addresses :: "ScrollSpecId \<Rightarrow> address list" where
  "extension_addresses spec =
     (if TSUKI \<le> spec then map fst (tsuki_extensions mem_internals) else [])"

definition expected_precompile_addresses :: "ScrollSpecId \<Rightarrow> address list" where
  "expected_precompile_addresses spec =
     [ECRECOVER, SHA256, RIPEMD160, IDENTITY, MODEXP, BN254_ADD, BN254_MUL, BN254_PAIRING, BLAKE2F]
     @ (if EUCLID \<le> spec then [P256VERIFY] else [])
     @ (if TSUKI \<le> spec then [TRANSFER] else [])"

definition expected_precompile_id :: "address \<Rightarrow> PrecompileId option" where
  "expected_precompile_id a =
     (if a = ECRECOVER then Some EcRec else if a = SHA256 then Some Sha256
      else if a = RIPEMD160 then Some Ripemd160 else if a = IDENTITY then Some Identity
      else if a = MODEXP then Some ModExp else if a = BN254_ADD then Some Bn254Add
      else if a = BN254_MUL then Some Bn254Mul else if a = BN254_PAIRING then Some Bn254Pairing
      else if a = BLAKE2F then Some Blake2F else if a = P256VERIFY then Some P256Verify
      else if a = TRANSFER then Some TRANSFER_ID else None)"

definition expected_zero_input_gas :: "ScrollSpecId \<Rightarrow> address \<Rightarrow> u64 option" where
  "expected_zero_input_gas spec a =
     (if a = ECRECOVER then Some 3000
      else if a = SHA256 \<and> BERNOULLI \<le> spec then Some 60
      else if a = RIPEMD160 \<and> TSUKI \<le> spec then Some 600
      else if a = IDENTITY then Some 15
      else if a = MODEXP \<and> GALILEO \<le> spec then Some 500
      else if a = MODEXP then Some 200
      else if a = BN254_ADD then Some 150
      else if a = BN254_MUL then Some 6000
      else if a = BN254_PAIRING then Some 45000
      else if a = P256VERIFY \<and> GALILEO \<le> spec then Some 6900
      else if a = P256VERIFY then Some 3450
      else None)"

definition expected_not_implemented :: "ScrollSpecId \<Rightarrow> address \<Rightarrow> bool" where
  "expected_not_implemented spec a \<longleftrightarrow>
     a = SHA256 \<and> spec < BERNOULLI \<or> a = RIPEMD160 \<and> spec < TSUKI \<or> a = BLAKE2F"

section \<open>Assertions\<close>

definition contains :: "string \<Rightarrow> string \<Rightarrow> bool" where
  "contains msg pat \<longleftrightarrow> list_ex (\<lambda>n. take (length pat) (drop n msg) = pat) [0..<Suc (length msg)]"

definition assert_precompile_zero_input_gas ::
  "(address \<Rightarrow> mem_installed option) \<Rightarrow> address \<Rightarrow> u64 \<Rightarrow> bool" where
  "assert_precompile_zero_input_gas ps a expected_gas \<longleftrightarrow>
     (case ps a of
        None \<Rightarrow> False
      | Some p \<Rightarrow>
          (case call_dyn_precompile p 0 [] expected_gas of
             Ok out \<Rightarrow> gas_used_of out = expected_gas
           | _ \<Rightarrow> False) \<and>
          (0 < expected_gas \<longrightarrow> call_dyn_precompile p 0 [] (expected_gas - 1) = Err PcOutOfGas))"

definition assert_precompile_not_implemented :: "(address \<Rightarrow> mem_installed option) \<Rightarrow> address \<Rightarrow> bool" where
  "assert_precompile_not_implemented ps a \<longleftrightarrow>
     (case ps a of
        None \<Rightarrow> False
      | Some p \<Rightarrow>
          (case call_dyn_precompile p 0 [] (- 1) of
             Err (PcOther msg) \<Rightarrow> contains msg ''NotImplemented''
           | _ \<Rightarrow> False))"

section \<open>The tests\<close>

definition precompile_addresses_are_distinct :: bool where
  "precompile_addresses_are_distinct \<longleftrightarrow>
     list_all (\<lambda>i. ALL_ADDRESSES ! i \<notin> set (drop (i + 1) ALL_ADDRESSES)) [0..<length ALL_ADDRESSES]"

definition dynamic_precompiles_do_not_shadow_static_ones :: "precompile_lib \<Rightarrow> bool" where
  "dynamic_precompiles_do_not_shadow_static_ones L \<longleftrightarrow>
     list_all (\<lambda>spec.
       let static = static_precompiles_for_spec L spec;
           extensions = extension_addresses spec;
           active = precompiles_for_spec L spec
       in list_all (\<lambda>a. static a = None) extensions \<and>
          (\<forall>a \<in> dom static. map_option precompile_id (active a) = map_option pc_id (static a)) \<and>
          {a \<in> dom active. static a = None} = set extensions \<and>
          dom active \<subseteq> set ALL_ADDRESSES \<and>
          inj_on (\<lambda>a. map_option precompile_id (active a)) (dom active))
     ALL_SPECS"

definition spec_activation_matrix_cfg :: "ScrollSpecId \<Rightarrow> bool" where
  "spec_activation_matrix_cfg spec \<longleftrightarrow>
     (let cfg = new_scroll table_cfg_ops spec;
          expected_eip7702 = EUCLID \<le> spec; expected_eip7623 = FEYNMAN \<le> spec;
          expected_eip7825 = TSUKI \<le> spec;
          get = gp_get table_cfg_ops (gas_params cfg)
      in get (tx_eip7702_per_empty_account_cost table_cfg_ops) =
           (if expected_eip7702 then PER_EMPTY_ACCOUNT_COST table_cfg_ops else 0) \<and>
         get (tx_floor_cost_per_token table_cfg_ops) =
           (if expected_eip7623 then TOTAL_COST_FLOOR_PER_TOKEN table_cfg_ops else 0) \<and>
         get (tx_floor_cost_base_gas table_cfg_ops) = (if expected_eip7623 then 21000 else 0) \<and>
         tx_gas_limit_cap cfg = (if expected_eip7825 then Some (TX_GAS_LIMIT_CAP table_cfg_ops) else None) \<and>
         effective_gas_limit_cap mem_handler cfg =
           (if expected_eip7825 then TX_GAS_LIMIT_CAP table_cfg_ops else - 1))"

definition spec_activation_matrix_precompiles :: "precompile_lib \<Rightarrow> ScrollSpecId \<Rightarrow> bool" where
  "spec_activation_matrix_precompiles L spec \<longleftrightarrow>
     (let ps = precompiles_for_spec L spec; expected = expected_precompile_addresses spec
      in dom ps = set expected \<and>
         list_all (\<lambda>a.
           map_option precompile_id (ps a) = expected_precompile_id a \<and>
           (case expected_zero_input_gas spec a of
              Some expected_gas \<Rightarrow> assert_precompile_zero_input_gas ps a expected_gas
            | None \<Rightarrow> expected_not_implemented spec a \<longrightarrow> assert_precompile_not_implemented ps a)) expected)"

definition spec_activation_matrix_transfer :: "precompile_lib \<Rightarrow> ScrollSpecId \<Rightarrow> bool" where
  "spec_activation_matrix_transfer L spec \<longleftrightarrow>
     (TSUKI \<le> spec \<longrightarrow>
        (case precompiles_for_spec L spec TRANSFER of
           None \<Rightarrow> False
         | Some p \<Rightarrow>
             let input = replicate 96 0 in
             (case call_dyn_precompile p NATIVE_DOGE_TOKEN_ADDRESS input GAS_COST of
                Ok out \<Rightarrow> gas_used_of out = GAS_COST
              | _ \<Rightarrow> False) \<and>
             call_dyn_precompile p NATIVE_DOGE_TOKEN_ADDRESS input (GAS_COST - 1) = Err PcOutOfGas))"

definition spec_activation_matrix_matches_scroll_plan :: "precompile_lib \<Rightarrow> bool" where
  "spec_activation_matrix_matches_scroll_plan L \<longleftrightarrow>
     list_all (\<lambda>spec. spec_activation_matrix_cfg spec \<and> spec_activation_matrix_precompiles L spec \<and>
       spec_activation_matrix_transfer L spec) ALL_SPECS"

definition tsuki_v2_precompiles_match_tsuki :: "precompile_lib \<Rightarrow> bool" where
  "tsuki_v2_precompiles_match_tsuki L \<longleftrightarrow>
     (let ts = precompiles_for_spec L TSUKI; ts2 = precompiles_for_spec L TSUKI_V2
      in dom ts2 = dom ts \<and>
         (\<forall>a \<in> dom ts. map_option precompile_id (ts2 a) = map_option precompile_id (ts a) \<and>
            expected_zero_input_gas TSUKI_V2 a = expected_zero_input_gas TSUKI a))"

definition ripemd160_of_empty :: bytes where
  "ripemd160_of_empty =
     [0x00, 0x00, 0x00, 0x00, 0x00, 0x00, 0x00, 0x00, 0x00, 0x00, 0x00, 0x00, 0x9c, 0x11, 0x85, 0xa5,
      0xc5, 0xe9, 0xfc, 0x54, 0x61, 0x28, 0x08, 0x97, 0x7e, 0xe8, 0xf5, 0x48, 0xb2, 0x25, 0x8d, 0x31]"

definition test_ripemd160_enabled_only_from_tsuki :: "precompile_lib \<Rightarrow> bool" where
  "test_ripemd160_enabled_only_from_tsuki L \<longleftrightarrow>
     (case galileo L RIPEMD160 of
        None \<Rightarrow> False
      | Some p \<Rightarrow>
          (case pc_run p [] (- 1) of
             Err (PcOther msg) \<Rightarrow> contains msg ''NotImplemented''
           | _ \<Rightarrow> False)) \<and>
     (case tsuki L mem_internals RIPEMD160 of
        None \<Rightarrow> False
      | Some p \<Rightarrow>
          (case call_dyn_precompile p 0 [] (- 1) of Ok out \<Rightarrow> bytes_of out = ripemd160_of_empty | _ \<Rightarrow> False))"

definition test_tsuki_ripemd160_accepts_32_byte_input :: "precompile_lib \<Rightarrow> bool" where
  "test_tsuki_ripemd160_accepts_32_byte_input L \<longleftrightarrow>
     (let input = replicate TSUKI_LEN_LIMIT 0xff
      in case tsuki L mem_internals RIPEMD160 of
           None \<Rightarrow> False
         | Some p \<Rightarrow> (case call_dyn_precompile p 0 input (- 1) of Ok _ \<Rightarrow> True | _ \<Rightarrow> False))"

definition test_tsuki_ripemd160_rejects_33_byte_input :: "precompile_lib \<Rightarrow> bool" where
  "test_tsuki_ripemd160_rejects_33_byte_input L \<longleftrightarrow>
     (let input = replicate (TSUKI_LEN_LIMIT + 1) 0xff
      in case tsuki L mem_internals RIPEMD160 of
           None \<Rightarrow> False
         | Some p \<Rightarrow>
             (case call_dyn_precompile p 0 input (- 1) of
                Err (PcOther msg) \<Rightarrow> contains msg ''Ripemd160InputOverflow''
              | _ \<Rightarrow> False))"

section \<open>What the tests know of the library\<close>

definition costs_on_empty :: "precompile_fn \<Rightarrow> u64 \<Rightarrow> bool" where
  "costs_on_empty f cost \<longleftrightarrow>
     (\<exists>out. \<forall>gas. f [] gas = (if gas < cost then Err PcOutOfGas else Ok (Completed cost out)))"

definition documented_lib :: "precompile_lib \<Rightarrow> bool" where
  "documented_lib L \<longleftrightarrow> lib_addresses L \<and> pads L \<and> PAIR_ELEMENT_LEN L = 192 \<and>
     pc_id (lib_ECRECOVER L) = EcRec \<and> pc_id (lib_IDENTITY L) = Identity \<and>
     pc_id (lib_bn254_add_ISTANBUL L) = Bn254Add \<and> pc_id (lib_bn254_mul_ISTANBUL L) = Bn254Mul \<and>
     pc_id (lib_bn254_pair_ISTANBUL L) = Bn254Pairing \<and>
     pc_id (lib_P256VERIFY L) = P256Verify \<and> pc_id (lib_P256VERIFY_OSAKA L) = P256Verify \<and>
     costs_on_empty (pc_run (lib_ECRECOVER L)) 3000 \<and> costs_on_empty (sha256_run L) 60 \<and>
     costs_on_empty (ripemd160_run L) 600 \<and> costs_on_empty (pc_run (lib_IDENTITY L)) 15 \<and>
     costs_on_empty (modexp_osaka_run L) 500 \<and>
     costs_on_empty (\<lambda>input gas. modexp_run_inner_berlin L input gas 200) 200 \<and>
     costs_on_empty (pc_run (lib_bn254_add_ISTANBUL L)) 150 \<and>
     costs_on_empty (pc_run (lib_bn254_mul_ISTANBUL L)) 6000 \<and>
     costs_on_empty (\<lambda>input. run_pair L input (ISTANBUL_PAIR_PER_POINT L) (ISTANBUL_PAIR_BASE L)) 45000 \<and>
     costs_on_empty (pc_run (lib_bn254_pair_ISTANBUL L)) 45000 \<and>
     costs_on_empty (pc_run (lib_P256VERIFY L)) 3450 \<and> costs_on_empty (pc_run (lib_P256VERIFY_OSAKA L)) 6900"

section \<open>They pass\<close>

lemma contains_prefix: "contains (pat @ rest) pat"
  unfolding contains_def list_ex_iff by (rule bexI [of _ 0]) simp_all

lemma addresses_are_distinct: "precompile_addresses_are_distinct"
  by (simp add: precompile_addresses_are_distinct_def ALL_ADDRESSES_def address_defs upt_rec)

text \<open>The active precompiles of a fork, from the matrix.\<close>

lemma active:
  "documented_lib L \<Longrightarrow> precompiles_for_spec L spec a = expected_precompile L mem_internals spec a"
  by (simp add: precompiles_for_spec_def into_precompiles_map_def installed_matrix documented_lib_def)

lemma expected_dom:
  "dom (expected_precompile L N spec) = set (expected_precompile_addresses spec)"
proof -
  have "EUCLID \<le> spec" if "GALILEO \<le> spec" using that by (cases spec) (simp_all add: spec_gates)
  then show ?thesis
    using addresses_distinct
    by (auto simp: dom_def expected_precompile_def expected_precompile_addresses_def)
qed

lemma active_dom: "documented_lib L \<Longrightarrow> dom (precompiles_for_spec L spec) = set (expected_precompile_addresses spec)"
  using active [of L spec] expected_dom [of L mem_internals spec] by (simp add: dom_def)

lemma expected_id:
  assumes "documented_lib L" and "a \<in> set (expected_precompile_addresses spec)"
  shows "map_option precompile_id (precompiles_for_spec L spec a) = expected_precompile_id a"
  using assms addresses_distinct
  by (auto simp: active expected_precompile_def expected_precompile_addresses_def precompile_id_def
      expected_precompile_id_def documented_lib_def own_precompile_defs transfer_precompile_def
      split: if_splits)


lemma length_word_Nil: "length_word [] off = 0"
proof -
  have "from_be_bytes (replicate n 0) = (0 :: u256)" for n
    by (induction n) (simp_all add: from_be_bytes_def)
  then show ?thesis by (simp add: length_word_def)
qed

lemma own_costs:
  assumes "documented_lib L"
  shows "costs_on_empty (pc_run (sha256_BERNOULLI L)) 60" "costs_on_empty (pc_run (ripemd160_TSUKI L)) 600"
    "costs_on_empty (pc_run (modexp_BERNOULLI L)) 200" "costs_on_empty (pc_run (modexp_GALILEO L)) 500"
    "costs_on_empty (pc_run (bn254_pair_BERNOULLI L)) 45000"
  using assms
  by (simp_all add: documented_lib_def own_precompile_defs costs_on_empty_def modexp_rule
      length_word_Nil bn254_bernoulli_run_def)

lemma expected_rest:
  "expected_precompile L N spec ECRECOVER = Some (Static (lib_ECRECOVER L))"
  "expected_precompile L N spec IDENTITY = Some (Static (lib_IDENTITY L))"
  "expected_precompile L N spec BN254_ADD = Some (Static (lib_bn254_add_ISTANBUL L))"
  "expected_precompile L N spec BN254_MUL = Some (Static (lib_bn254_mul_ISTANBUL L))"
  "expected_precompile L N spec P256VERIFY =
     (if GALILEO \<le> spec then Some (Static (lib_P256VERIFY_OSAKA L))
      else if EUCLID \<le> spec then Some (Static (lib_P256VERIFY L)) else None)"
  "expected_precompile L N spec TRANSFER = (if TSUKI \<le> spec then Some (transfer_precompile N) else None)"
  by (simp_all add: expected_precompile_def address_defs)

lemma zero_gas_at:
  "expected_zero_input_gas spec ECRECOVER = Some 3000"
  "expected_zero_input_gas spec SHA256 = (if BERNOULLI \<le> spec then Some 60 else None)"
  "expected_zero_input_gas spec RIPEMD160 = (if TSUKI \<le> spec then Some 600 else None)"
  "expected_zero_input_gas spec IDENTITY = Some 15"
  "expected_zero_input_gas spec MODEXP = Some (if GALILEO \<le> spec then 500 else 200)"
  "expected_zero_input_gas spec BN254_ADD = Some 150"
  "expected_zero_input_gas spec BN254_MUL = Some 6000"
  "expected_zero_input_gas spec BN254_PAIRING = Some 45000"
  "expected_zero_input_gas spec BLAKE2F = None"
  "expected_zero_input_gas spec P256VERIFY = Some (if GALILEO \<le> spec then 6900 else 3450)"
  "expected_zero_input_gas spec TRANSFER = None"
  by (simp_all add: expected_zero_input_gas_def address_defs)

lemma installed_cases:
  assumes "a \<in> set (expected_precompile_addresses spec)"
  obtains "a = ECRECOVER" | "a = SHA256" | "a = RIPEMD160" | "a = IDENTITY" | "a = MODEXP"
    | "a = BN254_ADD" | "a = BN254_MUL" | "a = BN254_PAIRING" | "a = BLAKE2F"
    | "a = P256VERIFY" "EUCLID \<le> spec" | "a = TRANSFER" "TSUKI \<le> spec"
  using assms by (auto simp: expected_precompile_addresses_def split: if_splits)

lemma costed:
  assumes "documented_lib L" and "a \<in> set (expected_precompile_addresses spec)"
    and "expected_zero_input_gas spec a = Some g"
  shows "\<exists>q. precompiles_for_spec L spec a = Some (Static q) \<and> costs_on_empty (pc_run q) g \<and> 0 < g"
  using assms(2)
  by (cases rule: installed_cases)
    (use assms(1,3) own_costs [OF assms(1)] in
      \<open>auto simp: active expected_at expected_rest zero_gas_at documented_lib_def split: if_splits\<close>)

lemma zero_input_gas:
  assumes "documented_lib L" and "a \<in> set (expected_precompile_addresses spec)"
    and "expected_zero_input_gas spec a = Some g"
  shows "assert_precompile_zero_input_gas (precompiles_for_spec L spec) a g"
proof -
  from costed [OF assms] obtain q where q: "precompiles_for_spec L spec a = Some (Static q)"
    and c: "costs_on_empty (pc_run q) g" and "0 < g" by blast
  from c obtain out where run: "pc_run q [] gas = (if gas < g then Err PcOutOfGas else Ok (Completed g out))" for gas
    unfolding costs_on_empty_def by blast
  have "g \<noteq> 0" using \<open>0 < g\<close> by (simp add: word_gt_0)
  then have "unat (g - 1) < unat g" using unat_minus_one [of g] unat_eq_0 [of g] by simp
  then have "g - 1 < g" by (simp add: word_less_nat_alt)
  then show ?thesis
    by (simp add: assert_precompile_zero_input_gas_def q call_dyn_precompile_def run gas_used_of_def)
qed

lemma not_implemented:
  assumes "documented_lib L" and "a \<in> set (expected_precompile_addresses spec)"
    and "expected_not_implemented spec a"
  shows "assert_precompile_not_implemented (precompiles_for_spec L spec) a"
proof -
  have "precompiles_for_spec L spec a \<in> {Some (Static sha256_SHANGHAI), Some (Static ripemd160_SHANGHAI),
      Some (Static blake2_SHANGHAI)}"
    using assms(1,3)
    by (auto simp: active expected_at expected_not_implemented_def)
  then show ?thesis
    using contains_prefix [of "''NotImplemented''" "'': Precompile not implemented''"]
    by (auto simp: assert_precompile_not_implemented_def call_dyn_precompile_def own_precompile_defs)
qed

lemma matrix_precompiles:
  assumes "documented_lib L"
  shows "spec_activation_matrix_precompiles L spec"
  unfolding spec_activation_matrix_precompiles_def Let_def list_all_iff
  using active_dom [OF assms] expected_id [OF assms] zero_input_gas [OF assms] not_implemented [OF assms]
  by (auto split: option.split)

lemma matrix_transfer:
  assumes "documented_lib L"
  shows "spec_activation_matrix_transfer L spec"
proof -
  have guards: "transfer_guards \<lparr>pi_data = replicate 96 0, pi_gas = g, pi_caller = NATIVE_DOGE_TOKEN_ADDRESS,
      pi_is_static = False, pi_is_direct_call = True\<rparr> = (if g < GAS_COST then Err PcOutOfGas else Ok ())" for g
    by (simp add: transfer_guards_def guard_err_def CALL_DATA_LENGTH_def)
  have zeros: "from_be_bytes (replicate n 0) = (0 :: 'a::len word)" for n
    by (induction n) (simp_all add: from_be_bytes_def)
  have args: "transfer_args (replicate 96 0) = Ok (0, 0, 0)"
    using transfer_args_total [of "replicate 96 0"] by (simp add: CALL_DATA_LENGTH_def zeros)
  have "precompiles_for_spec L spec TRANSFER = Some (transfer_precompile mem_internals)" if "TSUKI \<le> spec"
    using that by (simp add: active [OF assms] expected_rest)
  then show ?thesis
    by (auto simp: spec_activation_matrix_transfer_def transfer_precompile_def call_dyn_precompile_def
        transfer_run_def guards args bind_def gas_used_of_def GAS_COST_def mem_internals_def mem_move_def Let_def)
qed

lemma matrix_cfg: "spec_activation_matrix_cfg spec"
proof -
  have "gp_get table_cfg_ops (gas_params (new_scroll table_cfg_ops spec)) i = scroll_gas table_ops spec i" for i
    using table.new_scroll_spec_get [of spec i]
    by (simp add: new_scroll_def table_cfg_ops_def gas_table_ops.extend_def gas_table_ops.truncate_def
        table_ops_def Let_def)
  then show ?thesis
    by (simp add: spec_activation_matrix_cfg_def scroll_gas_def new_scroll_def table_cfg_ops_def
        gas_table_ops.extend_def table_ops_def mem_handler_def Let_def)
qed

lemma activation_plan:
  assumes "documented_lib L"
  shows "spec_activation_matrix_matches_scroll_plan L"
  by (simp add: spec_activation_matrix_matches_scroll_plan_def list_all_iff matrix_cfg
      matrix_precompiles [OF assms] matrix_transfer [OF assms])

lemma documented_addresses: "documented_lib L \<Longrightarrow> lib_addresses L"
  by (simp add: documented_lib_def)

lemma expected_ids_inj:
  "a \<in> set ALL_ADDRESSES \<Longrightarrow> b \<in> set ALL_ADDRESSES \<Longrightarrow>
     expected_precompile_id a = expected_precompile_id b \<Longrightarrow> a = b"
  unfolding ALL_ADDRESSES_def
  by (auto simp: expected_precompile_id_def TRANSFER_ID_def split: if_splits)

lemma expected_known: "set (expected_precompile_addresses spec) \<subseteq> set ALL_ADDRESSES"
  by (auto simp: expected_precompile_addresses_def ALL_ADDRESSES_def)

lemma static_part:
  assumes "documented_lib L"
  shows "precompiles_for_spec L spec a =
    (if TSUKI \<le> spec \<and> a = TRANSFER then Some (transfer_precompile mem_internals)
     else map_option Static (static_precompiles_for_spec L spec a))"
  by (cases spec) (simp_all add: precompiles_for_spec_def into_precompiles_map_def
      provider_new_with_spec_def from_static_def tsuki_def tsuki_extensions_def spec_gates)

lemma static_transfer:
  assumes "documented_lib L"
  shows "static_precompiles_for_spec L spec TRANSFER = None"
  using documented_addresses [OF assms]
  by (cases spec) (simp_all add: set_defs lib_addresses_def address_defs)

lemma no_shadowing:
  assumes "documented_lib L"
  shows "dynamic_precompiles_do_not_shadow_static_ones L"
proof -
  have ext: "set (extension_addresses spec) = (if TSUKI \<le> spec then {TRANSFER} else {})" for spec
    by (simp add: extension_addresses_def tsuki_extensions_def)
  have "inj_on (\<lambda>a. map_option precompile_id (precompiles_for_spec L spec a)) (dom (precompiles_for_spec L spec))" for spec
    using expected_ids_inj expected_known [of spec]
    by (intro inj_onI) (simp add: active_dom [OF assms] expected_id [OF assms] subset_iff)
  moreover have "dom (precompiles_for_spec L spec) \<subseteq> set ALL_ADDRESSES" for spec
    using expected_known by (simp add: active_dom [OF assms])
  moreover have "list_all (\<lambda>a. static_precompiles_for_spec L spec a = None) (extension_addresses spec)" for spec
    using static_transfer [OF assms] ext by (simp add: list_all_iff)
  moreover have "\<forall>a \<in> dom (static_precompiles_for_spec L spec).
      map_option precompile_id (precompiles_for_spec L spec a) = map_option pc_id (static_precompiles_for_spec L spec a)" for spec
    using static_transfer [OF assms, of spec]
    by (auto simp: static_part [OF assms] precompile_id_def)
  moreover have "{a \<in> dom (precompiles_for_spec L spec). static_precompiles_for_spec L spec a = None} =
      set (extension_addresses spec)" for spec
    using static_transfer [OF assms, of spec]
    by (auto simp: ext static_part [OF assms] split: if_splits)
  ultimately show ?thesis
    by (simp add: dynamic_precompiles_do_not_shadow_static_ones_def list_all_iff)
qed

lemma v2_matches:
  assumes "documented_lib L"
  shows "tsuki_v2_precompiles_match_tsuki L"
proof -
  have "expected_precompile_addresses TSUKI_V2 = expected_precompile_addresses TSUKI"
    by (simp add: expected_precompile_addresses_def spec_gates)
  moreover have "expected_zero_input_gas TSUKI_V2 = expected_zero_input_gas TSUKI"
    by (simp add: expected_zero_input_gas_def fun_eq_iff spec_gates)
  ultimately show ?thesis
    by (simp add: tsuki_v2_precompiles_match_tsuki_def active_dom [OF assms] expected_id [OF assms] Let_def)
qed

lemma ripemd_at:
  assumes "documented_lib L"
  shows "tsuki L mem_internals RIPEMD160 = Some (Static (ripemd160_TSUKI L))"
    and "galileo L RIPEMD160 = Some ripemd160_SHANGHAI"
  using documented_addresses [OF assms]
  by (simp_all add: set_defs lib_addresses_def address_defs)

lemma ripemd160_from_tsuki:
  assumes "documented_lib L" and "\<And>gas. 600 \<le> gas \<Longrightarrow> ripemd160_run L [] gas = Ok (Completed 600 ripemd160_of_empty)"
  shows "test_ripemd160_enabled_only_from_tsuki L"
proof -
  have "(600 :: u64) \<le> - 1" by simp
  then show ?thesis
    using assms(2) contains_prefix [of "''NotImplemented''" "'': Precompile not implemented''"]
    by (simp add: test_ripemd160_enabled_only_from_tsuki_def ripemd_at [OF assms(1)] call_dyn_precompile_def
        own_precompile_defs bytes_of_def)
qed

lemma ripemd160_accepts:
  assumes "documented_lib L" and "\<exists>out. ripemd160_run L (replicate 32 0xff) (- 1) = Ok out"
  shows "test_tsuki_ripemd160_accepts_32_byte_input L"
  using assms(2)
  by (auto simp: test_tsuki_ripemd160_accepts_32_byte_input_def ripemd_at [OF assms(1)]
      call_dyn_precompile_def own_precompile_defs TSUKI_LEN_LIMIT_def Let_def)

lemma ripemd160_rejects:
  assumes "documented_lib L"
  shows "test_tsuki_ripemd160_rejects_33_byte_input L"
  using contains_prefix [of "''Ripemd160InputOverflow''" "'': ripemd160 input overflow''"]
  by (simp add: test_tsuki_ripemd160_rejects_33_byte_input_def ripemd_at [OF assms(1)]
      call_dyn_precompile_def own_precompile_defs TSUKI_LEN_LIMIT_def Let_def)

end
