(* ===== verification/ModexpTests.thy ===== *)
theory ModexpTests
  imports PrecompileTests
begin

text \<open>
  The unit tests of \<open>src/precompile/modexp.rs\<close>, transcribed over the model, and the library on which
  all tests of precompiles run. The library's modexp is EIP-198's function (\<open>modexp_output\<close>); what it
  charges is only constrained where the tests look.
\<close>

section \<open>EIP-198\<close>

definition nat_of_be :: "bytes \<Rightarrow> nat" where
  "nat_of_be bs = foldl (\<lambda>acc b. 256 * acc + unat b) 0 bs"

definition be_of_nat :: "nat \<Rightarrow> nat \<Rightarrow> bytes" where
  "be_of_nat len n = map (\<lambda>i. of_nat (n div 256 ^ i)) (rev [0..<len])"

definition modexp_output :: "bytes \<Rightarrow> bytes" where
  "modexp_output input =
     (let b = unat (length_word input 0); e = unat (length_word input 32); m = unat (length_word input 64);
          operand = (\<lambda>off len. nat_of_be (take len (drop off input @ replicate len 0)));
          base_value = operand 96 b; exponent = operand (96 + b) e; modulus = operand (96 + b + e) m
      in be_of_nat m (if modulus = 0 then 0 else base_value ^ exponent mod modulus))"

definition documented_modexp :: "precompile_lib \<Rightarrow> bool" where
  "documented_modexp L \<longleftrightarrow> pads L \<and>
     (\<forall>input. length_word input 0 \<le> 64 \<and> length_word input 32 \<le> 1 \<and> length_word input 64 \<le> 1 \<longrightarrow>
        (\<exists>g g'. g \<le> g' \<and>
           modexp_run_inner_berlin L input 100000 200 = Ok (Completed g (modexp_output input)) \<and>
           modexp_osaka_run L input 100000 = Ok (Completed g' (modexp_output input))))"

section \<open>The tests\<close>

text \<open>A length word below 256, as in the hexadecimal inputs of the tests.\<close>

definition word_of :: "u8 \<Rightarrow> bytes" where
  "word_of n = replicate 31 0 @ [n]"

definition test_galileo_modexp_backward_compatibility :: "precompile_lib \<Rightarrow> bool" where
  "test_galileo_modexp_backward_compatibility L \<longleftrightarrow>
     (let input = word_of 1 @ word_of 1 @ word_of 1 @ [0x03, 0x05, 0x07]; limit = 100000
      in case (modexp_bernoulli_run L input limit, modexp_osaka_run L input limit) of
           (Ok bernoulli_output, Ok galileo_output) \<Rightarrow>
             bytes_of bernoulli_output = bytes_of galileo_output \<and>
             gas_used_of bernoulli_output \<le> gas_used_of galileo_output \<and>
             bytes_of bernoulli_output = [5] \<and> bytes_of galileo_output = [5]
         | _ \<Rightarrow> False)"

definition test_galileo_modexp_with_32_byte_limit :: "precompile_lib \<Rightarrow> bool" where
  "test_galileo_modexp_with_32_byte_limit L \<longleftrightarrow>
     (let input = word_of 0x21 @ word_of 1 @ word_of 1 @ replicate 33 0x03 @ [0x05, 0x07]; limit = 100000
      in (case modexp_bernoulli_run L input limit of
            Err (PcOther msg) \<Rightarrow> contains msg ''ModexpBaseOverflow''
          | _ \<Rightarrow> False) \<and>
         (case modexp_osaka_run L input limit of
            Ok galileo_output \<Rightarrow> bytes_of galileo_output = [0]
          | _ \<Rightarrow> False))"

definition test_galileo_modexp_preserves_feynman_behavior :: "precompile_lib \<Rightarrow> bool" where
  "test_galileo_modexp_preserves_feynman_behavior L \<longleftrightarrow>
     (let test_cases =
            [(word_of 1 @ word_of 1 @ word_of 1 @ [0x02, 0x03, 0x05], [3]),
             (word_of 1 @ word_of 1 @ word_of 1 @ [0x05, 0x00, 0x0d], [1])];
          limit = 100000
      in list_all (\<lambda>(input, expected).
           case (modexp_bernoulli_run L input limit, modexp_osaka_run L input limit) of
             (Ok bernoulli_result, Ok galileo_result) \<Rightarrow>
               bytes_of bernoulli_result = expected \<and> bytes_of galileo_result = expected \<and>
               bytes_of bernoulli_result = bytes_of galileo_result
           | _ \<Rightarrow> False) test_cases)"

section \<open>They pass\<close>

lemma replicate_33: "replicate 33 x =
    [x, x, x, x, x, x, x, x, x, x, x, x, x, x, x, x, x, x, x, x, x, x, x, x, x, x, x, x, x, x, x, x, x]"
  by (simp add: numeral_eq_Suc)

lemma word_of_length: "length (word_of n) = 32"
  by (simp add: word_of_def)

lemma from_word_of: "from_be_bytes (word_of n) = (ucast n :: u256)"
proof -
  have "foldl (\<lambda>acc b. acc * 256 + ucast b) 0 (replicate k (0 :: u8)) = (0 :: u256)" for k
    by (induction k) simp_all
  then show ?thesis by (simp add: from_be_bytes_def word_of_def)
qed

lemma lengths:
  "length_word (word_of b @ word_of e @ word_of m @ rest) 0 = ucast b"
  "length_word (word_of b @ word_of e @ word_of m @ rest) 32 = ucast e"
  "length_word (word_of b @ word_of e @ word_of m @ rest) 64 = ucast m"
  by (simp_all add: length_word_def word_of_length from_word_of)

lemma unat_u8_u256: "unat (ucast (b :: u8) :: u256) = unat b"
proof -
  have "unat b < 2 ^ 256" using unsigned_less [of b, where ?'a = nat] by simp
  then show ?thesis by (simp add: unsigned_ucast_eq take_bit_nat_eq_self)
qed

lemma output_of:
  "modexp_output (word_of b @ word_of e @ word_of m @ rest) =
     (let operand = (\<lambda>off len. nat_of_be (take len (drop off rest @ replicate len 0)));
          base_value = operand 0 (unat b); exponent = operand (unat b) (unat e);
          modulus = operand (unat b + unat e) (unat m)
      in be_of_nat (unat m) (if modulus = 0 then 0 else base_value ^ exponent mod modulus))"
  by (simp add: modexp_output_def lengths word_of_length unat_u8_u256 Let_def add.assoc)

lemma both_run:
  assumes "documented_modexp L" and "b \<le> 32" and "e \<le> 1" and "m \<le> 1"
    and "input = word_of b @ word_of e @ word_of m @ rest"
  shows "\<exists>g g'. g \<le> g' \<and> modexp_bernoulli_run L input 100000 = Ok (Completed g (modexp_output input)) \<and>
    modexp_osaka_run L input 100000 = Ok (Completed g' (modexp_output input))"
proof -
  have "unat b \<le> 32" "unat e \<le> 1" "unat m \<le> 1" using assms(2-4) by (simp_all add: word_le_nat_alt)
  then have small: "length_word input 0 \<le> 64" "length_word input 32 \<le> 1" "length_word input 64 \<le> 1"
    and fits: "\<not> 32 < length_word input 0" "\<not> 32 < length_word input 32" "\<not> 32 < length_word input 64"
    by (simp_all add: assms(5) lengths word_le_nat_alt word_less_nat_alt unat_u8_u256)
  have "modexp_bernoulli_run L input 100000 = modexp_run_inner_berlin L input 100000 200"
    using assms(1) fits by (simp add: modexp_rule documented_modexp_def)
  with assms(1) small show ?thesis by (simp add: documented_modexp_def)
qed

lemma modexp_compatible:
  assumes "documented_modexp L"
  shows "test_galileo_modexp_backward_compatibility L"
proof -
  let ?i = "word_of 1 @ word_of 1 @ word_of 1 @ [0x03, 0x05, 0x07]"
  have "modexp_output ?i = [5]"
    by (simp add: output_of nat_of_be_def be_of_nat_def)
  then show ?thesis
    using both_run [OF assms, of 1 1 1 ?i "[0x03, 0x05, 0x07]"]
    by (auto simp: test_galileo_modexp_backward_compatibility_def bytes_of_def gas_used_of_def Let_def)
qed

lemma modexp_limit:
  assumes "documented_modexp L"
  shows "test_galileo_modexp_with_32_byte_limit L"
proof -
  let ?i = "word_of 0x21 @ word_of 1 @ word_of 1 @ replicate 33 0x03 @ [0x05, 0x07]"
  have out: "modexp_output ?i = [0]"
    by (simp add: output_of nat_of_be_def be_of_nat_def replicate_33)
  have small: "length_word ?i 0 \<le> 64" "length_word ?i 32 \<le> 1" "length_word ?i 64 \<le> 1"
    and big: "32 < length_word ?i 0"
    by (simp_all add: lengths word_le_nat_alt word_less_nat_alt)
  have "modexp_bernoulli_run L ?i 100000 = Err (PcOther ''ModexpBaseOverflow: modexp base overflow'')"
    using assms big by (simp add: modexp_rule documented_modexp_def)
  moreover obtain g where "modexp_osaka_run L ?i 100000 = Ok (Completed g (modexp_output ?i))"
    using assms small unfolding documented_modexp_def by blast
  ultimately show ?thesis
    using contains_prefix [of "''ModexpBaseOverflow''" "'': modexp base overflow''"] out
    by (simp add: test_galileo_modexp_with_32_byte_limit_def bytes_of_def Let_def)
qed

lemma modexp_preserves:
  assumes "documented_modexp L"
  shows "test_galileo_modexp_preserves_feynman_behavior L"
proof -
  have "modexp_output (word_of 1 @ word_of 1 @ word_of 1 @ [0x02, 0x03, 0x05]) = [3]"
    and "modexp_output (word_of 1 @ word_of 1 @ word_of 1 @ [0x05, 0x00, 0x0d]) = [1]"
    by (simp_all add: output_of nat_of_be_def be_of_nat_def)
  then show ?thesis
    using both_run [OF assms, of 1 1 1 _ "[0x02, 0x03, 0x05]", OF _ _ _ refl]
      both_run [OF assms, of 1 1 1 _ "[0x05, 0x00, 0x0d]", OF _ _ _ refl]
    by (auto simp: test_galileo_modexp_preserves_feynman_behavior_def bytes_of_def Let_def word_le_nat_alt)
qed

end
