(* ===== verification/TestSuite.thy ===== *)
theory TestSuite
  imports FeeTests HandlerTests InstructionTests ModexpTests
begin

text \<open>
  The transcribed unit tests of the crate together: every test in \<open>FeeTests\<close>, \<open>HandlerTests\<close>,
  \<open>InstructionTests\<close>, \<open>PrecompileTests\<close> and \<open>ModexpTests\<close> passes on the model, for every library with
  the behaviour the tests presuppose; and such a library exists.
\<close>

section \<open>What the tests presuppose\<close>

definition presupposed ::
  "string \<Rightarrow> string \<Rightarrow> ('g, 'i) gas_table_ops \<Rightarrow> (SpecId \<Rightarrow> mem_table) \<Rightarrow> precompile_lib \<Rightarrow> bool" where
  "presupposed sh latest G eth L \<longleftrightarrow>
     ethereum_names sh latest \<and> eip7702_table G \<and> documented_gas eth \<and>
     documented_lib L \<and> documented_modexp L \<and>
     (\<forall>gas. 600 \<le> gas \<longrightarrow> ripemd160_run L [] gas = Ok (Completed 600 ripemd160_of_empty)) \<and>
     (\<exists>out. ripemd160_run L (replicate 32 0xff) (- 1) = Ok out)"

definition fork_and_fee_tests :: "string \<Rightarrow> string \<Rightarrow> ('g, 'i) gas_table_ops \<Rightarrow> bool" where
  "fork_and_fee_tests sh latest G \<longleftrightarrow>
     spec_names_round_trip sh \<and> unknown_spec_name_is_an_error sh latest \<and> default_is_latest_spec \<and>
     tsuki_v2_follows_tsuki sh \<and> eip7702_auth_refund_per_spec G \<and>
     list_all (\<lambda>(size, fee). rollup_fee_galileo size fee)
       [(50, 171557471810), (100, 344821983141), (1024, 3854009072433),
        (10 * 1024, 70759382824796), (1024 * 1024, 378961881717079120)] \<and>
     invalid_inputs_return_errors \<and> u96_limbs"

definition handler_tests :: bool where
  "handler_tests \<longleftrightarrow>
     list_all (\<lambda>(k, limit). test_validate_lacking_funds k limit \<and> test_upfront_balance_overflow k limit \<and>
       test_upfront_balance_overflow_before_tsuki_v2 k limit) [(Call TO, 21000), (Create, 53000)] \<and>
     test_load_account \<and> test_last_frame_result \<and> test_refund \<and> test_reward_beneficiary"

definition instruction_tests :: "(SpecId \<Rightarrow> mem_table) \<Rightarrow> u256 \<Rightarrow> bool" where
  "instruction_tests eth block_hash \<longleftrightarrow>
     test_blockhash_before_feynman eth \<and> test_blockhash_after_feynman eth block_hash \<and>
     list_all (\<lambda>(opcode, gas). test_gas_used eth opcode gas)
       [(op_BLOCKHASH evm_opcodes, 20), (op_BASEFEE evm_opcodes, 2), (op_TSTORE evm_opcodes, 100),
        (op_TLOAD evm_opcodes, 100), (op_MCOPY evm_opcodes, 9), (op_SELFDESTRUCT evm_opcodes, 0),
        (op_DIFFICULTY evm_opcodes, 2)] \<and>
     list_all (test_static_gas_overrides eth) ALL_SPECS \<and>
     list_all (test_call_family eth) [EUCLID, FEYNMAN, GALILEO, TSUKI, TSUKI_V2] \<and>
     test_clz clz_test_cases"

definition precompile_tests :: "precompile_lib \<Rightarrow> bool" where
  "precompile_tests L \<longleftrightarrow>
     precompile_addresses_are_distinct \<and> dynamic_precompiles_do_not_shadow_static_ones L \<and>
     spec_activation_matrix_matches_scroll_plan L \<and> tsuki_v2_precompiles_match_tsuki L \<and>
     test_ripemd160_enabled_only_from_tsuki L \<and> test_tsuki_ripemd160_accepts_32_byte_input L \<and>
     test_tsuki_ripemd160_rejects_33_byte_input L \<and>
     test_galileo_modexp_backward_compatibility L \<and> test_galileo_modexp_with_32_byte_limit L \<and>
     test_galileo_modexp_preserves_feynman_behavior L"

text \<open>
  The transcribed unit tests pass on the model: forks and names, gas parameters, the Galileo fee table
  and the fee errors, the handler's balance and reward tests, the instructions' gas and results, the
  activation matrix with its prices, and the input limits - for every library that has the names,
  prices and results the tests presuppose of it.
\<close>

theorem unit_tests_pass:
  assumes "presupposed sh latest G eth L"
  shows "fork_and_fee_tests sh latest G \<and> handler_tests \<and> instruction_tests eth block_hash \<and>
    precompile_tests L"
proof (intro conjI)
  note p = assms [unfolded presupposed_def]
  show "fork_and_fee_tests sh latest G"
    using p names_round_trip unknown_names [of sh latest] auth_refund_per_spec rollup_fees
    by (auto simp: fork_and_fee_tests_def default_is_latest follows_tsuki invalid_inputs u96)
  show handler_tests
    by (simp add: handler_tests_def lacking_funds balance_overflow overflow_before_tsuki_v2
        loads_account last_frame refunds rewards_beneficiary)
  show "instruction_tests eth block_hash"
    using p static_gas_overrides call_family
    by (simp add: instruction_tests_def blockhash_before blockhash_after gas_used clz_cases list_all_iff)
  show "precompile_tests L"
    using p addresses_are_distinct no_shadowing activation_plan v2_matches ripemd160_from_tsuki
      ripemd160_accepts ripemd160_rejects modexp_compatible modexp_limit modexp_preserves
    unfolding precompile_tests_def by blast
qed

section \<open>A library as presupposed\<close>

definition metered :: "u64 \<Rightarrow> (bytes \<Rightarrow> bytes) \<Rightarrow> precompile_fn" where
  "metered cost out input gas = (if gas < cost then Err PcOutOfGas else Ok (Completed cost (out input)))"

definition metered_lib :: precompile_lib where
  "metered_lib =
     \<lparr>sha256_run = metered 60 id, ripemd160_run = metered 600 (\<lambda>_. ripemd160_of_empty), modexp_osaka_run = metered 500 modexp_output,
      modexp_run_inner_berlin = (\<lambda>input gas least. metered least modexp_output input gas),
      right_pad_with_offset = (\<lambda>n xs off. take n (drop off xs @ replicate n 0)),
      run_pair = (\<lambda>input per_point base gas. metered base id input gas), PAIR_ELEMENT_LEN = 192,
      ISTANBUL_PAIR_PER_POINT = 34000, ISTANBUL_PAIR_BASE = 45000,
      lib_ECRECOVER = Precompile_new EcRec ECRECOVER (metered 3000 id),
      lib_IDENTITY = Precompile_new Identity IDENTITY (metered 15 id),
      lib_bn254_add_ISTANBUL = Precompile_new Bn254Add BN254_ADD (metered 150 id),
      lib_bn254_mul_ISTANBUL = Precompile_new Bn254Mul BN254_MUL (metered 6000 id),
      lib_bn254_pair_ISTANBUL = Precompile_new Bn254Pairing BN254_PAIRING (metered 45000 id),
      lib_P256VERIFY = Precompile_new P256Verify P256VERIFY (metered 3450 id),
      lib_P256VERIFY_OSAKA = Precompile_new P256Verify P256VERIFY (metered 6900 id)\<rparr>"

definition shanghai_table :: "SpecId \<Rightarrow> mem_table" where
  "shanghai_table _ opcode =
     \<lparr>run_instruction = Pair, static_gas =
        (case map_of [(0x40, 20), (0x48, 2), (0x5D, 100), (0x5C, 100), (0xFF, 5000), (0x5E, 3), (0x44, 2),
           (0x1E, 5)] opcode of Some g \<Rightarrow> g | None \<Rightarrow> 100)\<rparr>"

lemma metered_presupposed:
  "presupposed ''Shanghai'' ''Latest'' table_ops shanghai_table metered_lib"
proof -
  have "ethereum_names ''Shanghai'' ''Latest''"
    by (simp add: ethereum_names_def own_names_def name_defs)
  moreover have "eip7702_table table_ops"
    using table.gas_table_axioms by (simp add: eip7702_table_def) (simp add: table_ops_def)
  moreover have "documented_gas shanghai_table"
    by (simp add: documented_gas_def shanghai_table_def Let_def)
  moreover have "costs_on_empty (metered c f) c" for c f
    by (auto simp: costs_on_empty_def metered_def)
  then have "documented_lib metered_lib"
    by (simp add: documented_lib_def metered_lib_def lib_addresses_def pads_def Precompile_new_def)
  moreover have "documented_modexp metered_lib"
    by (auto simp: documented_modexp_def metered_lib_def pads_def metered_def word_less_nat_alt word_le_nat_alt)
  moreover have "ripemd160_run metered_lib = metered 600 (\<lambda>_. ripemd160_of_empty)"
    by (simp add: metered_lib_def)
  ultimately show ?thesis
    by (simp add: presupposed_def metered_def not_le)
qed

theorem unit_tests_pass_witness:
  "handler_tests \<and> precompile_tests metered_lib"
  using unit_tests_pass [OF metered_presupposed] by blast

end
