(* ===== verification/AccountModel.thy ===== *)
theory AccountModel
  imports LifecycleRuns
begin

text \<open>
  The abstract account model of the handler: a transaction is a bill (who pays, who collects, price, gas
  limit, gas used, L1 fee, value held in reserve) and the movement its frames made, and its effect on
  every wallet is one equation. The bill is read off the transaction, the configuration and the oracle
  at arrival, and the gas the frames left; the movement is the difference of the wallets before and
  after the frames of that very run. A sequence of transactions on an instance adds them up.
\<close>

section \<open>The abstract model\<close>

type_synonym wallets = "address \<Rightarrow> nat"

record bill =
  bill_payer :: address
  bill_collector :: address
  bill_price :: nat
  bill_limit :: nat
  bill_used :: nat
  bill_l1 :: nat
  bill_reserve :: nat

definition debit :: "address \<Rightarrow> nat \<Rightarrow> wallets \<Rightarrow> wallets" where
  "debit a v w = w(a := w a - v)"

definition upfront :: "bill \<Rightarrow> nat" where
  "upfront b = bill_price b * bill_limit b + bill_l1 b"

definition settle :: "bill \<Rightarrow> wallets \<Rightarrow> wallets" where
  "settle b w = credit (bill_collector b) (bill_price b * bill_used b + bill_l1 b)
     (credit (bill_payer b) (bill_price b * (bill_limit b - bill_used b)) w)"

text \<open>What a bill comes to, and what a payment adds to each account.\<close>

definition total_fee :: "bill \<Rightarrow> nat" where
  "total_fee b = bill_price b * bill_used b + bill_l1 b"

definition paid :: "address \<Rightarrow> address \<Rightarrow> nat \<Rightarrow> address \<Rightarrow> int" where
  "paid payer payee v a = (if a = payee then int v else 0) - (if a = payer then int v else 0)"

definition movement ::
  "('g, 'j, 'd, 'ir, 'gas, 'rg, 'res) handler_ops \<Rightarrow> ('g, 'j) ctx \<Rightarrow> ('g, 'j) ctx \<Rightarrow> address \<Rightarrow> int" where
  "movement H c d a = int (wallet H d a) - int (wallet H c a)"

text \<open>Charge, frames and settlement compose to one equation.\<close>

lemma settle_debit:
  assumes "bill_used b \<le> bill_limit b" and "upfront b \<le> w (bill_payer b)"
    and "x = debit (bill_payer b) (upfront b) w"
  shows "int (settle b y a) =
    int (w a) + (int (y a) - int (x a)) + paid (bill_payer b) (bill_collector b) (total_fee b) a"
proof -
  have "bill_price b * bill_used b \<le> bill_price b * bill_limit b" using assms(1) by simp
  then have "int (bill_price b * (bill_limit b - bill_used b)) = int (upfront b) - int (total_fee b)"
    by (simp add: upfront_def total_fee_def diff_mult_distrib2 of_nat_diff)
  then show ?thesis
    using assms(2) by (simp add: assms(3) settle_def debit_def credit_def paid_def total_fee_def of_nat_diff)
qed

section \<open>The bill of a transaction\<close>

text \<open>The L1 fee on the oracle as the journal shows it when the transaction arrives.\<close>

definition oracle_fee ::
  "('g, 'j, 'd, 'ir, 'gas, 'rg, 'res) handler_ops \<Rightarrow> ('g, 'j) ctx \<Rightarrow> nat" where
  "oracle_fee H c =
     (if fee_charged (tx c) then
        (case (fst (try_fetch_from_journal (jrn H) (cfg_spec (cfg c)) (journal c)), rlp_bytes (tx c)) of
           (Ok info, Some rlp) \<Rightarrow>
             (case try_calculate_tx_l1_cost info rlp (cfg_spec (cfg c)) (compression_ratio (tx c))
                 (compressed_size (tx c)) of
                Ok fee \<Rightarrow> unat fee | _ \<Rightarrow> 0)
         | _ \<Rightarrow> 0)
      else 0)"

definition bill_of ::
  "('g, 'j, 'd, 'ir, 'gas, 'rg, 'res) handler_ops \<Rightarrow> ('g, 'j) ctx \<Rightarrow> nat \<Rightarrow> bill" where
  "bill_of H c gas =
     \<lparr>bill_payer = caller (tx c), bill_collector = beneficiary (block c),
      bill_price = (if is_l1_msg (tx c) then 0 else unit_price H c),
      bill_limit = unat (gas_limit (tx c)), bill_used = gas, bill_l1 = oracle_fee H c,
      bill_reserve = (if fee_charged (tx c) \<and> TSUKI_V2 \<le> cfg_spec (cfg c)
        then unat (tx_value (tx c)) else 0)\<rparr>"

section \<open>Stage by stage\<close>

lemma movement_sum:
  assumes "total_supply H d = total_supply H c"
  shows "(\<Sum>a\<in>UNIV. movement H c d a) = 0"
proof -
  have "(\<Sum>a\<in>UNIV. movement H c d a) = int (total_supply H d) - int (total_supply H c)"
    by (simp add: movement_def sum_subtractf total_supply_def wallet_def)
  with assms show ?thesis by simp
qed

lemma bill_of_simps [simp]:
  "bill_payer (bill_of H c u) = caller (tx c)" "bill_collector (bill_of H c u) = beneficiary (block c)"
  "bill_limit (bill_of H c u) = unat (gas_limit (tx c))" "bill_used (bill_of H c u) = u"
  by (simp_all add: bill_of_def)

lemma wallet_charged:
  assumes "charged H gas_charge c fee d"
  shows "wallet H d = debit (caller (tx c)) (unat (gas_charge (tx c) (block c)) + unat fee) (wallet H c)"
    and "unat (gas_charge (tx c) (block c)) + unat fee \<le> wallet H c (caller (tx c))"
  using assms by (auto simp: charged_def wallet_def debit_def fun_eq_iff)

text \<open>
  A run of a transaction, by its intermediate results: admission and intrinsic gas, the charge, the
  frames and their last result, and the settlement up to the result.
\<close>

definition run_of ::
  "('g, 'j, 'd, 'ir, 'gas, 'rg, 'res) handler_ops \<Rightarrow> ('g, 'j, 'ir, 'gas) frames \<Rightarrow> ('g, 'j) ctx
     \<Rightarrow> init_gas \<Rightarrow> u64 \<Rightarrow> ('g, 'j) ctx \<Rightarrow> ('ir, 'gas) frame_result \<Rightarrow> ('g, 'j) ctx
     \<Rightarrow> ('ir, 'gas, 'res) phase \<times> ('g, 'j) ctx \<Rightarrow> bool" where
  "run_of H F c g n x fr y q \<longleftrightarrow>
     validate_env H c = Ok () \<and> validate_initial_tx_gas H c = Ok g \<and> pre_execution H c = (Ok n, x) \<and>
     (\<exists>fr0 z. F g x fr0 z \<and> last_frame_result H fr0 z = (Ok fr, y)) \<and>
     (tx_step H F)\<^sup>*\<^sup>* (Executed g n fr, y) q"

definition executed_from ::
  "('g, 'j, 'd, 'ir, 'gas, 'rg, 'res) handler_ops \<Rightarrow> ('g, 'j, 'ir, 'gas) frames \<Rightarrow> ('g, 'j) ctx
     \<Rightarrow> ('ir, 'gas, 'res) phase \<times> ('g, 'j) ctx \<Rightarrow> bool" where
  "executed_from H F c q \<longleftrightarrow> (\<exists>g n x fr y. run_of H F c g n x fr y q)"

lemma run_of_step: "run_of H F c g n x fr y q \<Longrightarrow> tx_step H F q q' \<Longrightarrow> run_of H F c g n x fr y q'"
  unfolding run_of_def by (meson rtranclp.rtrancl_into_rtrancl)

lemma executed_from_step: "executed_from H F c q \<Longrightarrow> tx_step H F q q' \<Longrightarrow> executed_from H F c q'"
  unfolding executed_from_def using run_of_step by blast

lemma run_of_executed:
  assumes "run_of H F c g n x fr y q"
  shows "(tx_step H F)\<^sup>*\<^sup>* (Received, c) (Executed g n fr, y)"
proof -
  from assms obtain fr0 z where "validate_env H c = Ok ()" "validate_initial_tx_gas H c = Ok g"
    "pre_execution H c = (Ok n, x)" "F g x fr0 z" "last_frame_result H fr0 z = (Ok fr, y)"
    by (auto simp: run_of_def)
  then show ?thesis
    by (meson validated charged executed r_into_rtranclp converse_rtranclp_into_rtranclp)
qed

fun history ::
  "('g, 'j, 'd, 'ir, 'gas, 'rg, 'res) handler_ops \<Rightarrow> ('g, 'j, 'ir, 'gas) frames \<Rightarrow> ('g, 'j) ctx
     \<Rightarrow> ('ir, 'gas, 'res) phase \<times> ('g, 'j) ctx \<Rightarrow> bool" where
  "history H F c0 (Received, c) \<longleftrightarrow> c = c0"
| "history H F c0 (Validated g, c) \<longleftrightarrow>
     c = c0 \<and> validate_env H c0 = Ok () \<and> validate_initial_tx_gas H c0 = Ok g"
| "history H F c0 (Charged g n, c) \<longleftrightarrow>
     validate_env H c0 = Ok () \<and> validate_initial_tx_gas H c0 = Ok g \<and> pre_execution H c0 = (Ok n, c)"
| "history H F c0 q \<longleftrightarrow> executed_from H F c0 q"

lemma history_reach:
  assumes "(tx_step H F)\<^sup>*\<^sup>* (Received, c0) q"
  shows "history H F c0 q"
  using assms
proof (induction rule: rtranclp_induct)
  case (step q q')
  note go = executed_from_step [OF _ step.hyps(2)]
  from step.hyps(2) show ?case
  proof (cases rule: tx_step.cases)
    case (executed g c fr0 z fr y n)
    then have "validate_env H c0 = Ok ()" "validate_initial_tx_gas H c0 = Ok g" "pre_execution H c0 = (Ok n, c)"
      using step.IH by simp_all
    with executed(3,4) have "run_of H F c0 g n c fr y q'"
      unfolding executed(2) run_of_def by blast
    then show ?thesis unfolding executed(2) executed_from_def history.simps by blast
  qed (use step.IH go in auto)
qed simp

lemma oracle_fee_charged:
  assumes "fee_charged (tx c)" and "rlp_bytes (tx c) = Some rlp"
    and "fst (try_fetch_from_journal (jrn H) (cfg_spec (cfg c)) (journal c)) = Ok info"
    and "try_calculate_tx_l1_cost info rlp (cfg_spec (cfg c)) (compression_ratio (tx c))
      (compressed_size (tx c)) = Ok fee"
  shows "oracle_fee H c = unat fee"
  using assms by (simp add: oracle_fee_def)

context settlement begin

lemma charged_price:
  assumes "pre_execution H c = (Ok n, d)" and "tx_type_of H (tx_type (tx c)) \<noteq> Eip4844"
    and "\<not> is_l1_msg (tx c)"
  shows "unat (gas_charge (tx c) (block c)) = unit_price H c * unat (gas_limit (tx c))"
proof -
  obtain x y where "mn_validate_against_state_and_deduct_caller H x = (Ok (), y)"
    and x: "tx x = tx c" "cfg x = cfg c" "block x = block c"
    using assms(1,3) by (rule pre_execution_deducts)
  from charge_price [OF this(1)] assms(2) x show ?thesis by (simp add: unit_price_def)
qed

lemma charged_bill:
  assumes "pre_execution H c = (Ok n, d)" and "tx_type_of H (tx_type (tx c)) \<noteq> Eip4844"
  shows "wallet H d = debit (caller (tx c)) (upfront (bill_of H c u)) (wallet H c) \<and>
    upfront (bill_of H c u) + bill_reserve (bill_of H c u) \<le> wallet H c (caller (tx c)) \<and>
    tx d = tx c \<and> cfg d = cfg c \<and> block d = block c \<and> l1_part d = oracle_fee H c"
proof (cases "is_l1_msg (tx c)")
  case True
  note l1 = pre_execution_l1_msg [OF assms(1) True]
  show ?thesis
    using True env_ofD [OF l1(1)] wallet_same [OF l1(2)]
    by (simp add: bill_of_def upfront_def debit_def oracle_fee_def l1_part_def)
next
  case False
  note price = charged_price [OF assms False]
  show ?thesis
  proof (cases "is_system_tx (tx c)")
    case True
    note ch = pre_execution_system(1) [OF assms(1) False True]
    show ?thesis
      using wallet_charged [OF ch] ch True False
      by (simp add: bill_of_def upfront_def oracle_fee_def l1_part_def charged_def price)
  next
    case sys: False
    with False have fc: "fee_charged (tx c)" by simp
    from pre_execution_charged [OF assms(1) fc] obtain info rlp fee where
      fetch: "fst (try_fetch_from_journal (jrn H) (cfg_spec (cfg c)) (journal c)) = Ok info"
      and chain: "chain d = \<lparr>l1_block_info = info\<rparr>" and rlp: "rlp_bytes (tx c) = Some rlp"
      and fee: "try_calculate_tx_l1_cost info rlp (cfg_spec (cfg c)) (compression_ratio (tx c))
        (compressed_size (tx c)) = Ok fee"
      and ch: "charged H gas_charge c fee d"
      and covers: "TSUKI_V2 \<le> cfg_spec (cfg c) \<longrightarrow> unat (tx_value (tx c)) \<le> unat (balances H d (caller (tx c)))"
      by blast
    note due = oracle_fee_charged [OF fc rlp fetch fee]
    have e: "tx d = tx c" "cfg d = cfg c" "block d = block c" using ch by (simp_all add: charged_def)
    have part: "l1_part d = unat fee"
      using fc by (simp add: l1_part_def l1_fee_of_def e chain rlp fee)
    have up: "upfront (bill_of H c u) = unat (gas_charge (tx c) (block c)) + unat fee"
      using False by (simp add: bill_of_def upfront_def due price)
    have "unat (balances H d (caller (tx c))) + upfront (bill_of H c u) = wallet H c (caller (tx c))"
      using ch unfolding up by (simp add: charged_def wallet_def)
    moreover have "bill_reserve (bill_of H c u) \<le> unat (balances H d (caller (tx c)))"
      using covers by (simp add: bill_of_def)
    ultimately have "upfront (bill_of H c u) + bill_reserve (bill_of H c u) \<le> wallet H c (caller (tx c))"
      by linarith
    then show ?thesis using wallet_charged(1) [OF ch] e part due unfolding up by simp
  qed
qed

lemma billed_within:
  assumes "phase_ok H c (Executed g n fr)" and "\<not> is_l1_msg (tx c)"
  shows "billed_gas H g n fr c \<le> unat (gas_limit (tx c))"
proof -
  obtain fr1 c1 where r: "Handler.refund H fr n c = (fr1, c1)" by (metis prod.collapse)
  note r1 = refunded_step [OF r assms(1)]
  obtain fr2 c2 where f: "eip7623_check_gas_floor H fr1 g c = (fr2, c2)" by (metis prod.collapse)
  have "phase_ok H c2 (Floored g fr2)" and "env_of c2 = env_of c"
    using floored_step [OF f] r1 by auto
  moreover from this(2) have "tx c2 = tx c" using env_ofD by blast
  ultimately have "gas_bounded H (gas_limit (tx c)) fr2" using assms(2) by simp
  moreover have "billed H g n fr c = fr2" by (simp add: billed_def r f)
  ultimately show ?thesis
    using used_gas [of "fr_gas fr2"] by (simp add: billed_gas_def gas_bounded_def)
qed

text \<open>After execution an L1 message changes no wallet.\<close>

lemma l1_settles_nothing:
  assumes "(tx_step H F)\<^sup>*\<^sup>* (Executed g n fr, c) q" and "is_l1_msg (tx c)"
  shows "tx (snd q) = tx c \<and> wallet H (snd q) = wallet H c \<and>
    (\<forall>i. fst q \<noteq> Received \<and> fst q \<noteq> Validated i \<and> (\<forall>n. fst q \<noteq> Charged i n))"
  using assms(1)
proof (induction rule: rtranclp_induct)
  case (step q q')
  from step.hyps(2) show ?case
  proof (cases rule: tx_step.cases)
    case (finished f rg d r d' i)
    then have "mn_execution_result H f (if is_l1_msg (tx d) then set_floor_gas H 0 rg else rg) d = (Ok r, d')"
      by (simp add: execution_result_def Let_def)
    from result_balances [OF this] show ?thesis
      using finished step.IH env_ofD [of d' d] wallet_same [of H d' d] by auto
  qed (use step.IH assms(2) in \<open>auto simp: Handler.refund_def eip7623_check_gas_floor_def
      reimburse_caller_def reward_beneficiary_def last_frame_result_def Let_def\<close>)
qed simp

lemma executed_moves:
  assumes "F g c fr0 b" and "last_frame_result H fr0 b = (Ok fr, d)"
  shows "env_of d = env_of c" and "total_supply H d = total_supply H c"
proof -
  have "d = b" using assms(2) by (simp add: last_frame_result_def Let_def)
  then show "env_of d = env_of c" and "total_supply H d = total_supply H c"
    using frames_env [OF assms(1)] frames_supply [OF assms(1)] by simp_all
qed

lemma settled_bill:
  assumes "(tx_step H F)\<^sup>*\<^sup>* (Received, c0) (Executed g n fr, y)"
    and "(tx_step H F)\<^sup>*\<^sup>* (Executed g n fr, y) (Finished r, d)"
    and bound: "total_supply H c0 < 2 ^ 256" and types: "tx_types (tx_type_of H)" "eth_history (eth_enabled H)"
    and y: "tx y = tx c0" "cfg y = cfg c0" "block y = block c0" "l1_part y = oracle_fee H c0"
    and u: "u = (if is_l1_msg (tx c0) then 0 else billed_gas H g n fr y)"
  shows "u \<le> unat (gas_limit (tx c0)) \<and> wallet H d = settle (bill_of H c0 u) (wallet H y)"
proof (cases "is_l1_msg (tx c0)")
  case True
  then have "wallet H d = wallet H y"
    using l1_settles_nothing [OF assms(2)] y(1) by simp
  then show ?thesis
    using True u by (simp add: settle_def bill_of_def credit_def oracle_fee_def)
next
  case False
  then have l1: "\<not> is_l1_msg (tx y)" using y(1) by simp
  have "phase_ok H y (Executed g n fr)"
    by (rule ledger_phase [OF ledger_reach [OF assms(1) bound types]])
  note within = billed_within [OF this l1]
  have "wallet H d = rewarded_wallet H y (billed_gas H g n fr y)"
    using settled_reach [OF assms(1,2) bound l1 types] by simp
  then have "wallet H d = settle (bill_of H c0 (billed_gas H g n fr y)) (wallet H y)"
    using False y by (simp add: settle_def bill_of_def rewarded_wallet_def reimbursed_wallet_def unit_price_def)
  then show ?thesis using within False u y(1) by simp
qed

text \<open>The bill of a run, and what the run does to the wallets.\<close>

lemma completed_accounts:
  assumes "(tx_step H F)\<^sup>*\<^sup>* (Received, c) (Finished r, d)" and "total_supply H c < 2 ^ 256"
    and "tx_types (tx_type_of H)" and "eth_history (eth_enabled H)"
  obtains g n x fr y u where "run_of H F c g n x fr y (Finished r, d)"
    and "u = (if is_l1_msg (tx c) then 0 else billed_gas H g n fr y)" and "u \<le> unat (gas_limit (tx c))"
    and "upfront (bill_of H c u) + bill_reserve (bill_of H c u) \<le> wallet H c (caller (tx c))"
    and "wallet H x = debit (caller (tx c)) (upfront (bill_of H c u)) (wallet H c)"
    and "\<And>a. int (wallet H d a) = int (wallet H c a) + movement H x y a
      + paid (caller (tx c)) (beneficiary (block c)) (total_fee (bill_of H c u)) a"
    and "(\<Sum>a\<in>UNIV. movement H x y a) = 0" and "tx x = tx c"
proof -
  from history_reach [OF assms(1)] obtain g n x fr y
    where run: "run_of H F c g n x fr y (Finished r, d)" by (auto simp: executed_from_def)
  then obtain fr0 z where valid: "validate_env H c = Ok ()" and pre: "pre_execution H c = (Ok n, x)"
    and F: "F g x fr0 z" and last: "last_frame_result H fr0 z = (Ok fr, y)"
    and q: "(tx_step H F)\<^sup>*\<^sup>* (Executed g n fr, y) (Finished r, d)"
    by (auto simp: run_of_def)
  have "type_admitted H c" using validate_env_admitted [OF assms(3,4)] valid by (simp add: admitted_def)
  then have blob: "tx_type_of H (tx_type (tx c)) \<noteq> Eip4844"
    by (auto simp: type_admitted_def byte_types [OF assms(3)] Let_def split: if_splits)
  define u where "u = (if is_l1_msg (tx c) then 0 else billed_gas H g n fr y)"
  let ?b = "bill_of H c u"
  note x = charged_bill [OF pre blob, of u] and y = executed_moves [OF F last]
  have ty: "tx y = tx c" "cfg y = cfg c" "block y = block c" "l1_part y = oracle_fee H c"
    using env_ofD [OF y(1)] x ledger_env(2) [OF y(1)] by auto
  note d = settled_bill [OF run_of_executed [OF run] q assms(2-4) ty u_def]
  have "int (wallet H d a) = int (wallet H c a) + movement H x y a
      + paid (caller (tx c)) (beneficiary (block c)) (total_fee ?b) a" for a
    using settle_debit [of ?b "wallet H c" "wallet H x" "wallet H y" a] x d
    by (simp add: bill_of_def movement_def)
  with that [OF run u_def] x d movement_sum [OF y(2)] show thesis by blast
qed

end

text \<open>
  C1 The accounts of a completed transaction. Every run to a result went through admission, charge,
  frames and settlement, and its bill is made out by that run: to the sender, for the gas that refund and
  floor make of what the frames spent, at the effective price, plus the L1 fee on the oracle as the
  journal showed it on arrival. Before execution the sender covers gas limit times price plus L1 fee
  (from TsukiV2 with the value on top) and is charged exactly that; in the end every account has what it
  had, plus what the frames moved to it (in all zero), the sender less exactly gas used times price plus
  L1 fee, the beneficiary more by the same. An L1 message has price and fee zero, a system transaction
  the fee.
\<close>

theorem transaction_refines:
  assumes "settlement H gas_charge F" and "tx_types (tx_type_of H)" and "eth_history (eth_enabled H)"
    and "(tx_step H F)\<^sup>*\<^sup>* (Received, c) (Finished r, d)" and "total_supply H c < 2 ^ 256"
  shows "\<exists>g n x fr y. run_of H F c g n x fr y (Finished r, d) \<and>
    (let b = bill_of H c (if is_l1_msg (tx c) then 0 else billed_gas H g n fr y) in
       bill_used b \<le> bill_limit b \<and> upfront b + bill_reserve b \<le> wallet H c (caller (tx c)) \<and>
       wallet H x = debit (caller (tx c)) (upfront b) (wallet H c) \<and>
       (\<Sum>a\<in>UNIV. movement H x y a) = 0 \<and>
       (\<forall>a. int (wallet H d a) = int (wallet H c a) + movement H x y a
          + (if a = beneficiary (block c) then int (bill_price b * bill_used b + bill_l1 b) else 0)
          - (if a = caller (tx c) then int (bill_price b * bill_used b + bill_l1 b) else 0)))"
proof (rule settlement.completed_accounts [OF assms(1,4,5,2,3)], goal_cases)
  case (1 g n x fr y u)
  show ?case
    by (rule exI [of _ g], rule exI [of _ n], rule exI [of _ x], rule exI [of _ fr], rule exI [of _ y])
      (unfold Let_def 1(2) [symmetric], use 1 in \<open>simp add: total_fee_def paid_def\<close>)
qed

section \<open>A plain transfer\<close>

text \<open>
  The frames of a call to an account without code, as documented: the value moves from the caller to the
  callee if the caller has it, and nothing else moves.
\<close>

definition plain_frames ::
  "('g, 'j, 'd, 'ir, 'gas, 'rg, 'res) handler_ops \<Rightarrow> ('g, 'j, 'ir, 'gas) frames \<Rightarrow> bool" where
  "plain_frames H F \<longleftrightarrow>
     (\<forall>g x fr y to. F g x fr y \<longrightarrow> kind (tx x) = Call to \<longrightarrow> total_supply H x < 2 ^ 256 \<longrightarrow>
        (\<forall>a. movement H x y a =
           (if tx_value (tx x) \<le> balances H x (caller (tx x))
            then paid (caller (tx x)) to (unat (tx_value (tx x))) a else 0)))"

lemma debit_supply: "wallet H x = debit a v (wallet H c) \<Longrightarrow> total_supply H x \<le> total_supply H c"
  unfolding total_supply_def by (rule sum_mono) (metis debit_def diff_le_self fun_upd_apply order_refl wallet_def)

text \<open>
  C39 A plain transfer, exactly: of a completed call to an account without code, the sender pays gas used
  times price plus L1 fee plus value, the callee receives the value and the beneficiary the fees, and no
  other balance changes; the value stays with the sender exactly if it could not cover it on top of the
  upfront charge, which from TsukiV2 no fee-charged transaction that completes is short of.
\<close>

theorem plain_transfer_exact:
  assumes "settlement H gas_charge F" and "tx_types (tx_type_of H)" and "eth_history (eth_enabled H)"
    and "(tx_step H F)\<^sup>*\<^sup>* (Received, c) (Finished r, d)" and "total_supply H c < 2 ^ 256"
    and "plain_frames H F" and "kind (tx c) = Call to"
  shows "\<exists>g n x fr y. run_of H F c g n x fr y (Finished r, d) \<and>
    (let b = bill_of H c (if is_l1_msg (tx c) then 0 else billed_gas H g n fr y);
         fee = bill_price b * bill_used b + bill_l1 b; v = unat (tx_value (tx c));
         covered = (upfront b + v \<le> wallet H c (caller (tx c)))
     in (\<forall>a. int (wallet H d a) = int (wallet H c a)
          + (if a = to \<and> covered then int v else 0) + (if a = beneficiary (block c) then int fee else 0)
          - (if a = caller (tx c) then int fee + (if covered then int v else 0) else 0)) \<and>
        (fee_charged (tx c) \<and> TSUKI_V2 \<le> cfg_spec (cfg c) \<longrightarrow> covered))"
proof (rule settlement.completed_accounts [OF assms(1,4,5,2,3)], goal_cases)
  case (1 g n x fr y u)
  let ?b = "bill_of H c u" and ?v = "unat (tx_value (tx c))" and ?s = "caller (tx c)"
  from 1(1) obtain fr0 where F: "F g x fr0 y"
    by (auto simp: run_of_def last_frame_result_def Let_def)
  have "total_supply H x < 2 ^ 256" using debit_supply [OF 1(5)] assms(5) by linarith
  moreover have "kind (tx x) = Call to" using 1(8) assms(7) by simp
  ultimately have m: "movement H x y a = (if ?v \<le> wallet H x ?s then paid ?s to ?v a else 0)" for a
    using assms(6) F 1(8) by (simp add: plain_frames_def wallet_def word_le_nat_alt)
  have "(?v \<le> wallet H x ?s) = (upfront ?b + ?v \<le> wallet H c ?s)"
    using 1(4) by (auto simp: 1(5) debit_def)
  with m have "movement H x y a = (if upfront ?b + ?v \<le> wallet H c ?s then paid ?s to ?v a else 0)" for a
    by simp
  moreover have "upfront ?b + ?v \<le> wallet H c ?s" if "fee_charged (tx c) \<and> TSUKI_V2 \<le> cfg_spec (cfg c)"
    using 1(4) that by (simp add: bill_of_def)
  ultimately have "(\<forall>a. int (wallet H d a) = int (wallet H c a)
      + (if a = to \<and> upfront ?b + ?v \<le> wallet H c ?s then int ?v else 0)
      + (if a = beneficiary (block c) then int (total_fee ?b) else 0)
      - (if a = ?s then int (total_fee ?b) + (if upfront ?b + ?v \<le> wallet H c ?s then int ?v else 0) else 0)) \<and>
    (fee_charged (tx c) \<and> TSUKI_V2 \<le> cfg_spec (cfg c) \<longrightarrow> upfront ?b + ?v \<le> wallet H c ?s)"
    using 1(6) by (simp add: paid_def)
  then show ?case
    using 1(1) unfolding 1(2) Let_def total_fee_def by blast
qed

section \<open>Blocks\<close>

fun accepted_all ::
  "((('g, 'j) ctx, 'insp, 'i, 'p, 'fs) ScrollEvm, 'err, 'res, 'j, 'st) run_ops \<Rightarrow> ScrollTransaction list
     \<Rightarrow> (('g, 'j) ctx, 'insp, 'i, 'p, 'fs) ScrollEvm \<Rightarrow> bool list" where
  "accepted_all R [] e = []"
| "accepted_all R (t # ts) e =
     (case transact_one R t e of
        (Ok _, e') \<Rightarrow> True # accepted_all R ts e'
      | (_, e') \<Rightarrow> False # accepted_all R ts e')"

text \<open>A transaction's bill and the movement of its frames, read off its run from \<open>c\<close> to \<open>d\<close>.\<close>

definition accounted ::
  "('g, 'j, 'd, 'ir, 'gas, 'rg, 'res) handler_ops \<Rightarrow> ('g, 'j, 'ir, 'gas) frames \<Rightarrow> ('g, 'j) ctx \<Rightarrow> 'res
     \<Rightarrow> ('g, 'j) ctx \<Rightarrow> bill \<times> (address \<Rightarrow> int) \<Rightarrow> bool" where
  "accounted H F c r d entry \<longleftrightarrow>
     (\<exists>g n x fr y. run_of H F c g n x fr y (Finished r, d) \<and>
        entry = (bill_of H c (if is_l1_msg (tx c) then 0 else billed_gas H g n fr y), movement H x y))"

text \<open>What an entry adds to an account.\<close>

definition entry_effect :: "bill \<times> (address \<Rightarrow> int) \<Rightarrow> address \<Rightarrow> int" where
  "entry_effect entry a =
     (case entry of (b, m) \<Rightarrow> m a + paid (bill_payer b) (bill_collector b) (total_fee b) a)"

text \<open>
  The books of a sequence of transactions: one entry for each accepted one, made out from the context it
  met on the instance, none for a rejected one.
\<close>

inductive block_books ::
  "('g, 'j, 'd, 'ir, 'gas, 'rg, 'res) handler_ops \<Rightarrow> ('g, 'j, 'ir, 'gas) frames
     \<Rightarrow> ((('g, 'j) ctx, 'insp, 'i, 'p, 'fs) ScrollEvm, 'err, 'res, 'j, 'st) run_ops
     \<Rightarrow> ScrollTransaction list \<Rightarrow> (('g, 'j) ctx, 'insp, 'i, 'p, 'fs) ScrollEvm
     \<Rightarrow> (bill \<times> (address \<Rightarrow> int)) option list \<Rightarrow> (('g, 'j) ctx, 'insp, 'i, 'p, 'fs) ScrollEvm \<Rightarrow> bool"
  for H :: "('g, 'j, 'd, 'ir, 'gas, 'rg, 'res) handler_ops" and F :: "('g, 'j, 'ir, 'gas) frames"
    and R :: "((('g, 'j) ctx, 'insp, 'i, 'p, 'fs) ScrollEvm, 'err, 'res, 'j, 'st) run_ops" where
  closed: "block_books H F R [] e [] e"
| refused: "transact_one R t e = (Err x, e1) \<Longrightarrow> block_books H F R ts e1 bs e' \<Longrightarrow>
    block_books H F R (t # ts) e (None # bs) e'"
| entered: "transact_one R t e = (Ok r, e1) \<Longrightarrow>
    accounted H F (evm_ctx (set_tx t e)) r (evm_ctx e1) entry \<Longrightarrow> block_books H F R ts e1 bs e' \<Longrightarrow>
    block_books H F R (t # ts) e (Some entry # bs) e'"

inductive_simps block_books_simps [simp]:
  "block_books H F R [] e bs e'" "block_books H F R (t # ts) e bs e'"

definition books_total :: "(bill \<times> (address \<Rightarrow> int)) option list \<Rightarrow> address \<Rightarrow> int" where
  "books_total bs a = (\<Sum>b\<leftarrow>bs. case b of Some entry \<Rightarrow> entry_effect entry a | None \<Rightarrow> 0)"

lemma books_total_simps [simp]:
  "books_total [] a = 0" "books_total (None # bs) a = books_total bs a"
  "books_total (Some entry # bs) a = entry_effect entry a + books_total bs a"
  by (simp_all add: books_total_def)

lemma set_tx_wallet [simp]: "wallet H (evm_ctx (set_tx t e)) = wallet H (evm_ctx e)"
  by (simp add: wallet_def balances_def set_tx_def fun_eq_iff)

lemma transact_one_entry:
  assumes "settlement H gas_charge F" and "tx_types (tx_type_of H)" and "eth_history (eth_enabled H)"
    and "follows_lifecycle H F (h_run R)" and "transact_one R t e = (r, e')"
    and "total_supply H (evm_ctx e) < 2 ^ 256"
  shows "r = Ok x \<Longrightarrow> \<exists>entry. accounted H F (evm_ctx (set_tx t e)) x (evm_ctx e') entry \<and>
      (\<forall>a. int (wallet H (evm_ctx e') a) = int (wallet H (evm_ctx e) a) + entry_effect entry a)"
    and "r = Err y \<Longrightarrow> wallet H (evm_ctx e') = wallet H (evm_ctx e)"
proof -
  have run: "h_run R (set_tx t e) = (r, e')" using assms(5) by (simp add: transact_one_def)
  let ?c = "evm_ctx (set_tx t e)"
  {
    assume "r = Ok x"
    then have go: "(tx_step H F)\<^sup>*\<^sup>* (Received, ?c) (Finished x, evm_ctx e')"
      using assms(4) run by (simp add: follows_lifecycle_def)
    have bound: "total_supply H ?c < 2 ^ 256" using assms(6) by simp
    show "\<exists>entry. accounted H F ?c x (evm_ctx e') entry \<and>
      (\<forall>a. int (wallet H (evm_ctx e') a) = int (wallet H (evm_ctx e) a) + entry_effect entry a)"
    proof (rule settlement.completed_accounts [OF assms(1) go bound assms(2,3)], goal_cases)
      case (1 g n x' fr y u)
      then have "accounted H F ?c x (evm_ctx e') (bill_of H ?c u, movement H x' y)"
        unfolding accounted_def by blast
      moreover have "int (wallet H (evm_ctx e') a) = int (wallet H (evm_ctx e) a)
          + entry_effect (bill_of H ?c u, movement H x' y) a" for a
        using 1(6) [of a] by (simp add: entry_effect_def)
      ultimately show ?case by blast
    qed
  next
    assume "r = Err y"
    then have "balances H (evm_ctx e') = balances H ?c"
      using assms(4) run by (simp add: follows_lifecycle_def)
    from wallet_same [OF this] show "wallet H (evm_ctx e') = wallet H (evm_ctx e)" by simp
  }
qed

text \<open>
  C2 The books of a block: any sequence of transactions on one instance has books with an entry for
  exactly the transactions the API accepted, each entry the bill and the frames' movement of the run it
  made from the context it met, and the balance of every account at the end is its balance at the start
  plus the entries: what frames moved to it, less the fees of the transactions it sent, plus the fees of
  those it collected. Transactions the API refused add nothing.
\<close>

theorem block_refines:
  assumes "settlement H gas_charge F" and "tx_types (tx_type_of H)" and "eth_history (eth_enabled H)"
    and "follows_lifecycle H F (h_run R)" and "transact_all R ts e = Some e'"
    and "total_supply H (evm_ctx e) < 2 ^ 256"
  shows "\<exists>bs. block_books H F R ts e bs e' \<and> map (\<lambda>b. b \<noteq> None) bs = accepted_all R ts e \<and>
    (\<forall>a. int (wallet H (evm_ctx e') a) = int (wallet H (evm_ctx e) a) + books_total bs a)"
  using assms(5,6)
proof (induction ts arbitrary: e)
  case (Cons t ts)
  obtain r e1 where t: "transact_one R t e = (r, e1)" by (cases "transact_one R t e")
  with Cons.prems have ok: "r \<noteq> Panic" and rest: "transact_all R ts e1 = Some e'"
    by (auto split: outcome.splits)
  have "total_supply H (evm_ctx e1) < 2 ^ 256"
    using transact_one_supply [OF assms(1-4) t ok Cons.prems(2)] Cons.prems(2) by simp
  from Cons.IH [OF rest this] obtain bs where bs: "block_books H F R ts e1 bs e'"
    "map (\<lambda>b. b \<noteq> None) bs = accepted_all R ts e1"
    "\<forall>a. int (wallet H (evm_ctx e') a) = int (wallet H (evm_ctx e1) a) + books_total bs a" by blast
  note entry = transact_one_entry [OF assms(1-4) t Cons.prems(2)]
  show ?case
  proof (cases r)
    case (Ok x)
    from entry(1) [OF this] obtain b where b: "accounted H F (evm_ctx (set_tx t e)) x (evm_ctx e1) b"
      "\<forall>a. int (wallet H (evm_ctx e1) a) = int (wallet H (evm_ctx e) a) + entry_effect b a" by blast
    have "block_books H F R (t # ts) e (Some b # bs) e'"
      by (rule block_books.entered [OF _ b(1) bs(1)]) (simp add: t Ok)
    then show ?thesis using b(2) bs(2,3) t Ok by (intro exI [of _ "Some b # bs"]) simp
  next
    case (Err y)
    have "block_books H F R (t # ts) e (None # bs) e'"
      by (rule block_books.refused [OF _ bs(1)]) (simp add: t Err)
    then show ?thesis using bs(2,3) entry(2) [OF Err] t Err by (intro exI [of _ "None # bs"]) simp
  qed (use ok in simp)
qed (auto intro: block_books.closed)

section \<open>Instances\<close>

lemma run_of_run:
  assumes "run_of mem_handler mem_frames run_start g n x fr y q"
  shows "g = run_gas \<and> n = 0 \<and> x = run_at run_charged \<and> fr = run_result \<and> y = run_at run_moved"
  using assms by (auto simp: run_of_def run_initial run_pre graph_def run_frames run_last)

lemma run_used: "billed_gas mem_handler run_gas 0 run_result (run_at run_moved) = 21000"
  by (simp add: billed_gas_def billed_def run_refund run_floor) (simp add: run_result_def mem_gas_ops_def)

lemma run_fee_start: "oracle_fee mem_handler run_start = 82000"
  by (simp add: oracle_fee_def run_fetch run_fee run_defs)

lemma run_people:
  "caller (tx run_start) = 0xA" "beneficiary (block run_start) = 0xC" "\<not> is_l1_msg (tx run_start)"
  "kind (tx run_start) = Call 0xB" "tx_value (tx run_start) = 100" "cfg_spec (cfg run_start) = TSUKI_V2"
  "fee_charged (tx run_start)"
  by (simp_all add: run_defs run_block_def)

theorem transaction_refines_witness:
  "run_of mem_handler mem_frames run_start run_gas 0 (run_at run_charged) run_result (run_at run_moved)
     (Finished (fr_gas run_result, 21000), run_at run_settled) \<and>
   wallet mem_handler (run_at run_charged) 0xA = 100 \<and> wallet mem_handler (run_at run_settled) 0xC = 103000"
proof -
  have moves: "movement mem_handler (run_at run_charged) (run_at run_moved) 0xC = 0"
    by (simp add: movement_def wallet_def balances_def run_accounts run_defs)
  have start: "wallet mem_handler run_start 0xC = 0" "wallet mem_handler run_start 0xA = 103100"
    by (simp_all add: wallet_def balances_def run_defs run_journal_def m_acc_def empty_account_def
        L1_GAS_PRICE_ORACLE_ADDRESS_def)
  obtain g n x fr y where run: "run_of mem_handler mem_frames run_start g n x fr y
      (Finished (fr_gas run_result, 21000), run_at run_settled)"
    and b: "let b = bill_of mem_handler run_start
        (if is_l1_msg (tx run_start) then 0 else billed_gas mem_handler g n fr y) in
      wallet mem_handler x = debit (caller (tx run_start)) (upfront b) (wallet mem_handler run_start) \<and>
      (\<forall>a. int (wallet mem_handler (run_at run_settled) a) = int (wallet mem_handler run_start a)
        + movement mem_handler x y a
        + (if a = beneficiary (block run_start) then int (bill_price b * bill_used b + bill_l1 b) else 0)
        - (if a = caller (tx run_start) then int (bill_price b * bill_used b + bill_l1 b) else 0))"
    using transaction_refines [OF mem_settlement.settlement_axioms run_types mem_eth_history
      rtranclp_trans [OF run_executing run_finishing] run_small] unfolding Let_def by blast
  note is_run = run_of_run [OF run]
  have price: "bill_price (bill_of mem_handler run_start u) = 1" "bill_l1 (bill_of mem_handler run_start u) = 82000" for u
    by (simp_all add: bill_of_def run_fee_start mem_price) (simp_all add: run_defs)
  have "wallet mem_handler (run_at run_charged) 0xA = 100"
    using b is_run by (simp add: run_people run_used Let_def upfront_def price start debit_def) (simp add: run_defs)
  moreover have "int (wallet mem_handler (run_at run_settled) 0xC) = 103000"
    using b is_run by (simp add: run_people run_used Let_def price start moves)
  ultimately show ?thesis using run is_run by simp
qed

theorem block_refines_witness:
  "block_books mem_handler mem_frames mem_api [run_tx 0 0xA] (ScrollEvm_new mem_parts run_start ())
     [Some (bill_of mem_handler run_start 21000, movement mem_handler (run_at run_charged) (run_at run_moved))]
     ((ScrollEvm_new mem_parts run_start ())\<lparr>evm_ctx := run_at run_settled\<rparr>) \<and>
   accepted_all mem_api [run_tx 0 0xA] (ScrollEvm_new mem_parts run_start ()) = [True]"
proof -
  let ?e = "ScrollEvm_new mem_parts run_start ()"
  have ctx: "evm_ctx (set_tx (run_tx 0 0xA) ?e) = run_start"
    by (simp add: set_tx_def ScrollEvm_new_def Let_def run_ctx_def)
  have start: "evm_ctx ?e = run_start" by (simp add: ScrollEvm_new_def Let_def)
  have "follows_lifecycle mem_handler mem_frames (h_run mem_api)"
    using mem_follows by (simp add: mem_api_def)
  from block_refines [OF mem_settlement.settlement_axioms run_types mem_eth_history this run_transact]
  obtain bs where books: "block_books mem_handler mem_frames mem_api [run_tx 0 0xA] ?e bs
      (?e\<lparr>evm_ctx := run_at run_settled\<rparr>)"
    and acc: "map (\<lambda>b. b \<noteq> None) bs = accepted_all mem_api [run_tx 0 0xA] ?e"
    using run_small unfolding start by blast
  have one: "accepted_all mem_api [run_tx 0 0xA] ?e = [True]"
    using run_one by (simp split: outcome.splits prod.splits)
  from books acc obtain b where bs: "bs = [Some b]"
    and entry: "accounted mem_handler mem_frames run_start (fr_gas run_result, 21000) (run_at run_settled) b"
    unfolding one by (auto simp: run_one ctx)
  from entry have "b = (bill_of mem_handler run_start 21000,
      movement mem_handler (run_at run_charged) (run_at run_moved))"
    by (auto simp: accounted_def run_people run_used dest!: run_of_run)
  with books one show ?thesis unfolding bs by simp
qed

lemma mem_plain: "plain_frames mem_handler mem_frames"
proof (unfold plain_frames_def, intro allI impI)
  fix g x fr y to a
  assume F: "mem_frames g x fr y" and k: "kind (tx x) = Call to"
    and bound: "total_supply mem_handler x < 2 ^ 256"
  let ?s = "caller (tx x)" and ?v = "tx_value (tx x)"
  show "movement mem_handler x y a =
      (if ?v \<le> balances mem_handler x ?s then paid ?s to (unat ?v) a else 0)"
  proof (cases "?v \<le> balances mem_handler x ?s \<and> ?s \<noteq> to")
    case False
    then have "y = x" using F k by (auto simp: graph_def mem_frame_def mem_pay_def balances_def Let_def)
    then show ?thesis using False by (auto simp: movement_def paid_def)
  next
    case True
    have "wallet mem_handler x ?s + wallet mem_handler x to \<le> total_supply mem_handler x"
      using sum_mono2 [of UNIV "{?s, to}" "wallet mem_handler x"] True
      by (simp add: total_supply_def wallet_def)
    then have fits: "unat (m_balance (m_acc (journal x) to)) + unat ?v < 2 ^ 256"
      using True bound by (simp add: wallet_def balances_def word_le_nat_alt)
    then have y: "balances mem_handler y = (balances mem_handler x)
        (?s := balances mem_handler x ?s - ?v, to := balances mem_handler x to + ?v)"
      using F k True by (auto simp: graph_def mem_frame_def mem_pay_def balances_def Let_def fun_eq_iff)
    have "unat (balances mem_handler x to + ?v) = unat (balances mem_handler x to) + unat ?v"
      using fits by (simp add: unat_word_ariths balances_def)
    then have "wallet mem_handler y = (wallet mem_handler x)
        (?s := wallet mem_handler x ?s - unat ?v, to := wallet mem_handler x to + unat ?v)"
      using True by (auto simp: wallet_def y unat_sub word_le_nat_alt)
    moreover have "unat ?v \<le> wallet mem_handler x ?s" using True by (simp add: wallet_def word_le_nat_alt)
    ultimately show ?thesis using True by (auto simp: movement_def paid_def of_nat_diff)
  qed
qed

theorem plain_transfer_exact_witness:
  "wallet mem_handler run_start 0xA = 103100 \<and> wallet mem_handler (run_at run_settled) 0xA = 0 \<and>
   wallet mem_handler (run_at run_settled) 0xB = 100 \<and> wallet mem_handler (run_at run_settled) 0xC = 103000"
proof -
  obtain g n x fr y where run: "run_of mem_handler mem_frames run_start g n x fr y
      (Finished (fr_gas run_result, 21000), run_at run_settled)"
    and b: "let b = bill_of mem_handler run_start
        (if is_l1_msg (tx run_start) then 0 else billed_gas mem_handler g n fr y);
        fee = bill_price b * bill_used b + bill_l1 b; v = unat (tx_value (tx run_start));
        covered = (upfront b + v \<le> wallet mem_handler run_start (caller (tx run_start)))
      in (\<forall>a. int (wallet mem_handler (run_at run_settled) a) = int (wallet mem_handler run_start a)
          + (if a = 0xB \<and> covered then int v else 0)
          + (if a = beneficiary (block run_start) then int fee else 0)
          - (if a = caller (tx run_start) then int fee + (if covered then int v else 0) else 0)) \<and>
        (fee_charged (tx run_start) \<and> TSUKI_V2 \<le> cfg_spec (cfg run_start) \<longrightarrow> covered)"
    using plain_transfer_exact [OF mem_settlement.settlement_axioms run_types mem_eth_history
      rtranclp_trans [OF run_executing run_finishing] run_small mem_plain run_people(4)] by blast
  have start: "wallet mem_handler run_start 0xC = 0" "wallet mem_handler run_start 0xA = 103100"
    "wallet mem_handler run_start 0xB = 0"
    by (simp_all add: wallet_def balances_def run_defs run_journal_def m_acc_def empty_account_def
        L1_GAS_PRICE_ORACLE_ADDRESS_def)
  have price: "bill_price (bill_of mem_handler run_start u) = 1" "bill_l1 (bill_of mem_handler run_start u) = 82000" for u
    by (simp_all add: bill_of_def run_fee_start mem_price) (simp_all add: run_defs)
  have limit: "unat (gas_limit (tx run_start)) = 21000" by (simp add: run_defs)
  have w: "int (wallet mem_handler (run_at run_settled) a) = int (wallet mem_handler run_start a)
      + (if a = 0xB then 100 else 0) + (if a = 0xC then 103000 else 0) - (if a = 0xA then 103100 else 0)" for a
    using b run_of_run [OF run] by (simp add: run_people run_used Let_def upfront_def price start limit)
  have "int (wallet mem_handler (run_at run_settled) 0xA) = 0" unfolding w by (simp add: start)
  moreover have "int (wallet mem_handler (run_at run_settled) 0xB) = 100" unfolding w by (simp add: start)
  moreover have "int (wallet mem_handler (run_at run_settled) 0xC) = 103000" unfolding w by (simp add: start)
  ultimately show ?thesis by (simp add: start)
qed

end
