(* ===== verification/HistorySession.thy ===== *)
theory HistorySession
  imports HistoryUpgrade
begin

text \<open>
  Block-hash lookups over a whole transaction from TsukiV2, with call frames that revert: what they cost
  together is what the access-list rule of EIP-2929 says of the ring-buffer slots (the warm price each
  time, the cold surcharge for a slot not accessed before in this transaction, reverted frames
  forgotten). The rule is the function \<open>price\<close>; the locale \<open>history_session\<close> states what the host's
  journal promises across checkpoints.
\<close>

section \<open>The access-list rule\<close>

datatype access = Slot u256 | Reverted "access list"

fun price :: "nat \<Rightarrow> nat \<Rightarrow> u256 set \<Rightarrow> access list \<Rightarrow> nat" and
  warmed :: "u256 set \<Rightarrow> access list \<Rightarrow> u256 set" where
  "price w c W [] = 0"
| "price w c W (Slot k # as) = w + (if k \<in> W then 0 else c) + price w c (insert k W) as"
| "price w c W (Reverted bs # as) = price w c W bs + price w c W as"
| "warmed W [] = W"
| "warmed W (Slot k # as) = warmed (insert k W) as"
| "warmed W (Reverted bs # as) = warmed W as"

text \<open>Without reverted frames: one surcharge for every distinct slot not warm at the start.\<close>

lemma price_flat: "price w c W (map Slot ks) = w * length ks + c * card (set ks - W)"
proof (induction ks arbitrary: W)
  case (Cons k ks)
  have "card (set (k # ks) - W) = (if k \<in> W then 0 else 1) + card (set ks - insert k W)"
  proof (cases "k \<in> W")
    case True
    then show ?thesis by (simp add: insert_absorb)
  next
    case False
    then have "set (k # ks) - W = insert k (set ks - insert k W)" by auto
    then show ?thesis using False by simp
  qed
  then show ?case by (simp add: Cons.IH algebra_simps)
qed simp

section \<open>Sequences of lookups on the host\<close>

inductive journaled :: "('h, 'g, 'cp) host_ops \<Rightarrow> 'h \<Rightarrow> 'h \<Rightarrow> bool" for K :: "('h, 'g, 'cp) host_ops" where
  journal_start: "journaled K h h"
| journal_sload: "journaled K h h1 \<Longrightarrow> sload_skip_cold_load K a k skip h1 = (r, h2) \<Longrightarrow> journaled K h h2"
| journal_account: "journaled K h h1 \<Longrightarrow> load_account_info_skip_cold_load K a code skip h1 = (q, h2) \<Longrightarrow> journaled K h h2"
| journal_revert: "journaled K h h1 \<Longrightarrow> checkpoint K h1 = (cp, h2) \<Longrightarrow> journaled K h2 h3 \<Longrightarrow>
    journaled K h (checkpoint_revert K cp h3)"

lemma journaled_trans: "journaled K h1 h2 \<Longrightarrow> journaled K h h1 \<Longrightarrow> journaled K h h2"
  by (induction rule: journaled.induct) (auto intro: journaled.intros)

locale history_session = history_host K cached warm_account warm_slot stored
  for K :: "('h, 'g, 'cp) host_ops" and cached and warm_account and warm_slot and stored +
  assumes journaled_keeps:
      "journaled K h h' \<Longrightarrow> stored h' = stored h \<and> host_spec K h' = host_spec K h \<and>
         host_gas_params K h' = host_gas_params K h \<and> host_block_number K h' = host_block_number K h"
    and checkpoint_views:
      "checkpoint K h = (cp, h1) \<Longrightarrow> stored h1 = stored h \<and> host_spec K h1 = host_spec K h \<and>
         host_gas_params K h1 = host_gas_params K h \<and> host_block_number K h1 = host_block_number K h \<and>
         warm_account h1 = warm_account h \<and> warm_slot h1 = warm_slot h"
    and revert_restores:
      "checkpoint K h = (cp, h1) \<Longrightarrow> journaled K h1 h2 \<Longrightarrow>
         warm_account (checkpoint_revert K cp h2) = warm_account h \<and>
         warm_slot (checkpoint_revert K cp h2) = warm_slot h"

text \<open>
  A run of lookups: each on some interpreter with a block number of the window on top of its stack,
  none halting; the gas it spends, and frames in between that are reverted.
\<close>

inductive history_run ::
  "('i, 'g) interp_ops \<Rightarrow> ('h, 'g, 'cp) host_ops \<Rightarrow> ('i \<Rightarrow> u256 list) \<Rightarrow> ('i \<Rightarrow> InstructionResult option)
     \<Rightarrow> 'h \<Rightarrow> access list \<Rightarrow> nat \<Rightarrow> 'h \<Rightarrow> bool"
  for I :: "('i, 'g) interp_ops" and K :: "('h, 'g, 'cp) host_ops"
    and stack :: "'i \<Rightarrow> u256 list" and status :: "'i \<Rightarrow> InstructionResult option" where
  finished: "history_run I K stack status h [] 0 h"
| lookup: "stack i = n # vs \<Longrightarrow> in_window K h n \<Longrightarrow> blockhash I K i h = (i', h1) \<Longrightarrow>
    status i = None \<Longrightarrow> status i' = None \<Longrightarrow> history_run I K stack status h1 as g h' \<Longrightarrow>
    history_run I K stack status h (Slot (history_index (as_u64_saturated I n)) # as)
      (unat (gas_remaining I i) - unat (gas_remaining I i') + g) h'"
| frame: "checkpoint K h = (cp, h1) \<Longrightarrow> history_run I K stack status h1 bs m h2 \<Longrightarrow>
    history_run I K stack status (checkpoint_revert K cp h2) as g h' \<Longrightarrow>
    history_run I K stack status h (Reverted bs # as) (m + g) h'"

lemma history_sload_journaled:
  assumes "eip7709_history_sload K k skip h = (r, h')"
  shows "journaled K h h'"
proof -
  obtain r1 h1 where first: "sload_skip_cold_load K HISTORY_STORAGE_ADDRESS k skip h = (r1, h1)"
    by (metis prod.collapse)
  note one = journal_sload [OF journal_start first]
  show ?thesis
  proof (cases "r1 = Inl ColdLoadSkipped")
    case False
    then show ?thesis
      using assms first one by (auto simp: eip7709_history_sload_def split: sum.splits LoadError.splits)
  next
    case True
    obtain cp h2 q h3 where cp: "checkpoint K h1 = (cp, h2)"
      and load: "load_account_info_skip_cold_load K HISTORY_STORAGE_ADDRESS False False h2 = (q, h3)"
      by (metis prod.collapse)
    have undone: "journaled K h (checkpoint_revert K cp h3)"
      by (rule journal_revert [OF one cp journal_account [OF journal_start load]])
    show ?thesis
    proof (cases q)
      case (Inl e)
      then show ?thesis using assms first True cp load undone by (simp add: eip7709_history_sload_def Let_def)
    next
      case (Inr u)
      then have "sload_skip_cold_load K HISTORY_STORAGE_ADDRESS k skip (checkpoint_revert K cp h3) = (r, h')"
        using assms first True cp load by (simp add: eip7709_history_sload_def Let_def)
      from journal_sload [OF undone this] show ?thesis .
    qed
  qed
qed

lemma tsuki_v2_journaled:
  assumes "blockhash_tsuki_v2 I K k i h = (i', h')"
  shows "journaled K h h'"
  using assms history_sload_journaled [of K k]
  by (auto simp: blockhash_tsuki_v2_def Let_def intro: journal_start
      split: option.splits prod.splits sum.splits LoadError.splits if_splits)

context history_session begin

lemma lookup_tsuki_v2:
  assumes "interpreter I stack status" and "BLOCK_HASH_HISTORY K = 256" and "TSUKI_V2 \<le> host_spec K h"
    and "stack i = n # vs" and "in_window K h n" and "blockhash I K i h = (i', h1)"
  shows "blockhash_tsuki_v2 I K (history_index (as_u64_saturated I n)) i h = (i', h1)"
proof -
  have "FEYNMAN \<le> host_spec K h" using assms(3) by (cases "host_spec K h") (simp_all add: spec_gates)
  then show ?thesis using interpreter.blockhash_inside [OF assms(1,4,2,5)] assms(3,6) by simp
qed

lemma run_journaled:
  assumes "history_run I K stack status h as g h'"
    and I: "interpreter I stack status" and W: "BLOCK_HASH_HISTORY K = 256"
    and "TSUKI_V2 \<le> host_spec K h"
  shows "journaled K h h'"
  using assms(1,4)
proof (induction rule: history_run.induct)
  case (lookup i n vs h i' h1 as g h')
  have one: "journaled K h h1"
    by (rule tsuki_v2_journaled [OF lookup_tsuki_v2 [OF I W lookup.prems lookup.hyps(1-3)]])
  then have "TSUKI_V2 \<le> host_spec K h1" using journaled_keeps [OF one] lookup.prems by simp
  then show ?case using journaled_trans [OF lookup.IH one] by blast
next
  case (frame h cp h1 bs m h2 as g h')
  then have "journaled K h1 h2" using checkpoint_views [OF frame.hyps(1)] by simp
  note undone = journal_revert [OF journal_start frame.hyps(1) this]
  then have "TSUKI_V2 \<le> host_spec K (checkpoint_revert K cp h2)"
    using journaled_keeps [OF undone] frame.prems by simp
  then show ?case using journaled_trans [OF frame.IH(2) undone] by blast
qed (rule journal_start)

lemma lookup_price:
  assumes I: "interpreter I stack status" and W: "BLOCK_HASH_HISTORY K = 256" and "TSUKI_V2 \<le> host_spec K h"
    and "stack i = n # vs" and "in_window K h n" and "blockhash I K i h = (i', h1)"
    and "status i = None" and "status i' = None"
  defines "k \<equiv> history_index (as_u64_saturated I n)"
  shows "unat (gas_remaining I i) - unat (gas_remaining I i') = history_cost K warm_slot h k \<and>
    warm_account h1 = warm_account h \<and> warm_slot h1 = warm_history warm_slot h k"
  using tsuki_v2_outcome [OF I history_host_axioms assms(4) lookup_tsuki_v2 [OF I W assms(3-6)]] assms(7,8)
  by (auto simp: history_outcome_def k_def split: if_splits)

lemma lookups_price:
  assumes "history_run I K stack status h as g h'"
    and I: "interpreter I stack status" and W: "BLOCK_HASH_HISTORY K = 256"
    and "TSUKI_V2 \<le> host_spec K h" and "p = host_gas_params K h"
  shows "g = price (unat (warm_storage_read_cost K p)) (unat (cold_storage_additional_cost K p))
      {k. history_slot_warm warm_slot h k} as \<and>
    {k. history_slot_warm warm_slot h' k} = warmed {k. history_slot_warm warm_slot h k} as \<and>
    warm_account h' = warm_account h"
  using assms(1,4,5)
proof (induction rule: history_run.induct)
  case (lookup i n vs h i' h1 as g h')
  let ?k = "history_index (as_u64_saturated I n)"
  note run = lookup_tsuki_v2 [OF I W lookup.prems(1) lookup.hyps(1-3)]
  note keeps = journaled_keeps [OF tsuki_v2_journaled [OF run]]
  note cost = lookup_price [OF I W lookup.prems(1) lookup.hyps(1-5)]
  have "{k. history_slot_warm warm_slot h1 k} = insert ?k {k. history_slot_warm warm_slot h k}"
    using cost by (auto simp: warm_history_def)
  then show ?case
    using lookup.IH lookup.prems keeps cost by (simp add: history_cost_def)
next
  case (frame h cp h1 bs m h2 as g h')
  note views = checkpoint_views [OF frame.hyps(1)]
  then have spec1: "TSUKI_V2 \<le> host_spec K h1" using frame.prems by simp
  note sub = run_journaled [OF frame.hyps(2) I W spec1]
  note undone = revert_restores [OF frame.hyps(1) sub]
    and keeps = journaled_keeps [OF journal_revert [OF journal_start frame.hyps(1) sub]]
  show ?case
    using frame.IH(1) [OF spec1] frame.IH(2) frame.prems views undone keeps by simp
qed simp

end

text \<open>
  C12 The price of a transaction's block-hash lookups from TsukiV2: over any sequence of lookups within
  the window, with reverted call frames nested in any way, the gas spent on them is the access-list
  rule of EIP-2929 applied to the ring-buffer slots: the warm price for each, plus the cold surcharge
  for a slot not warm at that point, what a reverted frame warmed being cold again. The slots warm
  afterwards are the rule's, and no account became warm. Without reverted frames the surcharge is paid
  once for every distinct slot that was not warm before.
\<close>

theorem lookups_cost_access_list:
  assumes "interpreter I stack status" and "history_session K cached warm_account warm_slot stored"
    and "BLOCK_HASH_HISTORY K = 256" and "TSUKI_V2 \<le> host_spec K h"
    and "history_run I K stack status h as g h'"
  shows "let w = unat (warm_storage_read_cost K (host_gas_params K h));
      c = unat (cold_storage_additional_cost K (host_gas_params K h));
      W = {k. history_slot_warm warm_slot h k}
    in g = price w c W as \<and> {k. history_slot_warm warm_slot h' k} = warmed W as \<and>
      warm_account h' = warm_account h \<and>
      (\<forall>ks. as = map Slot ks \<longrightarrow> g = w * length ks + c * card (set ks - W))"
  using history_session.lookups_price [OF assms(2,5,1,3,4) refl] by (simp add: Let_def price_flat)

section \<open>A run on the reference host\<close>

lemma mem_host_parts [simp]:
  "host_spec mem_host_ops h = mh_spec h" "host_block_number mem_host_ops h = mh_number h"
  "host_gas_params mem_host_ops h = (100, 2000)" "warm_storage_read_cost mem_host_ops = fst"
  "cold_storage_additional_cost mem_host_ops = snd" "sload_skip_cold_load mem_host_ops = mem_sload"
  "load_account_info_skip_cold_load mem_host_ops a b c h = (Inr (), mem_load_account a h)"
  "checkpoint mem_host_ops h = ((mh_warm_account h, mh_warm_slot h), h)"
  "checkpoint_revert mem_host_ops cp h = h\<lparr>mh_warm_account := fst cp, mh_warm_slot := snd cp\<rparr>"
  by (simp_all add: mem_host_ops_def)

lemma mem_journaled:
  "journaled mem_host_ops h h' \<Longrightarrow> mh_stored h' = mh_stored h \<and> mh_spec h' = mh_spec h \<and> mh_number h' = mh_number h"
  by (induction rule: journaled.induct) (auto simp: mem_sload_def mem_load_account_def split: if_splits)

interpretation mem_session: history_session mem_host_ops mh_cached mh_warm_account mh_warm_slot mh_stored
  by unfold_locales (auto dest: mem_journaled)

definition seen :: "u256 set \<Rightarrow> mem_host \<Rightarrow> mem_host" where
  "seen W h = h\<lparr>mh_cached := (mh_cached h)(HISTORY_STORAGE_ADDRESS := True),
     mh_warm_slot := (mh_warm_slot h)(HISTORY_STORAGE_ADDRESS := (\<lambda>k. k \<in> W))\<rparr>"

lemma run_index: "n < 2 ^ 13 - 1 \<Longrightarrow> history_index (mem_as_u64 (of_nat n)) = of_nat n"
  by (simp add: history_index_def mem_as_u64_def unsigned_of_nat take_bit_nat_eq_self unsigned_ucast_eq)

lemma seen_lookup:
  assumes "n < 1000" and "744 \<le> n"
  shows "\<exists>v. blockhash mem_interp_ops mem_host_ops (run_interp [of_nat n] 2100) (seen W (run_host TSUKI_V2)) =
    (run_interp [v] (if of_nat n \<in> W then 2000 else 0), seen (insert (of_nat n) W) (run_host TSUKI_V2))"
proof -
  have "unat (of_nat n :: u256) = n" using assms by (simp add: unsigned_of_nat take_bit_nat_eq_self)
  then have "in_window mem_host_ops (seen W (run_host TSUKI_V2)) (of_nat n)"
    using assms by (simp add: in_window_def seen_def run_host_def)
  note mem_interp.blockhash_inside [of "run_interp [of_nat n] 2100", OF _ _ this]
  then show ?thesis
    using assms by (simp add: run_index seen_def run_host_def)
      (auto simp: blockhash_tsuki_v2_def eip7709_history_sload_def mem_sload_def run_interp_def mem_interp_ops_def
        spec_gates word_less_nat_alt fun_eq_iff)
qed

abbreviation seen_run :: "u256 set \<Rightarrow> access list \<Rightarrow> nat \<Rightarrow> u256 set \<Rightarrow> bool" where
  "seen_run W as g V \<equiv> history_run mem_interp_ops mem_host_ops mi_stack mi_status
     (seen W (run_host TSUKI_V2)) as g (seen V (run_host TSUKI_V2))"

lemma seen_run_lookup:
  assumes "n < 1000" and "744 \<le> n" and "seen_run (insert (of_nat n) W) as g V"
  shows "seen_run W (Slot (of_nat n) # as) ((if of_nat n \<in> W then 100 else 2100) + g) V"
proof -
  have win: "in_window mem_host_ops (seen W (run_host TSUKI_V2)) (of_nat n)"
    using assms by (simp add: in_window_def seen_def run_host_def unsigned_of_nat take_bit_nat_eq_self)
  from seen_lookup [OF assms(1,2), of W] obtain v where
    "blockhash mem_interp_ops mem_host_ops (run_interp [of_nat n] 2100) (seen W (run_host TSUKI_V2)) =
      (run_interp [v] (if of_nat n \<in> W then 2000 else 0), seen (insert (of_nat n) W) (run_host TSUKI_V2))" ..
  from history_run.lookup [where stack = mi_stack and status = mi_status, OF _ win this _ _ assms(3)]
  show ?thesis using assms(1,2) by (simp add: run_index split: if_splits)
qed

lemma seen_run_frame:
  assumes "seen_run W bs m V" and "seen_run W as g U"
  shows "seen_run W (Reverted bs # as) (m + g) U"
proof -
  have "checkpoint_revert mem_host_ops (fst (checkpoint mem_host_ops (seen W (run_host TSUKI_V2))))
      (seen V (run_host TSUKI_V2)) = seen W (run_host TSUKI_V2)"
    by (simp add: seen_def)
  with history_run.frame [OF _ assms(1)] assms(2) show ?thesis by simp
qed

theorem lookups_cost_access_list_witness:
  "seen_run {} [Slot 999, Reverted [Slot 998, Slot 999], Slot 998, Slot 998] 6500 {998, 999} \<and>
   price 100 2000 {} [Slot 999, Reverted [Slot 998, Slot 999], Slot 998, Slot 998] = 6500"
proof -
  note look = seen_run_lookup [of 999, simplified] seen_run_lookup [of 998, simplified]
    and stop = history_run.finished
  have frame: "seen_run {999} [Slot 998, Slot 999] 2200 {998, 999}"
    using look(2) [OF look(1) [OF stop], of "{999}"] by (simp add: insert_commute)
  have "seen_run {999} [Slot 998, Slot 998] 2200 {998, 999}"
    using look(2) [OF look(2) [OF stop], of "{999}"] by simp
  from look(1) [of "{}", OF seen_run_frame [OF frame this]]
  have run: "seen_run {} [Slot 999, Reverted [Slot 998, Slot 999], Slot 998, Slot 998] 6500 {998, 999}"
    by simp
  have "{k. history_slot_warm mh_warm_slot (seen {} (run_host TSUKI_V2)) k} = {}"
    by (simp add: seen_def)
  then show ?thesis
    using lookups_cost_access_list [OF mem_interp.interpreter_axioms mem_session.history_session_axioms _ _ run] run
    by (simp add: seen_def run_host_def)
qed

end
