(* ===== verification/HistoryRing.thy ===== *)
theory HistoryRing
  imports HistoryUpgrade
begin

text \<open>
  \<open>BLOCKHASH\<close> against the chain. By EIP-2935 a system call at the start of every block stores the
  parent's hash in the history contract, at the parent's number modulo the buffer size. On the storage
  those calls leave, the instruction answers the hash of the block that was asked for.
\<close>

section \<open>The buffer the system calls leave\<close>

text \<open>The storage after the calls of the \<open>k\<close> blocks whose parents are \<open>a\<close> to \<open>a + k - 1\<close>.\<close>

fun recorded :: "(nat \<Rightarrow> u256) \<Rightarrow> nat \<Rightarrow> nat \<Rightarrow> (u256 \<Rightarrow> u256) \<Rightarrow> u256 \<Rightarrow> u256" where
  "recorded hash a 0 s = s"
| "recorded hash a (Suc k) s =
     (recorded hash a k s)(of_nat ((a + k) mod 8191) := hash (a + k))"

lemma ring_slot_inj:
  assumes "(of_nat (x mod 8191) :: u256) = of_nat (y mod 8191)"
  shows "x mod 8191 = y mod 8191"
proof -
  have "unat (of_nat (z mod 8191) :: u256) = z mod 8191" for z :: nat
    using mod_less_divisor [of 8191 z] by (simp add: unsigned_of_nat take_bit_nat_eq_self)
  then show ?thesis using assms by metis
qed

lemma recorded_window:
  assumes "a \<le> n" and "n < a + k" and "a + k \<le> n + 8191"
  shows "recorded hash a k s (of_nat (n mod 8191)) = hash n"
  using assms
proof (induction k)
  case (Suc k)
  show ?case
  proof (cases "n = a + k")
    case False
    then have "n < a + k" "a + k < n + 8191" using Suc.prems by simp_all
    then have "(of_nat (n mod 8191) :: u256) \<noteq> of_nat ((a + k) mod 8191)"
      using mod_close [of n 8191 "a + k"] ring_slot_inj by fastforce
    then show ?thesis using Suc.IH [OF Suc.prems(1) \<open>n < a + k\<close>] \<open>a + k < n + 8191\<close> by simp
  qed simp
qed simp

section \<open>The instruction answers the chain\<close>

text \<open>
  C14 From Feynman on, \<open>BLOCKHASH\<close> answers for the chain: on a history contract that holds what the
  system calls of the blocks since its deployment recorded, a lookup of any of the last 256 blocks
  recorded replaces its number by that block's own hash, however often the buffer has wrapped around.
  The only other outcomes are the fatal halt on a database error and, from TsukiV2 on, running out of
  gas when the remaining gas does not cover the lookup.
\<close>

theorem blockhash_answers_chain:
  assumes "interpreter I stack status" and "history_reader K cached warm_account warm_slot stored"
    and "BLOCK_HASH_HISTORY K = 256" and "FEYNMAN \<le> host_spec K h"
    and "unat (host_block_number K h) = a + k" and "a + k < 2 ^ 64"
    and "stored h HISTORY_STORAGE_ADDRESS = recorded hash a k s"
    and "stack i = n # vs" and "in_window K h n" and "a \<le> unat n" and "blockhash I K i h = (i', h')"
  shows "status i' = Some FatalExternalError \<or>
    stack i' = hash (unat n) # vs \<and> status i' = status i \<or>
    TSUKI_V2 \<le> host_spec K h \<and> status i' = Some OutOfGas \<and>
      unat (gas_remaining I i) < history_cost K warm_slot h (history_index (as_u64_saturated I n))"
proof -
  note I = assms(1)
  have H: "history_host K cached warm_account warm_slot stored"
    using assms(2) by (simp add: history_reader_def)
  let ?k = "history_index (as_u64_saturated I n)"
  have n: "unat n < a + k" "a + k \<le> unat n + 8191" using assms(5,9) by (auto simp: in_window_def)
  then have "unat (as_u64_saturated I n) = unat n"
    using assms(6) by (intro interpreter.as_u64_small [OF I]) simp
  then have "?k = of_nat (unat n mod 8191)" by (simp add: history_index_def)
  then have hash: "stored h HISTORY_STORAGE_ADDRESS ?k = hash (unat n)"
    using recorded_window [OF assms(10) n] assms(7) by simp
  note inside = interpreter.blockhash_inside [OF I assms(8,3,9)]
  show ?thesis
  proof (cases "TSUKI_V2 \<le> host_spec K h")
    case True
    then have "blockhash_tsuki_v2 I K ?k i h = (i', h')" using inside assms(4,11) by simp
    from tsuki_v2_outcome [OF I H assms(8) this] show ?thesis
      using True hash by (auto simp: history_outcome_def not_le split: if_splits)
  next
    case False
    then have "blockhash_feynman I K ?k i h = (i', h')" using inside assms(4,11) by simp
    from history_reader.unmetered_outcome [OF assms(2) I assms(8) this] show ?thesis using hash by auto
  qed
qed

text \<open>Block 8300, the contract deployed at block 8000: the buffer has wrapped, block 8195 is in slot 4.\<close>

definition ring_host :: "ScrollSpecId \<Rightarrow> mem_host" where
  "ring_host s = (run_host s)\<lparr>mh_number := 8300,
     mh_stored := \<lambda>_. recorded (\<lambda>n. of_nat n + 7) 8000 300 (\<lambda>_. 0)\<rparr>"

lemma ring_status:
  "mi_status (fst (blockhash mem_interp_ops mem_host_ops (run_interp [8195] 2100) (ring_host TSUKI_V2))) = None"
  by (simp add: blockhash_def blockhash_tsuki_v2_def eip7709_history_sload_def run_interp_def ring_host_def
      run_host_def mem_interp_ops_def mem_host_ops_def checked_sub_def mem_as_u64_def spec_gates
      mem_sload_def mem_load_account_def Let_def word_le_nat_alt word_less_nat_alt
      HISTORY_STORAGE_ADDRESS_def)

theorem blockhash_answers_chain_witness:
  "mi_stack (fst (blockhash mem_interp_ops mem_host_ops (run_interp [8195] 2100) (ring_host TSUKI_V2))) = [8202]"
proof -
  obtain i' h' where run:
    "blockhash mem_interp_ops mem_host_ops (run_interp [8195] 2100) (ring_host TSUKI_V2) = (i', h')"
    by fastforce
  have "host_spec mem_host_ops (ring_host TSUKI_V2) = TSUKI_V2"
    and "unat (host_block_number mem_host_ops (ring_host TSUKI_V2)) = 8000 + 300"
    and "mh_stored (ring_host TSUKI_V2) HISTORY_STORAGE_ADDRESS = recorded (\<lambda>n. of_nat n + 7) 8000 300 (\<lambda>_. 0)"
    and "in_window mem_host_ops (ring_host TSUKI_V2) 8195"
    by (simp_all add: ring_host_def run_host_def mem_host_ops_def in_window_def)
  moreover have "mi_status i' = None" using ring_status run by simp
  ultimately show ?thesis
    using blockhash_answers_chain [OF mem_interp.interpreter_axioms mem_reader.history_reader_axioms _ _ _ _ _ _ _ _ run,
        of 8000 300 "\<lambda>n. of_nat n + 7" "\<lambda>_. 0" 8195 "[]"] run
    by (simp add: spec_gates)
qed

end
