(* ===== verification/HandlerErrors.thy ===== *)
theory HandlerErrors
  imports HandlerTotal
begin

text \<open>
  Which error \<open>validate_env\<close> reports when a transaction violates several conditions: the conditions
  are listed in the order in which they take precedence, and the first violated one is reported.
\<close>

definition report :: "'e list \<Rightarrow> ('e, unit) outcome" where
  "report es = (case es of [] \<Rightarrow> Ok () | e # _ \<Rightarrow> Err e)"

definition violated :: "bool \<Rightarrow> 'e \<Rightarrow> 'e list" where
  "violated b e = (if b then [e] else [])"

definition errors_of :: "('e, unit) outcome \<Rightarrow> 'e list" where
  "errors_of r = (case r of Err e \<Rightarrow> [e] | _ \<Rightarrow> [])"

lemma report_append: "obind (report es) (\<lambda>_. report fs) = report (es @ fs)"
  by (cases es) (simp_all add: report_def)

lemma report_map: "map_err f (report es) = report (map f es)"
  by (cases es) (simp_all add: report_def)

lemma report_guard: "guard_err b e = report (violated b e)"
  by (simp add: guard_err_def report_def violated_def)

lemma report_errors: "r \<noteq> Panic \<Longrightarrow> r = report (errors_of r)"
  by (cases r) (simp_all add: report_def errors_of_def)

lemma report_Ok: "Ok () = report []"
  by (simp add: report_def)

definition type_errors ::
  "('g, 'j, 'd, 'ir, 'gas, 'rg, 'res) handler_ops \<Rightarrow> ('g, 'j) ctx \<Rightarrow> InvalidTransaction list" where
  "type_errors H c =
     (let ty = tx_type (tx c);
          legacy = errors_of (validate_legacy_gas_price H (gas_price (tx c)) (price_base_fee c));
          priority = errors_of (validate_priority_fee_for_tx H (tx c) (price_base_fee c)
            (is_priority_fee_check_disabled (cfg c)))
      in if ty = 0 \<or> ty = 1 then legacy
         else if ty = 2 then priority
         else if ty = 3 then [Eip4844NotSupported]
         else if ty = 4 then
           violated (\<not> EUCLID \<le> cfg_spec (cfg c)) Eip7702NotSupported @ priority @
           violated (authorization_list_len (tx c) = 0) EmptyAuthorizationList
         else violated (\<not> is_l1_msg (tx c)) (InvalidStr ''unsupported transaction type''))"

definition transaction_errors ::
  "('g, 'j, 'd, 'ir, 'gas, 'rg, 'res) handler_ops \<Rightarrow> ('g, 'j) ctx \<Rightarrow> InvalidTransaction list" where
  "transaction_errors H c =
     (let t = tx c; g = cfg c; ty = tx_type t; cap = effective_gas_limit_cap H g in
      (if \<not> tx_chain_id_check g then []
       else case tx_chain_id t of
         Some i \<Rightarrow> violated (i \<noteq> cfg_chain_id g) InvalidChainId
       | None \<Rightarrow> violated (ty \<in> {1, 2, 3, 4}) MissingChainId) @
      violated (\<not> is_l1_msg t \<and> cap < gas_limit t) (TxGasLimitGreaterThanCap (gas_limit t) cap) @
      type_errors H c @
      violated (\<not> is_block_gas_limit_disabled g \<and> block_gas_limit (block c) < gas_limit t)
        CallerGasLimitMoreThanBlock @
      violated (is_create (kind t) \<and> max_initcode_size H g < usize_len (tx_input t))
        CreateInitCodeSizeLimit)"

definition admission_errors ::
  "('g, 'j, 'd, 'ir, 'gas, 'rg, 'res) handler_ops \<Rightarrow> ('g, 'j) ctx \<Rightarrow> 'd evm_error list" where
  "admission_errors H c =
     violated (prevrandao (block c) = None) (HeaderError PrevrandaoNotSet) @
     map TransactionError (transaction_errors H c)"

lemma header_report:
  assumes "eth_history (eth_enabled H)"
  shows "validate_header H c = report (violated (prevrandao (block c) = None) (HeaderError PrevrandaoNotSet))"
  using assms by (simp add: validate_header_def eth_history_def report_guard report_append)
    (simp add: violated_def)

lemma chain_id_report:
  assumes "tx_types (tx_type_of H)"
  shows "validate_chain_id H c = report
    (if \<not> tx_chain_id_check (cfg c) then []
     else case tx_chain_id (tx c) of
       Some i \<Rightarrow> violated (i \<noteq> cfg_chain_id (cfg c)) InvalidChainId
     | None \<Rightarrow> violated (tx_type (tx c) \<in> {1, 2, 3, 4}) MissingChainId)"
  by (simp add: validate_chain_id_def report_guard report_Ok byte_types [OF assms] Let_def violated_def
      split: option.split)

lemma gas_cap_report:
  "validate_gas_cap H c = report
     (violated (\<not> is_l1_msg (tx c) \<and> effective_gas_limit_cap H (cfg c) < gas_limit (tx c))
       (TxGasLimitGreaterThanCap (gas_limit (tx c)) (effective_gas_limit_cap H (cfg c))))"
  by (simp add: validate_gas_cap_def report_guard report_Ok Let_def) (simp add: violated_def)

lemma tx_type_report:
  assumes "tx_types (tx_type_of H)" and "eth_history (eth_enabled H)" and "library_returns H"
  shows "validate_tx_type H c = report (type_errors H c)"
proof -
  let ?legacy = "validate_legacy_gas_price H (gas_price (tx c)) (price_base_fee c)"
  let ?priority = "validate_priority_fee_for_tx H (tx c) (price_base_fee c) (is_priority_fee_check_disabled (cfg c))"
  have lib: "?legacy = report (errors_of ?legacy)" "?priority = report (errors_of ?priority)"
    using assms(3) by (auto intro!: report_errors simp: library_returns_def validate_priority_fee_for_tx_def)
  define ty where "ty = tx_type (tx c)"
  consider "ty = 0" | "ty = 1" | "ty = 2" | "ty = 3" | "ty = 4" | "ty \<notin> {0, 1, 2, 3, 4}" by blast
  then show ?thesis
  proof cases
    case 5
    then have "validate_tx_type H c =
        obind (guard_err (\<not> EUCLID \<le> cfg_spec (cfg c)) Eip7702NotSupported) (\<lambda>_.
        obind ?priority (\<lambda>_. guard_err (authorization_list_len (tx c) = 0) EmptyAuthorizationList))"
      by (simp add: validate_tx_type_def byte_types [OF assms(1)] ty_def price_base_fee_def Let_def is_enabled_in_le)
    also have "\<dots> = report (type_errors H c)"
      using 5 by (subst lib(2)) (simp add: report_guard report_append type_errors_def ty_def Let_def)
    finally show ?thesis .
  qed (use assms(2) lib in \<open>simp_all add: validate_tx_type_def type_errors_def byte_types [OF assms(1)]
      ty_def eth_history_def price_base_fee_def [symmetric] guard_err_def violated_def Let_def\<close>,
      simp_all add: report_def)
qed

lemma limits_report:
  assumes "eth_history (eth_enabled H)"
  shows "validate_limits H c = report
    (violated (\<not> is_block_gas_limit_disabled (cfg c) \<and> block_gas_limit (block c) < gas_limit (tx c))
       CallerGasLimitMoreThanBlock @
     violated (is_create (kind (tx c)) \<and> max_initcode_size H (cfg c) < usize_len (tx_input (tx c)))
       CreateInitCodeSizeLimit)"
  using assms by (simp add: validate_limits_def eth_history_def report_guard report_append Let_def)

text \<open>
  C16 The error of \<open>validate_env\<close>: with the conditions listed in order of precedence (block header, chain
  id, transaction gas cap, the rules of the type, block gas limit, initcode size), a transaction that
  violates none is accepted, and any other is rejected with the error of the first it violates.
\<close>

theorem validate_env_first_error:
  assumes "tx_types (tx_type_of H)" and "eth_history (eth_enabled H)" and "library_returns H"
  shows "validate_env H c =
    (case admission_errors H c of [] \<Rightarrow> Ok () | e # _ \<Rightarrow> Err e)"
proof -
  have "validate_env H c = report (admission_errors H c)"
    by (simp add: validate_env_def admission_errors_def transaction_errors_def Let_def
        header_report [OF assms(2)] chain_id_report [OF assms(1)] gas_cap_report
        tx_type_report [OF assms] limits_report [OF assms(2)] report_map report_append)
  then show ?thesis by (simp add: report_def)
qed

definition capped_ctx :: "u64 \<Rightarrow> mem_ctx" where
  "capped_ctx i =
     (let c = run_ctx TSUKI_V2 (run_tx 3 0xA) 0;
          t = tx c
      in c\<lparr>tx := t\<lparr>base := (base t)\<lparr>base_chain_id := Some i\<rparr>\<rparr>,
           cfg := (cfg c)\<lparr>tx_gas_limit_cap := Some 20000\<rparr>\<rparr>)"

text \<open>A blob transaction on a foreign chain above the gas cap: the chain id is reported, then the cap.\<close>

theorem validate_env_first_error_witness:
  "validate_env mem_handler (capped_ctx 2) = Err (TransactionError InvalidChainId) \<and>
   validate_env mem_handler (capped_ctx 1) =
     Err (TransactionError (TxGasLimitGreaterThanCap 21000 20000))"
proof -
  have "tx_types (tx_type_of mem_handler)" by (simp add: eip2718_types)
  note first = validate_env_first_error [OF this mem_eth_history mem_returns]
  have "admission_errors mem_handler (capped_ctx 2) = TransactionError InvalidChainId #
      map TransactionError [TxGasLimitGreaterThanCap 21000 20000, Eip4844NotSupported]"
    and "admission_errors mem_handler (capped_ctx 1) =
      map TransactionError [TxGasLimitGreaterThanCap 21000 20000, Eip4844NotSupported]"
    by (simp_all add: admission_errors_def transaction_errors_def type_errors_def violated_def
        capped_ctx_def run_defs run_block_def tx_chain_id_def mem_handler_def new_scroll_def
        set_scroll_spec_def table_cfg_ops_def gas_table_ops.extend_def spec_gates word_less_nat_alt Let_def)
  then show ?thesis unfolding first by simp
qed

end
