(* ===== verification/TransferSpec.thy ===== *)
theory TransferSpec
  imports PrecompileRuns
begin

text \<open>
  The native transfer as a decision: on internals that answer (no database error), calldata and
  balances determine the outcome completely, the guards in their order of precedence. Calldata is the
  ABI encoding of sender, receiver and amount, which the precompile inverts.
\<close>

section \<open>Calldata\<close>

definition transfer_calldata :: "bytes \<Rightarrow> bytes \<Rightarrow> address \<Rightarrow> address \<Rightarrow> u256 \<Rightarrow> bytes" where
  "transfer_calldata p q from to v =
     p @ to_be_bytes 20 from @ q @ to_be_bytes 20 to @ to_be_bytes 32 v"

lemma calldata_words:
  assumes "length p = 12" and "length q = 12"
  shows "length (transfer_calldata p q from to v) = 96"
    and "sender (transfer_calldata p q from to v) = from"
    and "receiver (transfer_calldata p q from to v) = to"
    and "amount (transfer_calldata p q from to v) = v"
  using assms
  by (simp_all add: transfer_calldata_def sender_def receiver_def amount_def to_be_bytes_inverse)

lemma args_of_calldata:
  assumes "length p = 12" and "length q = 12"
  shows "transfer_args (transfer_calldata p q from to v) = Ok (from, to, v)"
  using transfer_args_total [of "transfer_calldata p q from to v"] calldata_words [OF assms]
  by (simp add: CALL_DATA_LENGTH_def sender_def receiver_def amount_def)

text \<open>
  C37 Calldata: the three parameters are read back from their ABI encoding (three words of 32 bytes,
  big-endian, the addresses in the low 20), whatever the 12 padding bytes before each address hold.
\<close>

theorem transfer_args_roundtrip:
  assumes "length p = 12" and "length q = 12"
  shows "transfer_args (transfer_calldata p q from to v) = Ok (from, to, v)"
  using assms by (rule args_of_calldata)

section \<open>The decision\<close>

locale transfer_live = transfer_internals N bal
  for N :: "('w, 'e, 't) internals_ops" and bal +
  assumes load_answers: "\<exists>x w'. in_load_account N a w = (Ok x, w')"
    and transfer_funded:
      "v \<le> bal w a \<Longrightarrow> a = b \<or> unat (bal w b) + unat v < 2 ^ 256 \<Longrightarrow> \<exists>w'. in_transfer N a b v w = (Ok None, w')"
    and transfer_unfunded:
      "bal w a < v \<Longrightarrow> \<exists>t w'. in_transfer N a b v w = (Ok (Some t), w')"
begin

lemma moves:
  assumes "a = b \<or> unat (bal w b) + unat v < 2 ^ 256"
  shows "\<exists>w'. (case in_transfer N a b v w of
          (Ok None, w') \<Rightarrow> (Ok (Completed GAS_COST []), w')
        | (Ok (Some _), w') \<Rightarrow> (Ok (Reverted GAS_COST []), w')
        | (Err e, w') \<Rightarrow> (Err (db_failure N e), w')
        | (Panic, w') \<Rightarrow> (Panic, w')) =
      (if v \<le> bal w a then Ok (Completed GAS_COST []) else Ok (Reverted GAS_COST []), w')"
  using transfer_funded [OF _ assms] transfer_unfunded [of w a v b]
  by (cases "v \<le> bal w a") (auto simp: not_le)

lemma guarded:
  assumes "transfer_guards input = Ok ()"
  defines "a \<equiv> sender (pi_data input)" and "b \<equiv> receiver (pi_data input)" and "v \<equiv> amount (pi_data input)"
  shows "fst (transfer_run N input w) =
    (if v \<le> bal w a \<and> (a = b \<or> unat (bal w b) + unat v < 2 ^ 256) then Ok (Completed GAS_COST [])
     else Ok (Reverted GAS_COST []))"
proof -
  have args: "transfer_args (pi_data input) = Ok (a, b, v)"
    using assms(1) by (simp add: transfer_guards_pass transfer_args_total sender_def receiver_def amount_def
        a_def b_def v_def)
  show ?thesis
  proof (cases "a = b")
    case True
    with moves [of a b w v] show ?thesis by (auto simp: transfer_run_def assms(1) args bind_def)
  next
    case False
    obtain x w1 where load: "in_load_account N b w = (Ok x, w1)" using load_answers by blast
    then have x: "x = bal w b" and w1: "bal w1 = bal w" using load_reports load_frame by blast+
    show ?thesis
    proof (cases "unat (bal w b) + unat v < 2 ^ 256")
      case True
      with moves [of a b w1 v] False load x w1 show ?thesis
        by (auto simp: transfer_run_def assms(1) args bind_def checked_add_def)
    qed (use False load x in \<open>simp add: transfer_run_def assms(1) args bind_def checked_add_def\<close>)
  qed
qed

end

definition transfer_verdict :: "PrecompileInput \<Rightarrow> (address \<Rightarrow> u256) \<Rightarrow> (PrecompileError, PrecompileOutput) outcome" where
  "transfer_verdict input b =
     (let from = sender (pi_data input); to = receiver (pi_data input); v = amount (pi_data input) in
      if pi_is_static input then Err (PcOther ''transfer precompile cannot be called in a static context'')
      else if \<not> pi_is_direct_call input then
        Err (PcOther ''transfer precompile must be called directly, not via delegatecall or callcode'')
      else if pi_caller input \<noteq> NATIVE_DOGE_TOKEN_ADDRESS then
        Err (PcOther ''transfer precompile can only be called by the allowed caller'')
      else if pi_gas input < 9000 then Err PcOutOfGas
      else if length (pi_data input) \<noteq> 96 then
        Err (PcOther ''transfer precompile expects exactly 96 bytes of calldata'')
      else if v \<le> b from \<and> (from = to \<or> unat (b to) + unat v < 2 ^ 256) then Ok (Completed 9000 [])
      else Ok (Reverted 9000 []))"

lemma verdict_guards:
  "transfer_verdict input b =
     (case transfer_guards input of
        Err e \<Rightarrow> Err e
      | Ok _ \<Rightarrow>
          if amount (pi_data input) \<le> b (sender (pi_data input)) \<and>
            (sender (pi_data input) = receiver (pi_data input) \<or>
             unat (b (receiver (pi_data input))) + unat (amount (pi_data input)) < 2 ^ 256)
          then Ok (Completed GAS_COST []) else Ok (Reverted GAS_COST [])
      | Panic \<Rightarrow> Panic)"
  by (auto simp: transfer_verdict_def transfer_guards_def guard_err_def GAS_COST_def CALL_DATA_LENGTH_def Let_def)

text \<open>
  C15 The native transfer is decided by its call and the balances: the first violated guard (static
  context, indirect call, caller, gas, calldata length, in this order) is its error; past the guards
  it completes exactly if the sender has the amount and the receiver's balance has room for it or is
  the sender's, and otherwise reverts, for 9000 gas either way; completed, it moves exactly the
  amount, and in every other case nothing.
\<close>

theorem transfer_decided:
  assumes "transfer_live N bal" and "transfer_run N input w = (r, w')"
  shows "r = transfer_verdict input (bal w) \<and>
    bal w' = (if r = Ok (Completed 9000 []) then moved (bal w) (pi_data input) else bal w)"
proof -
  have int: "transfer_internals N bal" using assms(1) by (simp add: transfer_live_def)
  have "r = transfer_verdict input (bal w)"
  proof (cases "transfer_guards input")
    case (Ok u)
    then show ?thesis
      using transfer_live.guarded [OF assms(1), of input w] assms(2) by (simp add: verdict_guards)
  next
    case (Err e)
    then show ?thesis using assms(2) transfer_refuses [OF Err, of N w] by (simp add: verdict_guards)
  qed (use transfer_guards_total in blast)
  moreover have "bal w' = (if r = Ok (Completed 9000 []) then moved (bal w) (pi_data input) else bal w)"
  proof (cases "transfer_guards input")
    case (Ok u)
    then have "transfer_guards input = Ok ()" by simp
    from transfer_internals.transfer_accepted [OF int this, of w] assms(2) show ?thesis
      by (auto simp: GAS_COST_def)
  next
    case (Err e)
    then show ?thesis using assms(2) transfer_refuses [OF Err, of N w] by auto
  qed (use transfer_guards_total in blast)
  ultimately show ?thesis by blast
qed

interpretation mem_transfer_live: transfer_live mem_internals mem_bal
  by unfold_locales (auto simp: mem_internals_def mem_move_def mem_bal_def)

section \<open>Instances\<close>

theorem transfer_args_roundtrip_witness:
  "transfer_args (transfer_calldata (replicate 12 0xFF) (replicate 12 0) 0x3000 0x4000 41) =
     Ok (0x3000, 0x4000, 41)"
  by (rule transfer_args_roundtrip) simp_all

theorem transfer_decided_witness:
  "fst (transfer_run mem_internals (run_input 9000) (run_balances 8)) = Ok (Completed 9000 []) \<and>
   fst (transfer_run mem_internals (run_input 8999) (run_balances 8)) = Err PcOutOfGas \<and>
   fst (transfer_run mem_internals (run_input 9000) (run_balances 4)) = Ok (Reverted 9000 [])"
proof -
  have "fst (transfer_run mem_internals i w) = transfer_verdict i (mem_bal w)" for i w
    using transfer_decided [OF mem_transfer_live.transfer_live_axioms] by (metis prod.collapse)
  moreover have "length run_data = 96" by (simp add: run_data_def)
  ultimately show ?thesis
    by (simp add: transfer_verdict_def run_pi run_words run_bal Let_def)
      (simp add: run_input_def word_less_nat_alt word_le_nat_alt)
qed

end
