(* ===== verification/PrecompileFrames.thy ===== *)
theory PrecompileFrames
  imports AccountModel TransferSpec
begin

text \<open>
  Precompiles inside transactions. The frames of a transaction call the precompiles installed at its
  fork, one of which (the native transfer) changes balances. The relation \<open>frame_run\<close> describes every
  execution made of \<open>revm\<close>'s own frames, calls of installed precompiles on the journal, and reverts to
  the balances of an earlier state. Such executions again satisfy the \<open>settlement\<close> contract, so ledger,
  exact settlement and the account model hold of transactions that use the native transfer.
\<close>

section \<open>Calls of installed precompiles\<close>

fun call_installed ::
  "('w, 'e, 't) installed \<Rightarrow> PrecompileInput \<Rightarrow> ('w, PrecompileError, PrecompileOutput) exec" where
  "call_installed (Static p) input = lift (\<lambda>_. pc_run p (pi_data input) (pi_gas input))"
| "call_installed (Dynamic i f) input = f input"

text \<open>The only precompile that can change the state is the native transfer, from Tsuki on.\<close>

lemma installed_kinds:
  assumes "lib_addresses L" and "inner (provider_new_with_spec L N spec) a = Some p"
  shows "(\<exists>q. p = Static q) \<or> p = transfer_precompile N \<and> a = TRANSFER \<and> TSUKI \<le> spec"
  using assms(2) unfolding installed_matrix [OF assms(1)]
  by (auto simp: expected_precompile_def split: if_splits)

lemma transfer_keeps_supply:
  assumes "transfer_internals N bal" and "transfer_run N input w = (r, w')"
  shows "(\<Sum>a\<in>UNIV. unat (bal w' a)) = (\<Sum>a\<in>UNIV. unat (bal w a))"
  using transfer_cases [OF assms]
proof cases
  case 2
  let ?s = "sender (pi_data input)" and ?t = "receiver (pi_data input)" and ?v = "amount (pi_data input)"
  let ?m = "(bal w)(?s := bal w ?s - ?v)"
  have "unat (bal w ?s - ?v) + unat ?v = unat (bal w ?s)" and "unat (bal w ?t + ?v) = unat (bal w ?t) + unat ?v"
    using 2 by (simp_all add: unat_sub word_le_nat_alt unat_word_ariths)
  then show ?thesis
    using sum_balances_upd [of "bal w" ?s "bal w ?s - ?v"] sum_balances_upd [of ?m ?t "bal w ?t + ?v"] 2(2)
    unfolding 2(4) by (simp add: moved_def)
qed simp

section \<open>Executions\<close>

inductive frame_run ::
  "('g, 'j, 'd, 'ir, 'gas, 'rg, 'res) handler_ops \<Rightarrow> precompile_lib \<Rightarrow> ('j, 'e, 't) internals_ops
     \<Rightarrow> ('g, 'j, 'ir, 'gas) frames \<Rightarrow> ('g, 'j) ctx \<Rightarrow> ('g, 'j) ctx \<Rightarrow> bool"
  for H :: "('g, 'j, 'd, 'ir, 'gas, 'rg, 'res) handler_ops" and L :: precompile_lib
    and N :: "('j, 'e, 't) internals_ops" and F :: "('g, 'j, 'ir, 'gas) frames" and c :: "('g, 'j) ctx" where
  entered: "frame_run H L N F c c"
| framed: "frame_run H L N F c d \<Longrightarrow> F g d fr e \<Longrightarrow> frame_run H L N F c e"
| called: "frame_run H L N F c d \<Longrightarrow>
    inner (provider_new_with_spec L N (cfg_spec (cfg d))) a = Some p \<Longrightarrow>
    call_installed p input (journal d) = (r, j) \<Longrightarrow> frame_run H L N F c (d\<lparr>journal := j\<rparr>)"
| undone: "frame_run H L N F c x \<Longrightarrow> frame_run H L N F c d \<Longrightarrow>
    acc_balance (jrn H) j = balances H x \<Longrightarrow> frame_run H L N F c (d\<lparr>journal := j\<rparr>)"

definition calling_frames ::
  "('g, 'j, 'd, 'ir, 'gas, 'rg, 'res) handler_ops \<Rightarrow> precompile_lib \<Rightarrow> ('j, 'e, 't) internals_ops
     \<Rightarrow> ('g, 'j, 'ir, 'gas) frames \<Rightarrow> ('g, 'j, 'ir, 'gas) frames" where
  "calling_frames H L N F g c fr d \<longleftrightarrow>
     frame_run H L N F c d \<and> unat (remaining (gmo H) (fr_gas fr)) \<le> unat (gas_limit (tx c))"

lemma call_conserves:
  assumes "lib_addresses L" and "transfer_internals N (acc_balance (jrn H))"
    and "inner (provider_new_with_spec L N (cfg_spec (cfg d))) a = Some p"
    and "call_installed p input (journal d) = (r, j)"
  shows "total_supply H (d\<lparr>journal := j\<rparr>) = total_supply H d"
  using installed_kinds [OF assms(1,3)]
proof
  assume "\<exists>q. p = Static q"
  then show ?thesis using assms(4) by (auto simp: lift_def)
next
  assume "p = transfer_precompile N \<and> a = TRANSFER \<and> TSUKI \<le> cfg_spec (cfg d)"
  then have "transfer_run N input (journal d) = (r, j)" using assms(4) by (simp add: transfer_precompile_def)
  from transfer_keeps_supply [OF assms(2) this] show ?thesis by (simp add: total_supply_def balances_def)
qed

context settlement begin

lemma frame_run_frame:
  assumes "frame_run H L N F c d" and "lib_addresses L" and "transfer_internals N (acc_balance (jrn H))"
  shows "env_of d = env_of c" and "total_supply H d = total_supply H c"
proof -
  have "env_of d = env_of c \<and> total_supply H d = total_supply H c"
    using assms(1)
  proof (induction rule: frame_run.induct)
    case (framed d g fr e)
    then show ?case using frames_env [OF framed.hyps(2)] frames_supply [OF framed.hyps(2)] by simp
  next
    case (called d a p input r j)
    then show ?case using call_conserves [OF assms(2,3) called.hyps(2,3)] by (simp add: env_of_def)
  next
    case (undone x d j)
    then have "total_supply H (d\<lparr>journal := j\<rparr>) = total_supply H x"
      by (simp add: total_supply_def balances_def)
    then show ?case using undone by (simp add: env_of_def)
  qed simp
  then show "env_of d = env_of c" and "total_supply H d = total_supply H c" by blast+
qed

lemma calling_settlement:
  assumes "lib_addresses L" and "transfer_internals N (acc_balance (jrn H))"
  shows "settlement H gas_charge (calling_frames H L N F)"
proof unfold_locales
  show "env_of d = env_of c" "total_supply H d = total_supply H c"
    and "unat (remaining (gmo H) (fr_gas fr)) \<le> unat (gas_limit (tx c))"
    if "calling_frames H L N F g c fr d" for g c fr d
    using that frame_run_frame [OF _ assms] by (auto simp: calling_frames_def)
qed (fact charge_price used_gas refund_capped floor_frame reimburse_frame reimburse_pays result_balances)+

end

section \<open>Transactions that use the native transfer\<close>

text \<open>
  C5 Precompiles inside transactions: let the frames of a transaction be interleaved with any calls of
  the precompiles installed at its fork (the native transfer of the token contract included, with any
  input, whatever its outcome) and with any reverts to earlier balances. Such frames still settle: at
  every stage balances and escrow sum to what the accounts held, and a finished transaction is the
  abstract one of its own bill.
\<close>

theorem transfers_settle:
  assumes "settlement H gas_charge F" and "tx_types (tx_type_of H)" and "eth_history (eth_enabled H)"
    and "lib_addresses L" and "transfer_internals N (acc_balance (jrn H))"
    and "(tx_step H (calling_frames H L N F))\<^sup>*\<^sup>* (Received, c) (p, d)" and "total_supply H c < 2 ^ 256"
  shows "total_supply H d + escrow H d p = total_supply H c \<and>
    (\<forall>r. p = Finished r \<longrightarrow> (\<exists>b m. accounted H (calling_frames H L N F) c r d (b, m) \<and>
       upfront b + bill_reserve b \<le> wallet H c (caller (tx c)) \<and> (\<Sum>a\<in>UNIV. m a) = 0 \<and>
       (\<forall>a. int (wallet H d a) = int (wallet H c a) + m a
          + paid (caller (tx c)) (beneficiary (block c)) (total_fee b) a)))"
proof -
  note calling = settlement.calling_settlement [OF assms(1,4,5)]
  have "total_supply H d + escrow H d p = total_supply H c"
    by (rule ledger_supply [OF settlement.ledger_reach [OF calling assms(6,7,2,3)]])
  moreover have "\<exists>b m. accounted H (calling_frames H L N F) c r d (b, m) \<and>
      upfront b + bill_reserve b \<le> wallet H c (caller (tx c)) \<and> (\<Sum>a\<in>UNIV. m a) = 0 \<and>
      (\<forall>a. int (wallet H d a) = int (wallet H c a) + m a
        + paid (caller (tx c)) (beneficiary (block c)) (total_fee b) a)" if p: "p = Finished r" for r
  proof (rule settlement.completed_accounts [OF calling assms(6) [unfolded p] assms(7,2,3)], goal_cases)
    case (1 g n x fr y u)
    then have "accounted H (calling_frames H L N F) c r d (bill_of H c u, movement H x y)"
      unfolding accounted_def by blast
    with 1(4,6,7) show ?case by blast
  qed
  ultimately show ?thesis by blast
qed

text \<open>A transfer of 5 from the caller to the callee inside the transaction of \<open>LifecycleRuns\<close>.\<close>

definition run_called :: mem_journal where
  "run_called = snd (transfer_run mem_internals (run_input 9000) run_charged)"

lemma run_call: "transfer_run mem_internals (run_input 9000) run_charged = (Ok (Completed 9000 []), run_called)"
proof -
  have "m_acc run_charged 10 = run_account 100 1" and "m_acc run_charged 11 = run_account 0 0"
    by (simp_all add: run_accounts)
  then show ?thesis unfolding run_called_def
    by (simp add: transfer_run_def run_guards run_pi run_args bind_def mem_internals_def
        mem_move_def checked_add_def run_account_def empty_account_def word_le_nat_alt GAS_COST_def)
qed

lemma run_called_balances: "mem_bal run_called 10 = 95" "mem_bal run_called 11 = 5"
proof -
  have "mem_bal run_called = moved (mem_bal run_charged) run_data"
    using transfer_exact [OF mem_transfer.transfer_internals_axioms run_call] by (simp add: run_pi)
  moreover have "mem_bal run_charged 10 = 100" and "mem_bal run_charged 11 = 0"
    by (simp_all add: mem_bal_def run_accounts)
  ultimately show "mem_bal run_called 10 = 95" "mem_bal run_called 11 = 5"
    by (simp_all add: moved_def run_words)
qed

theorem transfers_settle_witness:
  "total_supply mem_handler (run_at run_called) + 103000 = total_supply mem_handler run_start \<and>
   balances mem_handler (run_at run_called) 0xA = 95 \<and> balances mem_handler (run_at run_called) 0xB = 5"
proof -
  let ?F = "calling_frames mem_handler echo_lib mem_internals mem_frames"
  have bal: "acc_balance (jrn mem_handler) = mem_bal" by (simp add: fun_eq_iff mem_bal_def)
  have int: "transfer_internals mem_internals (acc_balance (jrn mem_handler))"
    unfolding bal by (rule mem_transfer.transfer_internals_axioms)
  have spec: "cfg_spec (cfg (run_at j)) = TSUKI_V2" for j by (simp add: run_at_def run_defs)
  have "inner (provider_new_with_spec echo_lib mem_internals TSUKI_V2) TRANSFER =
      Some (transfer_precompile mem_internals)"
    unfolding installed_matrix [OF echo_lib_addresses]
    by (simp add: expected_precompile_def address_defs spec_gates)
  then have "frame_run mem_handler echo_lib mem_internals mem_frames (run_at run_charged)
      ((run_at run_charged)\<lparr>journal := run_called\<rparr>)"
    using run_call by (intro frame_run.called [OF frame_run.entered])
      (auto simp: spec transfer_precompile_def, simp add: run_at_def)
  then have F: "?F run_gas (run_at run_charged) run_result (run_at run_called)"
    by (simp add: calling_frames_def run_at_def run_result_def mem_gas_ops_def)
  have last: "last_frame_result mem_handler run_result (run_at run_called) = (Ok run_result, run_at run_called)"
    by (simp add: last_frame_result_def run_result_def run_at_def run_defs mem_handler_def mem_gas_ops_def)
  have "(tx_step mem_handler ?F)\<^sup>*\<^sup>* (Received, run_start)
      (Executed run_gas 0 run_result :: run_phase, run_at run_called)"
    using validated [where F = ?F, OF run_env run_initial] charged [where F = ?F, OF run_pre]
      executed [where F = ?F, OF F last]
    by (meson converse_rtranclp_into_rtranclp r_into_rtranclp)
  note transfers_settle [OF mem_settlement.settlement_axioms run_types mem_eth_history
      echo_lib_addresses int this run_small, THEN conjunct1]
  moreover have "escrow mem_handler (run_at run_called) (Executed run_gas 0 run_result :: run_phase) = 103000"
    using run_not_l1 by (simp add: run_price) (simp add: run_at_def run_defs)
  moreover have "balances mem_handler (run_at run_called) = mem_bal run_called"
    unfolding balances_def bal by (simp add: run_at_def)
  ultimately show ?thesis by (simp add: run_called_balances)
qed

end
