(* ===== verification/TransferTests.thy ===== *)
theory TransferTests
  imports TransferSpec PrecompileTests
begin

text \<open>
  The integration tests of the native transfer (\<open>src/tests/transfer_precompile.rs\<close>), transcribed over
  the model: calls of the precompile installed at Tsuki, on the in-memory journal. Not transcribed are
  \<open>transfer_is_journaled_revertible\<close> (a revert of \<open>revm\<close>'s journal) and the dispatch of
  \<open>provider_dispatches_transfer_precompile\<close> by \<open>PrecompilesMap\<close>. \<open>is_direct_call\<close> of \<open>alloy_evm\<close> compares
  the target with the address of the code.
\<close>

section \<open>Calls\<close>

definition DISALLOWED_CALLER :: address where "DISALLOWED_CALLER = 0x2000"
definition FROM_ACCOUNT :: address where "FROM_ACCOUNT = 0x3000"
definition TO_ACCOUNT :: address where "TO_ACCOUNT = 0x4000"
definition OTHER_ACCOUNT :: address where "OTHER_ACCOUNT = 0x5000"

record TransferCall =
  tc_caller :: address
  tc_target_address :: address
  tc_bytecode_address :: address
  tc_value :: u256
  tc_input :: bytes
  tc_gas :: u64
  tc_is_static :: bool

definition TransferCall_new :: "bytes \<Rightarrow> TransferCall" where
  "TransferCall_new input =
     \<lparr>tc_caller = NATIVE_DOGE_TOKEN_ADDRESS, tc_target_address = TRANSFER, tc_bytecode_address = TRANSFER,
      tc_value = 0, tc_input = input, tc_gas = GAS_COST, tc_is_static = False\<rparr>"

definition transfer_input :: "address \<Rightarrow> address \<Rightarrow> u256 \<Rightarrow> bytes" where
  "transfer_input from to v =
     (let input = replicate 96 0;
          input = take 12 input @ to_be_bytes 20 from @ drop 32 input;
          input = take 44 input @ to_be_bytes 20 to @ drop 64 input
      in take 64 input @ to_be_bytes 32 v @ drop 96 input)"

definition context_with_balances :: "(address \<times> u256) list \<Rightarrow> mem_journal" where
  "context_with_balances entries =
     mem_empty\<lparr>m_disk := foldl (\<lambda>db (a, b). db(a := empty_account\<lparr>m_balance := b\<rparr>)) (\<lambda>_. empty_account) entries\<rparr>"

definition transfer_context :: "u256 \<Rightarrow> u256 \<Rightarrow> mem_journal" where
  "transfer_context from_balance to_balance =
     context_with_balances [(FROM_ACCOUNT, from_balance), (TO_ACCOUNT, to_balance)]"

definition failing_internals :: "(mem_journal, string, unit) internals_ops" where
  "failing_internals = mem_internals\<lparr>in_load_account := (\<lambda>_ w. (Err ''FailingDbError'', w))\<rparr>"

definition call_transfer ::
  "(mem_journal, string, unit) internals_ops \<Rightarrow> precompile_lib \<Rightarrow> mem_journal \<Rightarrow> TransferCall
     \<Rightarrow> (PrecompileError, PrecompileOutput) outcome \<times> mem_journal" where
  "call_transfer N L ctx call =
     (case tsuki L N TRANSFER of
        Some (Dynamic _ run) \<Rightarrow>
          run \<lparr>pi_data = tc_input call, pi_gas = tc_gas call, pi_caller = tc_caller call,
            pi_is_static = tc_is_static call,
            pi_is_direct_call = (tc_target_address call = tc_bytecode_address call)\<rparr> ctx
      | _ \<Rightarrow> (Panic, ctx))"

definition call_transfer_precompile ::
  "precompile_lib \<Rightarrow> mem_journal \<Rightarrow> TransferCall \<Rightarrow> (PrecompileError, PrecompileOutput) outcome \<times> mem_journal" where
  "call_transfer_precompile = call_transfer mem_internals"

definition expect_other_contains :: "(PrecompileError, PrecompileOutput) outcome \<Rightarrow> string \<Rightarrow> bool" where
  "expect_other_contains r expected = (case r of Err (PcOther msg) \<Rightarrow> contains msg expected | _ \<Rightarrow> False)"

definition direct_call_error :: string where
  "direct_call_error = ''must be called directly''"

definition reverted :: "PrecompileOutput \<Rightarrow> bool" where
  "reverted out = (case out of Reverted _ _ \<Rightarrow> True | Completed _ _ \<Rightarrow> False)"

text \<open>
  The shape most tests share: a call that returns an output, for the fixed gas, and the two balances
  afterwards. It is used in full also for tests that assert only a part of it.
\<close>

definition run_leaves ::
  "precompile_lib \<Rightarrow> mem_journal \<Rightarrow> TransferCall \<Rightarrow> bool \<Rightarrow> u256 \<Rightarrow> u256 \<Rightarrow> bool" where
  "run_leaves L ctx call undone from_balance to_balance \<longleftrightarrow>
     (case call_transfer_precompile L ctx call of
        (Ok out, ctx) \<Rightarrow> reverted out = undone \<and> gas_used_of out = GAS_COST \<and>
          mem_bal ctx FROM_ACCOUNT = from_balance \<and> mem_bal ctx TO_ACCOUNT = to_balance
      | _ \<Rightarrow> False)"

definition run_refuses :: "precompile_lib \<Rightarrow> TransferCall \<Rightarrow> string \<Rightarrow> bool" where
  "run_refuses L call expected \<longleftrightarrow>
     expect_other_contains (fst (call_transfer_precompile L (transfer_context 100 0) call)) expected"

definition call_of :: "u256 \<Rightarrow> TransferCall" where
  "call_of v = TransferCall_new (transfer_input FROM_ACCOUNT TO_ACCOUNT v)"

section \<open>The tests\<close>

definition allowed_caller_succeeds :: "precompile_lib \<Rightarrow> bool" where
  "allowed_caller_succeeds L \<longleftrightarrow> run_leaves L (transfer_context 100 7) (call_of 41) False 59 48"

definition disallowed_caller_rejected :: "precompile_lib \<Rightarrow> bool" where
  "disallowed_caller_rejected L \<longleftrightarrow>
     run_refuses L ((call_of 1)\<lparr>tc_caller := DISALLOWED_CALLER\<rparr>) ''allowed caller''"

definition delegatecall_rejected_even_with_allowed_caller :: "precompile_lib \<Rightarrow> bool" where
  "delegatecall_rejected_even_with_allowed_caller L \<longleftrightarrow>
     run_refuses L ((call_of 1)\<lparr>tc_target_address := OTHER_ACCOUNT\<rparr>) direct_call_error"

definition callcode_rejected :: "precompile_lib \<Rightarrow> bool" where
  "callcode_rejected L \<longleftrightarrow>
     run_refuses L ((call_of 1)\<lparr>tc_caller := DISALLOWED_CALLER, tc_target_address := OTHER_ACCOUNT,
       tc_bytecode_address := TRANSFER\<rparr>) direct_call_error"

definition static_call_rejected :: "precompile_lib \<Rightarrow> bool" where
  "static_call_rejected L \<longleftrightarrow> run_refuses L ((call_of 1)\<lparr>tc_is_static := True\<rparr>) ''static context''"

definition static_beats_caller :: "precompile_lib \<Rightarrow> bool" where
  "static_beats_caller L \<longleftrightarrow>
     run_refuses L ((call_of 1)\<lparr>tc_caller := DISALLOWED_CALLER, tc_is_static := True\<rparr>) ''static context''"

definition delegatecall_beats_caller :: "precompile_lib \<Rightarrow> bool" where
  "delegatecall_beats_caller L \<longleftrightarrow>
     run_refuses L ((call_of 1)\<lparr>tc_caller := DISALLOWED_CALLER, tc_target_address := OTHER_ACCOUNT\<rparr>)
       direct_call_error"

definition caller_beats_gas :: "precompile_lib \<Rightarrow> bool" where
  "caller_beats_gas L \<longleftrightarrow>
     run_refuses L ((call_of 1)\<lparr>tc_caller := DISALLOWED_CALLER, tc_gas := GAS_COST - 1\<rparr>) ''allowed caller''"

definition caller_beats_length :: "precompile_lib \<Rightarrow> bool" where
  "caller_beats_length L \<longleftrightarrow>
     run_refuses L ((TransferCall_new (replicate 95 0))\<lparr>tc_caller := DISALLOWED_CALLER\<rparr>) ''allowed caller''"

definition insufficient_gas_oog :: "precompile_lib \<Rightarrow> bool" where
  "insufficient_gas_oog L \<longleftrightarrow>
     fst (call_transfer_precompile L (transfer_context 100 0) ((call_of 1)\<lparr>tc_gas := GAS_COST - 1\<rparr>))
       = Err PcOutOfGas"

definition exact_gas_succeeds :: "precompile_lib \<Rightarrow> bool" where
  "exact_gas_succeeds L \<longleftrightarrow>
     run_leaves L (transfer_context 100 0) ((call_of 1)\<lparr>tc_gas := GAS_COST\<rparr>) False 99 1"

definition gas_used_on_success_is_fixed :: "precompile_lib \<Rightarrow> bool" where
  "gas_used_on_success_is_fixed L \<longleftrightarrow>
     run_leaves L (transfer_context 100 0) ((call_of 1)\<lparr>tc_gas := GAS_COST * 3\<rparr>) False 99 1"

definition gas_used_on_revert_is_fixed :: "precompile_lib \<Rightarrow> bool" where
  "gas_used_on_revert_is_fixed L \<longleftrightarrow> run_leaves L (transfer_context 1 0) (call_of 2) True 1 0"

definition wrong_length_short :: "precompile_lib \<Rightarrow> bool" where
  "wrong_length_short L \<longleftrightarrow> run_refuses L (TransferCall_new (replicate 95 0)) ''96 bytes''"

definition wrong_length_long :: "precompile_lib \<Rightarrow> bool" where
  "wrong_length_long L \<longleftrightarrow> run_refuses L (TransferCall_new (replicate 97 0)) ''96 bytes''"

definition empty_calldata :: "precompile_lib \<Rightarrow> bool" where
  "empty_calldata L \<longleftrightarrow> run_refuses L (TransferCall_new []) ''96 bytes''"

definition exact_96_bytes_parses :: "precompile_lib \<Rightarrow> bool" where
  "exact_96_bytes_parses L \<longleftrightarrow>
     (let input = transfer_input FROM_ACCOUNT TO_ACCOUNT 13 in
      take 20 (drop 12 input) = to_be_bytes 20 FROM_ACCOUNT \<and>
      take 20 (drop 44 input) = to_be_bytes 20 TO_ACCOUNT \<and>
      take 32 (drop 64 input) = to_be_bytes 32 (13 :: u256) \<and>
      run_leaves L (transfer_context 20 3) (TransferCall_new input) False 7 16)"

definition nonzero_from_padding_is_ignored_by_current_parser :: "precompile_lib \<Rightarrow> bool" where
  "nonzero_from_padding_is_ignored_by_current_parser L \<longleftrightarrow>
     run_leaves L (transfer_context 10 0)
       (TransferCall_new ((transfer_input FROM_ACCOUNT TO_ACCOUNT 1)[0 := 0xff])) False 9 1"

definition nonzero_to_padding_is_ignored_by_current_parser :: "precompile_lib \<Rightarrow> bool" where
  "nonzero_to_padding_is_ignored_by_current_parser L \<longleftrightarrow>
     run_leaves L (transfer_context 10 0)
       (TransferCall_new ((transfer_input FROM_ACCOUNT TO_ACCOUNT 1)[32 := 0xff])) False 9 1"

definition successful_transfer_moves_balance :: "precompile_lib \<Rightarrow> bool" where
  "successful_transfer_moves_balance L \<longleftrightarrow> run_leaves L (transfer_context 100 7) (call_of 41) False 59 48"

definition insufficient_funds_reverts :: "precompile_lib \<Rightarrow> bool" where
  "insufficient_funds_reverts L \<longleftrightarrow> run_leaves L (transfer_context 40 7) (call_of 41) True 40 7"

definition overflow_payment_returns_reverted_result :: "precompile_lib \<Rightarrow> bool" where
  "overflow_payment_returns_reverted_result L \<longleftrightarrow>
     run_leaves L (transfer_context 1 (- 1)) (call_of 1) True 1 (- 1)"

definition overflow_payment_keeps_both_balances :: "precompile_lib \<Rightarrow> bool" where
  "overflow_payment_keeps_both_balances L \<longleftrightarrow>
     run_leaves L (transfer_context 10 (- 1 - 2)) (call_of 3) True 10 (- 1 - 2)"

definition transfer_up_to_max_receiver_balance_succeeds :: "precompile_lib \<Rightarrow> bool" where
  "transfer_up_to_max_receiver_balance_succeeds L \<longleftrightarrow>
     run_leaves L (transfer_context 10 (- 1 - 3)) (call_of 3) False 7 (- 1)"

definition zero_value_transfer :: "precompile_lib \<Rightarrow> bool" where
  "zero_value_transfer L \<longleftrightarrow> run_leaves L (transfer_context 10 3) (call_of 0) False 10 3"

definition self_transfer_from_equals_to :: "precompile_lib \<Rightarrow> bool" where
  "self_transfer_from_equals_to L \<longleftrightarrow>
     run_leaves L (context_with_balances [(FROM_ACCOUNT, 10)])
       (TransferCall_new (transfer_input FROM_ACCOUNT FROM_ACCOUNT 7)) False 10 0"

definition full_balance_transfer :: "precompile_lib \<Rightarrow> bool" where
  "full_balance_transfer L \<longleftrightarrow> run_leaves L (transfer_context 10 3) (call_of 10) False 0 13"

definition db_error_is_fatal :: "precompile_lib \<Rightarrow> bool" where
  "db_error_is_fatal L \<longleftrightarrow>
     (case fst (call_transfer failing_internals L mem_empty (call_of 1)) of
        Err (PcFatal msg) \<Rightarrow> contains msg ''database error''
      | _ \<Rightarrow> False)"

definition direct_call_nonzero_msg_value_is_ignored_by_current_precompile :: "precompile_lib \<Rightarrow> bool" where
  "direct_call_nonzero_msg_value_is_ignored_by_current_precompile L \<longleftrightarrow>
     run_leaves L (transfer_context 10 0) ((call_of 2)\<lparr>tc_value := 1\<rparr>) False 8 2"

definition transfer_precompile_present_in_tsuki :: "precompile_lib \<Rightarrow> bool" where
  "transfer_precompile_present_in_tsuki L \<longleftrightarrow> tsuki L mem_internals TRANSFER \<noteq> None"

definition transfer_precompile_absent_pre_tsuki :: "precompile_lib \<Rightarrow> bool" where
  "transfer_precompile_absent_pre_tsuki L \<longleftrightarrow> galileo L TRANSFER = None"

definition transfer_address_is_0xfd :: bool where
  "transfer_address_is_0xfd \<longleftrightarrow> TRANSFER = 0xfd"

section \<open>They pass\<close>

lemma tsuki_transfer: "tsuki L N TRANSFER = Some (Dynamic TRANSFER_ID (transfer_run N))"
  by (simp add: tsuki_def tsuki_extensions_def transfer_precompile_def)

definition as_input :: "TransferCall \<Rightarrow> PrecompileInput" where
  "as_input call =
     \<lparr>pi_data = tc_input call, pi_gas = tc_gas call, pi_caller = tc_caller call,
      pi_is_static = tc_is_static call,
      pi_is_direct_call = (tc_target_address call = tc_bytecode_address call)\<rparr>"

lemma call_decided:
  "fst (call_transfer_precompile L ctx call) = transfer_verdict (as_input call) (mem_bal ctx)"
  "mem_bal (snd (call_transfer_precompile L ctx call)) =
     (if transfer_verdict (as_input call) (mem_bal ctx) = Ok (Completed 9000 [])
      then moved (mem_bal ctx) (tc_input call) else mem_bal ctx)"
proof -
  have run: "call_transfer_precompile L ctx call = transfer_run mem_internals (as_input call) ctx"
    by (simp add: call_transfer_precompile_def call_transfer_def tsuki_transfer as_input_def)
  have "pi_data (as_input call) = tc_input call" by (simp add: as_input_def)
  then show "fst (call_transfer_precompile L ctx call) = transfer_verdict (as_input call) (mem_bal ctx)"
    and "mem_bal (snd (call_transfer_precompile L ctx call)) =
     (if transfer_verdict (as_input call) (mem_bal ctx) = Ok (Completed 9000 [])
      then moved (mem_bal ctx) (tc_input call) else mem_bal ctx)"
    using transfer_decided [OF mem_transfer_live.transfer_live_axioms, of "as_input call" ctx]
    unfolding run by (metis prod.collapse)+
qed

text \<open>A call past the guards: its outcome and the balances it leaves.\<close>

lemma admitted_call:
  assumes "tc_target_address call = tc_bytecode_address call" and "tc_caller call = NATIVE_DOGE_TOKEN_ADDRESS"
    and "\<not> tc_is_static call" and "9000 \<le> tc_gas call" and "tc_input call = transfer_calldata p q from to v"
    and "length p = 12" and "length q = 12"
  shows "transfer_verdict (as_input call) b =
      (if v \<le> b from \<and> (from = to \<or> unat (b to) + unat v < 2 ^ 256) then Ok (Completed 9000 [])
       else Ok (Reverted 9000 []))"
    and "moved b (tc_input call) = (if from = to then b else b(from := b from - v, to := b to + v))"
proof -
  have gas: "\<not> tc_gas call < 9000" using assms(4) by (simp only: not_less not_False_eq_True)
  show "transfer_verdict (as_input call) b =
      (if v \<le> b from \<and> (from = to \<or> unat (b to) + unat v < 2 ^ 256) then Ok (Completed 9000 [])
       else Ok (Reverted 9000 []))"
    by (simp add: transfer_verdict_def as_input_def Let_def gas assms(1-3,5) calldata_words [OF assms(6,7)])
  show "moved b (tc_input call) = (if from = to then b else b(from := b from - v, to := b to + v))"
    by (simp add: moved_def assms(5) calldata_words [OF assms(6,7)])
qed

lemma run_leaves_admitted:
  fixes ctx :: mem_journal
  assumes "tc_target_address call = tc_bytecode_address call" and "tc_caller call = NATIVE_DOGE_TOKEN_ADDRESS"
    and "\<not> tc_is_static call" and "9000 \<le> tc_gas call" and "tc_input call = transfer_calldata p q from to v"
    and "length p = 12" and "length q = 12"
  defines "b \<equiv> mem_bal ctx"
  defines "fits \<equiv> v \<le> b from \<and> (from = to \<or> unat (b to) + unat v < 2 ^ 256)"
  defines "d \<equiv> if fits \<and> from \<noteq> to then b(from := b from - v, to := b to + v) else b"
  shows "run_leaves L ctx call undone f t \<longleftrightarrow> undone = (\<not> fits) \<and> f = d FROM_ACCOUNT \<and> t = d TO_ACCOUNT"
proof -
  obtain r w where run: "call_transfer_precompile L ctx call = (r, w)" by fastforce
  note known = call_decided [of L ctx call, unfolded run fst_conv snd_conv admitted_call [OF assms(1-7)], folded b_def]
  show ?thesis
    using known by (auto simp: run_leaves_def run reverted_def gas_used_of_def GAS_COST_def d_def fits_def)
qed

lemma input_calldata:
  "transfer_input from to v = transfer_calldata (replicate 12 0) (replicate 12 0) from to v"
  by (simp add: transfer_input_def transfer_calldata_def Let_def)

lemma padded:
  assumes "length p = 12" and "length q = 12"
  shows "(transfer_calldata p q from to v)[0 := x] = transfer_calldata (p[0 := x]) q from to v"
    and "(transfer_calldata p q from to v)[32 := x] = transfer_calldata p (q[0 := x]) from to v"
  using assms by (simp_all add: transfer_calldata_def list_update_append)

lemma accounts: "FROM_ACCOUNT \<noteq> TO_ACCOUNT" "TO_ACCOUNT \<noteq> FROM_ACCOUNT"
  by (simp_all add: FROM_ACCOUNT_def TO_ACCOUNT_def)

lemma context_balances:
  "mem_bal (transfer_context a b) = (\<lambda>_. 0)(FROM_ACCOUNT := a, TO_ACCOUNT := b)"
  "mem_bal (context_with_balances [(x, a)]) = (\<lambda>_. 0)(x := a)"
  by (auto simp: fun_eq_iff mem_bal_def m_acc_def transfer_context_def context_with_balances_def
      mem_empty_def empty_account_def accounts)

lemma call_of_leaves:
  fixes ctx :: mem_journal
  assumes "tc_input call = transfer_calldata p q FROM_ACCOUNT TO_ACCOUNT v" and "length p = 12" and "length q = 12"
    and "tc_target_address call = tc_bytecode_address call" and "tc_caller call = NATIVE_DOGE_TOKEN_ADDRESS"
    and "\<not> tc_is_static call" and "9000 \<le> tc_gas call"
  shows "run_leaves L (transfer_context a b) call undone f t \<longleftrightarrow>
    (if v \<le> a \<and> unat b + unat v < 2 ^ 256 then \<not> undone \<and> f = a - v \<and> t = b + v
     else undone \<and> f = a \<and> t = b)"
  by (subst run_leaves_admitted [OF assms(4-7,1-3)]) (auto simp: context_balances accounts)

text \<open>The tests' side conditions, on the fields of their calls.\<close>

lemma call_fields:
  "tc_caller (call_of v) = NATIVE_DOGE_TOKEN_ADDRESS" "tc_target_address (call_of v) = tc_bytecode_address (call_of v)"
  "\<not> tc_is_static (call_of v)" "tc_gas (call_of v) = GAS_COST"
  "tc_input (call_of v) = transfer_calldata (replicate 12 0) (replicate 12 0) FROM_ACCOUNT TO_ACCOUNT v"
  by (simp_all add: call_of_def TransferCall_new_def input_calldata)

lemma call_leaves:
  "run_leaves L (transfer_context a b) (call_of v) undone f t \<longleftrightarrow>
    (if unat v \<le> unat a \<and> unat b + unat v < 2 ^ 256 then \<not> undone \<and> f = a - v \<and> t = b + v
     else undone \<and> f = a \<and> t = b)"
  by (subst call_of_leaves [OF call_fields(5)]) (simp_all add: call_fields GAS_COST_def word_le_nat_alt)

lemma moves_tests:
  "allowed_caller_succeeds L" "successful_transfer_moves_balance L"
  "gas_used_on_revert_is_fixed L" "insufficient_funds_reverts L"
  "overflow_payment_returns_reverted_result L" "overflow_payment_keeps_both_balances L"
  "transfer_up_to_max_receiver_balance_succeeds L" "zero_value_transfer L" "full_balance_transfer L"
  unfolding allowed_caller_succeeds_def successful_transfer_moves_balance_def gas_used_on_revert_is_fixed_def
    insufficient_funds_reverts_def overflow_payment_returns_reverted_result_def
    overflow_payment_keeps_both_balances_def transfer_up_to_max_receiver_balance_succeeds_def
    zero_value_transfer_def full_balance_transfer_def call_leaves
  by (simp_all add: unsigned_minus_1_eq_mask mask_eq_exp_minus_1)

lemma varied_tests:
  "exact_gas_succeeds L" "gas_used_on_success_is_fixed L" "direct_call_nonzero_msg_value_is_ignored_by_current_precompile L"
  "nonzero_from_padding_is_ignored_by_current_parser L" "nonzero_to_padding_is_ignored_by_current_parser L"
  "exact_96_bytes_parses L"
proof -
  have z: "length (replicate 12 0) = 12" by simp
  note leaves = call_of_leaves [of _ "replicate 12 0" "replicate 12 0", OF _ z z]
  show "exact_gas_succeeds L"
    unfolding exact_gas_succeeds_def
    by (subst leaves [of _ 1]) (simp_all add: call_fields GAS_COST_def word_le_nat_alt)
  show "gas_used_on_success_is_fixed L"
    unfolding gas_used_on_success_is_fixed_def
    by (subst leaves [of _ 1]) (simp_all add: call_fields GAS_COST_def word_le_nat_alt)
  show "direct_call_nonzero_msg_value_is_ignored_by_current_precompile L"
    unfolding direct_call_nonzero_msg_value_is_ignored_by_current_precompile_def
    by (subst leaves [of _ 2]) (simp_all add: call_fields GAS_COST_def word_le_nat_alt)
  show "nonzero_from_padding_is_ignored_by_current_parser L"
    unfolding nonzero_from_padding_is_ignored_by_current_parser_def
    by (subst call_of_leaves [of _ "(replicate 12 0)[0 := 0xff]" "replicate 12 0" 1])
      (simp_all add: TransferCall_new_def input_calldata padded GAS_COST_def word_le_nat_alt)
  show "nonzero_to_padding_is_ignored_by_current_parser L"
    unfolding nonzero_to_padding_is_ignored_by_current_parser_def
    by (subst call_of_leaves [of _ "replicate 12 0" "(replicate 12 0)[0 := 0xff]" 1])
      (simp_all add: TransferCall_new_def input_calldata padded GAS_COST_def word_le_nat_alt)
  show "exact_96_bytes_parses L"
    unfolding exact_96_bytes_parses_def Let_def
    by (subst leaves [of _ 13])
      (simp_all add: TransferCall_new_def input_calldata GAS_COST_def word_le_nat_alt transfer_calldata_def)
qed

lemma self_test: "self_transfer_from_equals_to L"
  unfolding self_transfer_from_equals_to_def
  by (subst run_leaves_admitted [of _ "replicate 12 0" "replicate 12 0" FROM_ACCOUNT FROM_ACCOUNT 7])
    (simp_all add: TransferCall_new_def input_calldata GAS_COST_def context_balances accounts word_le_nat_alt)

lemma refused:
  "run_refuses L call expected \<longleftrightarrow>
     expect_other_contains (transfer_verdict (as_input call) (mem_bal (transfer_context 100 0))) expected"
  by (simp add: run_refuses_def call_decided)

lemma callers: "DISALLOWED_CALLER \<noteq> NATIVE_DOGE_TOKEN_ADDRESS" "OTHER_ACCOUNT \<noteq> TRANSFER"
  by (simp_all add: DISALLOWED_CALLER_def OTHER_ACCOUNT_def NATIVE_DOGE_TOKEN_ADDRESS_def address_defs)

lemma refusal_tests:
  "disallowed_caller_rejected L" "delegatecall_rejected_even_with_allowed_caller L" "callcode_rejected L"
  "static_call_rejected L" "static_beats_caller L" "delegatecall_beats_caller L" "caller_beats_gas L"
  "caller_beats_length L" "wrong_length_short L" "wrong_length_long L" "empty_calldata L"
  unfolding disallowed_caller_rejected_def delegatecall_rejected_even_with_allowed_caller_def
    callcode_rejected_def static_call_rejected_def static_beats_caller_def delegatecall_beats_caller_def
    caller_beats_gas_def caller_beats_length_def wrong_length_short_def wrong_length_long_def
    empty_calldata_def refused transfer_verdict_def
  by (simp_all add: as_input_def call_of_def TransferCall_new_def callers Let_def GAS_COST_def
      expect_other_contains_def direct_call_error_def contains_def upt_rec)

lemma insufficient_gas_test: "insufficient_gas_oog L"
  by (simp add: insufficient_gas_oog_def call_decided transfer_verdict_def as_input_def call_fields GAS_COST_def
      Let_def word_less_nat_alt)

lemma db_error_test: "db_error_is_fatal L"
proof -
  have guards: "transfer_guards (as_input (call_of 1)) = Ok ()"
    by (simp add: transfer_guards_pass as_input_def call_fields calldata_words GAS_COST_def CALL_DATA_LENGTH_def)
  have args: "transfer_args (pi_data (as_input (call_of 1))) = Ok (FROM_ACCOUNT, TO_ACCOUNT, 1)"
    by (simp add: as_input_def call_fields args_of_calldata)
  have "fst (call_transfer failing_internals L mem_empty (call_of 1)) =
      Err (db_failure failing_internals ''FailingDbError'')"
    using guards args
    by (simp add: call_transfer_def tsuki_transfer transfer_run_def bind_def accounts failing_internals_def
        as_input_def db_failure_def)
  then show ?thesis
    by (simp add: db_error_is_fatal_def db_failure_def failing_internals_def mem_internals_def contains_def upt_rec)
qed

lemma presence_tests:
  "transfer_precompile_present_in_tsuki L" "transfer_address_is_0xfd"
  "lib_addresses L \<Longrightarrow> transfer_precompile_absent_pre_tsuki L"
  subgoal by (simp add: transfer_precompile_present_in_tsuki_def tsuki_transfer)
  subgoal by (simp add: transfer_address_is_0xfd_def address_defs)
  subgoal
    by (simp add: transfer_precompile_absent_pre_tsuki_def lib_addresses_def set_defs address_defs)
  done

end
