(* ===== verification/MessageTests.thy ===== *)
theory MessageTests
  imports HandlerTests
begin

text \<open>
  Integration tests of the handler, transcribed over the model on the reference instance: the tests of
  \<open>src/tests/l1_message.rs\<close> and \<open>src/tests/fees.rs\<close> that call methods of \<open>ScrollHandler\<close>. Those
  that execute a transaction with \<open>evm.transact\<close> are in \<open>TransactTests\<close>.
\<close>

section \<open>Contexts\<close>

definition modify_cfg :: "((nat \<Rightarrow> u64) cfg_env \<Rightarrow> (nat \<Rightarrow> u64) cfg_env) \<Rightarrow> mem_ctx \<Rightarrow> mem_ctx" where
  "modify_cfg f c = c\<lparr>cfg := f (cfg c)\<rparr>"

definition modify_block :: "(block_env \<Rightarrow> block_env) \<Rightarrow> mem_ctx \<Rightarrow> mem_ctx" where
  "modify_block f c = c\<lparr>block := f (block c)\<rparr>"

definition modify_entry :: "address \<Rightarrow> (mem_account \<Rightarrow> mem_account) \<Rightarrow> mem_ctx \<Rightarrow> mem_ctx" where
  "modify_entry a f c =
     (let entry = (case m_state (journal c) a of Some x \<Rightarrow> x | None \<Rightarrow> empty_account)
      in c\<lparr>journal := m_put a (f entry) (journal c)\<rparr>)"

definition message_context :: mem_ctx where
  "message_context = modify_base (\<lambda>b. b\<lparr>base_tx_type := L1_MESSAGE_TYPE\<rparr>) context_fixture"

definition frame_of :: "mem_gas \<Rightarrow> (mem_result, mem_gas) frame_result" where
  "frame_of gas = \<lparr>fr_result = FrameOk, fr_gas = gas\<rparr>"

section \<open>L1 messages\<close>

definition test_l1_message_validate_lacking_funds :: bool where
  "test_l1_message_validate_lacking_funds \<longleftrightarrow>
     (\<exists>n. fst (pre_execution mem_handler message_context) = Ok n)"

definition test_l1_message_load_accounts :: bool where
  "test_l1_message_load_accounts \<longleftrightarrow>
     (case load_accounts mem_handler message_context of (r, evm) \<Rightarrow>
        r = Ok () \<and> l1_block_info (chain evm) = L1BlockInfo_default)"

definition test_l1_message_should_not_deduct_caller :: bool where
  "test_l1_message_should_not_deduct_caller \<longleftrightarrow>
     (case load_accounts mem_handler message_context of (r1, evm) \<Rightarrow>
      case validate_against_state_and_deduct_caller mem_handler evm of (r2, evm) \<Rightarrow>
        r1 = Ok () \<and> r2 = Ok () \<and>
        m_balance (caller_after evm CALLER) = 0 \<and> m_nonce (caller_after evm CALLER) = 1)"

definition test_l1_message_last_frame_result :: bool where
  "test_l1_message_last_frame_result \<longleftrightarrow>
     (let gas = test_gas 21000 10 10
      in case fst (last_frame_result mem_handler (frame_of gas) message_context) of
           Ok result \<Rightarrow> fr_gas result = gas\<lparr>mg_refunded := 0\<rparr>
         | _ \<Rightarrow> False)"

definition test_l1_message_should_not_refund :: bool where
  "test_l1_message_should_not_refund \<longleftrightarrow>
     (let gas = test_gas 21000 10 10
      in fr_gas (fst (Handler.refund mem_handler (frame_of gas) 0 message_context)) = gas)"

definition test_l1_message_should_not_reward_beneficiary :: bool where
  "test_l1_message_should_not_reward_beneficiary \<longleftrightarrow>
     (case load_accounts mem_handler message_context of (r1, evm) \<Rightarrow>
      case reward_beneficiary mem_handler (frame_of (test_gas 21000 21000 0)) evm of (r2, evm) \<Rightarrow>
        r1 = Ok () \<and> r2 = Ok () \<and> m_balance (caller_after evm BENEFICIARY) = 0)"

definition test_l1_message_should_pass_validation :: bool where
  "test_l1_message_should_pass_validation \<longleftrightarrow>
     (let ctx = modify_block (\<lambda>b. b\<lparr>basefee := 100\<rparr>)
            (modify_base (\<lambda>b. b\<lparr>base_value := 1, base_gas_price := 0\<rparr>) message_context)
      in validate_env mem_handler ctx = Ok () \<and> (\<exists>g. validate_initial_tx_gas mem_handler ctx = Ok g))"

definition test_l1_message_should_pass_pre_execution :: bool where
  "test_l1_message_should_pass_pre_execution \<longleftrightarrow>
     (let ctx = modify_entry CALLER (\<lambda>a. a\<lparr>m_nonce := m_nonce a + 1\<rparr>) message_context
      in \<exists>n. fst (pre_execution mem_handler ctx) = Ok n)"

definition test_l1_message_eip_3607 :: bool where
  "test_l1_message_eip_3607 \<longleftrightarrow>
     (let ctx = modify_entry CALLER
            (\<lambda>a. a\<lparr>m_code := Some \<lparr>code_is_empty = False, code_is_eip7702 = False\<rparr>\<rparr>) message_context
      in fst (pre_execution mem_handler ctx) = Err (TransactionError RejectCallerWithCode))"

section \<open>Fees\<close>

definition after_fees :: "mem_ctx \<Rightarrow> u256 \<Rightarrow> bool" where
  "after_fees ctx balance \<longleftrightarrow>
     (case pre_execution mem_handler ctx of (r, evm) \<Rightarrow>
        (\<exists>n. r = Ok n) \<and> m_balance (caller_after evm CALLER) = balance)"

definition test_should_deduct_correct_fees_bernoulli :: bool where
  "test_should_deduct_correct_fees_bernoulli \<longleftrightarrow>
     after_fees (modify_cfg (set_scroll_spec table_cfg_ops BERNOULLI) (with_funds 30000 context_fixture)) 7988"

definition test_should_deduct_correct_fees_curie :: bool where
  "test_should_deduct_correct_fees_curie \<longleftrightarrow>
     after_fees (modify_cfg (set_scroll_spec table_cfg_ops CURIE) (with_funds 70000 context_fixture)) 9000"

definition test_no_rollup_fee_for_system_tx :: bool where
  "test_no_rollup_fee_for_system_tx \<longleftrightarrow>
     after_fees (modify_base (\<lambda>b. b\<lparr>base_caller := SYSTEM_ADDRESS, base_gas_price := 0\<rparr>)
       (modify_cfg (set_scroll_spec table_cfg_ops CURIE) (with_funds 70000 context_fixture))) 70000"

definition test_reward_beneficiary_system_tx :: bool where
  "test_reward_beneficiary_system_tx \<longleftrightarrow>
     (let ctx = modify_base (\<lambda>b. b\<lparr>base_caller := SYSTEM_ADDRESS\<rparr>)
            (modify_cfg (set_scroll_spec table_cfg_ops CURIE) context_fixture)
      in case load_accounts mem_handler ctx of (r1, evm) \<Rightarrow>
         case reward_beneficiary mem_handler (frame_of (test_gas 21000 21000 0)) evm of (r2, evm) \<Rightarrow>
           r1 = Ok () \<and> r2 = Ok () \<and> m_balance (caller_after evm BENEFICIARY) = 21000)"

definition test_should_deduct_correct_fees_feynman :: bool where
  "test_should_deduct_correct_fees_feynman \<longleftrightarrow>
     (let gas_oracle =
            [(L1_BASE_FEE_SLOT, 1000000000), (L1_BLOB_BASE_FEE_SLOT, 1000000000),
             (L1_COMMIT_SCALAR_SLOT, 10), (L1_BLOB_SCALAR_SLOT, 20),
             (PENALTY_THRESHOLD_SLOT, 6000000000), (PENALTY_FACTOR_SLOT, 2000000000)];
          ctx = modify_cfg (set_scroll_spec table_cfg_ops FEYNMAN) (with_funds 70000 context_fixture);
          ctx = ctx\<lparr>tx := (tx ctx)\<lparr>tx_compression_ratio := Some 5000000000\<rparr>\<rparr>;
          ctx = with_tx_payload (replicate 100 0) (with_gas_oracle_config gas_oracle ctx)
      in after_fees ctx (70000 - 27000))"

section \<open>They pass\<close>

text \<open>What the tests of L1 messages read of their context.\<close>

lemma fixture_cfg: "cfg context_fixture = new_scroll table_cfg_ops EUCLID"
  by (simp add: fixture_defs Let_def)

lemma fixture_switches:
  "\<not> is_eip3607_disabled (new_scroll table_cfg_ops s)" "\<not> is_block_gas_limit_disabled (new_scroll table_cfg_ops s)"
  "tx_chain_id_check (new_scroll table_cfg_ops s)" "cfg_chain_id (new_scroll table_cfg_ops s) = 1"
  by (simp_all add: new_scroll_def set_scroll_spec_def table_cfg_ops_def gas_table_ops.extend_def Let_def)

lemma fixture_block:
  "block context_fixture = (block mainnet_context)\<lparr>beneficiary := BENEFICIARY\<rparr>"
  "chain context_fixture = ScrollChainContext_mainnet"
  by (simp_all add: fixture_defs Let_def)

lemma message_fresh: "fresh message_context"
  by (simp add: message_context_def fixture_fresh)

lemma message_acc:
  "a \<noteq> L1_GAS_PRICE_ORACLE_ADDRESS \<Longrightarrow> m_acc (journal message_context) a = empty_account"
  using message_fresh
  by (simp add: m_acc_def fresh_def message_context_def fixture_defs Let_def empty_account_def)

lemma message_facts:
  "is_l1_msg (tx message_context)" "\<not> is_system_tx (tx message_context)" "caller (tx message_context) = CALLER"
  "gas_limit (tx message_context) = 21000" "kind (tx message_context) = Call TO"
  "cfg message_context = new_scroll table_cfg_ops EUCLID" "cfg_spec (cfg message_context) = EUCLID"
  "chain message_context = ScrollChainContext_mainnet"
  using oracle_not_caller
  by (simp_all add: message_context_def test_tx fixture_cfg fixture_block modify_base_def)

lemmas message_simps = message_facts message_acc oracle_not_caller [symmetric]
  oracle_not_caller fixture_switches

lemma beneficiary_not_oracle: "BENEFICIARY \<noteq> L1_GAS_PRICE_ORACLE_ADDRESS"
  by (simp add: BENEFICIARY_def L1_GAS_PRICE_ORACLE_ADDRESS_def)

lemma l1_pre_execution:
  assumes "is_l1_msg (tx c)"
  shows "pre_execution mem_handler c = (case l1_msg_checks mem_handler c of
    (Ok _, e) \<Rightarrow> (Ok 0, e) | (Err x, e) \<Rightarrow> (Err x, e) | (Panic, e) \<Rightarrow> (Panic, e))"
proof -
  have "refresh_l1_block_info mem_handler c = (Ok (), c)"
    using assms by (simp add: refresh_l1_block_info_def ret_Pair)
  moreover have "validate_against_state_and_deduct_caller mem_handler c = l1_msg_checks mem_handler c"
    using assms by (simp add: validate_against_state_and_deduct_caller_def deduct_before_tsuki_v2_def
        deduct_from_tsuki_v2_def bind_def ret_Pair)
  ultimately show ?thesis by (simp add: pre_after_refresh)
qed

lemma l1_validated:
  assumes "is_l1_msg (tx c)"
  shows "validate_against_state_and_deduct_caller mem_handler c = l1_msg_checks mem_handler c"
  using assms by (simp add: validate_against_state_and_deduct_caller_def deduct_before_tsuki_v2_def
      deduct_from_tsuki_v2_def bind_def ret_Pair)

lemma l1_checks:
  "l1_msg_checks mem_handler message_context =
     (Ok (), message_context\<lparr>journal := m_put CALLER (empty_account\<lparr>m_nonce := 1\<rparr>) (journal message_context)\<rparr>)"
  by (simp add: validate_defs message_simps empty_account_def ret_Pair)

lemma l1_handler_tests:
  "test_l1_message_validate_lacking_funds" "test_l1_message_load_accounts"
  "test_l1_message_should_not_deduct_caller" "test_l1_message_last_frame_result"
  "test_l1_message_should_not_refund" "test_l1_message_should_not_reward_beneficiary"
  subgoal by (simp add: test_l1_message_validate_lacking_funds_def l1_pre_execution message_facts l1_checks)
  subgoal by (simp add: test_l1_message_load_accounts_def ret_Pair message_facts ScrollChainContext_mainnet_def)
  subgoal by (simp add: test_l1_message_should_not_deduct_caller_def ret_Pair l1_validated message_facts l1_checks
        caller_after_def m_load_def empty_account_def)
  subgoal by (simp add: test_l1_message_last_frame_result_def last_frame_result_def test_gas_def frame_of_def
        message_facts mem_handler_def mem_gas_ops_def)
  subgoal by (simp add: test_l1_message_should_not_refund_def Handler.refund_def frame_of_def message_facts Let_def)
  subgoal by (simp add: test_l1_message_should_not_reward_beneficiary_def ret_Pair reward_beneficiary_def message_simps
        caller_after_def m_load_def beneficiary_not_oracle empty_account_def)
  done

lemma entry_facts:
  "tx (modify_entry a f c) = tx c" "cfg (modify_entry a f c) = cfg c"
  "m_acc (journal (modify_entry CALLER f message_context)) CALLER = f empty_account"
  using message_fresh by (simp_all add: modify_entry_def fresh_def)

lemma entry_tests:
  "test_l1_message_should_pass_pre_execution" "test_l1_message_eip_3607"
  subgoal by (simp add: test_l1_message_should_pass_pre_execution_def l1_pre_execution entry_facts message_simps
        validate_defs empty_account_def ret_Pair)
  subgoal by (simp add: test_l1_message_eip_3607_def l1_pre_execution entry_facts message_simps
        validate_defs empty_account_def ret_Pair)
  done

lemma validation_test: "test_l1_message_should_pass_validation"
  by (simp add: test_l1_message_should_pass_validation_def validate_env_def validate_header_def
      validate_chain_id_def validate_gas_cap_def validate_tx_type_def validate_limits_def guard_err_def
      validate_initial_tx_gas_def access_list_counts_def message_context_def modify_block_def modify_base_def
      fixture_cfg fixture_block fixture_tx test_tx fixture_switches mainnet_context_def tx_chain_id_def
      mem_handler_def eip2718_type_def mem_initial_gas_def tx_input_def authorization_list_len_def access_list_def
      word_less_nat_alt spec_gates Let_def unsigned_minus_1_eq_mask mask_eq_exp_minus_1)

section \<open>Fees are deducted\<close>

lemma spec_context:
  "journal (modify_cfg f c) = journal c" "tx (modify_cfg f c) = tx c" "block (modify_cfg f c) = block c"
  "chain (modify_cfg f c) = chain c" "cfg (modify_cfg f c) = f (cfg c)"
  "fresh (modify_cfg f c) \<longleftrightarrow> fresh c"
  by (simp_all add: modify_cfg_def fresh_def)

definition plain_transfer :: "ScrollTransaction \<Rightarrow> bool" where
  "plain_transfer t \<longleftrightarrow>
     caller t = CALLER \<and> gas_limit t = 21000 \<and> gas_price t = 1 \<and> tx_value t = 0 \<and> kind t = Call TO \<and>
     \<not> is_l1_msg t \<and> \<not> is_system_tx t"

lemma fees_deducted:
  fixes c d :: mem_ctx and f fee :: u256
  assumes "refresh_l1_block_info mem_handler c = (Ok (), d)"
    and "plain_transfer (tx d)" and "\<not> TSUKI_V2 \<le> cfg_spec (cfg d)"
    and "rlp_bytes (tx d) = Some rlp"
    and "try_calculate_tx_l1_cost (l1_block_info (chain d)) rlp (cfg_spec (cfg d))
      (compression_ratio (tx d)) (compressed_size (tx d)) = Ok fee"
    and "m_acc (journal d) CALLER = empty_account\<lparr>m_balance := f\<rparr>"
    and "21000 + unat fee \<le> unat f"
  shows "after_fees c (f - 21000 - fee)"
proof -
  have cost: "tx_l1_cost d (cfg_spec (cfg d)) = (Ok fee :: (string evm_error, u256) outcome)"
    using assms(4,5) by (simp add: tx_l1_cost_def)
  have enough: "21000 \<le> unat f" "unat (f - 21000) = unat f - 21000"
    using assms(7) by (simp_all add: unat_sub word_le_nat_alt)
  then have "unat fee \<le> unat (f - 21000)" using assms(7) by simp
  then show ?thesis
    using assms(2,3,6) enough cost
    by (simp add: after_fees_def pre_after_refresh [OF assms(1)] validate_against_state_and_deduct_caller_def
        deduct_before_tsuki_v2_def bind_def plain_transfer_def mem_deduct_def mem_spending_def mem_charge_def
        is_enabled_in_le checked_add_def checked_sub_def m_decr_def m_bump_def m_load_def on_journal_def
        caller_after_def empty_account_def word_le_nat_alt word_less_nat_alt decr_caller_balance_eq ret_Pair Let_def not_less)
qed

lemma at_spec: "cfg_spec (set_scroll_spec table_cfg_ops s g) = s"
  by (simp add: set_scroll_spec_def Let_def)

lemma fixture_plain: "plain_transfer (tx context_fixture)" "rlp_bytes (tx context_fixture) = Some [1, 1, 1, 1]"
  using oracle_not_caller by (simp_all add: plain_transfer_def test_tx)

lemma fees_at:
  fixes c :: mem_ctx and fee :: u256
  assumes "fresh c" and "plain_transfer (tx c)" and "\<not> TSUKI_V2 \<le> cfg_spec (cfg c)"
    and "m_disk (journal c) CALLER = empty_account\<lparr>m_balance := f\<rparr>" and "rlp_bytes (tx c) = Some rlp"
    and "snapshot_of (map (\<lambda>k. case m_storage (m_disk (journal c) L1_GAS_PRICE_ORACLE_ADDRESS) k of
       Some s \<Rightarrow> present_value s | None \<Rightarrow> 0) (oracle_slots (cfg_spec (cfg c)))) = info"
    and "try_calculate_tx_l1_cost info rlp (cfg_spec (cfg c)) (compression_ratio (tx c))
      (compressed_size (tx c)) = Ok fee"
    and "21000 + unat fee \<le> unat f"
  shows "after_fees c (f - 21000 - fee)"
proof -
  have "fee_charged (tx c)" using assms(2) by (simp add: plain_transfer_def)
  from fees_deducted [OF refresh_fresh [OF assms(1) this], of rlp fee f] assms show ?thesis
    by (simp add: m_acc_def fresh_def empty_account_def)
qed

lemmas fee_eval = try_calculate_tx_l1_cost_def snapshot_of_def calculate_tx_l1_cost_shanghai_def
  calculate_tx_l1_cost_curie_def calculate_tx_l1_cost_feynman_def curie_blob_fee_def pre_curie_l1_gas_def
  wrapping_div_def saturating_mul_def saturating_add_def usize_len_def ZERO_BYTE_COST_def
  NON_ZERO_BYTE_COST_def TX_L1_COMMIT_EXTRA_COST_def TX_L1_FEE_PRECISION_U256_def TX_L1_FEE_PRECISION_def U64_MAX_def Let_def from_limbs_def

definition early_info :: L1BlockInfo where
  "early_info = snapshot_of [10000, 10000, 10000]"

lemma early_fee_values:
  "try_calculate_tx_l1_cost early_info [1, 1, 1, 1] BERNOULLI r z = Ok 1012"
  "try_calculate_tx_l1_cost euclid_info [1, 1, 1, 1] CURIE r z = Ok 40000"
  subgoal by (simp add: fee_eval early_info_def spec_gates)
  subgoal by (simp add: fee_eval euclid_info_def spec_gates word_less_nat_alt word_le_nat_alt)
  done

lemma early_fees:
  "test_should_deduct_correct_fees_bernoulli" "test_should_deduct_correct_fees_curie"
proof -
  have slots: "oracle_slots BERNOULLI = [1, 2, 3]" "oracle_slots CURIE = [1, 2, 3, 5, 6, 7]"
    by (simp_all add: oracle_slots_def spec_gates)
  note facts = spec_context fixture_fresh fixture_journal_simps fixture_plain at_spec slots spec_gates
    fixture_caller fixture_oracle context_oracle
  let ?c = "\<lambda>s f. modify_cfg (set_scroll_spec table_cfg_ops s) (with_funds f context_fixture)"
  have "after_fees (?c BERNOULLI 30000) (30000 - 21000 - 1012)"
    by (rule fees_at [where info = early_info]) (simp_all add: facts early_info_def,
      simp add: early_fee_values flip: early_info_def)
  then show "test_should_deduct_correct_fees_bernoulli"
    by (simp add: test_should_deduct_correct_fees_bernoulli_def)
  have "after_fees (?c CURIE 70000) (70000 - 21000 - 40000)"
    by (rule fees_at [where info = euclid_info]) (simp_all add: facts euclid_info_def,
      simp add: early_fee_values flip: euclid_info_def)
  then show "test_should_deduct_correct_fees_curie"
    by (simp add: test_should_deduct_correct_fees_curie_def)
qed

lemma oracle_config:
  "m_disk (journal (with_gas_oracle_config es c)) CALLER = m_disk (journal c) CALLER"
  "m_state (journal (with_gas_oracle_config es c)) = m_state (journal c)"
  "tx (with_gas_oracle_config es c) = tx c" "cfg (with_gas_oracle_config es c) = cfg c"
proof -
  have "foldl (\<lambda>db entry. insert_account_storage L1_GAS_PRICE_ORACLE_ADDRESS entry db) db es CALLER = db CALLER" for db
    by (induction es arbitrary: db) (use oracle_not_caller in \<open>auto simp: insert_account_storage_def\<close>)
  then show "m_disk (journal (with_gas_oracle_config es c)) CALLER = m_disk (journal c) CALLER"
    by (simp add: with_gas_oracle_config_def modify_db_def)
qed (simp_all add: with_gas_oracle_config_def modify_db_def)

lemma oracle_config_slots:
  "m_storage (m_disk (journal (with_gas_oracle_config es c)) L1_GAS_PRICE_ORACLE_ADDRESS) =
     foldl (\<lambda>m (k, v). m(k \<mapsto> \<lparr>present_value = v\<rparr>))
       (m_storage (m_disk (journal c) L1_GAS_PRICE_ORACLE_ADDRESS)) es"
proof -
  have "m_storage (foldl (\<lambda>db entry. insert_account_storage L1_GAS_PRICE_ORACLE_ADDRESS entry db) db es
      L1_GAS_PRICE_ORACLE_ADDRESS) = foldl (\<lambda>m (k, v). m(k \<mapsto> \<lparr>present_value = v\<rparr>))
        (m_storage (db L1_GAS_PRICE_ORACLE_ADDRESS)) es" for db
    by (induction es arbitrary: db) (auto simp: insert_account_storage_def)
  then show ?thesis by (simp add: with_gas_oracle_config_def modify_db_def)
qed

definition feynman_info :: L1BlockInfo where
  "feynman_info = snapshot_of [1000000000, 10000, 10000, 1000000000, 10, 20, 6000000000, 2000000000]"

lemma feynman_fee_value:
  "try_calculate_tx_l1_cost feynman_info (replicate 100 0) FEYNMAN (Some 5000000000) z = Ok 6000"
  by (simp add: fee_eval feynman_info_def spec_gates word_less_nat_alt word_le_nat_alt)

lemma feynman_fees: "test_should_deduct_correct_fees_feynman"
proof -
  have slots: "oracle_slots FEYNMAN = [1, 2, 3, 5, 6, 7, 9, 10]"
    by (simp add: oracle_slots_def spec_gates)
  define d where "d = modify_cfg (set_scroll_spec table_cfg_ops FEYNMAN) (with_funds 70000 context_fixture)"
  define c0 where "c0 = with_gas_oracle_config
      [(L1_BASE_FEE_SLOT, 1000000000), (L1_BLOB_BASE_FEE_SLOT, 1000000000),
       (L1_COMMIT_SCALAR_SLOT, 10), (L1_BLOB_SCALAR_SLOT, 20),
       (PENALTY_THRESHOLD_SLOT, 6000000000), (PENALTY_FACTOR_SLOT, 2000000000)]
      (d\<lparr>tx := (tx d)\<lparr>tx_compression_ratio := Some 5000000000\<rparr>\<rparr>)"
  define c where "c = with_tx_payload (replicate 100 0) c0"
  have d: "journal d = journal (with_funds 70000 context_fixture)" "tx d = tx context_fixture"
    "cfg_spec (cfg d) = FEYNMAN"
    by (simp_all add: d_def spec_context fixture_journal_simps at_spec)
  have c: "journal c = journal c0" "cfg c = cfg c0"
    "tx c = (tx context_fixture)\<lparr>tx_rlp_bytes := Some (replicate 100 0), tx_compression_ratio := Some 5000000000\<rparr>"
    by (simp_all add: c_def c0_def with_tx_payload_def oracle_config d)
  have c0: "fresh c0" "cfg_spec (cfg c0) = FEYNMAN"
    "m_disk (journal c0) CALLER = empty_account\<lparr>m_balance := 70000\<rparr>"
    by (simp_all add: c0_def fresh_def oracle_config d fixture_caller fixture_fresh [unfolded fresh_def])
  have "after_fees c (70000 - 21000 - 6000)"
  proof (rule fees_at [where info = feynman_info and rlp = "replicate 100 0"])
    show "fresh c" using c0 by (simp add: fresh_def c)
    show "plain_transfer (tx c)" using fixture_plain(1) by (simp add: c c0 plain_transfer_def test_tx)
    show "rlp_bytes (tx c) = Some (replicate 100 0)" by (simp add: c rlp_bytes_def)
    show "\<not> TSUKI_V2 \<le> cfg_spec (cfg c)" by (simp add: c c0 spec_gates)
    show "m_disk (journal c) CALLER = empty_account\<lparr>m_balance := 70000\<rparr>" by (simp add: c c0)
    show "try_calculate_tx_l1_cost feynman_info (replicate 100 0) (cfg_spec (cfg c))
      (compression_ratio (tx c)) (compressed_size (tx c)) = Ok 6000"
      by (simp add: c c0 compression_ratio_def feynman_fee_value)
    show "snapshot_of (map (\<lambda>k. case m_storage (m_disk (journal c) L1_GAS_PRICE_ORACLE_ADDRESS) k of
       Some s \<Rightarrow> present_value s | None \<Rightarrow> 0) (oracle_slots (cfg_spec (cfg c)))) = feynman_info"
      unfolding c c0 slots
      by (simp add: c0_def oracle_config_slots d fixture_oracle context_oracle feynman_info_def
        L1_BASE_FEE_SLOT_def L1_BLOB_BASE_FEE_SLOT_def L1_COMMIT_SCALAR_SLOT_def L1_BLOB_SCALAR_SLOT_def
        PENALTY_THRESHOLD_SLOT_def PENALTY_FACTOR_SLOT_def)
  qed simp
  then show ?thesis
    by (simp add: test_should_deduct_correct_fees_feynman_def c_def c0_def d_def Let_def)
qed

lemma system_fees: "test_no_rollup_fee_for_system_tx" 
proof -
  let ?c = "modify_base (\<lambda>b. b\<lparr>base_caller := SYSTEM_ADDRESS, base_gas_price := 0\<rparr>)
       (modify_cfg (set_scroll_spec table_cfg_ops CURIE) (with_funds 70000 context_fixture))"
  have sys: "is_system_tx (tx ?c)" "\<not> is_l1_msg (tx ?c)" "caller (tx ?c) = SYSTEM_ADDRESS"
     "gas_price (tx ?c) = 0" "tx_value (tx ?c) = 0" "kind (tx ?c) = Call TO" "gas_limit (tx ?c) = 21000"
    "cfg_spec (cfg ?c) = CURIE"
    by (simp_all add: modify_base_def modify_cfg_def at_spec test_tx)
  have disk: "m_disk (journal ?c) CALLER = empty_account\<lparr>m_balance := 70000\<rparr>" "fresh ?c"
    by (simp_all add: fixture_journal_simps fixture_fresh spec_context fixture_caller)
  have refresh: "refresh_l1_block_info mem_handler ?c = (Ok (), ?c)"
    using sys by (simp add: refresh_l1_block_info_def ret_Pair)
  show ?thesis
    using sys disk oracle_not_caller
    by (simp add: test_no_rollup_fee_for_system_tx_def after_fees_def pre_after_refresh [OF refresh] validate_defs
        deduct_before_tsuki_v2_def mem_deduct_def mem_spending_def caller_after_def fresh_def m_acc_def
        m_put_def empty_account_def Let_def ret_Pair)
qed

lemma system_reward: "test_reward_beneficiary_system_tx"
proof -
  let ?c = "modify_base (\<lambda>b. b\<lparr>base_caller := SYSTEM_ADDRESS\<rparr>)
       (modify_cfg (set_scroll_spec table_cfg_ops CURIE) context_fixture)"
  have sys: "is_system_tx (tx ?c)" "\<not> is_l1_msg (tx ?c)" "gas_price (tx ?c) = 1"
    "beneficiary (block ?c) = BENEFICIARY" "journal ?c = journal context_fixture"
    by (simp_all add: modify_base_def modify_cfg_def at_spec test_tx fixture_block)
  have "m_acc (journal message_context) BENEFICIARY = empty_account"
    by (rule message_acc [OF beneficiary_not_oracle])
  then have "m_acc (journal context_fixture) BENEFICIARY = empty_account"
    by (simp add: message_context_def modify_base_def)
  with sys show ?thesis
    by (simp add: test_reward_beneficiary_system_tx_def ret_Pair reward_beneficiary_def bind_def on_journal_def
        caller_after_def m_load_def m_incr_def frame_of_def test_gas_def mem_gas_ops_def mem_tx_ops_def
        saturating_add_def saturating_mul_def checked_add_def empty_account_def Let_def)
qed

end
