(* ===== verification/EnvTests.thy ===== *)
theory EnvTests
  imports MessageTests
begin

text \<open>
  The integration tests of admission, transcribed over the model on the reference instance:
  those tests of \<open>src/tests/validate_env.rs\<close> that do not compare with the mainnet handler, \<open>src/tests/eip7825.rs\<close> and the validation tests of \<open>src/tests/eip7623.rs\<close>,
  \<open>src/tests/eip7702.rs\<close> and \<open>src/tests/l1_message.rs\<close>. Intrinsic and floor gas of calldata are those of EIP-2028 and EIP-7623.
\<close>

section \<open>Contexts\<close>

definition context_at :: "ScrollSpecId \<Rightarrow> mem_ctx" where
  "context_at spec = modify_cfg (set_scroll_spec table_cfg_ops spec) context_fixture"

definition rejects :: "mem_ctx \<Rightarrow> InvalidTransaction \<Rightarrow> bool" where
  "rejects ctx e \<longleftrightarrow> validate_env mem_handler ctx = Err (TransactionError e)"

definition context_with_spec_and_gas_limit :: "ScrollSpecId \<Rightarrow> u64 \<Rightarrow> mem_ctx" where
  "context_with_spec_and_gas_limit spec limit =
     modify_block (\<lambda>b. b\<lparr>block_gas_limit := limit\<rparr>)
       (modify_base (\<lambda>b. b\<lparr>base_gas_limit := limit\<rparr>) (context_at spec))"

text \<open>Calldata: four tokens per nonzero byte, one per zero byte; 4 gas per token, and the floor's price.\<close>

definition eip_initial_gas :: "(nat \<Rightarrow> u64) \<Rightarrow> bytes \<Rightarrow> bool \<Rightarrow> u64 \<Rightarrow> u64 \<Rightarrow> u64 \<Rightarrow> init_gas" where
  "eip_initial_gas g input create accounts slots auths =
     (let tokens = sum_list (map (\<lambda>b. if b = 0 then 1 else 4) input)
      in \<lparr>initial_gas = (if create then 53000 else 21000) + 4 * tokens + 2400 * accounts + 1900 * slots + g 0 * auths,
          floor_gas = g 3 + g 2 * tokens\<rparr>)"

definition eip_handler ::
  "(nat \<Rightarrow> u64, mem_journal, string, mem_result, mem_gas, u64, mem_gas \<times> u64) handler_ops" where
  "eip_handler = mem_handler\<lparr>initial_tx_gas := eip_initial_gas\<rparr>"

definition LONG_CALLDATA_INTRINSIC_GAS :: u64 where
  "LONG_CALLDATA_INTRINSIC_GAS = 21428"

definition LONG_CALLDATA_FLOOR_GAS :: u64 where
  "LONG_CALLDATA_FLOOR_GAS = 22070"

definition long_calldata :: bytes where
  "long_calldata = (let w = [0x01, 0x23, 0x45, 0x67, 0x89, 0xab, 0xcd, 0xef]
     in [0, 0, 0, 0] @ w @ [0, 0, 0, 0] @ [0x12, 0x34, 0x56, 0x78, 0x9a, 0xbc, 0xde, 0xf0] @ [0, 0, 0] @ w)"

section \<open>\<open>validate_env\<close>\<close>

definition of_type :: "ScrollSpecId \<Rightarrow> u8 \<Rightarrow> (base_tx \<Rightarrow> base_tx) \<Rightarrow> mem_ctx" where
  "of_type spec ty f = modify_base (\<lambda>b. f (b\<lparr>base_tx_type := ty, base_chain_id := Some 1\<rparr>)) (context_at spec)"

definition custom_transaction_types_other_than_l1_message_are_rejected :: bool where
  "custom_transaction_types_other_than_l1_message_are_rejected \<longleftrightarrow>
     list_all (\<lambda>spec.
       list_all (\<lambda>ty. rejects (of_type spec ty id) (InvalidStr ''unsupported transaction type''))
         [5, L1_MESSAGE_TYPE - 1, L1_MESSAGE_TYPE + 1, - 1] \<and>
       validate_env mem_handler (modify_base (\<lambda>b. b\<lparr>base_tx_type := L1_MESSAGE_TYPE\<rparr>) (context_at spec)) = Ok ())
       [DARWIN, TSUKI_V2]"

definition chain_id_validation_matches_ethereum_rules :: bool where
  "chain_id_validation_matches_ethereum_rules \<longleftrightarrow>
     (let foreign = modify_base (\<lambda>b. b\<lparr>base_chain_id := Some 2\<rparr>) context_fixture in
      rejects foreign InvalidChainId \<and>
      rejects (modify_base (\<lambda>b. b\<lparr>base_tx_type := 2, base_chain_id := None\<rparr>) context_fixture) MissingChainId \<and>
      validate_env mem_handler (modify_cfg (\<lambda>g. g\<lparr>tx_chain_id_check := False\<rparr>) foreign) = Ok ())"

section \<open>The transaction gas cap\<close>

definition accepts :: "mem_ctx \<Rightarrow> bool" where
  "accepts ctx \<longleftrightarrow> validate_env mem_handler ctx = Ok () \<and> (\<exists>g. validate_initial_tx_gas mem_handler ctx = Ok g)"

definition eip7825_cap :: u64 where
  "eip7825_cap = TX_GAS_LIMIT_CAP table_cfg_ops"

definition l1_message_of :: "mem_ctx \<Rightarrow> mem_ctx" where
  "l1_message_of = modify_base (\<lambda>b. b\<lparr>base_tx_type := L1_MESSAGE_TYPE\<rparr>)"

definition tsuki_tx_above_eip7825_cap_is_rejected :: bool where
  "tsuki_tx_above_eip7825_cap_is_rejected \<longleftrightarrow>
     rejects (context_with_spec_and_gas_limit TSUKI (eip7825_cap + 1))
       (TxGasLimitGreaterThanCap (eip7825_cap + 1) eip7825_cap)"

definition tsuki_tx_at_eip7825_cap_is_accepted :: bool where
  "tsuki_tx_at_eip7825_cap_is_accepted \<longleftrightarrow> accepts (context_with_spec_and_gas_limit TSUKI eip7825_cap)"

definition pre_tsuki_tx_above_eip7825_cap_is_accepted :: bool where
  "pre_tsuki_tx_above_eip7825_cap_is_accepted \<longleftrightarrow>
     accepts (context_with_spec_and_gas_limit GALILEO (eip7825_cap + 1))"

definition tsuki_l1_message_above_eip7825_cap_is_accepted :: bool where
  "tsuki_l1_message_above_eip7825_cap_is_accepted \<longleftrightarrow>
     (let ctx = l1_message_of (context_with_spec_and_gas_limit TSUKI (eip7825_cap + 1))
      in tx_gas_limit_cap (cfg ctx) = Some eip7825_cap \<and> accepts ctx)"

definition tsuki_l1_message_still_enforces_block_gas_limit :: bool where
  "tsuki_l1_message_still_enforces_block_gas_limit \<longleftrightarrow>
     (let limit = eip7825_cap + 1;
          ctx = modify_block (\<lambda>b. b\<lparr>block_gas_limit := limit - 1\<rparr>)
            (l1_message_of (context_with_spec_and_gas_limit TSUKI limit))
      in tx_gas_limit_cap (cfg ctx) = Some eip7825_cap \<and> rejects ctx CallerGasLimitMoreThanBlock)"

definition explicit_tx_gas_limit_cap_override_is_preserved :: bool where
  "explicit_tx_gas_limit_cap_override_is_preserved \<longleftrightarrow>
     (let ctx = modify_cfg (\<lambda>g. (set_scroll_spec table_cfg_ops TSUKI g)\<lparr>tx_gas_limit_cap := Some 42\<rparr>) context_fixture;
          ctx = modify_block (\<lambda>b. b\<lparr>block_gas_limit := 43\<rparr>) (modify_base (\<lambda>b. b\<lparr>base_gas_limit := 43\<rparr>) ctx)
      in tx_gas_limit_cap (cfg ctx) = Some 42 \<and> rejects ctx (TxGasLimitGreaterThanCap 43 42))"

section \<open>Intrinsic and floor gas\<close>

definition dead_call :: "ScrollSpecId \<Rightarrow> mem_ctx" where
  "dead_call spec = modify_base (\<lambda>b. b\<lparr>base_gas_limit := 21032, base_input := [0xde, 0xad]\<rparr>) (context_at spec)"

definition test_should_not_apply_eip7623_calldata_gas_for_euclid :: bool where
  "test_should_not_apply_eip7623_calldata_gas_for_euclid \<longleftrightarrow>
     (\<exists>g. validate_initial_tx_gas eip_handler (dead_call EUCLID) = Ok g)"

definition test_should_apply_eip7623_calldata_gas_for_feynman :: bool where
  "test_should_apply_eip7623_calldata_gas_for_feynman \<longleftrightarrow>
     validate_initial_tx_gas eip_handler (dead_call FEYNMAN) =
       Err (TransactionError (GasFloorMoreThanGasLimit 21080 21032))"

definition long_call :: "u8 \<Rightarrow> u64 \<Rightarrow> mem_ctx" where
  "long_call ty limit = modify_base (\<lambda>b. b\<lparr>base_input := long_calldata, base_tx_type := ty, base_gas_limit := limit\<rparr>)
     (context_at FEYNMAN)"

definition test_long_calldata_gas :: bool where
  "test_long_calldata_gas \<longleftrightarrow>
     (case validate_initial_tx_gas eip_handler (long_call 0 30000) of
        Ok g \<Rightarrow> initial_gas g = LONG_CALLDATA_INTRINSIC_GAS \<and> floor_gas g = LONG_CALLDATA_FLOOR_GAS
      | _ \<Rightarrow> False)"

definition test_l1_message_floor_gas_above_gas_limit_fails_validation :: bool where
  "test_l1_message_floor_gas_above_gas_limit_fails_validation \<longleftrightarrow>
     LONG_CALLDATA_INTRINSIC_GAS \<le> 22000 \<and> 22000 < LONG_CALLDATA_FLOOR_GAS \<and>
     validate_initial_tx_gas eip_handler (long_call L1_MESSAGE_TYPE 22000) =
       Err (TransactionError (GasFloorMoreThanGasLimit LONG_CALLDATA_FLOOR_GAS 22000))"

definition access_list_entries_are_charged_as_intrinsic_gas :: bool where
  "access_list_entries_are_charged_as_intrinsic_gas \<longleftrightarrow>
     (let without = modify_base (\<lambda>b. b\<lparr>base_tx_type := 1, base_gas_limit := 30000\<rparr>) context_fixture;
          listed = modify_base (\<lambda>b. b\<lparr>base_access_list := Some
            [\<lparr>item_address = 1, storage_slots = [2, 3]\<rparr>, \<lparr>item_address = 4, storage_slots = []\<rparr>]\<rparr>) without
      in case (validate_initial_tx_gas eip_handler without, validate_initial_tx_gas eip_handler listed) of
           (Ok g, Ok h) \<Rightarrow> initial_gas h - initial_gas g = 2 * 2400 + 2 * 1900
         | _ \<Rightarrow> False)"

section \<open>Authorization lists\<close>

text \<open>An authorization is opaque to the handler, which only counts them.\<close>

definition test_validate_initial_gas_eip7702 :: "bytes \<Rightarrow> bool" where
  "test_validate_initial_gas_eip7702 authorization \<longleftrightarrow>
     (let cost = PER_EMPTY_ACCOUNT_COST table_ops;
          ctx = context_fixture;
          listed = modify_base (\<lambda>b. b\<lparr>base_gas_limit := base_gas_limit b + cost,
            base_authorization_list := [authorization]\<rparr>) ctx
      in case (validate_initial_tx_gas eip_handler ctx, validate_initial_tx_gas eip_handler listed) of
           (Ok g, Ok h) \<Rightarrow> initial_gas g + cost = initial_gas h
         | _ \<Rightarrow> False)"

definition test_validate_env_eip7702 :: "bytes \<Rightarrow> bool" where
  "test_validate_env_eip7702 authorization \<longleftrightarrow>
     validate_env mem_handler (modify_base
       (\<lambda>b. b\<lparr>base_tx_type := 4, base_authorization_list := [authorization]\<rparr>) context_fixture) = Ok ()"

definition eip7702_is_rejected_before_euclid_and_requires_an_authorization :: "bytes \<Rightarrow> bool" where
  "eip7702_is_rejected_before_euclid_and_requires_an_authorization authorization \<longleftrightarrow>
     rejects (modify_base (\<lambda>b. b\<lparr>base_tx_type := 4, base_authorization_list := [authorization]\<rparr>)
       (context_at DARWIN)) Eip7702NotSupported \<and>
     rejects (modify_base (\<lambda>b. b\<lparr>base_tx_type := 4\<rparr>) (context_at EUCLID)) EmptyAuthorizationList"

section \<open>They pass\<close>

lemmas env_eval = rejects_def accepts_def validate_env_def validate_header_def validate_chain_id_def
  validate_gas_cap_def validate_tx_type_def validate_limits_def validate_priority_fee_for_tx_def guard_err_def
  validate_initial_tx_gas_def access_list_counts_def count_item_def add_i32_def iter_count_def checked_add_def context_at_def of_type_def modify_block_def modify_base_def modify_cfg_def
  context_with_spec_and_gas_limit_def l1_message_of_def eip7825_cap_def
  fixture_cfg fixture_block fixture_tx test_tx fixture_switches mainnet_context_def tx_chain_id_def
  mem_handler_def eip2718_type_def mem_initial_gas_def tx_input_def authorization_list_len_def access_list_def
  max_priority_fee_per_gas_def word_less_nat_alt spec_gates Let_def unsigned_minus_1_eq_mask mask_eq_exp_minus_1

lemma table_truncate: "gas_table_ops.truncate table_cfg_ops = table_ops"
  by (simp add: table_cfg_ops_def gas_table_ops.defs)

lemma set_spec_eval:
  "set_scroll_spec table_cfg_ops s g = g\<lparr>cfg_spec := s, gas_params := new_scroll_spec table_ops s,
     tx_gas_limit_cap := (if TSUKI \<le> s \<and> tx_gas_limit_cap g = None then Some 16777216 else tx_gas_limit_cap g)\<rparr>"
  by (simp add: set_scroll_spec_def table_truncate is_enabled_in_le Let_def)
    (simp add: table_cfg_ops_def gas_table_ops.extend_def)

lemma new_scroll_eval:
  "new_scroll table_cfg_ops s =
     \<lparr>cfg_spec = s, gas_params = new_scroll_spec table_ops s,
      tx_gas_limit_cap = (if TSUKI \<le> s then Some 16777216 else None), cfg_chain_id = 1,
      tx_chain_id_check = True, is_base_fee_check_disabled = False, is_priority_fee_check_disabled = False,
      is_block_gas_limit_disabled = False, is_eip3607_disabled = False, is_eip7623_disabled = False\<rparr>"
  by (simp add: new_scroll_def set_spec_eval Let_def) (simp add: table_cfg_ops_def gas_table_ops.extend_def)

lemma cap_eval: "TX_GAS_LIMIT_CAP table_cfg_ops = 16777216"
  by (simp add: table_cfg_ops_def gas_table_ops.extend_def)

lemmas cfg_eval = set_spec_eval new_scroll_eval cap_eval
lemmas table_eval = new_scroll_spec_def table_ops_def

lemma custom_type_tests: "custom_transaction_types_other_than_l1_message_are_rejected"
  by (simp add: custom_transaction_types_other_than_l1_message_are_rejected_def env_eval cfg_eval)

lemma chain_id_tests: "chain_id_validation_matches_ethereum_rules"
  by (simp add: chain_id_validation_matches_ethereum_rules_def env_eval cfg_eval)

lemma cap_tests: "tsuki_tx_above_eip7825_cap_is_rejected" "tsuki_tx_at_eip7825_cap_is_accepted"
  "pre_tsuki_tx_above_eip7825_cap_is_accepted" "tsuki_l1_message_above_eip7825_cap_is_accepted"
  "tsuki_l1_message_still_enforces_block_gas_limit" "explicit_tx_gas_limit_cap_override_is_preserved"
  subgoal by (simp add: tsuki_tx_above_eip7825_cap_is_rejected_def env_eval cfg_eval)
  subgoal by (simp add: tsuki_tx_at_eip7825_cap_is_accepted_def env_eval cfg_eval table_eval)
  subgoal by (simp add: pre_tsuki_tx_above_eip7825_cap_is_accepted_def env_eval cfg_eval table_eval)
  subgoal by (simp add: tsuki_l1_message_above_eip7825_cap_is_accepted_def env_eval cfg_eval table_eval)
  subgoal by (simp add: tsuki_l1_message_still_enforces_block_gas_limit_def env_eval cfg_eval)
  subgoal by (simp add: explicit_tx_gas_limit_cap_override_is_preserved_def env_eval cfg_eval)
  done

lemmas initial_eval = eip_handler_def eip_initial_gas_def dead_call_def long_call_def long_calldata_def
  LONG_CALLDATA_INTRINSIC_GAS_def LONG_CALLDATA_FLOOR_GAS_def

lemma floor_tests: "test_should_not_apply_eip7623_calldata_gas_for_euclid"
  "test_should_apply_eip7623_calldata_gas_for_feynman" "test_long_calldata_gas"
  "test_l1_message_floor_gas_above_gas_limit_fails_validation"
  subgoal by (simp add: test_should_not_apply_eip7623_calldata_gas_for_euclid_def env_eval cfg_eval table_eval initial_eval)
  subgoal by (simp add: test_should_apply_eip7623_calldata_gas_for_feynman_def env_eval cfg_eval table_eval initial_eval)
  subgoal by (simp add: test_long_calldata_gas_def env_eval cfg_eval table_eval initial_eval)
  subgoal by (simp add: test_l1_message_floor_gas_above_gas_limit_fails_validation_def env_eval cfg_eval table_eval initial_eval)
  done

lemma access_list_tests: "access_list_entries_are_charged_as_intrinsic_gas"
  by (simp add: access_list_entries_are_charged_as_intrinsic_gas_def env_eval cfg_eval table_eval initial_eval)

lemma authorization_tests: "test_validate_initial_gas_eip7702 a" "test_validate_env_eip7702 a"
  "eip7702_is_rejected_before_euclid_and_requires_an_authorization a"
  subgoal by (simp add: test_validate_initial_gas_eip7702_def env_eval cfg_eval table_eval initial_eval)
  subgoal by (simp add: test_validate_env_eip7702_def env_eval cfg_eval mem_tx_ops_def)
  subgoal by (simp add: eip7702_is_rejected_before_euclid_and_requires_an_authorization_def env_eval cfg_eval mem_tx_ops_def)
  done

section \<open>The gas schedule on the reference instance\<close>

definition shanghai_intrinsic :: "bytes \<Rightarrow> bool \<Rightarrow> u64 \<Rightarrow> u64 \<Rightarrow> u64" where
  "shanghai_intrinsic input create accounts slots =
     (if create then 53000 else 21000) + 4 * sum_list (map (\<lambda>b. if b = 0 then 1 else 4) input)
       + 2400 * accounts + 1900 * slots"

lemma eip_schedule:
  "schedule_law eip_handler (gas_table_ops.truncate table_cfg_ops) shanghai_intrinsic
     (\<lambda>input. sum_list (map (\<lambda>b. if b = 0 then 1 else 4) input))"
  unfolding table_truncate
  by (simp add: schedule_law_def eip_handler_def eip_initial_gas_def shanghai_intrinsic_def table_ops_def Let_def)

theorem intrinsic_gas_schedule_witness:
  "validate_initial_tx_gas eip_handler (dead_call FEYNMAN) =
     Err (TransactionError (GasFloorMoreThanGasLimit 21080 21032)) \<and>
   validate_initial_tx_gas eip_handler (dead_call EUCLID) = Ok \<lparr>initial_gas = 21032, floor_gas = 0\<rparr>"
proof -
  have table: "gas_table (gas_table_ops.truncate table_cfg_ops)"
    unfolding table_truncate by (rule table.gas_table_axioms)
  have cfgs: "reconfigured table_cfg_ops (cfg context_fixture) ([] @ [s]) (cfg (dead_call s))" for s
    using reconfigured.set_spec [OF reconfigured.start]
    by (simp add: dead_call_def modify_base_def context_at_def modify_cfg_def)
  have facts: "access_list_fits (tx (dead_call s))" "listed (tx (dead_call s)) = []"
    "tx_input (tx (dead_call s)) = [0xde, 0xad]" "is_create (kind (tx (dead_call s))) = False"
    "authorization_list_len (tx (dead_call s)) = 0" "gas_limit (tx (dead_call s)) = 21032"
    "is_eip7623_disabled (cfg (dead_call s)) = False" for s
    by (simp_all add: access_list_fits_def listed_slots_def listed_def dead_call_def env_eval cfg_eval)
  note schedule = intrinsic_gas_schedule [OF table eip_schedule cfgs _ facts(1)]
  show ?thesis
    by (simp add: schedule facts listed_slots_def shanghai_intrinsic_def table_truncate spec_gates Let_def)
      (simp add: table_ops_def word_le_nat_alt)
qed

end
