(* ===== verification/MarketHandler.thy ===== *)
theory MarketHandler
  imports LifecycleRuns EnvTests
begin

text \<open>
  A second reference instance, with a fee market: EIP-1559 transactions pay the base fee and their tip,
  at most their fee cap, and what they must hold up front is reckoned at the cap; the mainnet deduction
  rejects senders with code (EIP-3607) and wrong nonces before it looks at funds; calls and creations
  move their value. It interprets \<open>settlement\<close>, so the contract does not rest on a price that equals the
  cap, and runs the crate's tests that execute transactions.
\<close>

section \<open>Prices\<close>

definition market_price :: "ScrollTransaction \<Rightarrow> u128 \<Rightarrow> u128" where
  "market_price t bf =
     (if tx_type t = 0 \<or> tx_type t = 1 then gas_price t
      else case max_priority_fee_per_gas t of
             None \<Rightarrow> gas_price t
           | Some tip \<Rightarrow> min (gas_price t) (saturating_add bf tip))"

definition market_tx_ops :: tx_ops where
  "market_tx_ops = mem_tx_ops\<lparr>effective_gas_price := market_price\<rparr>"

definition market_charge :: "ScrollTransaction \<Rightarrow> block_env \<Rightarrow> u256" where
  "market_charge t b = ucast (gas_limit t) * ucast (market_price t (ucast (basefee b)))"

lemma market_price_cap: "market_price t bf \<le> gas_price t"
  by (simp add: market_price_def split: option.split)

lemma market_charge_value:
  assumes "unat (gas_limit t) * unat (gas_price t) < 2 ^ 128"
  shows "unat (market_charge t b) = unat (market_price t (ucast (basefee b))) * unat (gas_limit t)"
    and "unat (market_price t (ucast (basefee b))) * unat (gas_limit t) \<le> unat (gas_limit t) * unat (gas_price t)"
proof -
  let ?p = "market_price t (ucast (basefee b))"
  show le: "unat ?p * unat (gas_limit t) \<le> unat (gas_limit t) * unat (gas_price t)"
    using market_price_cap [of t "ucast (basefee b)"]
    by (simp add: word_le_nat_alt mult.commute [of "unat ?p"])
  have "unat ?p * unat (gas_limit t) < 2 ^ 128" using le assms by (rule le_less_trans)
  then have "unat ?p * unat (gas_limit t) < 2 ^ 256" by simp
  then have "unat (gas_limit t) * unat ?p < 2 ^ 256" by (simp only: mult.commute)
  then show "unat (market_charge t b) = unat ?p * unat (gas_limit t)"
    by (simp add: market_charge_def unat_word_ariths mult.commute)
qed

section \<open>The mainnet deduction\<close>

definition has_code :: "mem_account \<Rightarrow> bool" where
  "has_code a \<longleftrightarrow> (case m_code a of Some b \<Rightarrow> \<not> code_is_empty b \<and> \<not> code_is_eip7702 b | None \<Rightarrow> False)"

definition market_deduct :: "(mem_ctx, string evm_error, unit) exec" where
  "market_deduct c =
     (let a = caller (tx c); x = m_acc (journal c) a; n = tx_nonce (tx c) in
      if \<not> is_eip3607_disabled (cfg c) \<and> has_code x then (Err (TransactionError RejectCallerWithCode), c)
      else if m_nonce x < n then (Err (TransactionError (NonceTooHigh n (m_nonce x))), c)
      else if n < m_nonce x then (Err (TransactionError (NonceTooLow n (m_nonce x))), c)
      else case mem_spending (tx c) of
        Ok m \<Rightarrow>
          if m \<le> m_balance x then
            (Ok (), c\<lparr>journal :=
               (let j = snd (m_decr a (market_charge (tx c) (block c)) (journal c))
                in if is_call (kind (tx c)) then snd (m_bump a j) else j)\<rparr>)
          else (Err (TransactionError (LackOfFundForMaxFee m (m_balance x))), c)
      | Err e \<Rightarrow> (Err (TransactionError e), c)
      | Panic \<Rightarrow> (Panic, c))"

section \<open>Frames\<close>

text \<open>A call moves its value; a creation of no code bumps the nonce and moves it to a new address.\<close>

definition created :: address where
  "created = 0xC0DE"

definition market_pay :: "address \<Rightarrow> address \<Rightarrow> u256 \<Rightarrow> mem_journal \<Rightarrow> mem_journal option" where
  "market_pay a b v j = (if a = b \<and> v \<le> m_balance (m_acc j a) then Some j else mem_pay a b v j)"

definition market_frame :: "init_gas \<Rightarrow> mem_ctx \<Rightarrow> (mem_result, mem_gas) frame_result \<times> mem_ctx" where
  "market_frame g c =
     (let l = gas_limit (tx c); a = caller (tx c);
          gas = \<lparr>mg_total = l, mg_remaining = (if initial_gas g \<le> l then l - initial_gas g else 0),
            mg_refunded = 0\<rparr>;
          paid = (case kind (tx c) of
            Create \<Rightarrow> market_pay a created (tx_value (tx c)) (snd (m_bump a (journal c)))
          | Call to \<Rightarrow> market_pay a to (tx_value (tx c)) (journal c))
      in case paid of
           None \<Rightarrow>
             (\<lparr>fr_result = (if tx_value (tx c) \<le> m_balance (m_acc (journal c) a) then FrameRevert
                 else FrameOutOfFunds), fr_gas = gas\<rparr>, c)
         | Some j \<Rightarrow> (\<lparr>fr_result = FrameOk, fr_gas = gas\<rparr>, c\<lparr>journal := j\<rparr>))"

section \<open>The handler\<close>

definition market_handler ::
  "(nat \<Rightarrow> u64, mem_journal, string, mem_result, mem_gas, u64, mem_result \<times> u64 \<times> u64) handler_ops" where
  "market_handler =
     \<lparr>jrn = mem_ops, txo = market_tx_ops, gmo = mem_gas_ops,
      ir_is_ok = ir_is_ok mem_handler, ir_is_ok_or_revert = ir_is_ok_or_revert mem_handler,
      set_floor_gas = set_floor_gas mem_handler, tx_type_of = eip2718_type,
      eth_enabled = eth_enabled mem_handler, effective_gas_limit_cap = effective_gas_limit_cap mem_handler,
      max_initcode_size = max_initcode_size mem_handler, max_blobs_per_tx = max_blobs_per_tx mem_handler,
      initial_tx_gas = eip_initial_gas,
      validate_legacy_gas_price = validate_legacy_gas_price mem_handler,
      validate_priority_fee_tx = validate_priority_fee_tx mem_handler,
      validate_eip4844_tx = validate_eip4844_tx mem_handler,
      mn_validate_against_state_and_deduct_caller = market_deduct,
      load_accounts = ret (), apply_eip7702_auth_list = ret 0,
      mn_eip7623_check_gas_floor = mn_eip7623_check_gas_floor mem_handler,
      mn_refund = (\<lambda>_. mem_refund),
      mn_reimburse_caller = (\<lambda>fr c.
        bind (on_journal (m_incr (caller (tx c))
          (ucast (market_price (tx c) (ucast (basefee (block c))))
            * ucast (mg_remaining (fr_gas fr) + mg_refunded (fr_gas fr))))) (\<lambda>_. ret fr) c),
      mn_execution_result = (\<lambda>fr rg. ret (fr_result fr, gas_used mem_gas_ops (fr_gas fr), rg))\<rparr>"

lemma market_simps [simp]:
  "jrn market_handler = mem_ops" "txo market_handler = market_tx_ops" "gmo market_handler = mem_gas_ops"
  "max_balance_spending market_tx_ops = mem_spending" "effective_gas_price market_tx_ops = market_price"
  "max_fee_per_gas market_tx_ops = gas_price"
  "tx_type_of market_handler = eip2718_type"
  "mn_validate_against_state_and_deduct_caller market_handler = market_deduct"
  "load_accounts market_handler = ret ()" "apply_eip7702_auth_list market_handler = ret 0"
  by (simp_all add: market_handler_def market_tx_ops_def mem_tx_ops_def)

lemma market_balances: "balances market_handler c = balances mem_handler c"
  by (simp add: balances_def)

lemma market_supply: "total_supply market_handler c = total_supply mem_handler c"
  by (simp add: total_supply_def market_balances)

lemma market_spending:
  assumes "mem_spending t = Ok m"
  shows "unat (gas_limit t) * unat (gas_price t) < 2 ^ 128"
    and "unat (gas_limit t) * unat (gas_price t) + unat (tx_value t) = unat m"
proof -
  show small: "unat (gas_limit t) * unat (gas_price t) < 2 ^ 128"
    using assms by (simp add: mem_spending_def split: if_splits)
  then have "unat (ucast (gas_limit t) * ucast (gas_price t) :: u256) = unat (gas_limit t) * unat (gas_price t)"
    by (simp add: unat_word_ariths)
  then show "unat (gas_limit t) * unat (gas_price t) + unat (tx_value t) = unat m"
    using assms by (auto simp: mem_spending_def exec_simps dest: checked_add_Some split: if_splits)
qed

lemma market_deduct_Ok:
  assumes "market_deduct c = (Ok (), d)"
  obtains m where "mem_spending (tx c) = Ok m" and "m \<le> balances market_handler c (caller (tx c))"
    and "unat (market_charge (tx c) (block c)) + unat (tx_value (tx c)) \<le> unat m"
    and "balances market_handler d = (balances market_handler c)
      (caller (tx c) := balances market_handler c (caller (tx c)) - market_charge (tx c) (block c))"
proof -
  let ?a = "caller (tx c)" and ?v = "market_charge (tx c) (block c)"
  from assms obtain m where m: "mem_spending (tx c) = Ok m"
    and enough: "m \<le> m_balance (m_acc (journal c) ?a)"
    and d: "d = c\<lparr>journal := (let j = snd (m_decr ?a ?v (journal c))
       in if is_call (kind (tx c)) then snd (m_bump ?a j) else j)\<rparr>"
    by (auto simp: market_deduct_def Let_def split: outcome.splits if_splits)
  note spend = market_spending [OF m]
  have within: "unat ?v + unat (tx_value (tx c)) \<le> unat m"
    using spend(2) market_charge_value [OF spend(1), of "block c"] by linarith
  then have "?v \<le> m_balance (m_acc (journal c) ?a)" using enough by (simp add: word_le_nat_alt)
  then have "acc_balance mem_ops (snd (decr_balance mem_ops ?a ?v (journal c))) =
      (acc_balance mem_ops (journal c)) (?a := acc_balance mem_ops (journal c) ?a - ?v)"
    by (intro mem.decr_balance_enough) simp
  then have "balances market_handler d = (balances market_handler c)(?a := balances market_handler c ?a - ?v)"
    using mem.bump_nonce_balance by (simp add: d balances_def Let_def fun_eq_iff)
  then show thesis using that m enough within by (simp add: balances_def)
qed

interpretation market_mainnet: mainnet_handler market_handler market_charge
proof (rule mainnet_handler.intro)
  show "Journal.journal (jrn market_handler)" using mem.journal_axioms by simp
  show "mainnet_handler_axioms market_handler market_charge"
  proof
    show "preserves env_of (mn_validate_against_state_and_deduct_caller market_handler)"
      by (auto simp: preserves_def market_deduct_def Let_def split: outcome.split)
    fix c c' :: mem_ctx and e
    assume "mn_validate_against_state_and_deduct_caller market_handler c = (Err e, c')"
    then show "balances market_handler c' = balances market_handler c"
      by (auto simp: market_deduct_def Let_def split: outcome.splits if_splits)
  next
    fix c c' :: mem_ctx
    assume "mn_validate_against_state_and_deduct_caller market_handler c = (Ok (), c')"
    then have "market_deduct c = (Ok (), c')" by simp
    then show "(\<exists>m. max_balance_spending (txo market_handler) (tx c) = Ok m \<and>
        m \<le> balances market_handler c (caller (tx c)) \<and>
        unat (market_charge (tx c) (block c)) + unat (tx_value (tx c)) \<le> unat m) \<and>
      balances market_handler c' = (balances market_handler c)
        (caller (tx c) := balances market_handler c (caller (tx c)) - market_charge (tx c) (block c))"
      by (rule market_deduct_Ok) auto
  qed auto
qed

section \<open>Settlement\<close>

lemma market_unit: "unit_price market_handler c = unat (market_price (tx c) (ucast (basefee (block c))))"
  by (simp add: unit_price_def)

lemma market_bounded: "gas_bounded market_handler l fr = gas_bounded mem_handler l fr"
  by (simp add: gas_bounded_def)

lemma market_pay_supply:
  assumes "market_pay a b v (journal c) = Some j"
  shows "total_supply market_handler (c\<lparr>journal := j\<rparr>) = total_supply market_handler c"
  using assms mem_pay_supply [of a b v c j] by (auto simp: market_pay_def market_supply split: if_splits)

lemma market_frame_frame:
  assumes "market_frame g c = (fr, d)"
  shows "env_of d = env_of c" "total_supply market_handler d = total_supply market_handler c"
    and "unat (mg_remaining (fr_gas fr)) \<le> unat (gas_limit (tx c))"
proof -
  have bumped: "total_supply market_handler (c\<lparr>journal := snd (m_bump a (journal c))\<rparr>) = total_supply market_handler c" for a
    using mem.bump_nonce_balance [of a "journal c"] by (simp add: total_supply_def balances_def)
  have "total_supply market_handler (c\<lparr>journal := j\<rparr>) = total_supply market_handler c"
    if "market_pay a b v (snd (m_bump a' (journal c))) = Some j" for a b v a' j
    using that market_pay_supply [of a b v "c\<lparr>journal := snd (m_bump a' (journal c))\<rparr>" j] bumped by simp
  then show "env_of d = env_of c" "total_supply market_handler d = total_supply market_handler c"
    and "unat (mg_remaining (fr_gas fr)) \<le> unat (gas_limit (tx c))"
    using assms market_pay_supply [of _ _ _ c]
    by (auto simp: market_frame_def Let_def unat_sub word_le_nat_alt split: TxKind.splits option.splits if_splits)
qed

lemma market_reimburses:
  assumes "mn_reimburse_caller market_handler fr c = (Ok fr', d)"
    and "gas_bounded market_handler (gas_limit (tx c)) fr"
    and "v = unit_price market_handler c * (unat (remaining (gmo market_handler) (fr_gas fr))
      + unat (refunded (gmo market_handler) (fr_gas fr)))"
    and "v < 2 ^ 128" and "unat (balances market_handler c (caller (tx c))) + v < 2 ^ 256"
  shows "balances market_handler d =
    (balances market_handler c)(caller (tx c) := balances market_handler c (caller (tx c)) + of_nat v)"
proof -
  obtain j where "m_incr (caller (tx c)) (ucast (market_price (tx c) (ucast (basefee (block c))))
      * ucast (mg_remaining (fr_gas fr) + mg_refunded (fr_gas fr))) (journal c) = (Ok () :: (string, unit) outcome, j)"
    and d: "d = c\<lparr>journal := j\<rparr>"
    using assms(1) by (auto simp: market_handler_def exec_simps m_incr_def)
  from mem_credit_gas [OF _ _ assms(4) _ this(1), of "gas_limit (tx c)"] assms(2,3,5) show ?thesis
    by (simp add: d balances_def market_unit gas_bounded_def mem_gas_ops_def)
qed

interpretation market_settlement: settlement market_handler market_charge "graph market_frame"
proof unfold_locales
  fix c d :: mem_ctx
  assume "mn_validate_against_state_and_deduct_caller market_handler c = (Ok (), d)"
  then have "market_deduct c = (Ok (), d)" by simp
  then obtain m where "mem_spending (tx c) = Ok m" by (rule market_deduct_Ok)
  from market_spending(1) [OF this]
  show "unat (market_charge (tx c) (block c)) = unit_price market_handler c * unat (gas_limit (tx c)) \<and>
      unit_price market_handler c * unat (gas_limit (tx c)) < 2 ^ 128"
    using market_charge_value [of "tx c" "block c"] unfolding market_unit by (blast intro: le_less_trans)
next
  fix m :: mem_gas
  assume "unat (remaining (gmo market_handler) m) + unat (refunded (gmo market_handler) m)
    \<le> unat (gas_total (gmo market_handler) m)"
  then show "unat (gas_used (gmo market_handler) m) = unat (gas_total (gmo market_handler) m) -
      unat (remaining (gmo market_handler) m) - unat (refunded (gmo market_handler) m)"
    using mem_settlement.used_gas by simp
next
  fix m :: mem_gas and s n
  assume "unat (remaining (gmo market_handler) m) \<le> unat (gas_total (gmo market_handler) m)"
  moreover have "mn_refund market_handler = mn_refund mem_handler"
    by (simp add: market_handler_def mem_handler_def)
  ultimately show "gas_total (gmo market_handler) (mn_refund market_handler s m n) = gas_total (gmo market_handler) m \<and>
      unat (remaining (gmo market_handler) (mn_refund market_handler s m n)) +
      unat (refunded (gmo market_handler) (mn_refund market_handler s m n)) \<le> unat (gas_total (gmo market_handler) m)"
    using mem_settlement.refund_capped by simp
next
  fix fr fr' :: "(mem_result, mem_gas) frame_result" and g l and c d :: mem_ctx
  assume "mn_eip7623_check_gas_floor market_handler fr g c = (fr', d)"
  then have "mn_eip7623_check_gas_floor mem_handler fr g c = (fr', d)" by (simp add: market_handler_def)
  from mem_settlement.floor_frame [OF this]
  show "env_of d = env_of c \<and> balances market_handler d = balances market_handler c \<and>
      (gas_bounded market_handler l fr \<longrightarrow> gas_bounded market_handler l fr')"
    by (simp add: market_balances fun_eq_iff market_bounded)
next
  fix fr fr' :: "(mem_result, mem_gas) frame_result" and c d :: mem_ctx
  assume "mn_reimburse_caller market_handler fr c = (Ok fr', d)"
  then show "env_of d = env_of c \<and> fr_gas fr' = fr_gas fr"
    by (auto simp: market_handler_def exec_simps)
next
  fix fr fr' :: "(mem_result, mem_gas) frame_result" and c d :: mem_ctx and v :: nat
  assume "mn_reimburse_caller market_handler fr c = (Ok fr', d)"
    and "gas_bounded market_handler (gas_limit (tx c)) fr"
    and "v = unit_price market_handler c * (unat (remaining (gmo market_handler) (fr_gas fr))
      + unat (refunded (gmo market_handler) (fr_gas fr)))"
    and "v < 2 ^ 128" and "unat (balances market_handler c (caller (tx c))) + v < 2 ^ 256"
  then show "balances market_handler d =
      (balances market_handler c)(caller (tx c) := balances market_handler c (caller (tx c)) + of_nat v)"
    by (rule market_reimburses)
next
  fix fr :: "(mem_result, mem_gas) frame_result" and rg r and c d :: mem_ctx
  assume "mn_execution_result market_handler fr rg c = (Ok r, d)"
  then show "env_of d = env_of c \<and> balances market_handler d = balances market_handler c"
    by (simp add: market_handler_def)
next
  fix g fr and c d :: mem_ctx
  assume "graph market_frame g c fr d"
  then have "market_frame g c = (fr, d)" by (simp add: graph_def)
  from market_frame_frame [OF this]
  show "env_of d = env_of c" "total_supply market_handler d = total_supply market_handler c"
    and "unat (remaining (gmo market_handler) (fr_gas fr)) \<le> unat (gas_limit (tx c))"
    by (simp_all add: mem_gas_ops_def)
qed (simp_all add: mem_gas_ops_def)

end
