(* ===== verification/UpfrontTests.thy ===== *)
theory UpfrontTests
  imports MessageTests
begin

text \<open>
  The integration tests of the upfront balance check (\<open>src/tests/upfront_balance.rs\<close>) that call
  \<open>pre_execution\<close> on transactions whose fee cap is the base fee, transcribed over the model on the
  reference instance: the fee of the fixture, and an L1 fee that the balance misses by one. The
  tests that execute a transaction, or rest on the nonce and code checks of the mainnet handler, are in
  \<open>TransactTests\<close>.
\<close>

section \<open>The tests\<close>

definition upfront_tx :: "ScrollSpecId \<Rightarrow> TxKind \<Rightarrow> u64 \<Rightarrow> u256 \<Rightarrow> u128 \<Rightarrow> u256 \<Rightarrow> mem_ctx" where
  "upfront_tx spec k limit balance max_fee v =
     modify_base (\<lambda>b. b\<lparr>base_tx_type := 2, base_kind := k, base_gas_limit := limit, base_gas_price := max_fee,
         base_max_priority_fee_per_gas := Some 0, base_value := v\<rparr>)
       (modify_block (\<lambda>b. b\<lparr>basefee := 1\<rparr>) (with_funds balance (context_with_spec spec)))"

definition fixture_l1_fee_is_l1_data_cost :: "ScrollSpecId \<Rightarrow> bool" where
  "fixture_l1_fee_is_l1_data_cost spec \<longleftrightarrow>
     (let ctx = context_with_spec spec
      in case fst (try_fetch_from_journal mem_ops spec (journal ctx)) of
           Ok info \<Rightarrow>
             (case rlp_bytes (tx ctx) of
                Some rlp \<Rightarrow> calculate_tx_l1_cost info rlp spec (compression_ratio (tx ctx)) (compressed_size (tx ctx))
                  = (Ok L1_DATA_COST :: (unit, u256) outcome)
              | None \<Rightarrow> False)
         | _ \<Rightarrow> False)"

definition l1_fee_shortfall :: "ScrollSpecId \<Rightarrow> TxKind \<Rightarrow> bool" where
  "l1_fee_shortfall spec k \<longleftrightarrow>
     (let limit = (if is_call k then 21000 else 53000);
          gas = ucast (limit :: u64) * 1;
          balance = gas + L1_DATA_COST - 1;
          legacy = (\<not> is_enabled_in spec TSUKI_V2);
          expected = TransactionError
            (if legacy then LackOfFundForMaxFee L1_DATA_COST (L1_DATA_COST - 1)
             else LackOfFundForMaxFee (gas + L1_DATA_COST) balance)
      in case pre_execution mem_handler (upfront_tx spec k limit balance 1 0) of (r, evm) \<Rightarrow>
           r = Err expected \<and>
           (if legacy then
              m_balance (caller_after evm CALLER) = balance - gas \<and>
              m_nonce (caller_after evm CALLER) = (if is_call k then 1 else 0)
            else
              m_balance (caller_after evm CALLER) = balance \<and> m_nonce (caller_after evm CALLER) = 0))"

section \<open>They pass\<close>

lemma galileo_fee:
  assumes "s \<in> {GALILEO, TSUKI, TSUKI_V2}"
  shows "try_calculate_tx_l1_cost spec_info [1, 1, 1, 1] s r (Some 4) = Ok 40000"
proof -
  have "try_calculate_tx_l1_cost spec_info [1, 1, 1, 1] GALILEO r (Some 4) = Ok 40000"
    by (simp add: try_calculate_tx_l1_cost_def calculate_tx_l1_cost_galileo_def snapshot_of_def
        spec_gates wrapping_div_def saturating_mul_def saturating_add_def usize_len_def spec_info_def
        TX_L1_FEE_PRECISION_U256_def TX_L1_FEE_PRECISION_def U64_MAX_def Let_def from_limbs_def
        word_less_nat_alt word_le_nat_alt)
  with assms spec_fee show ?thesis by auto
qed

lemma galileo_slots: "s \<in> {GALILEO, TSUKI, TSUKI_V2} \<Longrightarrow> oracle_slots s = [1, 2, 3, 5, 6, 7, 9, 10]"
  by (auto simp: oracle_slots_def spec_gates)

lemma fixture_snapshot:
  assumes "s \<in> {GALILEO, TSUKI, TSUKI_V2}"
  shows "snapshot_of (map (\<lambda>k. case m_storage (m_disk (journal (with_funds f (context_with_spec s))) L1_GAS_PRICE_ORACLE_ADDRESS) k of
       Some s \<Rightarrow> present_value s | None \<Rightarrow> 0) (oracle_slots s)) = spec_info"
  by (simp add: galileo_slots [OF assms] fixture_oracle context_oracle spec_info_def)

lemma fixture_fee: "s \<in> {GALILEO, TSUKI, TSUKI_V2} \<Longrightarrow> fixture_l1_fee_is_l1_data_cost s"
proof -
  assume s: "s \<in> {GALILEO, TSUKI, TSUKI_V2}"
  have "m_storage (m_disk (journal (context_with_spec s)) L1_GAS_PRICE_ORACLE_ADDRESS) =
      m_storage (m_disk (journal (with_funds 0 (context_with_spec s))) L1_GAS_PRICE_ORACLE_ADDRESS)"
    using oracle_not_caller by (simp add: with_funds_def modify_db_def)
  then have "fst (try_fetch_from_journal mem_ops s (journal (context_with_spec s))) = Ok spec_info"
    using fixture_snapshot [OF s, of 0] by (simp add: fetch_fresh fixture_fresh)
  then show ?thesis
    by (simp add: fixture_l1_fee_is_l1_data_cost_def calculate_tx_l1_cost_def test_tx galileo_fee [OF s]
        L1_DATA_COST_def from_limbs_def Let_def)
qed

lemma shortfall:
  assumes "s \<in> {GALILEO, TSUKI, TSUKI_V2}" and "k = Call TO \<or> k = Create"
  shows "l1_fee_shortfall s k"
proof -
  define limit :: u64 where "limit = (if is_call k then 21000 else 53000)"
  define c where "c = upfront_tx s k limit (ucast limit + L1_DATA_COST - 1) 1 0"
  have tx: "caller (tx c) = CALLER" "gas_limit (tx c) = limit" "tx_value (tx c) = 0" "gas_price (tx c) = 1"
    "kind (tx c) = k" "\<not> is_l1_msg (tx c)" "\<not> is_system_tx (tx c)" "cfg_spec (cfg c) = s"
    "rlp_bytes (tx c) = Some [1, 1, 1, 1]" "compressed_size (tx c) = Some 4"
    using oracle_not_caller
    by (simp_all add: c_def upfront_tx_def modify_base_def modify_block_def test_tx)
  have "journal c = journal (with_funds (ucast limit + L1_DATA_COST - 1) (context_with_spec s))"
    by (simp add: c_def upfront_tx_def modify_base_def modify_block_def)
  then have journal: "fresh c" "m_disk (journal c) CALLER = empty_account\<lparr>m_balance := ucast limit + L1_DATA_COST - 1\<rparr>"
    and refresh: "refresh_l1_block_info mem_handler c = (Ok (), c\<lparr>chain := \<lparr>l1_block_info = spec_info\<rparr>\<rparr>)"
    using fixture_fresh(2,3) tx
    by (simp_all add: fresh_def fixture_caller refresh_fresh fixture_snapshot [OF assms(1)])
  have acc: "m_acc (journal c) CALLER = empty_account\<lparr>m_balance := ucast limit + L1_DATA_COST - 1\<rparr>"
    using journal by (simp add: fresh_def m_acc_def empty_account_def)
  note fee = galileo_fee [OF assms(1)]
  have cost: "tx_l1_cost (c\<lparr>chain := \<lparr>l1_block_info = spec_info\<rparr>\<rparr>) s = (Ok 40000 :: (string evm_error, u256) outcome)"
    by (simp add: tx_l1_cost_def tx fee)
  have c: "upfront_tx s k limit (ucast limit * 1 + L1_DATA_COST - 1) 1 0 = c" by (simp add: c_def)
  have limits: "limit = 21000 \<or> limit = 53000" and call: "is_call k \<longleftrightarrow> limit = 21000"
    by (auto simp: limit_def)
  note run_defs = pre_after_refresh [OF refresh] validate_against_state_and_deduct_caller_def bind_def
    is_enabled_in_le tx cost acc m_load_def on_journal_def mem_spending_def checked_add_def L1_DATA_COST_def
    empty_account_def word_less_nat_alt ret_Pair Let_def
  show ?thesis
  proof (cases "TSUKI_V2 \<le> s")
    case True
    have "\<exists>e. pre_execution mem_handler c =
        (Err (TransactionError (LackOfFundForMaxFee (ucast limit + L1_DATA_COST) (ucast limit + L1_DATA_COST - 1))), e) \<and>
        m_acc (journal e) CALLER = empty_account\<lparr>m_balance := ucast limit + L1_DATA_COST - 1\<rparr>"
      using limits True by (auto simp: run_defs deduct_from_tsuki_v2_def tsuki_v2_check_def mem_tx_ops_def)
    with True show ?thesis
      unfolding l1_fee_shortfall_def limit_def [symmetric] Let_def c
      by (auto simp: is_enabled_in_le caller_after_def m_load_def empty_account_def)
  next
    case False
    have "\<exists>e. pre_execution mem_handler c =
        (Err (TransactionError (LackOfFundForMaxFee L1_DATA_COST (L1_DATA_COST - 1))), e) \<and>
        m_acc (journal e) CALLER = empty_account\<lparr>m_balance := L1_DATA_COST - 1, m_nonce := if is_call k then 1 else 0\<rparr>"
      using limits False by (auto simp: run_defs deduct_before_tsuki_v2_def mem_deduct_def mem_charge_def m_decr_def
          m_bump_def checked_sub_def word_le_nat_alt call)
    with False show ?thesis
      unfolding l1_fee_shortfall_def limit_def [symmetric] Let_def c
      by (auto simp: is_enabled_in_le caller_after_def m_load_def empty_account_def)
  qed
qed

end
