(* ===== verification/PlainRuns.thy ===== *)
theory PlainRuns
  imports MarketHandler UpfrontTests
begin

text \<open>
  Whole transactions on the instance with a fee market, in closed form: a call or creation over the
  oracle of the test fixture is accepted and settles to these accounts, or is rejected with this error
  and no effect. The tests of \<open>TransactTests\<close> are instances.
\<close>

section \<open>Executing a transaction\<close>

definition transact :: "mem_ctx \<Rightarrow> (string evm_error, mem_result \<times> u64 \<times> u64) outcome \<times> mem_ctx" where
  "transact ctx =
     (case tx_run market_handler market_frame floor_gas (build_scroll mem_parts ctx :: mem_evm) of
        (r, evm) \<Rightarrow> (r, evm_ctx evm))"

lemma transact_steps:
  "transact ctx =
     (case run_steps market_handler market_frame floor_gas ctx of
        (Err x, d) \<Rightarrow> (Err x, d\<lparr>journal := journal ctx\<rparr>) | (Panic, d) \<Rightarrow> (Panic, ctx) | q \<Rightarrow> q)"
  by (simp add: transact_def tx_run_def build_scroll_def ScrollEvm_new_def Let_def
      split: prod.split outcome.split)

definition state_of :: "mem_ctx \<Rightarrow> address \<Rightarrow> mem_account" where
  "state_of c a = m_acc (journal c) a"

section \<open>The stages of an upfront-balance transaction\<close>

lemma spec_fixture:
  "block (context_with_spec s) = block context_fixture"
  "cfg (context_with_spec s) = set_scroll_spec table_cfg_ops s (cfg context_fixture)"
  "chain (context_with_spec s) = chain context_fixture"
  by (simp_all add: context_with_spec_def with_gas_oracle_config_def modify_db_def Let_def)

lemma upfront_facts:
  "caller (tx (upfront_tx s k limit B m v)) = CALLER" "gas_limit (tx (upfront_tx s k limit B m v)) = limit"
  "tx_value (tx (upfront_tx s k limit B m v)) = v" "gas_price (tx (upfront_tx s k limit B m v)) = m"
  "kind (tx (upfront_tx s k limit B m v)) = k" "is_l1_msg (tx (upfront_tx s k limit B m v)) = False"
  "is_system_tx (tx (upfront_tx s k limit B m v)) = False" "cfg_spec (cfg (upfront_tx s k limit B m v)) = s"
  "rlp_bytes (tx (upfront_tx s k limit B m v)) = Some [1, 1, 1, 1]"
  "compressed_size (tx (upfront_tx s k limit B m v)) = Some 4"
  "tx_nonce (tx (upfront_tx s k limit B m v)) = 0" "tx_type (tx (upfront_tx s k limit B m v)) = 2"
  "max_priority_fee_per_gas (tx (upfront_tx s k limit B m v)) = Some 0"
  "basefee (block (upfront_tx s k limit B m v)) = 1" "tx_input (tx (upfront_tx s k limit B m v)) = []"
  "beneficiary (block (upfront_tx s k limit B m v)) = BENEFICIARY"
  "journal (upfront_tx s k limit B m v) = journal (with_funds B (context_with_spec s))"
  "is_eip3607_disabled (cfg (upfront_tx s k limit B m v)) = False"
  using oracle_not_caller
  by (simp_all add: upfront_tx_def modify_base_def modify_block_def test_tx tx_nonce_def
      max_priority_fee_per_gas_def tx_input_def spec_fixture fixture_block fixture_cfg cfg_eval)

lemma upfront_price: "1 \<le> m \<Longrightarrow> market_price (tx (upfront_tx s k limit B m v)) 1 = 1"
  by (simp add: market_price_def upfront_facts saturating_add_def min_def)

lemma market_refresh: "refresh_l1_block_info market_handler c = refresh_l1_block_info mem_handler c"
  by (simp add: refresh_l1_block_info_def)


lemma market_pre:
  assumes "refresh_l1_block_info mem_handler c = (Ok (), d)"
  shows "pre_execution market_handler c = (case validate_against_state_and_deduct_caller market_handler d of
    (Ok _, e) \<Rightarrow> (Ok 0, e) | (Err x, e) \<Rightarrow> (Err x, e) | (Panic, e) \<Rightarrow> (Panic, e))"
  by (simp add: pre_execution_def bind_def [of "refresh_l1_block_info market_handler"] market_refresh assms)
    (simp add: bind_def ret_Pair split: prod.split outcome.split)

text \<open>Admission: a fee cap of at least the base fee, the intrinsic gas of the call or creation as limit.\<close>

lemma upfront_env:
  assumes "s \<in> {GALILEO, TSUKI, TSUKI_V2}" and "1 \<le> m" and "limit = 21000 \<or> limit = 53000"
  shows "validate_env market_handler (upfront_tx s k limit B m v) = Ok ()"
proof -
  have m: "0 < unat m" using assms(2) by (simp add: word_le_nat_alt)
  show ?thesis using assms(1,3) m
    by (auto simp: env_eval cfg_eval upfront_tx_def spec_fixture market_handler_def market_tx_ops_def
      mem_tx_ops_def usize_len_def)
qed


lemma upfront_gas:
  assumes "s \<in> {GALILEO, TSUKI, TSUKI_V2}" and "k = Call TO \<and> limit = 21000 \<or> k = Create \<and> limit = 53000"
  shows "validate_initial_tx_gas market_handler (upfront_tx s k limit B m v) =
    Ok \<lparr>initial_gas = limit, floor_gas = 21000\<rparr>"
  using assms
  by (auto simp: env_eval cfg_eval table_eval initial_eval upfront_tx_def spec_fixture market_handler_def)

text \<open>
  What the runs read of such a context: a call of \<open>TO\<close> or a creation by the funded \<open>CALLER\<close>, admitted,
  at one wei per gas, with a fee cap \<open>m\<close> and a value \<open>v\<close>, over the oracle of the fixture.
\<close>

definition plain_tx :: "mem_ctx \<Rightarrow> ScrollSpecId \<Rightarrow> TxKind \<Rightarrow> u64 \<Rightarrow> u256 \<Rightarrow> u128 \<Rightarrow> u256 \<Rightarrow> bool" where
  "plain_tx c s k limit B m v \<longleftrightarrow>
     caller (tx c) = CALLER \<and> gas_limit (tx c) = limit \<and> tx_value (tx c) = v \<and> gas_price (tx c) = m \<and>
     kind (tx c) = k \<and> is_l1_msg (tx c) = False \<and> is_system_tx (tx c) = False \<and> cfg_spec (cfg c) = s \<and>
     rlp_bytes (tx c) = Some [1, 1, 1, 1] \<and> compressed_size (tx c) = Some 4 \<and> tx_nonce (tx c) = 0 \<and>
     beneficiary (block c) = BENEFICIARY \<and> is_eip3607_disabled (cfg c) = False \<and>
     journal c = journal (with_funds B (context_with_spec s)) \<and>
     market_price (tx c) (ucast (basefee (block c))) = 1 \<and>
     validate_env market_handler c = Ok () \<and>
     validate_initial_tx_gas market_handler c = Ok \<lparr>initial_gas = limit, floor_gas = 21000\<rparr>"

definition test_shape :: "ScrollSpecId \<Rightarrow> TxKind \<Rightarrow> u64 \<Rightarrow> u128 \<Rightarrow> bool" where
  "test_shape s k limit m \<longleftrightarrow> s \<in> {GALILEO, TSUKI, TSUKI_V2} \<and> 1 \<le> m \<and>
     (k = Call TO \<and> limit = 21000 \<or> k = Create \<and> limit = 53000)"

lemma upfront_plain:
  assumes "test_shape s k limit m"
  shows "plain_tx (upfront_tx s k limit B m v) s k limit B m v"
proof -
  have "s \<in> {GALILEO, TSUKI, TSUKI_V2}" "1 \<le> m"
    "k = Call TO \<and> limit = 21000 \<or> k = Create \<and> limit = 53000"
    using assms by (simp_all add: test_shape_def)
  then show ?thesis
    using upfront_env [of s m limit k B v] upfront_gas [of s k limit B m v] upfront_price [of m s k limit B v]
    by (auto simp: plain_tx_def upfront_facts)
qed

text \<open>The charge: gas at one wei and the L1 fee leave the caller, and a call bumps its nonce.\<close>

definition ready_of :: "mem_ctx \<Rightarrow> mem_ctx" where
  "ready_of c = c\<lparr>chain := \<lparr>l1_block_info = spec_info\<rparr>\<rparr>"

lemma ready_of_facts [simp]:
  "tx (ready_of c) = tx c" "cfg (ready_of c) = cfg c" "block (ready_of c) = block c"
  "journal (ready_of c) = journal c" "l1_block_info (chain (ready_of c)) = spec_info"
  by (simp_all add: ready_of_def)

lemma shape_facts:
  assumes "test_shape s k limit m"
  shows "s \<in> {GALILEO, TSUKI, TSUKI_V2}" "1 \<le> m" "limit = 21000 \<or> limit = 53000" "k = Call TO \<or> k = Create"
  using assms by (auto simp: test_shape_def)

lemma funded_acc:
  "m_acc (journal (with_funds B (context_with_spec s))) CALLER = empty_account\<lparr>m_balance := B\<rparr>"
  "a \<noteq> CALLER \<Longrightarrow> a \<noteq> L1_GAS_PRICE_ORACLE_ADDRESS \<Longrightarrow>
     m_acc (journal (with_funds B (context_with_spec s))) a = empty_account"
proof -
  have f: "m_state (journal (with_funds B (context_with_spec s))) = (\<lambda>_. None)"
    using fixture_fresh(2,3) by (simp add: fresh_def)
  then show "m_acc (journal (with_funds B (context_with_spec s))) CALLER = empty_account\<lparr>m_balance := B\<rparr>"
    by (simp add: m_acc_def fixture_caller empty_account_def)
  show "m_acc (journal (with_funds B (context_with_spec s))) a = empty_account"
    if "a \<noteq> CALLER" "a \<noteq> L1_GAS_PRICE_ORACLE_ADDRESS"
    using f that by (simp add: m_acc_def fixture_defs Let_def empty_account_def)
qed

definition charged_account :: "TxKind \<Rightarrow> u64 \<Rightarrow> u256 \<Rightarrow> mem_account" where
  "charged_account k limit B =
     empty_account\<lparr>m_balance := B - ucast limit - 40000, m_nonce := (if is_call k then 1 else 0)\<rparr>"

lemma plain_refresh:
  assumes P: "plain_tx c s k limit B m v" and sh: "test_shape s k limit m"
  shows "refresh_l1_block_info mem_handler c = (Ok (), ready_of c)"
  using fixture_fresh(2,3)
  by (simp add: refresh_fresh fresh_def P [unfolded plain_tx_def] fixture_snapshot [OF shape_facts(1) [OF sh]]
      ready_of_def)

lemma plain_cost:
  assumes P: "plain_tx c s k limit B m v" and sh: "test_shape s k limit m"
  shows "tx_l1_cost (ready_of c) s = (Ok 40000 :: (string evm_error, u256) outcome)"
  by (simp add: tx_l1_cost_def P [unfolded plain_tx_def] galileo_fee [OF shape_facts(1) [OF sh]])

text \<open>What the transaction may spend, as a number.\<close>

lemma plain_spending:
  assumes P: "plain_tx c s k limit B m v"
    and small: "unat limit * unat m < 2 ^ 128" and size: "unat limit * unat m + unat v < 2 ^ 256"
  shows "mem_spending (tx c) = Ok (ucast limit * ucast m + v)"
    and "unat (ucast limit * ucast m + v) = unat limit * unat m + unat v"
proof -
  have p: "unat (ucast limit * ucast m :: u256) = unat limit * unat m"
    using small by (simp add: unat_word_ariths)
  then show "mem_spending (tx c) = Ok (ucast limit * ucast m + v)"
    using small size by (simp add: mem_spending_def P [unfolded plain_tx_def] checked_add_def)
  show "unat (ucast limit * ucast m + v) = unat limit * unat m + unat v"
    using size by (simp add: unat_word_ariths p)
qed

lemma plain_required:
  assumes "plain_tx c s k limit B m v"
    and "unat limit * unat m < 2 ^ 128" and "unat limit * unat m + unat v + 40000 < 2 ^ 256"
  shows "checked_add (ucast limit * ucast m + v) 40000 = Some (ucast limit * ucast m + v + 40000)"
    and "unat (ucast limit * ucast m + v + 40000) = unat limit * unat m + unat v + 40000"
proof -
  have sum: "unat (ucast limit * ucast m + v) = unat limit * unat m + unat v"
    using assms(3) by (intro plain_spending(2) [OF assms(1,2)]) simp
  then show "checked_add (ucast limit * ucast m + v) 40000 = Some (ucast limit * ucast m + v + 40000)"
    using assms(3) by (simp add: checked_add_def)
  show "unat (ucast limit * ucast m + v + 40000) = unat limit * unat m + unat v + 40000"
    using assms(3) by (simp only: unat_word_ariths sum) simp
qed

lemma plain_deducts:
  assumes P: "plain_tx c s k limit B m v" and "1 \<le> m"
    and "m_acc j CALLER = empty_account\<lparr>m_balance := B\<rparr>"
    and "unat limit * unat m < 2 ^ 128" and "unat limit * unat m + unat v \<le> unat B"
  shows "market_deduct ((ready_of c)\<lparr>journal := j\<rparr>) =
    (Ok (), (ready_of c)\<lparr>journal := m_put CALLER
      (empty_account\<lparr>m_balance := B - ucast limit, m_nonce := (if is_call k then 1 else 0)\<rparr>) j\<rparr>)"
proof -
  note facts = P [unfolded plain_tx_def]
  have size: "unat limit * unat m + unat v < 2 ^ 256"
    using assms(5) unsigned_less [of B, where ?'a = nat] by simp
  note spending = plain_spending [OF P assms(4) size]
  have le: "ucast limit * ucast m + v \<le> B" using assms(5) spending(2) by (simp add: word_le_nat_alt)
  have "unat limit \<le> unat limit * unat m" using assms(2) by (simp add: word_le_nat_alt)
  then have "unat limit \<le> unat B" using assms(5) by linarith
  then have covered: "ucast limit \<le> B" by (simp add: word_le_nat_alt)
  show ?thesis
    using assms(3) le covered
    by (simp add: market_deduct_def facts has_code_def empty_account_def spending(1)
        market_charge_def m_decr_def checked_sub_def m_bump_def checked_add_def Let_def)
qed

lemma plain_pre:
  assumes P: "plain_tx c s k limit B m v" and sh: "test_shape s k limit m"
    and small: "unat limit * unat m < 2 ^ 128" and funds: "unat limit * unat m + unat v \<le> unat B"
    and fee: "unat limit + 40000 \<le> unat B"
    and total: "TSUKI_V2 \<le> s \<Longrightarrow> unat limit * unat m + unat v + 40000 \<le> unat B"
  shows "pre_execution market_handler c =
    (Ok 0, (ready_of c)\<lparr>journal := m_put CALLER (charged_account k limit B) (journal c)\<rparr>)"
proof -
  let ?r = "ready_of c" and ?j = "journal (with_funds B (context_with_spec s))"
  note facts = P [unfolded plain_tx_def] and cost = plain_cost [OF P sh]
  note deducts = plain_deducts [OF P shape_facts(2) [OF sh] _ small funds]
  have left: "unat (B - ucast limit) = unat B - unat limit"
    using fee by (simp add: unat_sub word_le_nat_alt)
  then have enough: "40000 \<le> unat (B - ucast limit)" "40000 \<le> B - ucast limit"
    using fee by (simp_all add: word_le_nat_alt)
  show ?thesis
  proof (cases "TSUKI_V2 \<le> s")
    case False
    have r: "?r = ?r\<lparr>journal := ?j\<rparr>" by (simp add: ready_of_def facts)
    have "market_deduct ?r = (Ok (), ?r\<lparr>journal := m_put CALLER
      (empty_account\<lparr>m_balance := B - ucast limit, m_nonce := (if is_call k then 1 else 0)\<rparr>) ?j\<rparr>)"
      by (subst r) (rule deducts [OF funded_acc(1)])
    then show ?thesis
      using False enough
      by (simp add: market_pre [OF plain_refresh [OF P sh]] validate_against_state_and_deduct_caller_def
        deduct_before_tsuki_v2_def bind_def is_enabled_in_le facts cost m_load_def
        on_journal_def decr_caller_balance_eq m_decr_def checked_sub_def charged_account_def
        empty_account_def word_less_nat_alt ret_Pair Let_def)
  next
    case True
    note covers = total [OF this]
    have size: "unat limit * unat m + unat v + 40000 < 2 ^ 256"
      using covers unsigned_less [of B, where ?'a = nat] by simp
    then have spending: "mem_spending (tx c) = Ok (ucast limit * ucast m + v)"
      by (intro plain_spending(1) [OF P small]) simp
    note req = plain_required [OF P small size]
    have no: "\<not> B < ucast limit * ucast m + v + 40000" using covers req(2) by (simp add: word_less_nat_alt)
    have deducted: "market_deduct (?r\<lparr>journal := m_put CALLER
          \<lparr>m_balance = B, m_nonce = 0, m_code = None, m_storage = (\<lambda>_. None)\<rparr> ?j\<rparr>) =
        (Ok (), ?r\<lparr>journal := m_put CALLER \<lparr>m_balance = B - ucast limit,
          m_nonce = (if is_call k then 1 else 0), m_code = None, m_storage = (\<lambda>_. None)\<rparr> ?j\<rparr>)"
      by (subst deducts) (simp_all add: empty_account_def)
    show ?thesis
      using True enough no
      by (simp add: market_pre [OF plain_refresh [OF P sh]] validate_against_state_and_deduct_caller_def
        deduct_from_tsuki_v2_def tsuki_v2_check_def bind_def is_enabled_in_le facts cost
        m_load_def on_journal_def spending req(1) deducted funded_acc(1) decr_caller_balance_eq
        m_decr_def checked_sub_def charged_account_def empty_account_def ret_Pair Let_def)
  qed
qed

text \<open>The frames: the value moves to the callee or the created account, or the frame reverts.\<close>

definition spent :: "u64 \<Rightarrow> mem_result \<Rightarrow> (mem_result, mem_gas) frame_result" where
  "spent limit res = \<lparr>fr_result = res, fr_gas = \<lparr>mg_total = limit, mg_remaining = 0, mg_refunded = 0\<rparr>\<rparr>"

definition target :: "TxKind \<Rightarrow> address" where
  "target k = (case k of Call a \<Rightarrow> a | Create \<Rightarrow> created)"

lemma test_addresses:
  "TO \<noteq> CALLER" "created \<noteq> CALLER" "BENEFICIARY \<noteq> CALLER" "TO \<noteq> BENEFICIARY" "created \<noteq> BENEFICIARY"
  "TO \<noteq> L1_GAS_PRICE_ORACLE_ADDRESS" "created \<noteq> L1_GAS_PRICE_ORACLE_ADDRESS"
  by (simp_all add: TO_def created_def BENEFICIARY_def CALLER_def L1_GAS_PRICE_ORACLE_ADDRESS_def)

lemma plain_frame:
  assumes P: "plain_tx c s k limit B m v" and sh: "test_shape s k limit m"
    and "m_acc j CALLER = charged_account k limit B" and "m_acc j (target k) = empty_account"
    and d: "d = (ready_of c)\<lparr>journal := j\<rparr>"
  shows "market_frame \<lparr>initial_gas = limit, floor_gas = 21000\<rparr> d =
    (if v \<le> B - ucast limit - 40000 then
       (spent limit FrameOk, d\<lparr>journal := m_put (target k) (empty_account\<lparr>m_balance := v\<rparr>)
          (m_put CALLER (empty_account\<lparr>m_balance := B - ucast limit - 40000 - v, m_nonce := 1\<rparr>) j)\<rparr>)
     else (spent limit FrameOutOfFunds, d))"
proof -
  have v: "unat v < 2 ^ 256" using unsigned_less [of v, where ?'a = nat] by simp
  show ?thesis
    using shape_facts(4) [OF sh] assms(3,4) v test_addresses
    by (elim disjE) (simp_all add: d market_frame_def P [unfolded plain_tx_def] market_pay_def mem_pay_def m_bump_def
      checked_add_def charged_account_def empty_account_def target_def spent_def Let_def)
qed

text \<open>Settlement: nothing to refund or reimburse, the beneficiary is paid the gas and the L1 fee.\<close>

lemma market_fields:
  "mn_refund market_handler = (\<lambda>_. mem_refund)"
  "mn_eip7623_check_gas_floor market_handler = (\<lambda>fr i c. (fr\<lparr>fr_gas := mem_floor i (fr_gas fr)\<rparr>, c))"
  "mn_reimburse_caller market_handler = (\<lambda>fr c.
     bind (on_journal (m_incr (caller (tx c))
       (ucast (market_price (tx c) (ucast (basefee (block c))))
         * ucast (mg_remaining (fr_gas fr) + mg_refunded (fr_gas fr))))) (\<lambda>_. ret fr) c)"
  "mn_execution_result market_handler = (\<lambda>fr rg. ret (fr_result fr, gas_used mem_gas_ops (fr_gas fr), rg))"
  "ir_is_ok market_handler = (\<lambda>r. r = FrameOk)" "ir_is_ok_or_revert market_handler = (\<lambda>r. r \<noteq> FrameHalt)"
  by (simp_all add: market_handler_def mem_handler_def)

lemma plain_tail:
  fixes d :: mem_ctx
  assumes P: "plain_tx c s k limit B m v" and sh: "test_shape s k limit m"
    and d: "d = (ready_of c)\<lparr>journal := j\<rparr>" and "m_acc j BENEFICIARY = empty_account"
  shows "run_from market_handler market_frame floor_gas
      (Executed \<lparr>initial_gas = limit, floor_gas = 21000\<rparr> 0 (spent limit res)) d =
    (Ok (res, limit, 21000), d\<lparr>journal := m_put BENEFICIARY (empty_account\<lparr>m_balance := ucast limit + 40000\<rparr>)
      (m_put CALLER (m_acc j CALLER) j)\<rparr>)"
proof -
  let ?fr = "spent limit res"
  note facts = P [unfolded plain_tx_def] and limit = shape_facts(3) [OF sh]
  have refunds: "Handler.refund market_handler ?fr 0 d = (?fr, d)"
    using limit by (auto simp: Handler.refund_def d facts market_fields spent_def mem_refund_def)
  have floors: "eip7623_check_gas_floor market_handler ?fr \<lparr>initial_gas = limit, floor_gas = 21000\<rparr> d = (?fr, d)"
    using limit by (auto simp: eip7623_check_gas_floor_def d facts market_fields spent_def mem_floor_def)
  have reimburses: "reimburse_caller market_handler ?fr d =
      (Ok ?fr, d\<lparr>journal := m_put CALLER (m_acc j CALLER) j\<rparr>)"
    by (simp add: reimburse_caller_def d facts market_fields spent_def bind_def on_journal_def
        m_incr_def checked_add_def ret_Pair)
  have used: "gas_used mem_gas_ops (fr_gas ?fr) = limit" by (simp add: spent_def mem_gas_ops_def)
  have room: "checked_add 0 (ucast limit + 40000 :: u256) = Some (ucast limit + 40000)"
    and pays: "saturating_add (saturating_mul 1 (ucast limit)) 40000 = (ucast limit + 40000 :: u256)"
    using limit by (auto simp: checked_add_def saturating_add_def saturating_mul_def)
  have rewards: "reward_beneficiary market_handler ?fr (d\<lparr>journal := m_put CALLER (m_acc j CALLER) j\<rparr>) =
      (Ok (), d\<lparr>journal := m_put BENEFICIARY (empty_account\<lparr>m_balance := ucast limit + 40000\<rparr>)
        (m_put CALLER (m_acc j CALLER) j)\<rparr>)"
    using assms(4) test_addresses room
    by (simp add: reward_beneficiary_def d facts plain_cost [OF P sh] bind_def
        on_journal_def used pays m_incr_def empty_account_def ret_Pair Let_def)
  have result: "execution_result market_handler ?fr r (d\<lparr>journal := i\<rparr>) = (Ok (res, limit, r), d\<lparr>journal := i\<rparr>)" for r i
    by (simp add: execution_result_def market_fields used d facts ret_Pair Let_def) (simp add: spent_def)
  show ?thesis
    by (simp add: run_from.simps bind_def always_def refunds floors reimburses rewards result)
qed

text \<open>Accepted: the closed form of the whole run.\<close>

lemma plain_transact:
  assumes P: "plain_tx c s k limit B m v" and sh: "test_shape s k limit m"
    and small: "unat limit * unat m < 2 ^ 128" and funds: "unat limit * unat m + unat v \<le> unat B"
    and fee: "unat limit + 40000 \<le> unat B"
    and total: "TSUKI_V2 \<le> s \<Longrightarrow> unat limit * unat m + unat v + 40000 \<le> unat B"
  shows "\<exists>d. transact c = (Ok (if v \<le> B - ucast limit - 40000 then FrameOk else FrameOutOfFunds, limit, 21000), d) \<and>
    state_of d CALLER = (if v \<le> B - ucast limit - 40000
      then empty_account\<lparr>m_balance := B - ucast limit - 40000 - v, m_nonce := 1\<rparr>
      else charged_account k limit B) \<and>
    m_balance (state_of d (target k)) = (if v \<le> B - ucast limit - 40000 then v else 0)"
proof -
  let ?r = "ready_of c" and ?g = "\<lparr>initial_gas = limit, floor_gas = 21000\<rparr>"
  note facts = P [unfolded plain_tx_def]
  define j where "j = m_put CALLER (charged_account k limit B) (journal c)"
  have tgt: "target k \<noteq> CALLER" "target k \<noteq> BENEFICIARY" "target k \<noteq> L1_GAS_PRICE_ORACLE_ADDRESS"
    using shape_facts(4) [OF sh] test_addresses by (auto simp: target_def)
  have j: "m_acc j CALLER = charged_account k limit B" "m_acc j (target k) = empty_account"
    "m_acc j BENEFICIARY = empty_account"
    using tgt test_addresses beneficiary_not_oracle by (simp_all add: j_def facts funded_acc(2))
  note pre = plain_pre [OF P sh small funds fee total, folded j_def]
  note frame = plain_frame [OF P sh j(1,2) refl]
  have last: "last_frame_result market_handler (spent limit res) (?r\<lparr>journal := i\<rparr>) =
      (Ok (spent limit res), ?r\<lparr>journal := i\<rparr>)" for res i
    by (simp add: last_frame_result_def facts market_fields spent_def mem_gas_ops_def Let_def)
  note head = transact_steps run_steps_def run_from.simps(1-3) bind_def lift_def always_def facts pre frame last
  show ?thesis
  proof (cases "v \<le> B - ucast limit - 40000")
    case True
    let ?i = "m_put (target k) (empty_account\<lparr>m_balance := v\<rparr>)
          (m_put CALLER (empty_account\<lparr>m_balance := B - ucast limit - 40000 - v, m_nonce := 1\<rparr>) j)"
    have b: "m_acc ?i BENEFICIARY = empty_account" using j(3) tgt test_addresses by simp
    have "transact c = (Ok (FrameOk, limit, 21000), ?r\<lparr>journal := m_put BENEFICIARY
        (empty_account\<lparr>m_balance := ucast limit + 40000\<rparr>) (m_put CALLER (m_acc ?i CALLER) ?i)\<rparr>)"
      using True plain_tail [OF P sh refl b] by (simp add: head)
    then show ?thesis using True tgt test_addresses by (simp add: state_of_def)
  next
    case False
    have "transact c = (Ok (FrameOutOfFunds, limit, 21000), ?r\<lparr>journal := m_put BENEFICIARY
        (empty_account\<lparr>m_balance := ucast limit + 40000\<rparr>) (m_put CALLER (m_acc j CALLER) j)\<rparr>)"
      using False plain_tail [OF P sh refl j(3)] by (simp add: head)
    then show ?thesis using False tgt test_addresses j by (simp add: state_of_def empty_account_def)
  qed
qed

text \<open>Rejected in \<open>pre_execution\<close>: the error is the answer, and the journal is as it was.\<close>

lemma plain_rejected:
  assumes P: "plain_tx c s k limit B m v" and "fst (pre_execution market_handler c) = Err e"
  shows "\<exists>d. transact c = (Err e, d) \<and> caller_after d CALLER = empty_account\<lparr>m_balance := B\<rparr>"
proof -
  note facts = P [unfolded plain_tx_def]
  obtain d where "pre_execution market_handler c = (Err e, d)"
    using assms(2) by (metis prod.collapse)
  then have "transact c = (Err e, d\<lparr>journal := journal c\<rparr>)"
    by (simp add: transact_steps run_steps_def run_from.simps(1,2) bind_def lift_def facts)
  then show ?thesis by (simp add: caller_after_def m_load_def facts funded_acc)
qed

lemma plain_short:
  assumes P: "plain_tx c s k limit B m v" and sh: "test_shape s k limit m"
    and small: "unat limit * unat m < 2 ^ 128" and size: "unat limit * unat m + unat v + 40000 < 2 ^ 256"
    and short: "unat B < unat limit * unat m + unat v + (if TSUKI_V2 \<le> s then 40000 else 0)"
  shows "fst (pre_execution market_handler c) =
    Err (TransactionError (LackOfFundForMaxFee
      (ucast limit * ucast m + v + (if TSUKI_V2 \<le> s then 40000 else 0)) B))"
proof -
  note facts = P [unfolded plain_tx_def]
  have size': "unat limit * unat m + unat v < 2 ^ 256" using size by simp
  note spending = plain_spending [OF P small size'] and req = plain_required [OF P small size]
  show ?thesis
  proof (cases "TSUKI_V2 \<le> s")
    case True
    then have less: "B < ucast limit * ucast m + v + 40000" using short req(2) by (simp add: word_less_nat_alt)
    show ?thesis
      using True less
      by (simp add: market_pre [OF plain_refresh [OF P sh]] validate_against_state_and_deduct_caller_def
        deduct_from_tsuki_v2_def tsuki_v2_check_def bind_def is_enabled_in_le facts plain_cost [OF P sh]
        m_load_def on_journal_def spending(1) req(1) funded_acc(1) empty_account_def Let_def)
  next
    case False
    then have less: "\<not> ucast limit * ucast m + v \<le> B" using short spending(2) by (simp add: word_le_nat_alt)
    show ?thesis
      using False less
      by (simp add: market_pre [OF plain_refresh [OF P sh]] validate_against_state_and_deduct_caller_def
        deduct_before_tsuki_v2_def market_deduct_def has_code_def bind_def is_enabled_in_le facts
        spending(1) funded_acc(1) empty_account_def Let_def)
  qed
qed


text \<open>Before TsukiV2 the L1 fee is missed only after the mainnet deduction.\<close>

lemma plain_fee_short:
  assumes P: "plain_tx c s k limit B m v" and sh: "test_shape s k limit m" and "\<not> TSUKI_V2 \<le> s"
    and small: "unat limit * unat m < 2 ^ 128" and funds: "unat limit * unat m + unat v \<le> unat B"
    and short: "B - ucast limit < 40000"
  shows "fst (pre_execution market_handler c) =
    Err (TransactionError (LackOfFundForMaxFee 40000 (B - ucast limit)))"
proof -
  let ?r = "ready_of c" and ?j = "journal (with_funds B (context_with_spec s))"
  note facts = P [unfolded plain_tx_def]
  have r: "?r = ?r\<lparr>journal := ?j\<rparr>" by (simp add: ready_of_def facts)
  have "market_deduct ?r = (Ok (), ?r\<lparr>journal := m_put CALLER
      (empty_account\<lparr>m_balance := B - ucast limit, m_nonce := (if is_call k then 1 else 0)\<rparr>) ?j\<rparr>)"
    by (subst r) (rule plain_deducts [OF P shape_facts(2) [OF sh] funded_acc(1) small funds])
  then show ?thesis
    using assms(3) short
    by (simp add: market_pre [OF plain_refresh [OF P sh]] validate_against_state_and_deduct_caller_def
        deduct_before_tsuki_v2_def bind_def is_enabled_in_le facts plain_cost [OF P sh] m_load_def
        on_journal_def empty_account_def Let_def)
qed

end
