(* ===== verification/TransactTests.thy ===== *)
theory TransactTests
  imports PlainRuns
begin

text \<open>
  The crate's tests that execute transactions, transcribed over the instance with a fee market:
  \<open>src/tests/upfront_balance.rs\<close>, the boundary test of \<open>src/handler.rs\<close>, and the executing tests of
  \<open>src/tests/fees.rs\<close>, \<open>src/tests/eip7623.rs\<close> and \<open>src/tests/l1_message.rs\<close>. A frame whose value the
  caller lacks halts with \<open>FrameOutOfFunds\<close>, as \<open>revm\<close>'s does (a halt that keeps the remaining gas).
\<close>

section \<open>Upfront balance\<close>

definition gas_cost :: "u64 \<Rightarrow> u256" where
  "gas_cost fee_per_gas = 21000 * ucast fee_per_gas"

definition lacks :: "u256 \<Rightarrow> u256 \<Rightarrow> string evm_error" where
  "lacks fee balance = TransactionError (LackOfFundForMaxFee fee balance)"

definition transfer :: "ScrollSpecId \<Rightarrow> u256 \<Rightarrow> u128 \<Rightarrow> u256 \<Rightarrow> mem_ctx" where
  "transfer spec balance max_fee v = upfront_tx spec (Call TO) 21000 balance max_fee v"

definition untouched :: "mem_ctx \<Rightarrow> u256 \<Rightarrow> bool" where
  "untouched evm balance \<longleftrightarrow>
     m_balance (caller_after evm CALLER) = balance \<and> m_nonce (caller_after evm CALLER) = 0"

definition boundary_balance_passes_at_tsuki_and_is_rejected_at_tsuki_v2 :: bool where
  "boundary_balance_passes_at_tsuki_and_is_rejected_at_tsuki_v2 \<longleftrightarrow>
     (let max_fee = 10; v = 100; balance = gas_cost max_fee + v
      in gas_cost 1 + L1_DATA_COST \<le> balance \<and> balance < gas_cost max_fee + v + L1_DATA_COST \<and>
         (case transact (transfer TSUKI balance (ucast max_fee) v) of (r, evm) \<Rightarrow>
            (\<exists>floor. r = Ok (FrameOk, 21000, floor)) \<and>
            m_balance (state_of evm CALLER) = balance - gas_cost 1 - L1_DATA_COST - v \<and>
            m_nonce (state_of evm CALLER) = 1 \<and> m_balance (state_of evm TO) = v) \<and>
         (case transact (transfer TSUKI_V2 balance (ucast max_fee) v) of (r, evm) \<Rightarrow>
            r = Err (lacks (gas_cost max_fee + v + L1_DATA_COST) balance) \<and> untouched evm balance))"

definition value_shortfall_fails_in_execution_at_tsuki_and_is_rejected_at_tsuki_v2 :: bool where
  "value_shortfall_fails_in_execution_at_tsuki_and_is_rejected_at_tsuki_v2 \<longleftrightarrow>
     (let max_fee = 2; v = 100000; balance = gas_cost max_fee + v;
          left = balance - gas_cost 1 - L1_DATA_COST
      in left < v \<and>
         (case transact (transfer TSUKI balance (ucast max_fee) v) of (r, evm) \<Rightarrow>
            (\<exists>res floor. r = Ok (res, 21000, floor) \<and> res \<noteq> FrameOk) \<and>
            m_balance (state_of evm CALLER) = left \<and> m_nonce (state_of evm CALLER) = 1 \<and>
            m_balance (state_of evm TO) = 0) \<and>
         fst (transact (transfer TSUKI_V2 balance (ucast max_fee) v)) = Err (lacks (balance + L1_DATA_COST) balance))"

definition l1_fee_shortfall_is_discarded :: "ScrollSpecId \<Rightarrow> TxKind \<Rightarrow> bool" where
  "l1_fee_shortfall_is_discarded spec k \<longleftrightarrow>
     (let limit = (if is_call k then 21000 else 53000);
          gas = ucast (limit :: u64) * 1;
          balance = gas + L1_DATA_COST - 1;
          legacy = (\<not> is_enabled_in spec TSUKI_V2);
          expected = (if legacy then lacks L1_DATA_COST (L1_DATA_COST - 1) else lacks (gas + L1_DATA_COST) balance)
      in case transact (upfront_tx spec k limit balance 1 0) of (r, evm) \<Rightarrow>
           r = Err expected \<and> untouched evm balance)"

definition mainnet_shortfall :: "ScrollSpecId \<Rightarrow> u256 \<Rightarrow> bool" where
  "mainnet_shortfall spec fee \<longleftrightarrow>
     (let v = 100; balance = gas_cost 2 + v - 1
      in case transact (transfer spec balance 2 v) of (r, evm) \<Rightarrow>
           r = Err (lacks fee balance) \<and> untouched evm balance)"

definition bad_nonce_context :: "ScrollSpecId \<Rightarrow> mem_ctx" where
  "bad_nonce_context spec =
     (let ctx = modify_base (\<lambda>b. b\<lparr>base_nonce := 1\<rparr>) (transfer spec (gas_cost 1 + L1_DATA_COST) 1 0)
      in ctx\<lparr>tx := (tx ctx)\<lparr>tx_rlp_bytes := None\<rparr>\<rparr>)"

definition bad_nonce_and_missing_rlp :: "ScrollSpecId \<Rightarrow> bool" where
  "bad_nonce_and_missing_rlp spec \<longleftrightarrow>
     (let expected = (if is_enabled_in spec TSUKI_V2
            then CustomError ''[SCROLL] Failed to load transaction rlp_bytes.''
            else TransactionError (NonceTooHigh 1 0))
      in fst (pre_execution market_handler (bad_nonce_context spec)) = Err expected)"

definition code_context :: "ScrollSpecId \<Rightarrow> u256 \<Rightarrow> mem_ctx" where
  "code_context spec balance =
     modify_db (\<lambda>db. db(CALLER := empty_account\<lparr>m_balance := balance,
         m_code := Some \<lparr>code_is_empty = False, code_is_eip7702 = False\<rparr>\<rparr>)) (transfer spec balance 1 0)"

definition sender_with_code :: "ScrollSpecId \<Rightarrow> bool" where
  "sender_with_code spec \<longleftrightarrow>
     (let required = gas_cost 1 + L1_DATA_COST
      in list_all (\<lambda>balance.
           let expected = (if balance = 0 \<and> is_enabled_in spec TSUKI_V2 then LackOfFundForMaxFee required 0
               else RejectCallerWithCode)
           in fst (pre_execution market_handler (code_context spec balance)) = Err (TransactionError expected))
         [0, required])"

definition boundary_balance_create :: "ScrollSpecId \<Rightarrow> bool" where
  "boundary_balance_create spec \<longleftrightarrow>
     (let v = 100; max_gas = 53000 * 10; gas = 53000 * 1; balance = max_gas + v
      in gas + L1_DATA_COST \<le> balance \<and>
         (case transact (upfront_tx spec Create 53000 balance 10 v) of (r, evm) \<Rightarrow>
            if is_enabled_in spec TSUKI_V2 then r = Err (lacks (max_gas + v + L1_DATA_COST) balance)
            else (\<exists>used floor. r = Ok (FrameOk, used, floor)) \<and>
              m_balance (state_of evm CALLER) = balance - gas - L1_DATA_COST - v \<and>
              m_nonce (state_of evm CALLER) = 1))"

definition exact_combined_balance :: "ScrollSpecId \<Rightarrow> bool" where
  "exact_combined_balance spec \<longleftrightarrow>
     (let max_fee = 10; v = 100; balance = gas_cost max_fee + v + L1_DATA_COST
      in case transact (transfer spec balance (ucast max_fee) v) of (r, evm) \<Rightarrow>
           (\<exists>used floor. r = Ok (FrameOk, used, floor)) \<and>
           m_balance (state_of evm CALLER) = balance - gas_cost 1 - L1_DATA_COST - v \<and>
           m_nonce (state_of evm CALLER) = 1)"

definition test_exact_upfront_balance :: "TxKind \<Rightarrow> u64 \<Rightarrow> bool" where
  "test_exact_upfront_balance k limit \<longleftrightarrow>
     (let v = 100; initial_balance = ucast limit + v + L1_DATA_COST;
          ctx = modify_base (\<lambda>b. b\<lparr>base_kind := k, base_gas_limit := limit, base_value := v\<rparr>)
            (with_funds initial_balance (context_with_spec TSUKI_V2))
      in case transact ctx of (r, evm) \<Rightarrow>
           (\<exists>used floor. r = Ok (FrameOk, used, floor)) \<and>
           m_balance (state_of evm CALLER) = 0 \<and> m_nonce (state_of evm CALLER) = 1)"

section \<open>Fees, floor gas and L1 messages\<close>

definition fee_input_context :: "ScrollSpecId \<Rightarrow> u256 option \<Rightarrow> usize option \<Rightarrow> mem_ctx" where
  "fee_input_context spec ratio compressed =
     (let ctx = with_funds 1000000 (context_with_spec spec)
      in ctx\<lparr>tx := (tx ctx)\<lparr>tx_compression_ratio := ratio, tx_compressed_size := compressed\<rparr>\<rparr>)"

definition test_invalid_l1_fee_inputs_fail_without_panicking :: bool where
  "test_invalid_l1_fee_inputs_fail_without_panicking \<longleftrightarrow>
     list_all (\<lambda>(spec, ratio, compressed, expected).
       fst (transact (fee_input_context spec ratio compressed)) =
         Err (CustomError (''[SCROLL] Failed to calculate L1 fee: '' @ display_L1FeeError expected)))
     [(FEYNMAN, None, Some 4, MissingCompressionRatio),
      (FEYNMAN, Some (TX_L1_FEE_PRECISION_U256 - 1), Some 4, InvalidCompressionRatio (TX_L1_FEE_PRECISION_U256 - 1)),
      (TSUKI_V2, Some TX_L1_FEE_PRECISION_U256, None, MissingCompressedSize),
      (TSUKI_V2, Some TX_L1_FEE_PRECISION_U256, Some 5, InvalidCompressedSize 5 4)]"

definition floor_gas_context :: mem_ctx where
  "floor_gas_context =
     (let ctx = modify_cfg (set_scroll_spec table_cfg_ops FEYNMAN) (with_funds 10000000 context_fixture);
          ctx = modify_base (\<lambda>b. b\<lparr>base_gas_limit := 30000, base_input := long_calldata\<rparr>) ctx
      in ctx\<lparr>tx := (tx ctx)\<lparr>tx_compression_ratio := Some 5000000000\<rparr>\<rparr>)"

definition test_should_charge_floor_gas_for_feynman_transaction :: bool where
  "test_should_charge_floor_gas_for_feynman_transaction \<longleftrightarrow>
     validate_initial_tx_gas market_handler floor_gas_context =
       Ok \<lparr>initial_gas = LONG_CALLDATA_INTRINSIC_GAS, floor_gas = LONG_CALLDATA_FLOOR_GAS\<rparr> \<and>
     (\<exists>floor. fst (transact floor_gas_context) = Ok (FrameOk, LONG_CALLDATA_FLOOR_GAS, floor))"

definition l1_message_with :: "(base_tx \<Rightarrow> base_tx) \<Rightarrow> mem_ctx \<Rightarrow> mem_ctx" where
  "l1_message_with f = modify_base (\<lambda>b. f (b\<lparr>base_tx_type := L1_MESSAGE_TYPE\<rparr>))"

definition test_l1_message_should_not_reimburse_caller :: bool where
  "test_l1_message_should_not_reimburse_caller \<longleftrightarrow>
     (case transact (l1_message_with (\<lambda>b. b\<lparr>base_gas_price := 1, base_gas_limit := 100000\<rparr>) context_fixture) of
        (r, evm) \<Rightarrow>
          (\<exists>floor. r = Ok (FrameOk, ucast MIN_TRANSACTION_COST, floor)) \<and> m_balance (state_of evm CALLER) = 0)"

definition test_l1_message_should_revert_with_out_of_funds :: bool where
  "test_l1_message_should_revert_with_out_of_funds \<longleftrightarrow>
     (\<exists>floor. fst (transact (l1_message_with (\<lambda>b. b\<lparr>base_value := 1\<rparr>) context_fixture)) =
        Ok (FrameOutOfFunds, ucast MIN_TRANSACTION_COST, floor))"

definition test_l1_message_should_not_have_floor_gas_as_gas_used :: bool where
  "test_l1_message_should_not_have_floor_gas_as_gas_used \<longleftrightarrow>
     (let ctx = l1_message_with (\<lambda>b. b\<lparr>base_input := long_calldata, base_caller := CALLER,
            base_gas_limit := 200000, base_value := 1\<rparr>)
          (modify_cfg (set_scroll_spec table_cfg_ops FEYNMAN) context_fixture)
      in (case validate_initial_tx_gas market_handler ctx of
            Ok g \<Rightarrow> floor_gas g = LONG_CALLDATA_FLOOR_GAS | _ \<Rightarrow> False) \<and>
         fst (transact ctx) = Ok (FrameOutOfFunds, 21428, 0))"

section \<open>They pass\<close>

lemma transfer_plain:
  "s \<in> {GALILEO, TSUKI, TSUKI_V2} \<Longrightarrow> 1 \<le> m \<Longrightarrow>
     plain_tx (transfer s B m v) s (Call TO) 21000 B m v \<and> test_shape s (Call TO) 21000 m"
  using upfront_plain [of s "Call TO" 21000 m B v] by (simp add: transfer_def test_shape_def)

lemmas test_values = gas_cost_def lacks_def L1_DATA_COST_def from_limbs_def untouched_def empty_account_def
  charged_account_def target_def

lemma boundary_test: "boundary_balance_passes_at_tsuki_and_is_rejected_at_tsuki_v2"
proof -
  have a: "plain_tx (transfer TSUKI 210100 10 100) TSUKI (Call TO) 21000 210100 10 100" "test_shape TSUKI (Call TO) 21000 10"
    and b: "plain_tx (transfer TSUKI_V2 210100 10 100) TSUKI_V2 (Call TO) 21000 210100 10 100" "test_shape TSUKI_V2 (Call TO) 21000 10"
    using transfer_plain by simp_all
  have "\<not> TSUKI_V2 \<le> TSUKI" by (simp add: spec_gates)
  with plain_transact [OF a] plain_rejected [OF b(1) plain_short [OF b]] show ?thesis
    by (auto simp: boundary_balance_passes_at_tsuki_and_is_rejected_at_tsuki_v2_def test_values Let_def)
qed


lemma shortfall_test: "value_shortfall_fails_in_execution_at_tsuki_and_is_rejected_at_tsuki_v2"
proof -
  have a: "plain_tx (transfer TSUKI 142000 2 100000) TSUKI (Call TO) 21000 142000 2 100000" "test_shape TSUKI (Call TO) 21000 2"
    and b: "plain_tx (transfer TSUKI_V2 142000 2 100000) TSUKI_V2 (Call TO) 21000 142000 2 100000"
      "test_shape TSUKI_V2 (Call TO) 21000 2"
    using transfer_plain by simp_all
  have "\<not> TSUKI_V2 \<le> TSUKI" by (simp add: spec_gates)
  with plain_transact [OF a] plain_rejected [OF b(1) plain_short [OF b]] show ?thesis
    by (auto simp: value_shortfall_fails_in_execution_at_tsuki_and_is_rejected_at_tsuki_v2_def test_values Let_def)
qed

lemma fee_shortfall_tests:
  assumes "s \<in> {GALILEO, TSUKI, TSUKI_V2}" and "k = Call TO \<or> k = Create"
  shows "l1_fee_shortfall_is_discarded s k"
proof -
  define limit :: u64 where "limit = (if is_call k then 21000 else 53000)"
  define B :: u256 where "B = 39999 + ucast limit"
  have k: "k = Call TO \<and> limit = 21000 \<or> k = Create \<and> limit = 53000"
    using assms(2) by (auto simp: limit_def)
  have sh: "test_shape s k limit 1" using assms(1) k by (simp add: test_shape_def)
  note P = upfront_plain [OF sh, of B 0]
  have "fst (pre_execution market_handler (upfront_tx s k limit B 1 0)) =
      Err (if TSUKI_V2 \<le> s then lacks (ucast limit + 40000) B else lacks 40000 39999)"
    using plain_short [OF P sh] plain_fee_short [OF P sh] k
    by (auto simp: B_def lacks_def)
  from plain_rejected [OF P this] show ?thesis
    unfolding l1_fee_shortfall_is_discarded_def limit_def [symmetric]
    by (auto simp: is_enabled_in_le test_values B_def Let_def)
qed

lemma mainnet_shortfall_tests:
  "mainnet_shortfall GALILEO (gas_cost 2 + 100)" "mainnet_shortfall TSUKI (gas_cost 2 + 100)"
  "mainnet_shortfall TSUKI_V2 (gas_cost 2 + 100 + L1_DATA_COST)"
proof -
  have P: "plain_tx (transfer s 42099 2 100) s (Call TO) 21000 42099 2 100" "test_shape s (Call TO) 21000 2"
    if "s \<in> {GALILEO, TSUKI, TSUKI_V2}" for s using transfer_plain [OF that] by simp_all
  have "\<exists>d. transact (transfer s 42099 2 100) = (Err (lacks (42100 + (if TSUKI_V2 \<le> s then 40000 else 0)) 42099), d) \<and>
      caller_after d CALLER = empty_account\<lparr>m_balance := 42099\<rparr>" if "s \<in> {GALILEO, TSUKI, TSUKI_V2}" for s
    using plain_rejected [OF P(1) [OF that] plain_short [OF P [OF that]]] by (auto simp: lacks_def)
  from this [of GALILEO] this [of TSUKI] this [of TSUKI_V2]
  show "mainnet_shortfall GALILEO (gas_cost 2 + 100)" "mainnet_shortfall TSUKI (gas_cost 2 + 100)"
    "mainnet_shortfall TSUKI_V2 (gas_cost 2 + 100 + L1_DATA_COST)"
    by (auto simp: mainnet_shortfall_def test_values spec_gates Let_def)
qed

lemma create_tests:
  assumes "s \<in> {TSUKI, TSUKI_V2}"
  shows "boundary_balance_create s"
proof -
  have sh: "test_shape s Create 53000 10" using assms by (auto simp: test_shape_def)
  note P = upfront_plain [OF sh, of 530100 100]
  from plain_transact [OF P sh] plain_rejected [OF P plain_short [OF P sh]] assms show ?thesis
    by (auto simp: boundary_balance_create_def test_values spec_gates is_enabled_in_le Let_def)
qed

lemma exact_tests:
  assumes "s \<in> {TSUKI, TSUKI_V2}"
  shows "exact_combined_balance s"
proof -
  have P: "plain_tx (transfer s 250100 10 100) s (Call TO) 21000 250100 10 100" "test_shape s (Call TO) 21000 10"
    using transfer_plain assms by auto
  from plain_transact [OF P] show ?thesis
    by (auto simp: exact_combined_balance_def test_values Let_def)
qed

lemma legacy_plain:
  assumes "k = Call TO \<and> limit = 21000 \<or> k = Create \<and> limit = 53000"
  shows "plain_tx (modify_base (\<lambda>b. b\<lparr>base_kind := k, base_gas_limit := limit, base_value := v\<rparr>)
      (with_funds B (context_with_spec TSUKI_V2))) TSUKI_V2 k limit B 1 v"
proof -
  let ?c = "modify_base (\<lambda>b. b\<lparr>base_kind := k, base_gas_limit := limit, base_value := v\<rparr>)
      (with_funds B (context_with_spec TSUKI_V2))"
  have "validate_env market_handler ?c = Ok ()"
    using assms by (auto simp: env_eval cfg_eval spec_fixture market_handler_def market_tx_ops_def
      mem_tx_ops_def usize_len_def)
  moreover have "validate_initial_tx_gas market_handler ?c = Ok \<lparr>initial_gas = limit, floor_gas = 21000\<rparr>"
    using assms by (auto simp: env_eval cfg_eval table_eval initial_eval spec_fixture market_handler_def)
  ultimately show ?thesis
    using oracle_not_caller
    by (simp add: plain_tx_def modify_base_def test_tx tx_nonce_def spec_fixture fixture_block fixture_cfg
      cfg_eval market_price_def)
qed

lemma exact_upfront_tests: "test_exact_upfront_balance (Call TO) 21000" "test_exact_upfront_balance Create 53000"
proof -
  have "test_exact_upfront_balance k limit"
    if k: "k = Call TO \<and> limit = 21000 \<or> k = Create \<and> limit = 53000" for k limit
  proof -
    have sh: "test_shape TSUKI_V2 k limit 1" using k by (simp add: test_shape_def)
    from plain_transact [OF legacy_plain [OF k] sh, of 100 "ucast limit + 40100"] k show ?thesis
      by (auto simp: test_exact_upfront_balance_def test_values Let_def)
  qed
  then show "test_exact_upfront_balance (Call TO) 21000" "test_exact_upfront_balance Create 53000" by simp_all
qed


lemma nonce_tests:
  assumes "s \<in> {GALILEO, TSUKI, TSUKI_V2}"
  shows "bad_nonce_and_missing_rlp s"
proof -
  let ?c = "bad_nonce_context s"
  have c: "caller (tx ?c) = CALLER" "\<not> is_l1_msg (tx ?c)" "\<not> is_system_tx (tx ?c)" "cfg_spec (cfg ?c) = s"
    "rlp_bytes (tx ?c) = None" "tx_nonce (tx ?c) = 1"
    "journal ?c = journal (with_funds (gas_cost 1 + L1_DATA_COST) (context_with_spec s))"
    using oracle_not_caller
    by (simp_all add: bad_nonce_context_def Let_def transfer_def upfront_tx_def modify_base_def modify_block_def
        test_tx tx_nonce_def)
  have refresh: "refresh_l1_block_info mem_handler ?c = (Ok (), ready_of ?c)"
    using fixture_fresh(2,3) by (simp add: refresh_fresh fresh_def c fixture_snapshot [OF assms] ready_of_def)
  have cost: "tx_l1_cost (ready_of ?c) s =
      (Err (CustomError ''[SCROLL] Failed to load transaction rlp_bytes.'') :: (string evm_error, u256) outcome)"
    by (simp add: tx_l1_cost_def c)
  show ?thesis
    by (simp add: bad_nonce_and_missing_rlp_def market_pre [OF refresh]
        validate_against_state_and_deduct_caller_def deduct_before_tsuki_v2_def deduct_from_tsuki_v2_def
        tsuki_v2_check_def market_deduct_def has_code_def bind_def is_enabled_in_le c cost m_load_def
        on_journal_def funded_acc(1) empty_account_def Let_def)
qed

lemma code_tests:
  assumes "s \<in> {GALILEO, TSUKI, TSUKI_V2}"
  shows "sender_with_code s"
proof -
  let ?c = "code_context s"
  have c: "caller (tx (?c b)) = CALLER" "\<not> is_l1_msg (tx (?c b))" "\<not> is_system_tx (tx (?c b))"
    "cfg_spec (cfg (?c b)) = s" "is_eip3607_disabled (cfg (?c b)) = False" "fresh (?c b)"
    "tx (?c b) = tx (transfer s b 1 0)"
    "m_disk (journal (?c b)) = (m_disk (journal (with_funds b (context_with_spec s))))
      (CALLER := empty_account\<lparr>m_balance := b, m_code := Some \<lparr>code_is_empty = False, code_is_eip7702 = False\<rparr>\<rparr>)" for b
    using fixture_fresh(2,3)
    by (simp_all add: code_context_def transfer_def modify_db_def upfront_facts fresh_def)
  have refresh: "refresh_l1_block_info mem_handler (?c b) = (Ok (), ready_of (?c b))" for b
    using oracle_not_caller c by (simp add: refresh_fresh fixture_snapshot [OF assms] ready_of_def)
  have acc: "m_acc (journal (?c b)) CALLER = empty_account\<lparr>m_balance := b,
      m_code := Some \<lparr>code_is_empty = False, code_is_eip7702 = False\<rparr>\<rparr>" for b
    using c(6) by (simp add: m_acc_def fresh_def c(8) empty_account_def)
  have P: "plain_tx (transfer s b 1 0) s (Call TO) 21000 b 1 0" for b
    using transfer_plain [OF assms] by simp
  have cost: "tx_l1_cost (ready_of (?c b)) s = (Ok 40000 :: (string evm_error, u256) outcome)" for b
    by (simp add: tx_l1_cost_def c(7) P [unfolded plain_tx_def] galileo_fee [OF assms])
  have spending: "mem_spending (tx (transfer s b 1 0)) = Ok 21000" for b
    using plain_spending(1) [OF P] by simp
  show ?thesis
    by (simp add: sender_with_code_def market_pre [OF refresh] validate_against_state_and_deduct_caller_def
        deduct_before_tsuki_v2_def deduct_from_tsuki_v2_def tsuki_v2_check_def market_deduct_def has_code_def
        bind_def is_enabled_in_le c(1-5) cost m_load_def on_journal_def acc empty_account_def Let_def
        c(7) [symmetric] spending [folded c(7)] checked_add_def test_values)
qed


lemma transact_rejected:
  assumes "validate_env market_handler c = Ok ()" and "validate_initial_tx_gas market_handler c = Ok g"
    and "fst (pre_execution market_handler c) = Err e"
  shows "fst (transact c) = Err e"
proof -
  obtain d where "pre_execution market_handler c = (Err e, d)" using assms(3) by (metis prod.collapse)
  then show ?thesis
    by (simp add: transact_steps run_steps_def run_from.simps(1,2) bind_def lift_def assms(1,2))
qed

lemma invalid_fee_input:
  assumes s: "s \<in> {FEYNMAN, TSUKI_V2}"
    and fee: "try_calculate_tx_l1_cost spec_info [1, 1, 1, 1] s ratio compressed = Err x"
  shows "fst (transact (fee_input_context s ratio compressed)) =
    Err (CustomError (''[SCROLL] Failed to calculate L1 fee: '' @ display_L1FeeError x))"
proof -
  let ?c = "fee_input_context s ratio compressed"
  have c: "caller (tx ?c) = CALLER" "\<not> is_l1_msg (tx ?c)" "\<not> is_system_tx (tx ?c)" "cfg_spec (cfg ?c) = s"
    "rlp_bytes (tx ?c) = Some [1, 1, 1, 1]" "compression_ratio (tx ?c) = ratio" "compressed_size (tx ?c) = compressed"
    "journal ?c = journal (with_funds 1000000 (context_with_spec s))" "tx_nonce (tx ?c) = 0"
    "gas_limit (tx ?c) = 21000" "gas_price (tx ?c) = 1" "tx_value (tx ?c) = 0"
    using oracle_not_caller
    by (simp_all add: fee_input_context_def Let_def test_tx tx_nonce_def)
  have slots: "oracle_slots s = [1, 2, 3, 5, 6, 7, 9, 10]" using s by (auto simp: oracle_slots_def spec_gates)
  have refresh: "refresh_l1_block_info mem_handler ?c = (Ok (), ready_of ?c)"
    using fixture_fresh(2,3)
    by (simp add: refresh_fresh fresh_def c slots fixture_oracle context_oracle spec_info_def ready_of_def)
  have cost: "tx_l1_cost (ready_of ?c) s = (Err (CustomError (''[SCROLL] Failed to calculate L1 fee: '' @
      display_L1FeeError x)) :: (string evm_error, u256) outcome)"
    by (simp add: tx_l1_cost_def c fee)
  have spending: "mem_spending (tx ?c) = Ok 21000" by (simp add: mem_spending_def c checked_add_def)
  have env: "validate_env market_handler ?c = Ok ()"
    using s by (auto simp: fee_input_context_def env_eval cfg_eval spec_fixture market_handler_def market_tx_ops_def
      mem_tx_ops_def usize_len_def)
  obtain g where gas: "validate_initial_tx_gas market_handler ?c = Ok g"
    using s by (auto simp: fee_input_context_def env_eval cfg_eval table_eval initial_eval spec_fixture market_handler_def)
  have "fst (pre_execution market_handler ?c) = Err (CustomError (''[SCROLL] Failed to calculate L1 fee: '' @
      display_L1FeeError x))"
    using s
    by (auto simp: market_pre [OF refresh] validate_against_state_and_deduct_caller_def deduct_before_tsuki_v2_def
        deduct_from_tsuki_v2_def tsuki_v2_check_def market_deduct_def has_code_def bind_def spec_gates c(1-4,9)
        cost m_load_def on_journal_def c(8) funded_acc(1) spending empty_account_def Let_def)
  from transact_rejected [OF env gas this] show ?thesis .
qed

lemma invalid_fee_tests: "test_invalid_l1_fee_inputs_fail_without_panicking"
proof -
  have "try_calculate_tx_l1_cost spec_info [1, 1, 1, 1] FEYNMAN None (Some 4) = Err MissingCompressionRatio"
    "try_calculate_tx_l1_cost spec_info [1, 1, 1, 1] FEYNMAN (Some (TX_L1_FEE_PRECISION_U256 - 1)) (Some 4) =
       Err (InvalidCompressionRatio (TX_L1_FEE_PRECISION_U256 - 1))"
    "try_calculate_tx_l1_cost spec_info [1, 1, 1, 1] TSUKI_V2 (Some TX_L1_FEE_PRECISION_U256) None = Err MissingCompressedSize"
    "try_calculate_tx_l1_cost spec_info [1, 1, 1, 1] TSUKI_V2 (Some TX_L1_FEE_PRECISION_U256) (Some 5) =
       Err (InvalidCompressedSize 5 4)"
    by (simp_all add: try_calculate_tx_l1_cost_def calculate_tx_l1_cost_galileo_def calculate_tx_l1_cost_feynman_def
        spec_gates spec_info_def snapshot_of_def TX_L1_FEE_PRECISION_U256_def TX_L1_FEE_PRECISION_def usize_len_def
        Let_def word_less_nat_alt word_le_nat_alt)
  then show ?thesis
    by (simp add: test_invalid_l1_fee_inputs_fail_without_panicking_def invalid_fee_input)
qed

text \<open>An L1 message is charged its intrinsic gas and nothing else, whatever its price and its floor.\<close>

lemma message_transact:
  assumes c: "caller (tx c) = CALLER" "is_l1_msg (tx c)" "kind (tx c) = Call TO" "EUCLID \<le> cfg_spec (cfg c)"
      "m_acc (journal c) CALLER = empty_account" "m_acc (journal c) TO = empty_account"
    and env: "validate_env market_handler c = Ok ()"
    and gas: "validate_initial_tx_gas market_handler c = Ok \<lparr>initial_gas = ig, floor_gas = fg\<rparr>"
    and "ig \<le> gas_limit (tx c)"
  shows "\<exists>d. transact c = (Ok (if tx_value (tx c) = 0 then FrameOk else FrameOutOfFunds, ig, 0), d) \<and>
    m_balance (state_of d CALLER) = 0"
proof -
  let ?j = "m_put CALLER (empty_account\<lparr>m_nonce := 1\<rparr>) (journal c)"
  have "l1_msg_checks market_handler c = (Ok (), c\<lparr>journal := ?j\<rparr>)"
    using c by (simp add: validate_defs is_enabled_in_le empty_account_def ret_Pair)
  then have pre: "pre_execution market_handler c = (Ok 0, c\<lparr>journal := ?j\<rparr>)"
    using c by (simp add: pre_execution_def refresh_l1_block_info_def validate_against_state_and_deduct_caller_def
        deduct_before_tsuki_v2_def deduct_from_tsuki_v2_def bind_def ret_Pair)
  let ?gas = "\<lparr>mg_total = gas_limit (tx c), mg_remaining = gas_limit (tx c) - ig, mg_refunded = 0\<rparr>"
  let ?res = "if tx_value (tx c) = 0 then FrameOk else FrameOutOfFunds"
  let ?i = "if tx_value (tx c) = 0 then m_put TO empty_account ?j else ?j"
  have frame: "market_frame \<lparr>initial_gas = ig, floor_gas = fg\<rparr> (c\<lparr>journal := ?j\<rparr>) =
      (\<lparr>fr_result = ?res, fr_gas = ?gas\<rparr>, c\<lparr>journal := ?i\<rparr>)"
    using assms(9) c test_addresses unsigned_less [of "tx_value (tx c)", where ?'a = nat]
    by (auto simp: market_frame_def market_pay_def mem_pay_def checked_add_def empty_account_def Let_def)
  have left: "m_balance (m_acc ?i CALLER) = 0" using test_addresses by (simp add: empty_account_def)
  have last: "last_frame_result market_handler \<lparr>fr_result = ?res, fr_gas = ?gas\<rparr> (c\<lparr>journal := ?i\<rparr>) =
      (Ok \<lparr>fr_result = ?res, fr_gas = ?gas\<rparr>, c\<lparr>journal := ?i\<rparr>)"
    using c(2) by (simp add: last_frame_result_def market_fields mem_gas_ops_def Let_def)
  have floor: "set_floor_gas market_handler 0 r = 0" for r
    by (simp add: market_handler_def mem_handler_def)
  have "transact c = (Ok (?res, ig, 0), c\<lparr>journal := ?i\<rparr>)"
    using c(2)
    by (simp add: transact_steps run_steps_def run_from.simps bind_def lift_def always_def env gas pre frame last
        Handler.refund_def eip7623_check_gas_floor_def reimburse_caller_def reward_beneficiary_def ret_Pair
        execution_result_def market_fields floor mem_gas_ops_def Let_def)
  then show ?thesis using left by (simp add: state_of_def)
qed

lemma message_fields:
  assumes "c = l1_message_with f context_fixture \<or>
    c = l1_message_with f (modify_cfg (set_scroll_spec table_cfg_ops FEYNMAN) context_fixture)"
    and "\<And>b. base_caller (f b) \<in> {CALLER, base_caller b}" and "\<And>b. base_kind (f b) = base_kind b"
    and "\<And>b. base_tx_type (f b) = base_tx_type b"
  shows "caller (tx c) = CALLER" "is_l1_msg (tx c)" "kind (tx c) = Call TO" "EUCLID \<le> cfg_spec (cfg c)"
    "m_acc (journal c) CALLER = empty_account" "m_acc (journal c) TO = empty_account"
proof -
  have j: "journal c = journal message_context"
    using assms(1) by (auto simp: l1_message_with_def message_context_def modify_base_def modify_cfg_def)
  show "m_acc (journal c) CALLER = empty_account" "m_acc (journal c) TO = empty_account"
    using message_acc test_addresses oracle_not_caller by (simp_all add: j)
  show "caller (tx c) = CALLER" "is_l1_msg (tx c)" "kind (tx c) = Call TO" "EUCLID \<le> cfg_spec (cfg c)"
    using assms(1,3,4) assms(2) [of "(base (tx context_fixture))\<lparr>base_tx_type := L1_MESSAGE_TYPE\<rparr>"] oracle_not_caller
    by (auto simp: l1_message_with_def modify_base_def modify_cfg_def test_tx fixture_cfg cfg_eval spec_gates
      is_l1_msg_def)
qed

lemma message_run:
  assumes "c = l1_message_with f context_fixture \<or>
    c = l1_message_with f (modify_cfg (set_scroll_spec table_cfg_ops FEYNMAN) context_fixture)"
    and "\<And>b. base_caller (f b) \<in> {CALLER, base_caller b}" "\<And>b. base_kind (f b) = base_kind b"
    and "\<And>b. base_tx_type (f b) = base_tx_type b"
    and "validate_env market_handler c = Ok ()"
    and "validate_initial_tx_gas market_handler c = Ok \<lparr>initial_gas = ig, floor_gas = fg\<rparr>"
    and "ig \<le> gas_limit (tx c)"
  shows "\<exists>d. transact c = (Ok (if tx_value (tx c) = 0 then FrameOk else FrameOutOfFunds, ig, 0), d) \<and>
    m_balance (state_of d CALLER) = 0"
  using message_transact [OF message_fields [OF assms(1-4)] assms(5-7)] .

lemmas message_eval = l1_message_with_def env_eval cfg_eval table_eval initial_eval market_handler_def
  market_tx_ops_def mem_tx_ops_def usize_len_def

lemma message_tests:
  "test_l1_message_should_not_reimburse_caller" "test_l1_message_should_revert_with_out_of_funds"
  "test_l1_message_should_not_have_floor_gas_as_gas_used"
proof -
  let ?f = "\<lambda>b. b\<lparr>base_gas_price := 1, base_gas_limit := 100000\<rparr>"
  let ?c = "l1_message_with ?f context_fixture"
  have "validate_env market_handler ?c = Ok ()" by (simp add: message_eval)
  moreover have "validate_initial_tx_gas market_handler ?c = Ok \<lparr>initial_gas = 21000, floor_gas = 0\<rparr>"
    by (simp add: message_eval)
  moreover have "21000 \<le> gas_limit (tx ?c)" "tx_value (tx ?c) = 0"
    by (simp_all add: l1_message_with_def modify_base_def test_tx)
  ultimately show "test_l1_message_should_not_reimburse_caller"
    using message_run [of ?c ?f 21000 0]
    by (auto simp: test_l1_message_should_not_reimburse_caller_def MIN_TRANSACTION_COST_def)
next
  let ?f = "\<lambda>b. b\<lparr>base_value := 1\<rparr>"
  let ?c = "l1_message_with ?f context_fixture"
  have "validate_env market_handler ?c = Ok ()" by (simp add: message_eval)
  moreover have "validate_initial_tx_gas market_handler ?c = Ok \<lparr>initial_gas = 21000, floor_gas = 0\<rparr>"
    by (simp add: message_eval)
  moreover have "21000 \<le> gas_limit (tx ?c)" "tx_value (tx ?c) = 1"
    by (simp_all add: l1_message_with_def modify_base_def test_tx)
  ultimately show "test_l1_message_should_revert_with_out_of_funds"
    using message_run [of ?c ?f 21000 0]
    by (auto simp: test_l1_message_should_revert_with_out_of_funds_def MIN_TRANSACTION_COST_def)
next
  let ?f = "\<lambda>b. b\<lparr>base_input := long_calldata, base_caller := CALLER, base_gas_limit := 200000, base_value := 1\<rparr>"
  let ?c = "l1_message_with ?f (modify_cfg (set_scroll_spec table_cfg_ops FEYNMAN) context_fixture)"
  have env: "validate_env market_handler ?c = Ok ()" by (simp add: message_eval)
  have gas: "validate_initial_tx_gas market_handler ?c = Ok \<lparr>initial_gas = 21428, floor_gas = 22070\<rparr>"
    by (simp add: message_eval)
  have "200000 = gas_limit (tx ?c)" "tx_value (tx ?c) = 1"
    by (simp_all add: l1_message_with_def modify_base_def modify_cfg_def test_tx)
  then show "test_l1_message_should_not_have_floor_gas_as_gas_used"
    using message_run [of ?c ?f 21428 22070] env gas
    by (auto simp: test_l1_message_should_not_have_floor_gas_as_gas_used_def LONG_CALLDATA_FLOOR_GAS_def Let_def)
qed

text \<open>The floor: 8572 gas remain of 30000 after the frame, and the floor leaves 7930 of them.\<close>

definition floor_info :: L1BlockInfo where
  "floor_info = snapshot_of [10000, 10000, 10000, 10000, 10000, 1000000000, 0, 0]"

definition floor_ready :: mem_ctx where
  "floor_ready = floor_gas_context\<lparr>chain := \<lparr>l1_block_info = floor_info\<rparr>\<rparr>"

lemma floor_context:
  "caller (tx floor_gas_context) = CALLER" "gas_limit (tx floor_gas_context) = 30000"
  "tx_value (tx floor_gas_context) = 0" "gas_price (tx floor_gas_context) = 1" "tx_type (tx floor_gas_context) = 0"
  "kind (tx floor_gas_context) = Call TO" "is_l1_msg (tx floor_gas_context) = False"
  "is_system_tx (tx floor_gas_context) = False" "cfg_spec (cfg floor_gas_context) = FEYNMAN"
  "rlp_bytes (tx floor_gas_context) = Some [1, 1, 1, 1]" "tx_nonce (tx floor_gas_context) = 0"
  "compression_ratio (tx floor_gas_context) = Some 5000000000"
  "beneficiary (block floor_gas_context) = BENEFICIARY" "is_eip3607_disabled (cfg floor_gas_context) = False"
  "journal floor_gas_context = journal (with_funds 10000000 context_fixture)"
  using oracle_not_caller
  by (simp_all add: floor_gas_context_def modify_base_def modify_cfg_def test_tx tx_nonce_def
      fixture_block fixture_cfg cfg_eval compression_ratio_def Let_def)

lemma floor_accounts:
  "m_acc (journal (with_funds 10000000 context_fixture)) CALLER = empty_account\<lparr>m_balance := 10000000\<rparr>"
  "m_acc (journal (with_funds 10000000 context_fixture)) TO = empty_account"
  "m_acc (journal (with_funds 10000000 context_fixture)) BENEFICIARY = empty_account"
proof -
  have f: "m_state (journal (with_funds 10000000 context_fixture)) = (\<lambda>_. None)"
    using fixture_fresh(1,2) by (simp add: fresh_def)
  then show "m_acc (journal (with_funds 10000000 context_fixture)) CALLER = empty_account\<lparr>m_balance := 10000000\<rparr>"
    by (simp add: m_acc_def fixture_caller empty_account_def)
  show "m_acc (journal (with_funds 10000000 context_fixture)) TO = empty_account"
    "m_acc (journal (with_funds 10000000 context_fixture)) BENEFICIARY = empty_account"
    using f test_addresses beneficiary_not_oracle
    by (simp_all add: m_acc_def fixture_defs Let_def empty_account_def)
qed

lemma floor_fee: "try_calculate_tx_l1_cost floor_info [1, 1, 1, 1] FEYNMAN (Some 5000000000) z = Ok 40000"
  by (simp add: fee_eval floor_info_def spec_gates word_less_nat_alt word_le_nat_alt)

lemma floor_refresh: "refresh_l1_block_info mem_handler floor_gas_context = (Ok (), floor_ready)"
proof -
  have slots: "oracle_slots FEYNMAN = [1, 2, 3, 5, 6, 7, 9, 10]" by (simp add: oracle_slots_def spec_gates)
  show ?thesis
    using fixture_fresh(1,2)
    by (simp add: refresh_fresh fresh_def floor_context slots fixture_oracle context_oracle floor_info_def floor_ready_def)
qed

lemma floor_admission:
  "validate_env market_handler floor_gas_context = Ok ()"
  "validate_initial_tx_gas market_handler floor_gas_context = Ok \<lparr>initial_gas = 21428, floor_gas = 22070\<rparr>"
  by (simp_all add: floor_gas_context_def message_eval)

lemma floor_ready_facts [simp]:
  "tx floor_ready = tx floor_gas_context" "cfg floor_ready = cfg floor_gas_context"
  "block floor_ready = block floor_gas_context" "journal floor_ready = journal floor_gas_context"
  "l1_block_info (chain floor_ready) = floor_info"
  by (simp_all add: floor_ready_def)

lemma floor_cost: "tx_l1_cost floor_ready FEYNMAN = (Ok 40000 :: (string evm_error, u256) outcome)"
  by (simp add: tx_l1_cost_def floor_context floor_fee)

lemma floor_pre:
  "pre_execution market_handler floor_gas_context = (Ok 0, floor_ready\<lparr>journal :=
     m_put CALLER (empty_account\<lparr>m_balance := 9930000, m_nonce := 1\<rparr>) (journal floor_gas_context)\<rparr>)"
proof -
  have spending: "mem_spending (tx floor_gas_context) = Ok 30000"
    by (simp add: mem_spending_def floor_context checked_add_def)
  have charge: "market_charge (tx floor_gas_context) b = 30000" for b
    by (simp add: market_charge_def market_price_def floor_context)
  show ?thesis
    by (simp add: market_pre [OF floor_refresh] validate_against_state_and_deduct_caller_def deduct_before_tsuki_v2_def
        market_deduct_def has_code_def bind_def spec_gates floor_context spending charge floor_cost floor_accounts
        m_load_def on_journal_def m_decr_def m_bump_def checked_sub_def checked_add_def decr_caller_balance_eq
        empty_account_def word_le_nat_alt word_less_nat_alt ret_Pair Let_def)
qed

lemma floor_gas_test: "test_should_charge_floor_gas_for_feynman_transaction"
proof -
  let ?g = "\<lparr>initial_gas = 21428, floor_gas = 22070\<rparr> :: init_gas"
  let ?c = "\<lambda>i. floor_ready\<lparr>journal := i\<rparr>"
  let ?fr = "\<lambda>r. \<lparr>fr_result = FrameOk, fr_gas = \<lparr>mg_total = 30000, mg_remaining = r, mg_refunded = 0\<rparr>\<rparr>"
  let ?j = "m_put CALLER (empty_account\<lparr>m_balance := 9930000, m_nonce := 1\<rparr>) (journal floor_gas_context)"
  let ?i = "m_put TO empty_account ?j"
  let ?k = "m_put CALLER (empty_account\<lparr>m_balance := 9937930, m_nonce := 1\<rparr>) ?i"
  have frame: "market_frame ?g (?c ?j) = (?fr 8572, ?c ?i)"
    using test_addresses
    by (simp add: market_frame_def market_pay_def mem_pay_def checked_add_def floor_context floor_accounts
        empty_account_def word_le_nat_alt Let_def)
  have last: "last_frame_result market_handler (?fr 8572) (?c ?i) = (Ok (?fr 8572), ?c ?i)"
    by (simp add: last_frame_result_def floor_context market_fields mem_gas_ops_def Let_def)
  have refunds: "Handler.refund market_handler (?fr 8572) 0 (?c ?i) = (?fr 8572, ?c ?i)"
    by (simp add: Handler.refund_def floor_context market_fields mem_refund_def)
  have floors: "eip7623_check_gas_floor market_handler (?fr 8572) ?g (?c ?i) = (?fr 7930, ?c ?i)"
    by (simp add: eip7623_check_gas_floor_def floor_context market_fields mem_floor_def word_less_nat_alt word_le_nat_alt)
  have price: "market_price (tx floor_gas_context) b = 1" for b
    by (simp add: market_price_def floor_context)
  have reimburses: "reimburse_caller market_handler (?fr 7930) (?c ?i) = (Ok (?fr 7930), ?c ?k)"
    using test_addresses
    by (simp add: reimburse_caller_def floor_context market_fields price bind_def on_journal_def m_incr_def
        checked_add_def empty_account_def ret_Pair)
  let ?l = "m_put BENEFICIARY (empty_account\<lparr>m_balance := 62070\<rparr>) ?k"
  have rewards: "reward_beneficiary market_handler (?fr 7930) (?c ?k) = (Ok (), ?c ?l)"
    using test_addresses
    by (simp add: reward_beneficiary_def floor_context floor_cost floor_accounts price bind_def on_journal_def
        mem_gas_ops_def saturating_add_def saturating_mul_def m_incr_def checked_add_def empty_account_def Let_def)
  have result: "execution_result market_handler (?fr 7930) (floor_gas ?g) (?c ?l) = (Ok (FrameOk, 22070, 22070), ?c ?l)"
    by (simp add: execution_result_def market_fields floor_context mem_gas_ops_def ret_Pair Let_def)
  have "transact floor_gas_context = (Ok (FrameOk, 22070, 22070), ?c ?l)"
    by (simp add: transact_steps run_steps_def run_from.simps bind_def lift_def always_def floor_admission floor_pre
        frame last refunds floors reimburses rewards result [simplified])
  then show ?thesis
    by (simp add: test_should_charge_floor_gas_for_feynman_transaction_def floor_admission
        LONG_CALLDATA_INTRINSIC_GAS_def LONG_CALLDATA_FLOOR_GAS_def)
qed

end
