(* ===== verification/OracleUpdate.thy ===== *)
theory OracleUpdate
  imports TransactTests
begin

text \<open>
  Two transactions in a row without a commit between them (\<open>src/handler.rs\<close>): the first calls the oracle,
  whose code sets the base fee slot, the second is priced by the value the first one left in the
  journal. The oracle's bytecode is executed, by an evaluator of the three instructions it uses.
\<close>

section \<open>Executing the oracle's code\<close>

text \<open>A slot as the journal shows it, the database behind it; the price of a write is EIP-2200's and EIP-2929's.\<close>

definition disk_slot :: "mem_journal \<Rightarrow> address \<Rightarrow> u256 \<Rightarrow> u256" where
  "disk_slot j a k = (case m_storage (m_disk j a) k of Some s \<Rightarrow> present_value s | None \<Rightarrow> 0)"

definition current_slot :: "mem_journal \<Rightarrow> address \<Rightarrow> u256 \<Rightarrow> u256" where
  "current_slot j a k =
     (case m_storage (m_acc j a) k of Some s \<Rightarrow> present_value s | None \<Rightarrow> disk_slot j a k)"

definition sstore_cost :: "mem_journal \<Rightarrow> address \<Rightarrow> u256 \<Rightarrow> u256 \<Rightarrow> u64" where
  "sstore_cost j a k v =
     (if m_storage (m_acc j a) k = None then 2100 else 0) +
     (if v = current_slot j a k \<or> current_slot j a k \<noteq> disk_slot j a k then 100
      else if disk_slot j a k = 0 then 20000 else 2900)"

definition write_slot :: "address \<Rightarrow> u256 \<Rightarrow> u256 \<Rightarrow> mem_journal \<Rightarrow> mem_journal" where
  "write_slot a k v j =
     m_put a ((m_acc j a)\<lparr>m_storage := (m_storage (m_acc j a))(k \<mapsto> \<lparr>present_value = v\<rparr>)\<rparr>) j"

text \<open>
  \<open>run_code a n code stack\<close>: with \<open>n\<close> immediate bytes of a push still to be read. \<open>STOP\<close> is 0x00, \<open>SSTORE\<close>
  0x55, \<open>PUSH1\<close> to \<open>PUSH32\<close> are 0x60 to 0x7f; any other instruction, or a stack underflow, has no result.
\<close>

fun run_code ::
  "address \<Rightarrow> nat \<Rightarrow> bytes \<Rightarrow> u256 list \<Rightarrow> u64 \<times> mem_journal \<Rightarrow> (u64 \<times> mem_journal) option" where
  "run_code a n [] stack s = Some s"
| "run_code a (Suc n) (b # code) (v # stack) s = run_code a n code ((v * 256 + ucast b) # stack) s"
| "run_code a (Suc n) (b # code) [] s = None"
| "run_code a 0 (b # code) stack (gas, j) =
     (if b = 0 then Some (gas, j)
      else if 0x60 \<le> b \<and> b \<le> 0x7f then run_code a (unat b - 0x5f) code (0 # stack) (gas + 3, j)
      else if b = 0x55 then
        (case stack of
           k # v # rest \<Rightarrow> run_code a 0 code rest (gas + sstore_cost j a k v, write_slot a k v j)
         | _ \<Rightarrow> None)
      else None)"

definition oracle_code :: bytes where
  "oracle_code = [0x62, 0x0f, 0x42, 0x40, 0x60, 0x01, 0x55, 0x00]"

text \<open>A call of the oracle runs its code on the gas left; running out of it, or an invalid step, halts.\<close>

definition oracle_frame :: "init_gas \<Rightarrow> mem_ctx \<Rightarrow> (mem_result, mem_gas) frame_result \<times> mem_ctx" where
  "oracle_frame g c =
     (case market_frame g c of (fr, d) \<Rightarrow>
        if kind (tx c) = Call L1_GAS_PRICE_ORACLE_ADDRESS \<and> fr_result fr = FrameOk then
          (case run_code L1_GAS_PRICE_ORACLE_ADDRESS 0 oracle_code [] (0, journal d) of
             Some (gas, j) \<Rightarrow>
               if gas \<le> mg_remaining (fr_gas fr) then
                 (fr\<lparr>fr_gas := (fr_gas fr)\<lparr>mg_remaining := mg_remaining (fr_gas fr) - gas\<rparr>\<rparr>, d\<lparr>journal := j\<rparr>)
               else (fr\<lparr>fr_result := FrameHalt, fr_gas := (fr_gas fr)\<lparr>mg_remaining := 0\<rparr>\<rparr>, c)
           | None \<Rightarrow> (fr\<lparr>fr_result := FrameHalt, fr_gas := (fr_gas fr)\<lparr>mg_remaining := 0\<rparr>\<rparr>, c))
        else (fr, d))"

section \<open>The test\<close>

definition oracle_run ::
  "(mem_evm, string evm_error, mem_result \<times> u64 \<times> u64, mem_journal, address \<Rightarrow> mem_account option) run_ops" where
  "oracle_run =
     \<lparr>h_run = tx_run market_handler oracle_frame floor_gas,
      h_inspect_run = tx_run market_handler oracle_frame floor_gas,
      h_run_system_call = tx_run market_handler oracle_frame floor_gas,
      j_finalize = (\<lambda>j. (m_state j, j\<lparr>m_state := \<lambda>_. None\<rparr>)),
      db_commit = (\<lambda>st j. j\<lparr>m_disk := (\<lambda>a. case st a of Some x \<Rightarrow> x | None \<Rightarrow> m_disk j a)\<rparr>)\<rparr>"

definition oracle_context :: mem_ctx where
  "oracle_context =
     modify_db (\<lambda>db. db(L1_GAS_PRICE_ORACLE_ADDRESS := (db L1_GAS_PRICE_ORACLE_ADDRESS)
         \<lparr>m_balance := 0, m_nonce := 0, m_code := Some \<lparr>code_is_empty = False, code_is_eip7702 = False\<rparr>\<rparr>))
       (with_funds 1000000 context_fixture)"

definition update_tx :: ScrollTransaction where
  "update_tx = tx (modify_base
     (\<lambda>b. b\<lparr>base_kind := Call L1_GAS_PRICE_ORACLE_ADDRESS, base_gas_limit := 100000\<rparr>) oracle_context)"

definition next_tx :: ScrollTransaction where
  "next_tx = tx (modify_base (\<lambda>b. b\<lparr>base_nonce := 1\<rparr>) oracle_context)"

definition succeeded :: "('e, mem_result \<times> u64 \<times> u64) outcome \<Rightarrow> bool" where
  "succeeded r \<longleftrightarrow> (case r of Ok (res, _) \<Rightarrow> res = FrameOk | _ \<Rightarrow> False)"

definition test_l1_block_info_sees_uncommitted_oracle_update :: bool where
  "test_l1_block_info_sees_uncommitted_oracle_update \<longleftrightarrow>
     (case transact_one oracle_run update_tx (build_scroll mem_parts oracle_context :: mem_evm) of (r1, evm) \<Rightarrow>
      case transact_one oracle_run next_tx evm of (r2, evm) \<Rightarrow>
        succeeded r1 \<and> succeeded r2 \<and>
        fst (m_db_storage L1_GAS_PRICE_ORACLE_ADDRESS L1_BASE_FEE_SLOT (journal (evm_ctx evm))) =
          (Ok 10000 :: (string, u256) outcome) \<and>
        l1_base_fee (l1_block_info (chain (evm_ctx evm))) = 1000000)"

section \<open>It passes\<close>

text \<open>What follows the charge of a call at one wei per gas that no floor reaches.\<close>

lemma call_run:
  assumes "validate_env market_handler c = Ok ()"
    and "validate_initial_tx_gas market_handler c = Ok g" and "floor_gas g = 0"
    and "pre_execution market_handler c = (Ok 0, d)"
    and "f g d = (\<lparr>fr_result = FrameOk, fr_gas = \<lparr>mg_total = l, mg_remaining = r, mg_refunded = 0\<rparr>\<rparr>, e)"
    and e: "\<not> is_l1_msg (tx e)" "\<not> is_system_tx (tx e)" "gas_limit (tx e) = l" "caller (tx e) = CALLER"
      "beneficiary (block e) = BENEFICIARY"
    and price: "market_price (tx e) (ucast (basefee (block e))) = 1"
    and fee: "tx_l1_cost e (cfg_spec (cfg e)) = (Ok fee :: (string evm_error, u256) outcome)"
  shows "run_steps market_handler f floor_gas c =
    (Ok (FrameOk, l - r, 0), e\<lparr>journal :=
       snd (m_incr BENEFICIARY (saturating_add (saturating_mul 1 (ucast (l - r))) fee)
         (snd (m_incr CALLER (ucast r) (journal e) :: (string, unit) outcome \<times> mem_journal)) :: (string, unit) outcome \<times> mem_journal)\<rparr>)"
proof -
  let ?fr = "\<lparr>fr_result = FrameOk, fr_gas = \<lparr>mg_total = l, mg_remaining = r, mg_refunded = 0\<rparr>\<rparr>"
  let ?k = "\<lambda>j. snd (m_incr CALLER (ucast r) j :: (string, unit) outcome \<times> mem_journal)"
  have last: "last_frame_result market_handler ?fr e = (Ok ?fr, e)"
    using e by (simp add: last_frame_result_def market_fields mem_gas_ops_def Let_def)
  have refunds: "Handler.refund market_handler ?fr 0 e = (?fr, e)"
    using e by (simp add: Handler.refund_def market_fields mem_refund_def)
  have floors: "eip7623_check_gas_floor market_handler ?fr g e = (?fr, e)"
    using e assms(3) by (simp add: eip7623_check_gas_floor_def market_fields mem_floor_def)
  have reimburses: "reimburse_caller market_handler ?fr e = (Ok ?fr, e\<lparr>journal := ?k (journal e)\<rparr>)"
    using e by (simp add: reimburse_caller_def market_fields price bind_def on_journal_def m_incr_def ret_Pair
        split: option.split)
  have rewards: "reward_beneficiary market_handler ?fr (e\<lparr>journal := j\<rparr>) = (Ok (), e\<lparr>journal :=
      snd (m_incr BENEFICIARY (saturating_add (saturating_mul 1 (ucast (l - r))) fee) j
        :: (string, unit) outcome \<times> mem_journal)\<rparr>)" for j
    using e by (simp add: reward_beneficiary_def price fee bind_def on_journal_def mem_gas_ops_def m_incr_def Let_def
        split: option.split)
  have result: "execution_result market_handler ?fr 0 (e\<lparr>journal := j\<rparr>) = (Ok (FrameOk, l - r, 0), e\<lparr>journal := j\<rparr>)" for j
    using e by (simp add: execution_result_def market_fields mem_gas_ops_def ret_Pair Let_def)
  show ?thesis
    by (simp add: run_steps_def run_from.simps bind_def lift_def always_def assms(1-5) last refunds floors
        reimburses rewards result)
qed

text \<open>The first transaction.\<close>

lemma oracle_base:
  "cfg oracle_context = cfg context_fixture" "block oracle_context = block context_fixture"
  "tx oracle_context = tx context_fixture" "chain oracle_context = chain context_fixture"
  "fresh oracle_context" "m_disk (journal oracle_context) CALLER = empty_account\<lparr>m_balance := 1000000\<rparr>"
  "m_disk (journal oracle_context) BENEFICIARY = empty_account"
  "m_storage (m_disk (journal oracle_context) L1_GAS_PRICE_ORACLE_ADDRESS) =
     m_storage (m_disk (journal context_fixture) L1_GAS_PRICE_ORACLE_ADDRESS)"
  "m_disk (journal oracle_context) TO = empty_account"
  "m_balance (m_disk (journal oracle_context) L1_GAS_PRICE_ORACLE_ADDRESS) = 0"
proof -
  have f: "m_disk (journal (with_funds 1000000 context_fixture)) a = empty_account"
    if "a \<noteq> CALLER" "a \<noteq> L1_GAS_PRICE_ORACLE_ADDRESS" for a
    using that by (simp add: fixture_defs Let_def empty_account_def)
  show "m_disk (journal oracle_context) CALLER = empty_account\<lparr>m_balance := 1000000\<rparr>"
    using oracle_not_caller by (simp add: oracle_context_def modify_db_def fixture_caller)
  show "m_disk (journal oracle_context) BENEFICIARY = empty_account" "m_disk (journal oracle_context) TO = empty_account"
    using f test_addresses beneficiary_not_oracle by (simp_all add: oracle_context_def modify_db_def)
  show "fresh oracle_context" using fixture_fresh(1,2) by (simp add: oracle_context_def modify_db_def fresh_def)
qed (use oracle_not_caller in \<open>simp_all add: oracle_context_def modify_db_def with_funds_def fixture_oracle\<close>)

definition first_context :: mem_ctx where
  "first_context = oracle_context\<lparr>tx := update_tx\<rparr>"

definition oracle_ready :: mem_ctx where
  "oracle_ready = first_context\<lparr>chain := \<lparr>l1_block_info = euclid_info\<rparr>\<rparr>"

lemma update_facts:
  "caller update_tx = CALLER" "gas_limit update_tx = 100000" "tx_value update_tx = 0" "gas_price update_tx = 1"
  "tx_type update_tx = 0" "kind update_tx = Call L1_GAS_PRICE_ORACLE_ADDRESS" "is_l1_msg update_tx = False"
  "is_system_tx update_tx = False" "rlp_bytes update_tx = Some [1, 1, 1, 1]" "tx_nonce update_tx = 0"
  "compression_ratio update_tx = None" "compressed_size update_tx = None"
  using oracle_not_caller
  by (simp_all add: update_tx_def modify_base_def oracle_base test_tx tx_nonce_def compression_ratio_def compressed_size_def)

lemma next_facts:
  "caller next_tx = CALLER" "gas_limit next_tx = 21000" "tx_value next_tx = 0" "gas_price next_tx = 1"
  "tx_type next_tx = 0" "kind next_tx = Call TO" "is_l1_msg next_tx = False"
  "is_system_tx next_tx = False" "rlp_bytes next_tx = Some [1, 1, 1, 1]" "tx_nonce next_tx = 1"
  "compression_ratio next_tx = None" "compressed_size next_tx = None"
  using oracle_not_caller
  by (simp_all add: next_tx_def modify_base_def oracle_base test_tx tx_nonce_def compression_ratio_def compressed_size_def)

lemma oracle_env:
  "cfg_spec (cfg context_fixture) = EUCLID" "beneficiary (block context_fixture) = BENEFICIARY"
  "is_eip3607_disabled (cfg context_fixture) = False"
  by (simp_all add: fixture_tx fixture_block fixture_cfg cfg_eval)

lemma slots_euclid: "oracle_slots EUCLID = [1, 2, 3, 5, 6, 7]"
  by (simp add: oracle_slots_def spec_gates)

lemma first_refresh: "refresh_l1_block_info mem_handler first_context = (Ok (), oracle_ready)"
  using oracle_base(5)
  by (simp add: refresh_fresh fresh_def first_context_def update_facts oracle_base(1,8) oracle_env slots_euclid
      context_oracle euclid_info_def oracle_ready_def)

lemma admissions:
  "tx c = update_tx \<Longrightarrow> cfg c = cfg context_fixture \<Longrightarrow> block c = block context_fixture \<Longrightarrow>
     validate_env market_handler c = Ok () \<and>
     validate_initial_tx_gas market_handler c = Ok \<lparr>initial_gas = 21000, floor_gas = 0\<rparr>"
  "tx c = next_tx \<Longrightarrow> cfg c = cfg context_fixture \<Longrightarrow> block c = block context_fixture \<Longrightarrow>
     validate_env market_handler c = Ok () \<and>
     validate_initial_tx_gas market_handler c = Ok \<lparr>initial_gas = 21000, floor_gas = 0\<rparr>"
  by (simp_all add: update_tx_def next_tx_def oracle_base message_eval)

lemma oracle_fee:
  "try_calculate_tx_l1_cost (snapshot_of [1000000, 10000, 10000, 10000, 10000, 1000000000]) [1, 1, 1, 1] EUCLID None None =
     Ok 40010"
  by (simp add: fee_eval spec_gates word_less_nat_alt word_le_nat_alt)

lemma oracle_apart:
  "L1_GAS_PRICE_ORACLE_ADDRESS \<noteq> CALLER" "L1_GAS_PRICE_ORACLE_ADDRESS \<noteq> BENEFICIARY"
  "L1_GAS_PRICE_ORACLE_ADDRESS \<noteq> TO" "BENEFICIARY \<noteq> CALLER" "TO \<noteq> CALLER" "TO \<noteq> BENEFICIARY"
  "created \<noteq> CALLER"
  using oracle_not_caller beneficiary_not_oracle test_addresses by metis+

text \<open>A call at EUCLID by a sender who can pay: gas and L1 fee leave the caller, the nonce is bumped.\<close>

lemma call_charged:
  assumes "refresh_l1_block_info mem_handler c = (Ok (), d)"
    and d: "caller (tx d) = CALLER" "is_l1_msg (tx d) = False" "is_system_tx (tx d) = False"
      "cfg_spec (cfg d) = EUCLID" "is_eip3607_disabled (cfg d) = False" "is_call (kind (tx d))"
      "tx_type (tx d) = 0" "gas_price (tx d) = 1" "tx_value (tx d) = 0"
    and acc: "m_acc (journal d) CALLER = \<lparr>m_balance = b, m_nonce = n, m_code = None, m_storage = st\<rparr>"
      "tx_nonce (tx d) = n" "n \<noteq> - 1"
    and cost: "tx_l1_cost d EUCLID = (Ok fee :: (string evm_error, u256) outcome)"
    and funds: "unat (gas_limit (tx d)) + unat fee \<le> unat b"
  shows "pre_execution market_handler c = (Ok 0, d\<lparr>journal := m_put CALLER
    \<lparr>m_balance = b - ucast (gas_limit (tx d)) - fee, m_nonce = n + 1, m_code = None, m_storage = st\<rparr> (journal d)\<rparr>)"
proof -
  let ?l = "gas_limit (tx d)"
  have l: "unat ?l < 2 ^ 64" using unsigned_less [of ?l, where ?'a = nat] by simp
  have spending: "mem_spending (tx d) = Ok (ucast ?l)"
    using l by (simp add: mem_spending_def d checked_add_def)
  have charge: "market_charge (tx d) x = ucast ?l" for x
    by (simp add: market_charge_def market_price_def d)
  have le: "ucast ?l \<le> b" using funds by (simp add: word_le_nat_alt)
  then have "unat (b - ucast ?l) = unat b - unat ?l" by (simp add: unat_sub)
  then have le': "fee \<le> b - ucast ?l" using funds by (simp add: word_le_nat_alt)
  show ?thesis
    using le le'
    by (simp add: market_pre [OF assms(1)] validate_against_state_and_deduct_caller_def deduct_before_tsuki_v2_def
        market_deduct_def has_code_def bind_def spec_gates d acc spending charge cost nonce_room
        m_load_def on_journal_def m_decr_def m_bump_def checked_sub_def decr_caller_balance_eq
        ret_Pair Let_def)
qed

text \<open>
  The code on a journal that has the oracle loaded, the slot unread and nonzero in the database: a cold
  write of a new value, 5006 gas.
\<close>

definition oracle_write :: "mem_journal \<Rightarrow> mem_journal" where
  "oracle_write = write_slot L1_GAS_PRICE_ORACLE_ADDRESS 1 1000000"

lemma run_oracle_code:
  assumes "m_storage (m_acc j L1_GAS_PRICE_ORACLE_ADDRESS) 1 = None"
    and "disk_slot j L1_GAS_PRICE_ORACLE_ADDRESS 1 = 10000"
  shows "run_code L1_GAS_PRICE_ORACLE_ADDRESS 0 oracle_code [] (0, j) = Some (5006, oracle_write j)"
proof -
  have "run_code a n (b # code) (v # stack) s = run_code a (n - 1) code ((v * 256 + ucast b) # stack) s"
    if "0 < n" for a n b code v stack s using that by (cases n) simp_all
  then show ?thesis
    using assms
    by (simp add: oracle_code_def sstore_cost_def current_slot_def oracle_write_def numeral_3_eq_3)
qed

text \<open>The journal the first transaction leaves: the caller charged 26006 gas and the L1 fee, the slot set.\<close>

definition first_journal :: mem_journal where
  "first_journal =
     m_put BENEFICIARY (empty_account\<lparr>m_balance := 66006\<rparr>)
      (m_put CALLER (empty_account\<lparr>m_balance := 933994, m_nonce := 1\<rparr>)
       (oracle_write (m_put L1_GAS_PRICE_ORACLE_ADDRESS (m_acc (journal oracle_context) L1_GAS_PRICE_ORACLE_ADDRESS)
         (m_put CALLER (empty_account\<lparr>m_balance := 860000, m_nonce := 1\<rparr>) (journal oracle_context)))))"

lemma fresh_accounts:
  "m_acc (journal oracle_context) CALLER = empty_account\<lparr>m_balance := 1000000\<rparr>"
  "m_acc (journal oracle_context) BENEFICIARY = empty_account" "m_acc (journal oracle_context) TO = empty_account"
  "m_balance (m_acc (journal oracle_context) L1_GAS_PRICE_ORACLE_ADDRESS) = 0"
  "m_storage (m_acc (journal oracle_context) L1_GAS_PRICE_ORACLE_ADDRESS) = (\<lambda>_. None)"
  using oracle_base(5) by (simp_all add: m_acc_def fresh_def oracle_base empty_account_def)

lemma oracle_unpaid:
  "(m_acc (journal oracle_context) L1_GAS_PRICE_ORACLE_ADDRESS)\<lparr>m_balance := 0\<rparr> =
     m_acc (journal oracle_context) L1_GAS_PRICE_ORACLE_ADDRESS"
  using fresh_accounts(4) by (intro mem_account.equality) simp_all

lemma first_facts:
  "tx first_context = update_tx" "cfg first_context = cfg context_fixture" "block first_context = block context_fixture"
  by (simp_all add: first_context_def oracle_base)

lemma ready_facts:
  "tx oracle_ready = update_tx" "cfg oracle_ready = cfg context_fixture" "block oracle_ready = block context_fixture"
  "journal oracle_ready = journal oracle_context" "l1_block_info (chain oracle_ready) = euclid_info"
  by (simp_all add: oracle_ready_def first_context_def oracle_base)

lemma first_run:
  "run_steps market_handler oracle_frame floor_gas first_context =
     (Ok (FrameOk, 26006, 0), oracle_ready\<lparr>journal := first_journal\<rparr>)"
proof -
  let ?g = "\<lparr>initial_gas = 21000, floor_gas = 0\<rparr> :: init_gas"
  let ?j = "m_put CALLER (empty_account\<lparr>m_balance := 860000, m_nonce := 1\<rparr>) (journal oracle_context)"
  let ?i = "oracle_write (m_put L1_GAS_PRICE_ORACLE_ADDRESS (m_acc (journal oracle_context) L1_GAS_PRICE_ORACLE_ADDRESS) ?j)"
  have cost: "tx_l1_cost oracle_ready EUCLID = (Ok 40000 :: (string evm_error, u256) outcome)"
    by (simp add: tx_l1_cost_def ready_facts update_facts euclid_fee)
  have pre: "pre_execution market_handler first_context = (Ok 0, oracle_ready\<lparr>journal := ?j\<rparr>)"
    using call_charged [OF first_refresh, of 1000000 0 "\<lambda>_. None" 40000] cost
    by (simp add: ready_facts update_facts oracle_env fresh_accounts empty_account_def)
  have code: "run_code L1_GAS_PRICE_ORACLE_ADDRESS 0 oracle_code []
      (0, m_put L1_GAS_PRICE_ORACLE_ADDRESS (m_acc (journal oracle_context) L1_GAS_PRICE_ORACLE_ADDRESS) ?j) =
      Some (5006, ?i)"
    by (rule run_oracle_code, simp add: fresh_accounts)
      (simp add: disk_slot_def m_put_def oracle_base context_oracle)
  have frame: "oracle_frame ?g (oracle_ready\<lparr>journal := ?j\<rparr>) =
      (\<lparr>fr_result = FrameOk, fr_gas = \<lparr>mg_total = 100000, mg_remaining = 73994, mg_refunded = 0\<rparr>\<rparr>,
       oracle_ready\<lparr>journal := ?i\<rparr>)"
    using oracle_apart code
    by (simp add: oracle_frame_def market_frame_def ready_facts update_facts market_pay_def mem_pay_def
        fresh_accounts oracle_unpaid checked_add_def empty_account_def word_le_nat_alt Let_def)
  have "run_steps market_handler oracle_frame floor_gas first_context =
      (Ok (FrameOk, 100000 - 73994, 0), (oracle_ready\<lparr>journal := ?i\<rparr>)\<lparr>journal :=
       snd (m_incr BENEFICIARY (saturating_add (saturating_mul 1 (ucast (100000 - 73994 :: u64))) 40000)
         (snd (m_incr CALLER (ucast (73994 :: u64)) (journal (oracle_ready\<lparr>journal := ?i\<rparr>)) :: (string, unit) outcome \<times> mem_journal)) :: (string, unit) outcome \<times> mem_journal)\<rparr>)"
    by (rule call_run [where f = oracle_frame and g = ?g, OF _ _ _ pre frame])
      (simp_all add: admissions(1) first_facts ready_facts update_facts oracle_env cost market_price_def)
  then show ?thesis
    using oracle_apart
    by (simp add: m_incr_def checked_add_def saturating_add_def saturating_mul_def oracle_write_def write_slot_def first_journal_def
        fresh_accounts empty_account_def Let_def)
qed

text \<open>The second transaction reads the base fee from that journal, the other slots from the database.\<close>

definition second_context :: mem_ctx where
  "second_context = oracle_ready\<lparr>journal := first_journal, tx := next_tx\<rparr>"

definition updated_ready :: mem_ctx where
  "updated_ready = second_context\<lparr>chain := \<lparr>l1_block_info =
     snapshot_of [1000000, 10000, 10000, 10000, 10000, 1000000000]\<rparr>\<rparr>"

lemma second_facts:
  "tx second_context = next_tx" "cfg second_context = cfg context_fixture"
  "block second_context = block context_fixture" "journal second_context = first_journal"
  "tx updated_ready = next_tx" "cfg updated_ready = cfg context_fixture"
  "block updated_ready = block context_fixture" "journal updated_ready = first_journal"
  by (simp_all add: second_context_def updated_ready_def ready_facts)

lemma first_accounts:
  "m_acc first_journal CALLER = empty_account\<lparr>m_balance := 933994, m_nonce := 1\<rparr>"
  "m_acc first_journal TO = empty_account"
  "m_disk first_journal = m_disk (journal oracle_context)"
  using oracle_apart
  by (simp_all add: first_journal_def oracle_write_def write_slot_def fresh_accounts Let_def) (simp add: m_put_def)

lemma first_storage:
  "\<exists>a. m_state first_journal L1_GAS_PRICE_ORACLE_ADDRESS = Some a \<and>
     m_storage a = [1 \<mapsto> \<lparr>present_value = 1000000\<rparr>]"
  using oracle_apart
  by (simp add: first_journal_def oracle_write_def write_slot_def m_state_put fresh_accounts L1_BASE_FEE_SLOT_def Let_def)

lemma second_read:
  "read_through_journal mem_ops k first_journal = (Ok (if k = 1 then 1000000 else
     case m_storage (m_disk (journal context_fixture) L1_GAS_PRICE_ORACLE_ADDRESS) k of
       Some s \<Rightarrow> present_value s | None \<Rightarrow> 0) :: (string, u256) outcome, first_journal)"
  using first_storage
  by (auto simp: read_through_journal_def m_db_storage_def first_accounts oracle_base)

lemma second_refresh: "refresh_l1_block_info mem_handler second_context = (Ok (), updated_ready)"
  by (simp add: refresh_l1_block_info_def bind_def on_journal_def second_facts next_facts oracle_env
      try_fetch_from_journal_def try_fetch_slots slots_euclid second_read context_oracle updated_ready_def
      ret_Pair)

lemma second_run:
  "\<exists>j. run_steps market_handler oracle_frame floor_gas second_context =
     (Ok (FrameOk, 21000, 0), updated_ready\<lparr>journal := j\<rparr>) \<and> m_disk j = m_disk (journal oracle_context)"
proof -
  let ?g = "\<lparr>initial_gas = 21000, floor_gas = 0\<rparr> :: init_gas"
  let ?j = "m_put CALLER (empty_account\<lparr>m_balance := 872984, m_nonce := 2\<rparr>) first_journal"
  let ?i = "m_put TO empty_account ?j"
  have cost: "tx_l1_cost updated_ready EUCLID = (Ok 40010 :: (string evm_error, u256) outcome)"
    by (simp add: tx_l1_cost_def second_facts next_facts) (simp add: updated_ready_def oracle_fee)
  have pre: "pre_execution market_handler second_context = (Ok 0, updated_ready\<lparr>journal := ?j\<rparr>)"
    using call_charged [OF second_refresh, of 933994 1 "\<lambda>_. None" 40010] cost
    by (simp add: second_facts next_facts oracle_env first_accounts empty_account_def)
  have frame: "oracle_frame ?g (updated_ready\<lparr>journal := ?j\<rparr>) =
      (\<lparr>fr_result = FrameOk, fr_gas = \<lparr>mg_total = 21000, mg_remaining = 0, mg_refunded = 0\<rparr>\<rparr>,
       updated_ready\<lparr>journal := ?i\<rparr>)"
    using oracle_apart oracle_apart(3) [symmetric]
    by (simp add: oracle_frame_def market_frame_def second_facts next_facts market_pay_def mem_pay_def
        first_accounts checked_add_def empty_account_def word_le_nat_alt Let_def)
  have "run_steps market_handler oracle_frame floor_gas second_context =
      (Ok (FrameOk, 21000 - 0, 0), (updated_ready\<lparr>journal := ?i\<rparr>)\<lparr>journal :=
       snd (m_incr BENEFICIARY (saturating_add (saturating_mul 1 (ucast (21000 - 0 :: u64))) 40010)
         (snd (m_incr CALLER (ucast (0 :: u64)) (journal (updated_ready\<lparr>journal := ?i\<rparr>)) :: (string, unit) outcome \<times> mem_journal)) :: (string, unit) outcome \<times> mem_journal)\<rparr>)"
    by (rule call_run [where f = oracle_frame and g = ?g, OF _ _ _ pre frame])
      (simp_all add: admissions(2) second_facts next_facts oracle_env cost market_price_def)
  moreover have "m_disk (snd (m_incr a v k :: (string, unit) outcome \<times> mem_journal)) = m_disk k"
    and "m_disk (m_put a x k) = m_disk k" for a v k x
    by (simp_all add: m_incr_def m_put_def)
  ultimately show ?thesis by (auto simp: first_accounts(3))
qed

lemma oracle_update_test: "test_l1_block_info_sees_uncommitted_oracle_update"
proof -
  let ?e = "build_scroll mem_parts oracle_context :: mem_evm"
  have start: "evm_ctx (set_tx update_tx ?e) = first_context"
    by (simp add: set_tx_def build_scroll_def ScrollEvm_new_def first_context_def Let_def)
  obtain j where second: "run_steps market_handler oracle_frame floor_gas second_context =
      (Ok (FrameOk, 21000, 0), updated_ready\<lparr>journal := j\<rparr>)" and disk: "m_disk j = m_disk (journal oracle_context)"
    using second_run by blast
  define e1 where "e1 = (set_tx update_tx ?e)\<lparr>evm_ctx := oracle_ready\<lparr>journal := first_journal\<rparr>\<rparr>"
  have one: "transact_one oracle_run update_tx ?e = (Ok (FrameOk, 26006, 0), e1)"
    by (simp add: transact_one_def oracle_run_def tx_run_def start first_run e1_def)
  have "evm_ctx (set_tx next_tx e1) = second_context"
    by (simp add: set_tx_def e1_def second_context_def)
  then have two: "transact_one oracle_run next_tx e1 =
      (Ok (FrameOk, 21000, 0), (set_tx next_tx e1)\<lparr>evm_ctx := updated_ready\<lparr>journal := j\<rparr>\<rparr>)"
    by (simp add: transact_one_def oracle_run_def tx_run_def second)
  have base: "m_storage (m_disk (journal context_fixture) L1_GAS_PRICE_ORACLE_ADDRESS) 1 = Some \<lparr>present_value = 10000\<rparr>"
    by (simp add: context_oracle)
  have "l1_base_fee (l1_block_info (chain updated_ready)) = 1000000"
    by (simp add: updated_ready_def snapshot_of_def)
  then show ?thesis
    by (simp add: test_l1_block_info_sees_uncommitted_oracle_update_def one two succeeded_def
        m_db_storage_def disk oracle_base L1_BASE_FEE_SLOT_def base)
qed

end
