(* ===== verification/IntegrationTests.thy ===== *)
theory IntegrationTests
  imports TransferTests OracleUpdate
begin

text \<open>
  The integration tests together: every test transcribed in \<open>TransferTests\<close>, \<open>MessageTests\<close>,
  \<open>EnvTests\<close>, \<open>UpfrontTests\<close>, \<open>TransactTests\<close> and \<open>OracleUpdate\<close> passes on the model.
\<close>

definition transfer_precompile_tests :: "precompile_lib \<Rightarrow> bool" where
  "transfer_precompile_tests L \<longleftrightarrow>
     allowed_caller_succeeds L \<and> disallowed_caller_rejected L \<and>
     delegatecall_rejected_even_with_allowed_caller L \<and> callcode_rejected L \<and> static_call_rejected L \<and>
     static_beats_caller L \<and> delegatecall_beats_caller L \<and> caller_beats_gas L \<and> caller_beats_length L \<and>
     insufficient_gas_oog L \<and> exact_gas_succeeds L \<and> gas_used_on_success_is_fixed L \<and>
     gas_used_on_revert_is_fixed L \<and> wrong_length_short L \<and> wrong_length_long L \<and> empty_calldata L \<and>
     exact_96_bytes_parses L \<and> nonzero_from_padding_is_ignored_by_current_parser L \<and>
     nonzero_to_padding_is_ignored_by_current_parser L \<and> successful_transfer_moves_balance L \<and> insufficient_funds_reverts L \<and>
     overflow_payment_returns_reverted_result L \<and> overflow_payment_keeps_both_balances L \<and>
     transfer_up_to_max_receiver_balance_succeeds L \<and> zero_value_transfer L \<and>
     self_transfer_from_equals_to L \<and> full_balance_transfer L \<and> db_error_is_fatal L \<and>
     direct_call_nonzero_msg_value_is_ignored_by_current_precompile L \<and> transfer_precompile_present_in_tsuki L \<and>
     transfer_precompile_absent_pre_tsuki L \<and> transfer_address_is_0xfd"

definition l1_message_tests :: bool where
  "l1_message_tests \<longleftrightarrow>
     test_l1_message_validate_lacking_funds \<and> test_l1_message_load_accounts \<and>
     test_l1_message_should_not_deduct_caller \<and> test_l1_message_last_frame_result \<and>
     test_l1_message_should_not_refund \<and> test_l1_message_should_not_reward_beneficiary \<and>
     test_l1_message_should_pass_validation \<and> test_l1_message_should_pass_pre_execution \<and>
     test_l1_message_eip_3607 \<and> test_l1_message_floor_gas_above_gas_limit_fails_validation"

definition fee_tests :: bool where
  "fee_tests \<longleftrightarrow>
     test_should_deduct_correct_fees_bernoulli \<and> test_should_deduct_correct_fees_curie \<and>
     test_no_rollup_fee_for_system_tx \<and> test_reward_beneficiary_system_tx \<and>
     test_should_deduct_correct_fees_feynman \<and>
     list_all (\<lambda>spec. fixture_l1_fee_is_l1_data_cost spec \<and> l1_fee_shortfall spec (Call TO) \<and>
       l1_fee_shortfall spec Create) [GALILEO, TSUKI, TSUKI_V2]"

definition admission_tests :: "bytes \<Rightarrow> bool" where
  "admission_tests authorization \<longleftrightarrow>
     test_validate_initial_gas_eip7702 authorization \<and> test_validate_env_eip7702 authorization \<and>
     eip7702_is_rejected_before_euclid_and_requires_an_authorization authorization \<and>
     custom_transaction_types_other_than_l1_message_are_rejected \<and> chain_id_validation_matches_ethereum_rules \<and>
     access_list_entries_are_charged_as_intrinsic_gas \<and>
     tsuki_tx_above_eip7825_cap_is_rejected \<and> tsuki_tx_at_eip7825_cap_is_accepted \<and>
     pre_tsuki_tx_above_eip7825_cap_is_accepted \<and> tsuki_l1_message_above_eip7825_cap_is_accepted \<and>
     tsuki_l1_message_still_enforces_block_gas_limit \<and> explicit_tx_gas_limit_cap_override_is_preserved \<and>
     test_should_not_apply_eip7623_calldata_gas_for_euclid \<and>
     test_should_apply_eip7623_calldata_gas_for_feynman \<and> test_long_calldata_gas"

definition transact_tests :: bool where
  "transact_tests \<longleftrightarrow>
     boundary_balance_passes_at_tsuki_and_is_rejected_at_tsuki_v2 \<and>
     value_shortfall_fails_in_execution_at_tsuki_and_is_rejected_at_tsuki_v2 \<and>
     list_all (\<lambda>spec. l1_fee_shortfall_is_discarded spec (Call TO) \<and> l1_fee_shortfall_is_discarded spec Create \<and>
       bad_nonce_and_missing_rlp spec \<and> sender_with_code spec) [GALILEO, TSUKI, TSUKI_V2] \<and>
     mainnet_shortfall GALILEO (gas_cost 2 + 100) \<and> mainnet_shortfall TSUKI (gas_cost 2 + 100) \<and>
     mainnet_shortfall TSUKI_V2 (gas_cost 2 + 100 + L1_DATA_COST) \<and>
     list_all (\<lambda>spec. boundary_balance_create spec \<and> exact_combined_balance spec) [TSUKI, TSUKI_V2] \<and>
     test_exact_upfront_balance (Call TO) 21000 \<and> test_exact_upfront_balance Create 53000 \<and>
     test_invalid_l1_fee_inputs_fail_without_panicking \<and> test_l1_block_info_sees_uncommitted_oracle_update \<and>
     test_should_charge_floor_gas_for_feynman_transaction \<and> test_l1_message_should_not_reimburse_caller \<and>
     test_l1_message_should_revert_with_out_of_funds \<and> test_l1_message_should_not_have_floor_gas_as_gas_used"

text \<open>
  The transcribed integration tests: with precompiles at their addresses, every transcribed test of
  \<open>src/tests/\<close> passes: the native transfer (guards and their precedence, gas, calldata, overflow, self
  transfer, database errors), L1 messages through every stage of the handler, the fees deducted at
  Bernoulli, Curie, Feynman and from Galileo on, admission (authorization lists included), gas cap,
  intrinsic and floor gas, and whole transactions over a fee market: accepted, rejected and failing
  upfront balances before and from TsukiV2, floor gas in the result, L1 messages, a fee read from an uncommitted oracle update.
\<close>

theorem integration_tests_pass:
  assumes "lib_addresses L"
  shows "transfer_precompile_tests L \<and> l1_message_tests \<and> fee_tests \<and> admission_tests authorization \<and>
    transact_tests"
proof (intro conjI)
  show "transfer_precompile_tests L"
    unfolding transfer_precompile_tests_def
    by (intro conjI moves_tests varied_tests self_test refusal_tests insufficient_gas_test db_error_test
        presence_tests assms)
  show "l1_message_tests"
    unfolding l1_message_tests_def
    by (intro conjI l1_handler_tests entry_tests validation_test floor_tests)
  show "fee_tests"
    by (simp add: fee_tests_def early_fees feynman_fees system_fees system_reward fixture_fee shortfall)
  show "admission_tests authorization"
    unfolding admission_tests_def
    by (intro conjI custom_type_tests chain_id_tests access_list_tests cap_tests floor_tests
        authorization_tests)
  show "transact_tests"
    by (simp add: transact_tests_def boundary_test shortfall_test fee_shortfall_tests mainnet_shortfall_tests
        nonce_tests code_tests create_tests exact_tests exact_upfront_tests invalid_fee_tests floor_gas_test oracle_update_test
        message_tests)
qed

theorem integration_tests_pass_witness:
  "transfer_precompile_tests echo_lib \<and> l1_message_tests \<and> fee_tests \<and> admission_tests [] \<and> transact_tests"
  by (rule integration_tests_pass) (rule echo_lib_addresses)

end
