(* ===== verification/ForkSession.thy ===== *)
theory ForkSession
  imports HandlerTotal LifecycleRuns
begin

text \<open>
  An instance over its lifetime. The runs of the API are those of the handler on the instance's context:
  \<open>run\<close> and \<open>inspect_run\<close> call the crate's methods in the order of \<open>TransactRun\<close>, \<open>run_system_call\<close> only
  the frames and the result; whether they succeed, fail or panic, the crate's methods keep transaction,
  configuration and block. So the configuration an instance was built with stays, and with it the
  precompiles, which the library sets to the configuration's fork whenever it loads the accounts.
\<close>

section \<open>The handler keeps the configuration\<close>

text \<open>
  The rest of the library, and the frames, have the environment behind shared references as well.
\<close>

locale env_handler = env_library H
  for H :: "('g, 'j, 'd, 'ir, 'gas, 'rg, 'res) handler_ops" +
  fixes f :: "('g, 'j, 'ir, 'gas) frame_fn"
  assumes env_frames: "env_of (snd (f g c)) = env_of c"
    and env_floor: "env_of (snd (mn_eip7623_check_gas_floor H fr g c)) = env_of c"
    and env_reimburse: "preserves env_of (mn_reimburse_caller H fr)"
    and env_result: "preserves env_of (mn_execution_result H fr rg)"
begin

lemma env_cfg: "preserves env_of m \<Longrightarrow> preserves cfg m"
  by (auto simp: preserves_def env_of_def)

lemma always_cfg: "(\<And>c. env_of (snd (m c)) = env_of c) \<Longrightarrow> preserves cfg (always m)"
  by (simp add: preserves_def always_def env_of_def case_prod_beta)

lemma pre_execution_cfg: "preserves cfg (pre_execution H)"
  unfolding pre_execution_def by (intro preserves_bind refresh_cfg env_cfg [OF after_refresh_env])

lemma last_frame_cfg: "preserves cfg (last_frame_result H fr)"
  by (simp add: preserves_def last_frame_result_def Let_def)

lemma refund_env: "env_of (snd (Handler.refund H fr n c)) = env_of c"
  by (simp add: Handler.refund_def)

lemma floor_env: "env_of (snd (eip7623_check_gas_floor H fr g c)) = env_of c"
  by (simp add: eip7623_check_gas_floor_def env_floor)

lemma reimburse_cfg: "preserves cfg (reimburse_caller H fr)"
  by (rule preservesI) (simp add: reimburse_caller_def preserves_at [OF env_cfg [OF env_reimburse]])

lemma reward_cfg: "preserves cfg (reward_beneficiary H fr)"
  by (rule preservesI)
    (auto simp: reward_beneficiary_def Let_def
      intro!: preserves_at [of cfg "bind _ _"] preserves_at [of cfg "on_journal _"] preserves_bind preserves_if
        env_cfg [OF on_journal_env])

lemma result_cfg: "preserves cfg (execution_result H fr rg)"
  by (rule preservesI) (simp add: execution_result_def Let_def preserves_at [OF env_cfg [OF env_result]])

lemma run_from_cfg: "preserves cfg (run_from H f rg p)"
proof (induction "stage p" arbitrary: p rule: less_induct)
  case less
  then show ?case
    by (cases p)
      (auto simp: run_from.simps
        intro!: preserves_bind always_cfg env_frames refund_env floor_env pre_execution_cfg last_frame_cfg
          reimburse_cfg reward_cfg result_cfg)
qed

end

section \<open>Runs on an instance\<close>

text \<open>A system call has neither validation nor charge nor reward, and no gas to account for.\<close>

definition system_steps ::
  "('g, 'j, 'd, 'ir, 'gas, 'rg, 'res) handler_ops \<Rightarrow> ('g, 'j, 'ir, 'gas) frame_fn \<Rightarrow> 'rg
     \<Rightarrow> (('g, 'j) ctx, 'd evm_error, 'res) exec" where
  "system_steps H f rg =
     bind (always (f \<lparr>initial_gas = 0, floor_gas = 0\<rparr>)) (\<lambda>fr.
     bind (last_frame_result H fr) (\<lambda>fr. execution_result H fr rg))"

text \<open>
  The provided \<open>load_accounts\<close> sets the precompiles to the fork of the configuration it finds; a run gets
  there if everything before it returned. A failed run discards its journal entries.
\<close>

definition loads_accounts :: "('g, 'j, 'd, 'ir, 'gas, 'rg, 'res) handler_ops \<Rightarrow> ('g, 'j) ctx \<Rightarrow> bool" where
  "loads_accounts H c \<longleftrightarrow>
     validate_env H c = Ok () \<and> (\<exists>g. validate_initial_tx_gas H c = Ok g) \<and>
     (\<exists>d. bind (refresh_l1_block_info H) (\<lambda>_. validate_against_state_and_deduct_caller H) c = (Ok (), d))"

definition on_instance ::
  "('i, 'h, 'gp, 'cp, 'w, 'e, 't, 'fs) evm_parts \<Rightarrow> (('g, 'j) ctx, 'err, 'res) exec \<Rightarrow> (('g, 'j) ctx \<Rightarrow> bool)
     \<Rightarrow> (('g, 'j, 'insp, 'i, 'h, 'w, 'e, 't, 'fs) scroll_evm, 'err, 'res) exec" where
  "on_instance P m loads e =
     (case m (evm_ctx e) of (r, c) \<Rightarrow>
        (r, e\<lparr>evm_ctx := (case r of Ok _ \<Rightarrow> c | _ \<Rightarrow> c\<lparr>journal := journal (evm_ctx e)\<rparr>),
            evm_precompiles :=
              (if loads (evm_ctx e)
               then snd (set_spec (lib_of P) (internals_of P) (cfg_spec (cfg c)) (evm_precompiles e))
               else evm_precompiles e)\<rparr>))"

text \<open>The runs of the API: with the frames \<open>f\<close>, or with frames \<open>h\<close> that report to the inspector.\<close>

definition handler_runs ::
  "('i, 'h, 'gp, 'cp, 'w, 'e, 't, 'fs) evm_parts \<Rightarrow> ('g, 'j, 'd, 'ir, 'gas, 'rg, 'res) handler_ops
     \<Rightarrow> ('g, 'j, 'ir, 'gas) frame_fn \<Rightarrow> ('g, 'j, 'ir, 'gas) frame_fn \<Rightarrow> (init_gas \<Rightarrow> 'rg)
     \<Rightarrow> (('g, 'j, 'insp, 'i, 'h, 'w, 'e, 't, 'fs) scroll_evm, 'd evm_error, 'res, 'j, 'st) run_ops \<Rightarrow> bool" where
  "handler_runs P H f h rg R \<longleftrightarrow>
     h_run R = on_instance P (run_steps H f rg) (loads_accounts H) \<and>
     (\<forall>e. \<exists>i. h_inspect_run R e =
        (case on_instance P (run_steps H h rg) (loads_accounts H) e of (r, e') \<Rightarrow> (r, set_inspector i e'))) \<and>
     h_run_system_call R = on_instance P (system_steps H f (rg \<lparr>initial_gas = 0, floor_gas = 0\<rparr>)) (\<lambda>_. False)"

lemma instance_consistent:
  assumes "preserves cfg m" and "evm_consistent P g e" and "on_instance P m loads e = (r, e')"
  shows "evm_consistent P g e'"
proof -
  obtain q c where m: "m (evm_ctx e) = (q, c)" by fastforce
  with preserves_at [OF assms(1), of "evm_ctx e"] assms(2) have "cfg c = g"
    by (simp add: evm_consistent_def)
  then show ?thesis
    using assms(2,3) m
    by (auto simp: on_instance_def evm_consistent_def precompiles_for_def set_spec_same split: outcome.splits)
qed

lemma run_steps_cfg: "env_handler H f \<Longrightarrow> preserves cfg (run_steps H f rg)"
  unfolding run_steps_def [abs_def] using env_handler.run_from_cfg by blast

lemma system_steps_cfg: "env_handler H f \<Longrightarrow> preserves cfg (system_steps H f rg)"
  unfolding system_steps_def
  by (intro preserves_bind env_handler.always_cfg env_handler.last_frame_cfg env_handler.result_cfg)
    (auto intro: env_handler.env_frames)

lemma reach_consistent:
  assumes "evm_reach P R c0 insp0 e"
    and R: "handler_runs P H f h rg R" and env: "env_handler H f" "env_handler H h"
  shows "evm_consistent P (cfg c0) e"
  using assms(1)
proof (induction rule: evm_reach.induct)
  case built
  show ?case by (simp add: evm_consistent_def ScrollEvm_new_def Let_def)
next
  case (transacted e t r e')
  then have "on_instance P (run_steps H f rg) (loads_accounts H) (set_tx t e) = (r, e')"
    using R by (simp add: transact_one_def handler_runs_def)
  then show ?case
    using instance_consistent [OF run_steps_cfg [OF env(1)]] transacted.IH consistent_update(1) by blast
next
  case (inspected_tx e t r e')
  obtain q e1 where run: "on_instance P (run_steps H h rg) (loads_accounts H) (set_tx t e) = (q, e1)" by fastforce
  then have "\<exists>i. e' = set_inspector i e1"
    using R inspected_tx.hyps(2) unfolding inspect_one_tx_def handler_runs_def
    by (metis (no_types, lifting) case_prod_conv snd_conv)
  then show ?case
    using instance_consistent [OF run_steps_cfg [OF env(2)] _ run] inspected_tx.IH consistent_update(1,3) by metis
next
  case (system_called e mk a s d r e')
  then have "on_instance P (system_steps H f (rg \<lparr>initial_gas = 0, floor_gas = 0\<rparr>)) (\<lambda>_. False)
      (set_tx (new_system_tx_with_caller mk a s d) e) = (r, e')"
    using R by (simp add: system_call_one_with_caller_def handler_runs_def)
  then show ?case
    using instance_consistent [OF system_steps_cfg [OF env(1)]] system_called.IH consistent_update(1) by blast
next
  case (replayed e q e')
  obtain r e1 where run: "h_run R e = (r, e1)" by fastforce
  then have "on_instance P (run_steps H f rg) (loads_accounts H) e = (r, e1)"
    using R by (simp add: handler_runs_def)
  then have e1: "evm_consistent P (cfg c0) e1"
    by (rule instance_consistent [OF run_steps_cfg [OF env(1)] replayed.IH])
  then have "evm_consistent P (cfg c0) (snd (finalize R e1))" by (simp add: consistent_update)
  then show ?case
    using replayed.hyps(2) run e1
    by (cases r) (auto simp: replay_def bind_def split: prod.splits)
next
  case (finalized e st e')
  then show ?case using consistent_update(5) [of P "cfg c0" R e] by simp
qed (simp_all add: consistent_update)


section \<open>Instances\<close>

interpretation mem_env: env_handler mem_handler mem_frame
proof unfold_locales
  show "env_of (snd (mem_frame g c)) = env_of c" for g c
    using mem_frames_frame(1) [of g c "fst (mem_frame g c)" "snd (mem_frame g c)"] by (simp add: graph_def)
qed (auto simp: mem_handler_def preserves_def bind_def on_journal_def env_of_def split: prod.splits outcome.splits)

definition session_run ::
  "(mem_evm, string evm_error, mem_gas \<times> u64, mem_journal, mem_journal) run_ops" where
  "session_run =
     \<lparr>h_run = on_instance mem_parts (run_steps mem_handler mem_frame floor_gas) (loads_accounts mem_handler),
      h_inspect_run = on_instance mem_parts (run_steps mem_handler mem_frame floor_gas) (loads_accounts mem_handler),
      h_run_system_call = on_instance mem_parts (system_steps mem_handler mem_frame 0) (\<lambda>_. False),
      j_finalize = (\<lambda>j. (j, mem_empty)), db_commit = (\<lambda>st _. st)\<rparr>"

lemma session_runs: "handler_runs mem_parts mem_handler mem_frame mem_frame floor_gas session_run"
proof -
  have "set_inspector () e = e" for e :: mem_evm by (simp add: set_inspector_def)
  then show ?thesis by (simp add: handler_runs_def session_run_def split: prod.split)
qed


end
