(* ===== verification/Spec2Isabelle.thy ===== *)
theory Spec2Isabelle
  imports EvmAccess LifecycleRuns HandlerUpgrade HandlerTotal HistoryUpgrade MemoryCopy TestSuite AccountModel
    HistorySession HistoryRing HandlerErrors TransferSpec PrecompileFrames IntegrationTests ForkSession
begin

text \<open>
  A verification library of the Scroll EVM of DogeOS (the crate under \<open>src/src\<close>). The crate
  specialises the third-party EVM \<open>revm\<close>: it decides which fork rules apply, what a transaction pays,
  which instructions and precompiles exist, and how they behave.

  \<^bold>\<open>Parts and theories.\<close>
    \<^item> \<open>Prelude\<close>: machine integers at their width, results (value, error, panic), stateful
      computations whose state survives an error, checked and saturating arithmetic, bytes.
    \<^item> \<open>Hardfork\<close>: \<open>spec.rs\<close>. The fork enum, its order, names and discriminants; the locales
      \<open>fork_order\<close> and \<open>fork_upgrade\<close> are the interface of fork-gated code.
    \<^item> \<open>Journal\<close>, \<open>MemJournal\<close>: the operations of \<open>revm\<close>'s journal the crate calls, the contract
      \<open>journal\<close> it relies on, and an in-memory journal that satisfies it.
    \<^item> \<open>L1Block\<close>, \<open>L1FeeSpec\<close>, \<open>L1Fetch\<close>: \<open>l1block.rs\<close>. The oracle snapshot, its readers and the four fee
      formulas; their exact specification over the natural numbers, caps, errors; the reads.
    \<^item> \<open>Config\<close>: \<open>gas.rs\<close> and the configuration part of \<open>builder.rs\<close>.
    \<^item> \<open>Transaction\<close>: \<open>transaction.rs\<close>.
    \<^item> \<open>EvmContext\<close>, \<open>Handler\<close>: \<open>chain.rs\<close> and \<open>handler.rs\<close>, one definition per method of \<open>ScrollHandler\<close>
      (\<open>validate_env\<close> and \<open>validate_against_state_and_deduct_caller\<close> split at their stages).
      \<open>HandlerFees\<close> proves the charge from the contract \<open>mainnet_handler\<close>; \<open>RefHandler\<close> interprets the
      contracts on a reference instance; \<open>HandlerProps\<close>, \<open>HandlerEnv\<close> state the properties,
      \<open>HandlerRuns\<close> runs them on concrete transactions. \<open>HandlerUpgrade\<close> compares the state check before
      and from TsukiV2, \<open>HandlerTotal\<close> shows the methods total and the snapshot well-typed, \<open>HandlerErrors\<close>
      settles which of several violated admission conditions is reported.
    \<^item> \<open>Lifecycle\<close>, \<open>LifecycleRuns\<close>: one transaction as the methods of the handler in the order \<open>revm\<close> calls
      them, a step relation over the phases of a transaction (\<open>tx_step\<close>); what is in escrow at each
      phase, settlement and supply, under the contract \<open>settlement\<close>; a reference instance.
      \<open>TransactRun\<close> is the same order as a program (\<open>run_from\<close>), shown equivalent to the relation;
      \<open>MarketHandler\<close> is a second instance of \<open>settlement\<close>, with EIP-1559 prices, value transfers and
      the sender checks of EIP-3607; \<open>PlainRuns\<close> gives its transactions in closed form.
      \<open>AccountModel\<close> is their abstract specification: the bill of a run and the movement of its frames, one
      equation for every account; a plain transfer in closed form; the books of a block (\<open>block_books\<close>).
    \<^item> \<open>Interpreter\<close>, \<open>Instructions\<close>: \<open>instructions.rs\<close>, over the operations of \<open>revm\<close>'s interpreter and
      host. \<open>RefInterpreter\<close>, \<open>InstructionProps\<close>, \<open>InstructionRuns\<close> as above; \<open>HistoryUpgrade\<close> compares
      \<open>BLOCKHASH\<close> before and from TsukiV2, \<open>HistorySession\<close> compares sequences of lookups with an access list,
      \<open>HistoryRing\<close> refines \<open>BLOCKHASH\<close> to the hashes of a chain kept in the ring of EIP-2935,
      \<open>MemoryCopy\<close> treats \<open>MCOPY\<close> and its memory.
    \<^item> \<open>Precompiles\<close>: \<open>precompile/\<close>. \<open>PrecompileProps\<close>, \<open>PrecompileRuns\<close> as above; \<open>TransferSpec\<close>
      decides the native transfer by its call and the balances, and inverts its calldata.
      \<open>PrecompileFrames\<close> puts the calls of the installed precompiles into the frames of a transaction:
      native transfers keep the supply the settlement of the lifecycle rests on.
    \<^item> \<open>Evm\<close>: \<open>evm.rs\<close>, \<open>exec.rs\<close>, \<open>system_call.rs\<close> and the building part of \<open>builder.rs\<close>. \<open>EvmAccess\<close>: the
      accessors of \<open>EvmTr\<close> and \<open>InspectorEvmTr\<close>, each a borrow (locale \<open>borrow\<close>) of the instance's parts.
      \<open>ForkSession\<close>: the runs of the API over the handler, and what any sequence of API calls keeps.
    \<^item> \<open>Fixtures\<close> (\<open>test_utils.rs\<close>), \<open>FeeTests\<close>, \<open>HandlerTests\<close>, \<open>InstructionTests\<close>, \<open>PrecompileTests\<close>,
      \<open>ModexpTests\<close>, \<open>TestSuite\<close>: unit tests of the crate as truth values of the model, shown true;
      \<open>TransferTests\<close>, \<open>MessageTests\<close>, \<open>EnvTests\<close>, \<open>UpfrontTests\<close>, \<open>TransactTests\<close>,
      \<open>OracleUpdate\<close>, \<open>IntegrationTests\<close>: likewise integration tests of \<open>src/tests\<close>, those that execute a plain call
      or creation included. They are regression checks of the model on concrete inputs.

  \<^bold>\<open>How state and code correspond.\<close> A Rust struct is a record with its field names, an enum a datatype
  with its variants, \<open>U256\<close>, \<open>u128\<close>, \<open>u64\<close> are words of that width, \<open>usize\<close> is a 64-bit word. A function
  returning \<open>Result\<close> has the type \<open>outcome\<close>, whose third case \<open>Panic\<close> stands for a Rust panic (division by
  zero, a slice out of range, \<open>expect\<close>). A method on \<open>&mut\<close> state is an \<open>exec\<close>: it returns its outcome and
  the state, also when it fails, since Rust keeps the mutations made before an error. Code of \<open>revm\<close>,
  \<open>alloy\<close> and the database is not part of the crate: it occurs as records of functions
  (\<open>journal_ops\<close>, \<open>tx_ops\<close>, \<open>gas_table_ops\<close>, \<open>handler_ops\<close>, \<open>interp_ops\<close>, \<open>host_ops\<close>, \<open>precompile_lib\<close>,
  \<open>internals_ops\<close>, \<open>run_ops\<close>) that the definitions take as arguments. What is relied on of them is
  stated by locales (\<open>journal\<close>, \<open>gas_table\<close>, \<open>gas_meter\<close>, \<open>mainnet_handler\<close>, \<open>interpreter\<close>,
  \<open>history_host\<close>, \<open>transfer_internals\<close>, and their extensions \<open>settlement\<close>, \<open>caching_mainnet\<close>,
  \<open>history_reader\<close>, \<open>history_session\<close>, \<open>transfer_live\<close>, \<open>interp_memory\<close>, \<open>env_library\<close>, \<open>env_handler\<close>) or named predicates (\<open>eth_history\<close>, \<open>tx_types\<close>, \<open>lib_addresses\<close>,
  \<open>pads\<close>, \<open>transient_storage\<close>, \<open>schedule_law\<close>, \<open>plain_frames\<close>, \<open>library_returns\<close>, \<open>creditable\<close>, \<open>handler_runs\<close>,
  \<open>presupposed\<close>), each satisfied by a reference instance that the concrete
  runs use.

  \<^bold>\<open>What is shown.\<close> The L1 fee: the saturating 256-bit evaluation is exactly the formula over the
  naturals cut off at the fork's cap, so saturation and wrap-around are never observable; which inputs
  give which error; no panic is reachable; fetching is reading the fork's slots in order, sees
  uncommitted journal values and leaves balances, nonces and warmth alone. The handler: the caller is
  charged exactly gas and the L1 fee of the snapshot just read; from TsukiV2 the value stays covered and
  a rejection has no effect, and its state check accepts exactly the affordable transactions of the
  earlier one; the fee charged before execution is the fee credited after it; L1 messages
  are free and cannot be refused for lack of funds; admission is characterised by a declarative
  condition, and its error by the order of the conditions; intrinsic gas and floor follow the schedule of
  the configured fork; the one panic is the overflow of a counter of the access list. The lifecycle: at every phase of a transaction balances plus escrow are
  the supply before it, a completed one changes every account by what its frames moved and by exactly the
  gas used at its price plus the L1 fee, from sender to beneficiary; the reward returns on a live
  database; and over a sequence of transactions the balances change by the sum of the entries of the
  accepted ones. Instructions: every branch of
  \<open>BLOCKHASH\<close>, including the gas and warmth of EIP-7709 and what the upgrade to it alters, sequences of lookups, \<open>MCOPY\<close> on
  overlapping ranges, and the fork gates of the table. Precompiles: the activation matrix, input rules, provider invariant, and the
  decision, atomicity and conservation of the native transfer, also inside the frames of a transaction
  that settles. \<open>BLOCKHASH\<close> answers the hashes of the chain in its window whenever each block recorded its parent. The API: the handler changes the configuration on no
  path, so an instance keeps the instruction table and the precompiles of its fork.

  \<^bold>\<open>Bounds.\<close> No fuel is used: all modelled loops are folds over inputs or fixed sequences. Inputs are
  assumed shorter than \<open>2^64\<close> bytes where a length is compared with its \<open>usize\<close> value. Integers that the
  source leaves to inference have the type Rust infers (\<open>num_accounts\<close> is an \<open>i32\<close>); a \<open>+=\<close> that overflows
  is a panic, as with overflow checks on, and \<open>access_list_counts_unchecked\<close> is the other profile.

  \<^bold>\<open>Not modelled.\<close> The code of \<open>revm\<close>: its \<open>Handler::run\<close> (the order in which it calls the overridden
  methods is the step relation of \<open>Lifecycle\<close>), frames, the interpreter loop, the cryptographic
  functions. Of the crate: inspectors, serde derives, lazily initialised statics (modelled by their
  values), type-level declarations and trait bounds, and the tests that run contracts in \<open>revm\<close>'s
  interpreter (\<open>tests/eip7709.rs\<close> among them), apply authorization lists, use the library's
  checkpoints or precompile dispatch, compare with the mainnet handler, or compute a pairing.
\<close>

end
